(* ===== verification/Prelude.thy ===== *)
theory Prelude
  imports Main "HOL-Library.Word" "HOL-Library.Sublist"
begin

text \<open>
  Shared vocabulary of the development: the machine types of the Go program, results with
  errors as values, and the parts of Go's \<open>strings\<close> and \<open>strconv\<close> packages that the source
  calls. A Go \<open>string\<close> and a Go \<open>[]byte\<close> are both byte sequences, and an Isabelle
  \<^typ>\<open>char\<close> is a byte, so both are \<^typ>\<open>string\<close> here.

  The collections \<open>go_simps\<close> (characterisations of the string functions) and
  \<open>go_splits\<close> (the case rules for error results) carry the proofs of the components.
\<close>

named_theorems go_simps \<open>characterisations of the Go library functions\<close>
named_theorems wf_intros \<open>an operation keeps its component's invariant\<close>

section \<open>Machine types and results\<close>

type_synonym uint8 = "8 word"
type_synonym uint32 = "32 word"
type_synonym uint64 = "64 word"
type_synonym bytes = "char list"
type_synonym ('e, 'a) result = "'e + 'a"

text \<open>Go's \<open>if err != nil { return err }\<close>: stop at the first error.\<close>

definition bindR :: "('e, 'a) result \<Rightarrow> ('a \<Rightarrow> ('e, 'b) result) \<Rightarrow> ('e, 'b) result" where
  "bindR r f = (case r of Inl e \<Rightarrow> Inl e | Inr x \<Rightarrow> f x)"

lemma bindR_simps [simp]: "bindR (Inl e) f = Inl e" "bindR (Inr x) f = f x"
  by (simp_all add: bindR_def)

lemma bindR_eq_Inr: "bindR r f = Inr y \<longleftrightarrow> (\<exists>x. r = Inr x \<and> f x = Inr y)"
  by (cases r) auto

lemma bindR_eq_Inl: "bindR r f = Inl e \<longleftrightarrow> r = Inl e \<or> (\<exists>x. r = Inr x \<and> f x = Inl e)"
  by (cases r) auto

text \<open>A guard: \<open>if bad { return err }\<close>.\<close>

definition failIf :: "bool \<Rightarrow> 'e \<Rightarrow> ('e, unit) result" where
  "failIf b e = (if b then Inl e else Inr ())"

lemma failIf_simps [simp]: "failIf True e = Inl e" "failIf False e = Inr ()"
  by (simp_all add: failIf_def)

lemma failIf_eq_Inr [simp]: "failIf b e = Inr u \<longleftrightarrow> \<not> b"
  by (simp add: failIf_def)

lemma failIf_eq_Inl [simp]: "failIf b e = Inl e' \<longleftrightarrow> b \<and> e' = e"
  by (auto simp add: failIf_def)

text \<open>A loop that stops at the first element whose check fails.\<close>

fun checkAll :: "('a \<Rightarrow> ('e, 'b) result) \<Rightarrow> 'a list \<Rightarrow> ('e, unit) result" where
  "checkAll f [] = Inr ()"
| "checkAll f (x # xs) = (case f x of Inl e \<Rightarrow> Inl e | Inr _ \<Rightarrow> checkAll f xs)"

lemma checkAll_ok: "checkAll f xs = Inr u \<longleftrightarrow> (\<forall>x\<in>set xs. \<exists>y. f x = Inr y)"
  by (induction xs) (auto split: sum.splits)

lemma checkAll_error: "checkAll f xs = Inl e \<Longrightarrow> \<exists>x\<in>set xs. f x = Inl e"
  by (induction xs) (auto split: sum.splits)

section \<open>Go's strings package\<close>

definition HasPrefix :: "string \<Rightarrow> string \<Rightarrow> bool" where
  "HasPrefix s p \<longleftrightarrow> take (length p) s = p"

definition HasSuffix :: "string \<Rightarrow> string \<Rightarrow> bool" where
  "HasSuffix s p \<longleftrightarrow> length p \<le> length s \<and> drop (length s - length p) s = p"

lemma HasPrefix_iff [go_simps]: "HasPrefix s p \<longleftrightarrow> (\<exists>r. s = p @ r)"
proof
  assume "HasPrefix s p"
  then have "s = p @ drop (length p) s"
    by (metis HasPrefix_def append_take_drop_id)
  then show "\<exists>r. s = p @ r" ..
qed (auto simp: HasPrefix_def)

lemma HasPrefix_append [simp]: "HasPrefix (p @ r) p"
  by (simp add: HasPrefix_def)

lemma HasPrefix_Nil [simp]: "HasPrefix s []"
  by (simp add: HasPrefix_def)

lemma HasPrefix_Cons [simp]:
  "HasPrefix (x # s) (y # p) \<longleftrightarrow> x = y \<and> HasPrefix s p" "\<not> HasPrefix [] (y # p)"
  by (auto simp: HasPrefix_def)

lemma HasSuffix_iff [go_simps]: "HasSuffix s p \<longleftrightarrow> (\<exists>r. s = r @ p)"
proof
  assume "HasSuffix s p"
  then have "s = take (length s - length p) s @ p"
    by (metis HasSuffix_def append_take_drop_id)
  then show "\<exists>r. s = r @ p" ..
qed (auto simp: HasSuffix_def)

text \<open>\<open>strings.IndexByte\<close>, \<open>strings.LastIndex\<close> (of one byte), \<open>strings.Index\<close>: \<^const>\<open>None\<close> is -1.\<close>

fun IndexByte :: "string \<Rightarrow> char \<Rightarrow> nat option" where
  "IndexByte [] c = None"
| "IndexByte (x # xs) c = (if x = c then Some 0 else map_option Suc (IndexByte xs c))"

fun LastIndexByte :: "string \<Rightarrow> char \<Rightarrow> nat option" where
  "LastIndexByte [] c = None"
| "LastIndexByte (x # xs) c = (case LastIndexByte xs c of
     Some i \<Rightarrow> Some (Suc i) | None \<Rightarrow> if x = c then Some 0 else None)"

fun Index :: "string \<Rightarrow> string \<Rightarrow> nat option" where
  "Index [] p = (if p = [] then Some 0 else None)"
| "Index (x # xs) p = (if HasPrefix (x # xs) p then Some 0 else map_option Suc (Index xs p))"

lemma IndexByte_None [go_simps]: "IndexByte s c = None \<longleftrightarrow> c \<notin> set s"
  by (induction s) auto

lemma IndexByte_Some:
  "IndexByte s c = Some i \<longleftrightarrow> i < length s \<and> s ! i = c \<and> c \<notin> set (take i s)"
proof (induction s arbitrary: i)
  case (Cons x xs)
  then show ?case by (cases i) (auto simp: go_simps)
qed simp

lemma IndexByte_append: "c \<notin> set a \<Longrightarrow> IndexByte (a @ c # b) c = Some (length a)"
  by (induction a) auto

lemma LastIndexByte_None [go_simps]: "LastIndexByte s c = None \<longleftrightarrow> c \<notin> set s"
  by (induction s) (auto split: option.splits)

lemma LastIndexByte_append: "c \<notin> set b \<Longrightarrow> LastIndexByte (a @ c # b) c = Some (length a)"
  by (induction a) (auto simp: go_simps split: option.splits)

lemma LastIndexByte_split:
  "LastIndexByte s c = Some i \<Longrightarrow> \<exists>a b. s = a @ c # b \<and> c \<notin> set b \<and> length a = i"
proof (induction s arbitrary: i)
  case (Cons x xs)
  show ?case
  proof (cases "LastIndexByte xs c")
    case None
    with Cons.prems show ?thesis by (auto simp: LastIndexByte_None split: if_splits)
  next
    case (Some j)
    with Cons obtain a b where "xs = a @ c # b" "c \<notin> set b" "length a = j" "i = Suc j" by fastforce
    then have "x # xs = (x # a) @ c # b \<and> c \<notin> set b \<and> length (x # a) = i" by simp
    then show ?thesis by blast
  qed
qed simp

lemma IndexByte_split:
  "IndexByte s c = Some i \<Longrightarrow> \<exists>a b. s = a @ c # b \<and> c \<notin> set a \<and> length a = i"
proof (induction s arbitrary: i)
  case (Cons x xs)
  show ?case
  proof (cases "x = c")
    case True
    with Cons.prems show ?thesis by auto
  next
    case False
    with Cons obtain a b j where "xs = a @ c # b" "c \<notin> set a" "length a = j" "i = Suc j" by fastforce
    with False have "x # xs = (x # a) @ c # b \<and> c \<notin> set (x # a) \<and> length (x # a) = i" by simp
    then show ?thesis by blast
  qed
qed simp

lemma Index_split: "Index s p = Some i \<Longrightarrow> \<exists>a b. s = a @ p @ b \<and> length a = i"
proof (induction s arbitrary: i)
  case (Cons x xs)
  show ?case
  proof (cases "HasPrefix (x # xs) p")
    case True
    with Cons.prems show ?thesis by (auto simp: HasPrefix_iff)
  next
    case False
    with Cons obtain a b j where "xs = a @ p @ b" "length a = j" "i = Suc j" by fastforce
    then have "x # xs = (x # a) @ p @ b \<and> length (x # a) = i" by simp
    then show ?thesis by blast
  qed
qed (auto split: if_splits)

text \<open>\<open>strings.Cut(s, sep)\<close> with a one-byte separator; \<^const>\<open>None\<close> is \<open>found = false\<close>.\<close>

fun Cut :: "string \<Rightarrow> char \<Rightarrow> (string \<times> string) option" where
  "Cut [] c = None"
| "Cut (x # xs) c = (if x = c then Some ([], xs)
     else map_option (\<lambda>(a, b). (x # a, b)) (Cut xs c))"

lemma Cut_None [go_simps]: "Cut s c = None \<longleftrightarrow> c \<notin> set s"
  by (induction s) auto

lemma Cut_Some [go_simps]: "Cut s c = Some (a, b) \<longleftrightarrow> s = a @ c # b \<and> c \<notin> set a"
proof (induction s arbitrary: a)
  case (Cons x xs)
  show ?case
  proof (cases "x = c")
    case True
    then show ?thesis by (cases a) auto
  next
    case False
    have "Cut (x # xs) c = Some (a, b) \<longleftrightarrow> (\<exists>a'. a = x # a' \<and> Cut xs c = Some (a', b))"
      using False by (auto simp: map_option_case split: option.splits prod.splits)
    then show ?thesis using False Cons.IH by (cases a) auto
  qed
qed simp

text \<open>\<open>strings.Split\<close> on a one-byte separator and \<open>strings.Join\<close>.\<close>

fun Split :: "string \<Rightarrow> char \<Rightarrow> string list" where
  "Split [] c = [[]]"
| "Split (x # xs) c = (if x = c then [] # Split xs c
     else (case Split xs c of [] \<Rightarrow> [[x]] | y # ys \<Rightarrow> (x # y) # ys))"

fun Join :: "string list \<Rightarrow> string \<Rightarrow> string" where
  "Join [] sep = []"
| "Join [x] sep = x"
| "Join (x # y # ys) sep = x @ sep @ Join (y # ys) sep"

lemma Split_ne [simp]: "Split s c \<noteq> []"
  by (induction s) (auto split: list.splits)

lemma Split_no_sep: "x \<in> set (Split s c) \<Longrightarrow> c \<notin> set x"
proof (induction s arbitrary: x)
  case (Cons a s)
  then show ?case by (auto split: if_splits list.splits) 
qed simp

lemma Join_Cons: "xs \<noteq> [] \<Longrightarrow> Join (x # xs) sep = x @ sep @ Join xs sep"
  by (cases xs) auto

lemma Join_Split: "Join (Split s c) [c] = s"
proof (induction s)
  case (Cons x s)
  obtain y ys where y: "Split s c = y # ys" by (cases "Split s c") auto
  with Cons.IH show ?case by (cases ys) (auto simp: Join_Cons)
qed simp

lemma Split_no_occ: "c \<notin> set s \<Longrightarrow> Split s c = [s]"
  by (induction s) auto

lemma Split_append: "c \<notin> set a \<Longrightarrow> Split (a @ c # b) c = a # Split b c"
  by (induction a) auto

lemma Split_snoc: "c \<notin> set d \<Longrightarrow> Split (s @ c # d) c = Split s c @ [d]"
proof (induction s)
  case (Cons x s)
  then show ?case by (cases "Split s c") auto
qed (simp add: Split_no_occ)

lemma Split_Join: "xs \<noteq> [] \<Longrightarrow> (\<forall>x\<in>set xs. c \<notin> set x) \<Longrightarrow> Split (Join xs [c]) c = xs"
proof (induction xs)
  case (Cons x xs)
  show ?case
  proof (cases "xs = []")
    case True
    with Cons.prems show ?thesis by (simp add: Split_no_occ)
  next
    case False
    with Cons show ?thesis by (simp add: Join_Cons Split_append)
  qed
qed simp

definition ContainsAny :: "string \<Rightarrow> string \<Rightarrow> bool" where
  "ContainsAny s cs \<longleftrightarrow> list_ex (\<lambda>c. List.member cs c) s"

lemma ContainsAny_iff [go_simps]: "ContainsAny s cs \<longleftrightarrow> set s \<inter> set cs \<noteq> {}"
  by (auto simp: ContainsAny_def list_ex_iff)

definition CountByte :: "string \<Rightarrow> char \<Rightarrow> nat" where
  "CountByte s c = length (filter (\<lambda>x. x = c) s)"

lemma CountByte_0 [simp]: "CountByte s c = 0 \<longleftrightarrow> c \<notin> set s"
  by (auto simp: CountByte_def filter_empty_conv)

text \<open>
  \<open>strings.TrimSpace\<close> removes leading and trailing Unicode white space; these are the UTF-8
  encodings of the code points for which \<open>unicode.IsSpace\<close> holds.
\<close>

definition spaceRunes :: "string list" where
  "spaceRunes = [[CHR 0x09], [CHR 0x0A], [CHR 0x0B], [CHR 0x0C], [CHR 0x0D], [CHR 0x20],
     [CHR 0xC2, CHR 0x85], [CHR 0xC2, CHR 0xA0], [CHR 0xE1, CHR 0x9A, CHR 0x80],
     [CHR 0xE2, CHR 0x80, CHR 0x80], [CHR 0xE2, CHR 0x80, CHR 0x81],
     [CHR 0xE2, CHR 0x80, CHR 0x82], [CHR 0xE2, CHR 0x80, CHR 0x83],
     [CHR 0xE2, CHR 0x80, CHR 0x84], [CHR 0xE2, CHR 0x80, CHR 0x85],
     [CHR 0xE2, CHR 0x80, CHR 0x86], [CHR 0xE2, CHR 0x80, CHR 0x87],
     [CHR 0xE2, CHR 0x80, CHR 0x88], [CHR 0xE2, CHR 0x80, CHR 0x89],
     [CHR 0xE2, CHR 0x80, CHR 0x8A], [CHR 0xE2, CHR 0x80, CHR 0xA8],
     [CHR 0xE2, CHR 0x80, CHR 0xA9], [CHR 0xE2, CHR 0x80, CHR 0xAF],
     [CHR 0xE2, CHR 0x81, CHR 0x9F], [CHR 0xE3, CHR 0x80, CHR 0x80]]"

lemma spaceRunes_ne: "w \<in> set spaceRunes \<Longrightarrow> w \<noteq> []"
  by (auto simp: spaceRunes_def)

function trimLeft :: "string list \<Rightarrow> string \<Rightarrow> string" where
  "trimLeft ws s = (case find (\<lambda>w. w \<noteq> [] \<and> HasPrefix s w) ws of
     None \<Rightarrow> s | Some w \<Rightarrow> trimLeft ws (drop (length w) s))"
  by pat_completeness auto
termination
proof (relation "measure (\<lambda>(ws, s). length s)")
  fix ws :: "string list" and s w
  assume "find (\<lambda>w. w \<noteq> [] \<and> HasPrefix s w) ws = Some w"
  then have "w \<noteq> []" "HasPrefix s w" by (auto simp: find_Some_iff)
  then show "((ws, drop (length w) s), ws, s) \<in> measure (\<lambda>(ws, s). length s)"
    by (auto simp: HasPrefix_iff)
qed simp

declare trimLeft.simps [simp del]

definition TrimSpace :: "string \<Rightarrow> string" where
  "TrimSpace s = rev (trimLeft (map rev spaceRunes) (rev (trimLeft spaceRunes s)))"

section \<open>Go's strconv package\<close>

definition isDigit :: "char \<Rightarrow> bool" where
  "isDigit c \<longleftrightarrow> 48 \<le> (of_char c :: nat) \<and> (of_char c :: nat) \<le> 57"

definition digitVal :: "char \<Rightarrow> nat" where
  "digitVal c = of_char c - 48"

definition decVal :: "string \<Rightarrow> nat" where
  "decVal s = foldl (\<lambda>n c. 10 * n + digitVal c) 0 s"

text \<open>\<open>strconv.ParseUint(s, 10, 32)\<close>: an error on the empty string, a non-digit, or overflow.\<close>

definition ParseUint32 :: "string \<Rightarrow> uint32 option" where
  "ParseUint32 s = (if s \<noteq> [] \<and> list_all isDigit s \<and> decVal s < 2 ^ 32
     then Some (word_of_nat (decVal s)) else None)"

lemma ParseUint32_Some:
  "ParseUint32 s = Some w \<longleftrightarrow>
     s \<noteq> [] \<and> list_all isDigit s \<and> decVal s < 2 ^ 32 \<and> unat w = decVal s"
  by (auto simp: ParseUint32_def unat_of_nat word_unat_eq_iff)

text \<open>
  \<open>strconv.Atoi\<close>: an optional sign, then digits; an error on anything else and outside the
  range of a 64-bit \<open>int\<close>.
\<close>

definition Atoi :: "string \<Rightarrow> int option" where
  "Atoi s = (let neg = HasPrefix s ''-'';
                 ds = (if neg \<or> HasPrefix s ''+'' then tl s else s);
                 v = (if neg then - int (decVal ds) else int (decVal ds))
             in if ds \<noteq> [] \<and> list_all isDigit ds \<and> - (2 ^ 63) \<le> v \<and> v < 2 ^ 63
                then Some v else None)"

text \<open>\<open>strconv.Itoa\<close> / \<open>fmt\<close>'s \<open>%d\<close> on a natural number.\<close>

definition digitChar :: "nat \<Rightarrow> char" where
  "digitChar d = char_of (48 + d)"

fun showNat :: "nat \<Rightarrow> string" where
  "showNat n = (if n < 10 then [digitChar n] else showNat (n div 10) @ [digitChar (n mod 10)])"

declare showNat.simps [simp del]

lemma decVal_snoc: "decVal (s @ [c]) = 10 * decVal s + digitVal c"
  by (simp add: decVal_def)

lemma digitChar_ok: "d < 10 \<Longrightarrow> isDigit (digitChar d) \<and> digitVal (digitChar d) = d"
  by (simp add: isDigit_def digitVal_def digitChar_def)

lemma showNat_ok: "showNat n \<noteq> [] \<and> list_all isDigit (showNat n) \<and> decVal (showNat n) = n"
proof (induction n rule: showNat.induct)
  case (1 n)
  show ?case
  proof (cases "n < 10")
    case True
    then show ?thesis
      by (simp add: showNat.simps [of n] digitChar_ok decVal_def)
  next
    case False
    with 1 show ?thesis
      by (simp add: showNat.simps [of n] digitChar_ok decVal_snoc)
  qed
qed

lemma Atoi_showNat: "n < 2 ^ 63 \<Longrightarrow> Atoi (showNat n) = Some (int n)"
proof -
  assume n: "n < 2 ^ 63"
  have ok: "showNat n \<noteq> []" "list_all isDigit (showNat n)" "decVal (showNat n) = n"
    using showNat_ok by auto
  obtain d ds where s: "showNat n = d # ds" using ok(1) by (cases "showNat n") auto
  have "d \<noteq> CHR ''-''" "d \<noteq> CHR ''+''" using ok(2) s by (auto simp: isDigit_def)
  moreover have "int n < 2 ^ 63" using n by simp
  ultimately show ?thesis using ok s by (simp add: Atoi_def Let_def)
qed

lemma ParseUint32_showNat: "n < 2 ^ 32 \<Longrightarrow> ParseUint32 (showNat n) = Some (word_of_nat n)"
  using showNat_ok [of n] by (simp add: ParseUint32_def)

end
