(* ===== verification/GoPath.thy ===== *)
theory GoPath
  imports Prelude
begin

text \<open>
  The parts of Go's \<open>path\<close> and (on Unix) \<open>path/filepath\<close> that the source calls, and the
  pattern engines it is handed. \<open>Clean\<close> is the lexical normalisation of the library
  documentation: empty and \<open>.\<close> elements vanish, an inner \<open>..\<close> removes the element before it, a
  \<open>..\<close> at the root vanishes, and the empty result is \<open>.\<close>.
\<close>

section \<open>Path normalisation\<close>

fun cleanStep :: "bool \<Rightarrow> string list \<Rightarrow> string \<Rightarrow> string list" where
  "cleanStep rooted st c =
     (if c = [] \<or> c = ''.'' then st
      else if c = ''..'' then
        (case st of [] \<Rightarrow> if rooted then [] else [c]
                  | t # ts \<Rightarrow> if t = ''..'' then c # st else ts)
      else c # st)"

definition IsAbs :: "string \<Rightarrow> bool" where
  "IsAbs p \<longleftrightarrow> HasPrefix p ''/''"

definition Clean :: "string \<Rightarrow> string" where
  "Clean s = (if s = [] then ''.''
     else let rooted = IsAbs s;
              st = rev (foldl (cleanStep rooted) [] (Split s (CHR ''/'')))
          in if rooted then ''/'' @ Join st ''/''
             else if st = [] then ''.'' else Join st ''/'')"

definition JoinPath :: "string list \<Rightarrow> string" where
  "JoinPath es = (let ne = filter (\<lambda>e. e \<noteq> []) es
     in if ne = [] then [] else Clean (Join ne ''/''))"

definition Base :: "string \<Rightarrow> string" where
  "Base p = (if p = [] then ''.''
     else let q = rev (dropWhile (\<lambda>c. c = CHR ''/'') (rev p))
          in if q = [] then ''/'' else rev (takeWhile (\<lambda>c. c \<noteq> CHR ''/'') (rev q)))"

definition Dir :: "string \<Rightarrow> string" where
  "Dir p = Clean (rev (dropWhile (\<lambda>c. c \<noteq> CHR ''/'') (rev p)))"

text \<open>\<open>filepath.Abs\<close>, with the result of \<open>os.Getwd\<close> as its argument.\<close>

definition AbsPath :: "string \<Rightarrow> string \<Rightarrow> string" where
  "AbsPath cwd p = (if IsAbs p then Clean p else JoinPath [cwd, p])"

subsection \<open>Normal forms\<close>

fun wfStack :: "bool \<Rightarrow> string list \<Rightarrow> bool" where
  "wfStack r [] = True"
| "wfStack r (c # st) = (c \<noteq> [] \<and> c \<noteq> ''.'' \<and> CHR ''/'' \<notin> set c \<and>
     (c = ''..'' \<longrightarrow> \<not> r \<and> set st \<subseteq> {''..''}) \<and> wfStack r st)"

lemma wfStack_step: "wfStack r st \<Longrightarrow> CHR ''/'' \<notin> set c \<Longrightarrow> wfStack r (cleanStep r st c)"
  by (cases st) auto

lemma wfStack_foldl:
  "wfStack r st \<Longrightarrow> (\<forall>c\<in>set cs. CHR ''/'' \<notin> set c) \<Longrightarrow> wfStack r (foldl (cleanStep r) st cs)"
proof (induction cs arbitrary: st)
  case (Cons c cs)
  then have "wfStack r (cleanStep r st c)" by (intro wfStack_step) auto
  with Cons show ?case by simp
qed simp

lemma foldl_wfStack: "wfStack r st \<Longrightarrow> foldl (cleanStep r) [] (rev st) = st"
proof (induction st)
  case (Cons c st)
  then show ?case by (cases st) auto
qed simp

lemma wfStack_elem: "wfStack r st \<Longrightarrow> c \<in> set st \<Longrightarrow> c \<noteq> [] \<and> CHR ''/'' \<notin> set c"
  by (induction st) auto

lemma Clean_shape:
  obtains st where "wfStack (IsAbs s) st"
    "Clean s = (if IsAbs s then ''/'' @ Join (rev st) ''/''
                else if st = [] then ''.'' else Join (rev st) ''/'')"
proof (cases "s = []")
  case True
  then show ?thesis using that [of "[]"] by (simp add: Clean_def IsAbs_def)
next
  case False
  let ?st = "foldl (cleanStep (IsAbs s)) [] (Split s (CHR ''/''))"
  have "wfStack (IsAbs s) ?st" by (rule wfStack_foldl) (auto dest: Split_no_sep)
  then show ?thesis using that [of ?st] False by (simp add: Clean_def Let_def)
qed

lemma Join_wfStack:
  assumes "wfStack r st" "st \<noteq> []"
  shows "Split (Join (rev st) ''/'') (CHR ''/'') = rev st" "Join (rev st) ''/'' \<noteq> []"
    "\<not> IsAbs (Join (rev st) ''/'')"
proof -
  have el: "c \<noteq> [] \<and> CHR ''/'' \<notin> set c" if "c \<in> set (rev st)" for c
    using wfStack_elem [OF assms(1)] that by simp
  obtain c cs where c: "rev st = c # cs" using assms(2) by (cases "rev st") auto
  obtain x xs where x: "c = x # xs" using el [of c] c by (cases c) auto
  show "Split (Join (rev st) ''/'') (CHR ''/'') = rev st"
    using assms(2) el by (intro Split_Join) auto
  have "x \<noteq> CHR ''/''" using el [of c] c x by auto
  moreover obtain r where "Join (rev st) ''/'' = x # r" using c x by (cases cs) simp_all
  ultimately show "Join (rev st) ''/'' \<noteq> []" "\<not> IsAbs (Join (rev st) ''/'')"
    by (simp_all add: IsAbs_def)
qed

lemma IsAbs_Clean [simp]: "IsAbs (Clean s) \<longleftrightarrow> IsAbs s"
proof (rule Clean_shape [of s])
  fix st
  assume "wfStack (IsAbs s) st"
    and "Clean s = (if IsAbs s then ''/'' @ Join (rev st) ''/''
           else if st = [] then ''.'' else Join (rev st) ''/'')"
  then show ?thesis using Join_wfStack(3) [of "IsAbs s" st] by (auto simp: IsAbs_def)
qed

lemma Clean_Join:
  assumes "wfStack r st"
  shows "r \<Longrightarrow> Clean (''/'' @ Join (rev st) ''/'') = ''/'' @ Join (rev st) ''/''"
    "\<not> r \<Longrightarrow> st \<noteq> [] \<Longrightarrow> Clean (Join (rev st) ''/'') = Join (rev st) ''/''"
proof -
  assume r: "r"
  have "foldl (cleanStep True) [] (Split (''/'' @ Join (rev st) ''/'') (CHR ''/'')) = st"
  proof (cases "st = []")
    case False
    then show ?thesis using Join_wfStack [OF assms False] foldl_wfStack [OF assms] r by simp
  qed simp
  then show "Clean (''/'' @ Join (rev st) ''/'') = ''/'' @ Join (rev st) ''/''"
    by (simp add: Clean_def IsAbs_def)
next
  assume "\<not> r" "st \<noteq> []"
  then show "Clean (Join (rev st) ''/'') = Join (rev st) ''/''"
    using Join_wfStack [OF assms] foldl_wfStack [OF assms] by (simp add: Clean_def)
qed

lemma Clean_idem [simp]: "Clean (Clean s) = Clean s"
proof (rule Clean_shape [of s])
  fix st
  assume wf: "wfStack (IsAbs s) st"
    and eq: "Clean s = (if IsAbs s then ''/'' @ Join (rev st) ''/''
           else if st = [] then ''.'' else Join (rev st) ''/'')"
  have dot: "Clean ''.'' = ''.''" by (simp add: Clean_def IsAbs_def)
  show ?thesis unfolding eq using Clean_Join [OF wf] dot by auto
qed

lemma Base_leaf: "n \<noteq> [] \<Longrightarrow> CHR ''/'' \<notin> set n \<Longrightarrow> Base (d @ ''/'' @ n) = n"
proof -
  assume n: "n \<noteq> []" "CHR ''/'' \<notin> set n"
  then have r: "rev n \<noteq> []" "CHR ''/'' \<notin> set (rev n)" by simp_all
  obtain x xs where x: "rev n = x # xs" using r(1) by (cases "rev n") auto
  have neq: "\<And>c. c \<in> set (rev n) \<Longrightarrow> c \<noteq> CHR ''/''" using r(2) by auto
  have "dropWhile (\<lambda>c. c = CHR ''/'') (rev (d @ ''/'' @ n)) = rev n @ CHR ''/'' # rev d"
    using x neq [of x] by simp
  moreover have "takeWhile (\<lambda>c. c \<noteq> CHR ''/'') (rev n @ CHR ''/'' # rev d) = rev n"
    using neq by (subst takeWhile_append2) auto
  ultimately show ?thesis by (simp add: Base_def Let_def)
qed

text \<open>The directory and the base of a rooted path, joined again, are the path.\<close>

lemma Dir_leaf: "CHR ''/'' \<notin> set n \<Longrightarrow> Dir (d @ ''/'' @ n) = Clean (d @ ''/'')"
proof -
  assume "CHR ''/'' \<notin> set n"
  then have "dropWhile (\<lambda>c. c \<noteq> CHR ''/'') (rev n @ CHR ''/'' # rev d) = CHR ''/'' # rev d"
    by (subst dropWhile_append2) auto
  then show ?thesis by (simp add: Dir_def)
qed

lemma Clean_child:
  assumes "d = [] \<or> IsAbs d" "n \<noteq> []" "CHR ''/'' \<notin> set n"
  shows "JoinPath [Clean (d @ ''/''), n] = Clean (d @ ''/'' @ n)"
proof -
  define st where "st = foldl (cleanStep True) [] (Split d (CHR ''/''))"
  have abs: "IsAbs (d @ ''/'' @ r)" for r using assms(1) by (cases d) (auto simp: IsAbs_def)
  have st: "wfStack True st" unfolding st_def by (rule wfStack_foldl) (auto dest: Split_no_sep)
  have c1: "Clean (d @ ''/'') = ''/'' @ Join (rev st) ''/''"
    using abs [of "[]"] Split_snoc [of "CHR ''/''" "[]" d] by (simp add: Clean_def Let_def st_def)
  have c2: "Clean (d @ ''/'' @ n) = ''/'' @ Join (rev (cleanStep True st n)) ''/''"
    using abs [of n] Split_snoc [OF assms(3), of d] by (simp add: Clean_def Let_def st_def)
  have "Split (Join (rev st) ''/'' @ ''/'' @ n) (CHR ''/'') = (if st = [] then [[]] else rev st) @ [n]"
    using Split_snoc [OF assms(3), of "Join (rev st) ''/''"] Join_wfStack(1) [OF st] by (cases "st = []") simp_all
  then have "foldl (cleanStep True) [] (Split (''/'' @ Join (rev st) ''/'' @ ''/'' @ n) (CHR ''/'')) = cleanStep True st n"
    using foldl_wfStack [OF st] by (cases "st = []") simp_all
  then have "Clean (''/'' @ Join (rev st) ''/'' @ ''/'' @ n) = ''/'' @ Join (rev (cleanStep True st n)) ''/''"
    by (simp add: Clean_def IsAbs_def Let_def del: cleanStep.simps)
  then show ?thesis unfolding c1 c2 JoinPath_def using assms(2) by (simp del: cleanStep.simps)
qed

section \<open>Pattern engines\<close>

text \<open>
  The regular expressions of \<open>regexp\<close> and the globs of \<open>filepath.Match\<close> are parameters: every
  result below holds for any engine. \<open>regexp_Compile\<close> is \<^const>\<open>None\<close> on a malformed
  expression; \<open>filepath_Match\<close> is the \<open>matched\<close> result, false on a malformed pattern.
\<close>

record 're engine =
  regexp_Compile :: "string \<Rightarrow> 're option"
  regexp_MatchString :: "'re \<Rightarrow> string \<Rightarrow> bool"
  filepath_Match :: "string \<Rightarrow> string \<Rightarrow> bool"

text \<open>
  A small concrete engine for evaluating instances: a regular expression is a literal substring,
  a glob is a literal with an optional trailing \<open>*\<close>.
\<close>

definition litEngine :: "string engine" where
  "litEngine = \<lparr>regexp_Compile = (\<lambda>s. if ContainsAny s ''[('' then None else Some s),
     regexp_MatchString = (\<lambda>re s. Index s re \<noteq> None),
     filepath_Match = (\<lambda>p s. if HasSuffix p ''*'' then HasPrefix s (butlast p) else p = s)\<rparr>"

end
