(* ===== verification/EnvFilter.thy ===== *)
theory EnvFilter
  imports GoPath
begin

text \<open>
  \<open>pkg/envfilter/filter.go\<close>: which environment variables are forwarded to the remote side.
  The lemma \<open>Filter_spec\<close> shows that the loop of \<open>filterCompiled\<close> is the five
  documented rules as one predicate on entries; the properties follow from it.
\<close>

section \<open>Definitions\<close>

definition changedEnvsKey :: string where
  "changedEnvsKey = ''MPROXY_CHANGED_ENVS''"

datatype 're matcher = GlobMatcher string | RegexMatcher 're

fun matcherMatch :: "'re engine \<Rightarrow> 're matcher \<Rightarrow> string \<Rightarrow> bool" where
  "matcherMatch eng (GlobMatcher g) name = filepath_Match eng g name"
| "matcherMatch eng (RegexMatcher re) name = regexp_MatchString eng re name"

definition compileMatcher :: "'re engine \<Rightarrow> string \<Rightarrow> 're matcher option" where
  "compileMatcher eng pattern =
     (if HasPrefix pattern ''/'' \<and> HasSuffix pattern ''/'' \<and> length pattern > 2
      then map_option RegexMatcher (regexp_Compile eng (butlast (tl pattern)))
      else Some (GlobMatcher pattern))"

fun compileAll :: "'re engine \<Rightarrow> string list \<Rightarrow> 're matcher list" where
  "compileAll eng [] = []"
| "compileAll eng (p # ps) = (case compileMatcher eng p of
     None \<Rightarrow> compileAll eng ps | Some m \<Rightarrow> m # compileAll eng ps)"

fun matchesAnyCompiled :: "'re engine \<Rightarrow> string \<Rightarrow> 're matcher list \<Rightarrow> bool" where
  "matchesAnyCompiled eng name [] = False"
| "matchesAnyCompiled eng name (m # ms) =
     (if matcherMatch eng m name then True else matchesAnyCompiled eng name ms)"

definition envName :: "string \<Rightarrow> string" where
  "envName entry = (case Cut entry (CHR ''='') of Some (before, _) \<Rightarrow> before | None \<Rightarrow> entry)"

text \<open>The loop stops at the first entry with the marker prefix, whatever its value.\<close>

fun parseChangedEnvs :: "string list \<Rightarrow> string list" where
  "parseChangedEnvs [] = []"
| "parseChangedEnvs (entry # env) =
     (let prefix = changedEnvsKey @ ''='' in
      if HasPrefix entry prefix then
        (let val = drop (length prefix) entry in
         if val = [] then [] else filter (\<lambda>n. n \<noteq> []) (Split val (CHR '':'')))
      else parseChangedEnvs env)"

fun filterLoop ::
  "'re engine \<Rightarrow> 're matcher list \<Rightarrow> 're matcher list \<Rightarrow> string list \<Rightarrow> string list \<Rightarrow> string list" where
  "filterLoop eng keep remove changed [] = []"
| "filterLoop eng keep remove changed (entry # env) =
     (let name = envName entry; rest = filterLoop eng keep remove changed env in
      if name = changedEnvsKey then rest
      else if matchesAnyCompiled eng name remove then rest
      else if List.member changed name \<or> matchesAnyCompiled eng name keep then entry # rest
      else rest)"

definition filterCompiled ::
  "'re engine \<Rightarrow> string list \<Rightarrow> 're matcher list \<Rightarrow> 're matcher list \<Rightarrow> string list" where
  "filterCompiled eng env keep remove = filterLoop eng keep remove (parseChangedEnvs env) env"

definition Filter :: "'re engine \<Rightarrow> string list \<Rightarrow> string list \<Rightarrow> string list \<Rightarrow> string list" where
  "Filter eng env keep remove = filterCompiled eng env (compileAll eng keep) (compileAll eng remove)"

fun removeLoop :: "'re engine \<Rightarrow> 're matcher list \<Rightarrow> string list \<Rightarrow> string list" where
  "removeLoop eng ms [] = []"
| "removeLoop eng ms (entry # env) =
     (if \<not> matchesAnyCompiled eng (envName entry) ms then entry # removeLoop eng ms env
      else removeLoop eng ms env)"

definition Remove :: "'re engine \<Rightarrow> string list \<Rightarrow> string list \<Rightarrow> string list" where
  "Remove eng env remove = removeLoop eng (compileAll eng remove) env"

fun stripLoop :: "string \<Rightarrow> string list \<Rightarrow> string list" where
  "stripLoop dir [] = []"
| "stripLoop dir (entry # env) =
     (if \<not> HasPrefix entry ''PATH='' then entry # stripLoop dir env
      else let val = drop (length ''PATH='') entry;
               kept = filter (\<lambda>s. s \<noteq> dir) (Split val (CHR '':''))
           in if kept = [] then stripLoop dir env
              else (''PATH='' @ Join kept '':'') # stripLoop dir env)"

definition StripPathSegment :: "string list \<Rightarrow> string \<Rightarrow> string list" where
  "StripPathSegment env dir = (if dir = [] then env else stripLoop dir env)"

section \<open>The documented rules\<close>

text \<open>A name matches a list of patterns when it matches one of them that compiles.\<close>

definition matchesPatterns :: "'re engine \<Rightarrow> string list \<Rightarrow> string \<Rightarrow> bool" where
  "matchesPatterns eng ps name \<longleftrightarrow>
     list_ex (\<lambda>p. case compileMatcher eng p of None \<Rightarrow> False | Some m \<Rightarrow> matcherMatch eng m name) ps"

definition forwarded :: "'re engine \<Rightarrow> string list \<Rightarrow> string list \<Rightarrow> string list \<Rightarrow> string \<Rightarrow> bool" where
  "forwarded eng changed keep remove name \<longleftrightarrow>
     name \<noteq> changedEnvsKey \<and> \<not> matchesPatterns eng remove name \<and>
     (name \<in> set changed \<or> matchesPatterns eng keep name)"

lemma matchesAnyCompiled_compileAll:
  "matchesAnyCompiled eng name (compileAll eng ps) \<longleftrightarrow> matchesPatterns eng ps name"
  by (induction ps) (auto simp: matchesPatterns_def split: option.splits)

lemma filterLoop_eq:
  "filterLoop eng (compileAll eng keep) (compileAll eng remove) changed env =
     filter (\<lambda>e. forwarded eng changed keep remove (envName e)) env"
  by (induction env)
    (auto simp: Let_def matchesAnyCompiled_compileAll forwarded_def)

lemma Filter_spec:
  "Filter eng env keep remove =
     filter (\<lambda>e. forwarded eng (parseChangedEnvs env) keep remove (envName e)) env"
  by (simp add: Filter_def filterCompiled_def filterLoop_eq)

lemma Remove_spec: "Remove eng env remove = filter (\<lambda>e. \<not> matchesPatterns eng remove (envName e)) env"
  unfolding Remove_def by (induction env) (auto simp: matchesAnyCompiled_compileAll)

lemma envName_eq: "CHR ''='' \<notin> set k \<Longrightarrow> envName (k @ ''='' @ v) = k"
proof -
  assume "CHR ''='' \<notin> set k"
  then have "Cut (k @ ''='' @ v) (CHR ''='') = Some (k, v)" by (simp add: Cut_Some)
  then show ?thesis by (simp add: envName_def)
qed

lemma parseChangedEnvs_names:
  "n \<in> set (parseChangedEnvs env) \<Longrightarrow> n \<noteq> [] \<and> CHR '':'' \<notin> set n"
  by (induction env) (auto simp: Let_def dest: Split_no_sep split: if_splits)

lemma stripLoop_PATH:
  "(''PATH='' @ v) \<in> set (stripLoop dir env) \<Longrightarrow> dir \<notin> set (Split v (CHR '':''))"
proof (induction env)
  case (Cons entry env)
  show ?case
  proof (cases "HasPrefix entry ''PATH=''")
    case False
    then have "entry \<noteq> ''PATH='' @ v" by auto
    with False Cons show ?thesis by auto
  next
    case True
    then obtain w where w: "entry = ''PATH='' @ w" by (auto simp: HasPrefix_iff)
    let ?kept = "filter (\<lambda>s. s \<noteq> dir) (Split w (CHR '':''))"
    have "Split (Join ?kept '':'') (CHR '':'') = ?kept" if "?kept \<noteq> []"
      using that by (intro Split_Join) (auto dest: Split_no_sep)
    then have "dir \<notin> set (Split (Join ?kept '':'') (CHR '':''))" if "?kept \<noteq> []"
      using that by simp
    with w Cons show ?thesis by (cases "?kept = []") auto
  qed
qed simp

lemma stripLoop_other:
  "filter (\<lambda>e. \<not> HasPrefix e ''PATH='') (stripLoop dir env) =
     filter (\<lambda>e. \<not> HasPrefix e ''PATH='') env"
  by (induction env) (auto simp: Let_def)

lemma stripLoop_id:
  "(\<forall>v. (''PATH='' @ v) \<in> set env \<longrightarrow> dir \<notin> set (Split v (CHR '':''))) \<Longrightarrow> stripLoop dir env = env"
proof (induction env)
  case (Cons entry env)
  show ?case
  proof (cases "HasPrefix entry ''PATH=''")
    case True
    then obtain v where v: "entry = ''PATH='' @ v" by (auto simp: HasPrefix_iff)
    with Cons.prems have "dir \<notin> set (Split v (CHR '':''))" by simp
    then have "filter (\<lambda>s. s \<noteq> dir) (Split v (CHR '':'')) = Split v (CHR '':'')"
      by (auto simp: filter_id_conv)
    with v Cons show ?thesis by (simp add: Join_Split)
  qed (use Cons in auto)
qed simp

section \<open>Properties\<close>

text \<open>
  C28. The environment sent to the remote side is exactly the sub-sequence of entries, in their
  original order, selected by the documented rules: never the internal marker, never a name
  matched by a remove pattern, and otherwise a name reported as changed or matched by a keep
  pattern.
\<close>

theorem Filter_rules:
  "Filter eng env keep remove =
     filter (\<lambda>e. envName e \<noteq> changedEnvsKey \<and> \<not> matchesPatterns eng remove (envName e) \<and>
       (envName e \<in> set (parseChangedEnvs env) \<or> matchesPatterns eng keep (envName e))) env"
  by (simp add: Filter_spec forwarded_def)

text \<open>
  A remove pattern is final: an entry whose name matches a remove pattern that compiles is
  not forwarded, even when the name is in the changed set and matches a keep pattern.
\<close>

theorem Filter_remove_wins:
  assumes "p \<in> set remove" "compileMatcher eng p = Some m" "matcherMatch eng m (envName e)"
  shows "e \<notin> set (Filter eng env keep remove)"
  using assms by (auto simp: Filter_spec forwarded_def matchesPatterns_def list_ex_iff split: option.splits)

theorem Filter_remove_wins_witness:
  "''LD_PRELOAD=/x.so'' \<notin> set (Filter litEngine [''MPROXY_CHANGED_ENVS=LD_PRELOAD'', ''LD_PRELOAD=/x.so'']
     [''LD_PRELOAD''] [''LD_PRELOAD''])"
  by (rule Filter_remove_wins [of "''LD_PRELOAD''" _ _ "GlobMatcher ''LD_PRELOAD''"])
    (auto simp: compileMatcher_def envName_def litEngine_def HasSuffix_def)

text \<open>
  After \<open>StripPathSegment\<close> with a non-empty directory, no PATH entry lists that directory as
  a segment, every entry that is not a PATH entry is kept in order, and an environment in which
  no PATH entry lists the directory is returned unchanged.
\<close>

theorem StripPathSegment_correct:
  assumes "dir \<noteq> []"
  shows "(\<forall>v. (''PATH='' @ v) \<in> set (StripPathSegment env dir) \<longrightarrow> dir \<notin> set (Split v (CHR '':''))) \<and>
    filter (\<lambda>e. \<not> HasPrefix e ''PATH='') (StripPathSegment env dir) =
      filter (\<lambda>e. \<not> HasPrefix e ''PATH='') env \<and>
    ((\<forall>v. (''PATH='' @ v) \<in> set env \<longrightarrow> dir \<notin> set (Split v (CHR '':''))) \<longrightarrow>
      StripPathSegment env dir = env)"
proof -
  have eq: "StripPathSegment env dir = stripLoop dir env" using assms by (simp add: StripPathSegment_def)
  show ?thesis unfolding eq using stripLoop_PATH stripLoop_other stripLoop_id by blast
qed

theorem StripPathSegment_correct_witness:
  "''/stub'' \<noteq> [] \<and> StripPathSegment [''PATH=/stub:/bin:/stub'', ''A=1''] ''/stub'' = [''PATH=/bin'', ''A=1''] \<and>
   filter (\<lambda>e. \<not> HasPrefix e ''PATH='') (StripPathSegment [''PATH=/stub:/bin:/stub'', ''A=1''] ''/stub'') = [''A=1'']"
  using StripPathSegment_correct [of "''/stub''" "[''PATH=/stub:/bin:/stub'', ''A=1'']"]
  by (simp add: StripPathSegment_def)

end
