(* ===== verification/CommandRule.thy ===== *)
theory CommandRule
  imports GoPath
begin

text \<open>
  \<open>pkg/config/command_rule.go\<close> and \<open>pkg/execpolicy/whitelist.go\<close>: which executables run
  locally. A rule is one of three forms; \<open>MatchLocalCommand_forms\<close> states what each form matches.
\<close>

section \<open>Local command rules\<close>

record 're LocalCommandRule =
  rule_raw :: string
  rule_regex :: "'re option"
  rule_abs :: string
  rule_base :: string

datatype rule_error =
    RuleEmpty
  | RuleEmptyRegex string
  | RuleInvalidRegex string
  | RuleNotAbsolute string
  | RuleMiddleSlashes string

definition CompileLocalCommand ::
  "'re engine \<Rightarrow> string \<Rightarrow> (rule_error, 're LocalCommandRule) result" where
  "CompileLocalCommand eng s =
     (if s = [] then Inl RuleEmpty
      else let startsSlash = HasPrefix s ''/'';
               endsSlash = HasSuffix s ''/'' \<and> length s > 1
           in if startsSlash \<and> endsSlash then
                (let pattern = butlast (tl s) in
                 if pattern = [] then Inl (RuleEmptyRegex s)
                 else case regexp_Compile eng pattern of
                        None \<Rightarrow> Inl (RuleInvalidRegex s)
                      | Some re \<Rightarrow> Inr \<lparr>rule_raw = s, rule_regex = Some re, rule_abs = [], rule_base = []\<rparr>)
              else if startsSlash \<and> \<not> endsSlash then
                (if \<not> IsAbs s then Inl (RuleNotAbsolute s)
                 else Inr \<lparr>rule_raw = s, rule_regex = None, rule_abs = s, rule_base = []\<rparr>)
              else if \<not> startsSlash \<and> CHR ''/'' \<notin> set s then
                Inr \<lparr>rule_raw = s, rule_regex = None, rule_abs = [], rule_base = s\<rparr>
              else Inl (RuleMiddleSlashes s))"

definition ruleMatch :: "'re engine \<Rightarrow> 're LocalCommandRule \<Rightarrow> string \<Rightarrow> bool" where
  "ruleMatch eng r pathname =
     (case rule_regex r of
        Some re \<Rightarrow> regexp_MatchString eng re pathname
      | None \<Rightarrow> if rule_abs r \<noteq> [] then pathname = rule_abs r
                else Base pathname = rule_base r)"

definition MatchLocalCommand :: "'re engine \<Rightarrow> string \<Rightarrow> string \<Rightarrow> bool" where
  "MatchLocalCommand eng entry pathname =
     (case CompileLocalCommand eng entry of Inl _ \<Rightarrow> False | Inr r \<Rightarrow> ruleMatch eng r pathname)"

section \<open>The exec-policy whitelist\<close>

record Whitelist =
  wl_entries :: "string set"

fun newWhitelistLoop :: "string list \<Rightarrow> string set \<Rightarrow> (string, Whitelist) result" where
  "newWhitelistLoop [] entries = Inr \<lparr>wl_entries = entries\<rparr>"
| "newWhitelistLoop (p # ps) entries =
     (let clean = Clean p in
      if \<not> IsAbs clean then Inl p else newWhitelistLoop ps (insert clean entries))"

definition NewWhitelist :: "string list \<Rightarrow> (string, Whitelist) result" where
  "NewWhitelist paths = newWhitelistLoop paths {}"

text \<open>The receiver may be a nil pointer.\<close>

definition Allows :: "Whitelist option \<Rightarrow> string \<Rightarrow> bool" where
  "Allows w path = (case w of None \<Rightarrow> False | Some w \<Rightarrow> Clean path \<in> wl_entries w)"

section \<open>Lemmas\<close>

lemma newWhitelistLoop_ok:
  "newWhitelistLoop ps E = Inr w \<Longrightarrow>
     wl_entries w = E \<union> Clean ` set ps \<and> (\<forall>p\<in>set ps. IsAbs p)"
  by (induction ps arbitrary: E) (auto simp: Let_def split: if_splits)

lemma newWhitelistLoop_err:
  "newWhitelistLoop ps E = Inl p \<Longrightarrow> p \<in> set ps \<and> \<not> IsAbs p"
  by (induction ps arbitrary: E) (auto simp: Let_def split: if_splits)

lemma delimited_iff:
  "HasPrefix s ''/'' \<and> HasSuffix s ''/'' \<and> length s > 1 \<longleftrightarrow> (\<exists>p. s = ''/'' @ p @ ''/'')"
proof
  assume "HasPrefix s ''/'' \<and> HasSuffix s ''/'' \<and> length s > 1"
  then obtain a b where a: "s = ''/'' @ a" and b: "s = b @ ''/''" and "length s > 1"
    unfolding HasPrefix_iff HasSuffix_iff by blast
  then have "a \<noteq> []" "last a = CHR ''/''" by (auto, metis last_ConsR last_snoc)
  then have "a = butlast a @ ''/''" using append_butlast_last_id [of a] by simp
  with a show "\<exists>p. s = ''/'' @ p @ ''/''" by auto
qed (auto simp: go_simps)

lemma CompileLocalCommand_regex:
  "CompileLocalCommand eng (''/'' @ p @ ''/'') =
     (if p = [] then Inl (RuleEmptyRegex ''//'')
      else case regexp_Compile eng p of
        None \<Rightarrow> Inl (RuleInvalidRegex (''/'' @ p @ ''/''))
      | Some re \<Rightarrow> Inr \<lparr>rule_raw = ''/'' @ p @ ''/'', rule_regex = Some re, rule_abs = [], rule_base = []\<rparr>)"
proof -
  have "HasSuffix (CHR ''/'' # p @ ''/'') ''/''" by (auto simp: HasSuffix_iff)
  then show ?thesis by (simp add: CompileLocalCommand_def Let_def split: option.split)
qed

lemma CompileLocalCommand_path:
  "HasPrefix s ''/'' \<Longrightarrow> (\<nexists>p. s = ''/'' @ p @ ''/'') \<Longrightarrow>
   CompileLocalCommand eng s = Inr \<lparr>rule_raw = s, rule_regex = None, rule_abs = s, rule_base = []\<rparr>"
  using delimited_iff [of s] by (auto simp: CompileLocalCommand_def Let_def IsAbs_def)

lemma CompileLocalCommand_name:
  "\<not> HasPrefix s ''/'' \<Longrightarrow> CompileLocalCommand eng s =
     (if s = [] then Inl RuleEmpty
      else if CHR ''/'' \<in> set s then Inl (RuleMiddleSlashes s)
      else Inr \<lparr>rule_raw = s, rule_regex = None, rule_abs = [], rule_base = s\<rparr>)"
  by (simp add: CompileLocalCommand_def)

section \<open>Properties\<close>

text \<open>
  What a \<open>local_commands\<close> entry matches, by its form: \<open>/re/\<close> with a non-empty expression
  matches what the compiled expression matches (nothing if it does not compile), another entry
  that starts with a slash matches exactly that path, a non-empty entry without a slash matches
  the paths with that base name, and any other entry (empty, or a relative path with slashes)
  matches nothing.
\<close>

theorem MatchLocalCommand_forms:
  "MatchLocalCommand eng entry pathname =
     (if \<exists>p. entry = ''/'' @ p @ ''/'' then
        (\<exists>p re. entry = ''/'' @ p @ ''/'' \<and> p \<noteq> [] \<and> regexp_Compile eng p = Some re \<and>
           regexp_MatchString eng re pathname)
      else if HasPrefix entry ''/'' then pathname = entry
      else entry \<noteq> [] \<and> CHR ''/'' \<notin> set entry \<and> Base pathname = entry)"
proof (cases "\<exists>p. entry = ''/'' @ p @ ''/''")
  case True
  then obtain p where p: "entry = ''/'' @ p @ ''/''" by blast
  have uniq: "(\<exists>q re. entry = ''/'' @ q @ ''/'' \<and> Q q re) \<longleftrightarrow> (\<exists>re. Q p re)" for Q
    using p by auto
  show ?thesis
    unfolding uniq
    by (simp only: p MatchLocalCommand_def CompileLocalCommand_regex)
      (auto simp: ruleMatch_def split: option.splits)
next
  case False
  note rules = CompileLocalCommand_path CompileLocalCommand_name
  show ?thesis
  proof (cases "HasPrefix entry ''/''")
    case True
    with False have "entry \<noteq> []" by auto
    with True False show ?thesis by (simp add: MatchLocalCommand_def rules ruleMatch_def)
  next
    case no: False
    with False show ?thesis by (simp add: MatchLocalCommand_def rules ruleMatch_def)
  qed
qed

text \<open>
  \<open>NewWhitelist\<close> succeeds exactly when every entry is absolute, otherwise it names an entry
  that is not; the whitelist it builds allows exactly the paths whose lexical normal form is
  that of an entry, so spelling a path with \<open>.\<close>, \<open>..\<close> or doubled slashes neither escapes nor
  widens the policy.
\<close>

theorem NewWhitelist_allows:
  "case NewWhitelist paths of
     Inl p \<Rightarrow> p \<in> set paths \<and> \<not> IsAbs p
   | Inr w \<Rightarrow> list_all IsAbs paths \<and>
       (\<forall>q. Allows (Some w) q = (\<exists>p. List.member paths p \<and> Clean q = Clean p)) \<and>
       (\<forall>q. Allows (Some w) q = Allows (Some w) (Clean q))"
proof (cases "NewWhitelist paths")
  case (Inl p)
  then show ?thesis using newWhitelistLoop_err by (simp add: NewWhitelist_def)
next
  case (Inr w)
  then have "wl_entries w = Clean ` set paths" "\<forall>p\<in>set paths. IsAbs p"
    using newWhitelistLoop_ok [of paths "{}" w] by (simp_all add: NewWhitelist_def)
  with Inr show ?thesis by (auto simp: Allows_def list_all_iff image_iff)
qed

end
