(* ===== verification/Destination.thy ===== *)
theory Destination
  imports Prelude
begin

text \<open>
  \<open>pkg/remote/destination.go\<close>: the parser of the command line's destination argument. The
  round-trip properties print a destination in its documented form and parse it back; the
  well-formedness property says what every accepted destination satisfies.
\<close>

section \<open>Definitions\<close>

definition TypeSSH :: string where "TypeSSH = ''ssh''"
definition TypeDocker :: string where "TypeDocker = ''docker''"
definition TypeCompose :: string where "TypeCompose = ''compose''"

lemmas Type_defs = TypeSSH_def TypeDocker_def TypeCompose_def

record Destination =
  dst_Type :: string
  dst_User :: string
  dst_Host :: string
  dst_Port :: int
  dst_Service :: string
  dst_Sequence :: int
  dst_Raw :: string

datatype dest_error =
    DestEmpty
  | UnknownScheme string
  | DockerNoContainer
  | DockerInvalidChar string
  | UnknownBackend string
  | SSHNoHost
  | SSHUnclosed string
  | SSHTrailing string string
  | PortEmpty string
  | PortInvalid string
  | PortRange string int
  | ComposeForm string
  | ComposeNoProject string
  | ComposeProjectChars string
  | ComposeSequence string string
  | ComposeNoService string
  | ComposeServiceChars string

definition parsePort :: "string \<Rightarrow> Destination \<Rightarrow> (dest_error, Destination) result" where
  "parsePort p dst =
     (if p = [] then Inl (PortEmpty (dst_Raw dst))
      else case Atoi p of
        None \<Rightarrow> Inl (PortInvalid (dst_Raw dst))
      | Some port \<Rightarrow> if port < 1 \<or> port > 65535 then Inl (PortRange (dst_Raw dst) port)
                     else Inr (dst\<lparr>dst_Port := port\<rparr>))"

definition parseSSHHost :: "string \<Rightarrow> Destination \<Rightarrow> (dest_error, Destination) result" where
  "parseSSHHost s dst =
     (if HasPrefix s ''['' then
        (case IndexByte s (CHR '']'') of
           None \<Rightarrow> Inl (SSHUnclosed (dst_Raw dst))
         | Some end \<Rightarrow>
             let dst = dst\<lparr>dst_Host := drop 1 (take end s)\<rparr>; tail = drop (end + 1) s in
             if tail = [] then Inr dst
             else if \<not> HasPrefix tail '':'' then Inl (SSHTrailing (dst_Raw dst) tail)
             else parsePort (drop 1 tail) dst)
      else if CountByte s (CHR '':'') \<ge> 2 then Inr (dst\<lparr>dst_Host := s\<rparr>)
      else case LastIndexByte s (CHR '':'') of
        Some i \<Rightarrow> parsePort (drop (i + 1) s) (dst\<lparr>dst_Host := take i s\<rparr>)
      | None \<Rightarrow> if s = [] then Inl SSHNoHost else Inr (dst\<lparr>dst_Host := s\<rparr>))"

definition parseSSHTarget :: "string \<Rightarrow> Destination \<Rightarrow> (dest_error, Destination) result" where
  "parseSSHTarget s dst =
     (if s = [] then Inl SSHNoHost
      else case LastIndexByte s (CHR ''@'') of
        Some i \<Rightarrow> parseSSHHost (drop (i + 1) s) (dst\<lparr>dst_User := take i s\<rparr>)
      | None \<Rightarrow> parseSSHHost s dst)"

definition parseComposeService ::
  "string \<Rightarrow> string \<Rightarrow> Destination \<Rightarrow> (dest_error, Destination) result" where
  "parseComposeService project service dst =
     (if service = [] then Inl (ComposeNoService (dst_Raw dst))
      else if ContainsAny service ''@:/'' then Inl (ComposeServiceChars (dst_Raw dst))
      else Inr (dst\<lparr>dst_Host := project, dst_Service := service\<rparr>))"

definition parseComposeTarget :: "string \<Rightarrow> Destination \<Rightarrow> (dest_error, Destination) result" where
  "parseComposeTarget s dst =
     (if s = [] then Inl (ComposeForm (dst_Raw dst))
      else case IndexByte s (CHR ''/'') of
        None \<Rightarrow> Inl (ComposeForm (dst_Raw dst))
      | Some i \<Rightarrow>
          let project = take i s; rest = drop (i + 1) s in
          if project = [] then Inl (ComposeNoProject (dst_Raw dst))
          else if ContainsAny project ''@:'' then Inl (ComposeProjectChars (dst_Raw dst))
          else case IndexByte rest (CHR ''/'') of
            None \<Rightarrow> parseComposeService project rest dst
          | Some j \<Rightarrow>
              let seq = drop (j + 1) rest in
              case Atoi seq of
                None \<Rightarrow> Inl (ComposeSequence (dst_Raw dst) seq)
              | Some n \<Rightarrow> if n < 1 then Inl (ComposeSequence (dst_Raw dst) seq)
                  else parseComposeService project (take j rest) (dst\<lparr>dst_Sequence := n\<rparr>))"

definition emptyDestination :: Destination where
  "emptyDestination = \<lparr>dst_Type = [], dst_User = [], dst_Host = [], dst_Port = 0,
     dst_Service = [], dst_Sequence = 0, dst_Raw = []\<rparr>"

definition splitScheme :: "string \<Rightarrow> string \<Rightarrow> (dest_error, string \<times> string) result" where
  "splitScheme s defaultType =
     (case Index s ''://'' of
        None \<Rightarrow> Inr (defaultType, s)
      | Some i \<Rightarrow>
          let scheme = take i s; rest = drop (i + 3) s in
          if scheme = TypeSSH \<or> scheme = TypeDocker \<or> scheme = TypeCompose then Inr (scheme, rest)
          else Inl (UnknownScheme scheme))"

definition ParseDestination :: "string \<Rightarrow> string \<Rightarrow> (dest_error, Destination) result" where
  "ParseDestination s defaultType =
     (if s = [] then Inl DestEmpty
      else bindR (splitScheme s defaultType) (\<lambda>(t, rest).
        let t = (if t = [] then TypeSSH else t);
            dst = emptyDestination\<lparr>dst_Type := t, dst_Raw := s\<rparr>
        in if t = TypeSSH then parseSSHTarget rest dst
           else if t = TypeDocker then
             (if rest = [] then Inl DockerNoContainer
              else if ContainsAny rest ''/@'' then Inl (DockerInvalidChar rest)
              else Inr (dst\<lparr>dst_Host := rest\<rparr>))
           else if t = TypeCompose then parseComposeTarget rest dst
           else Inl (UnknownBackend t)))"

text \<open>What an accepted destination satisfies.\<close>

definition wfDestination :: "string \<Rightarrow> Destination \<Rightarrow> bool" where
  "wfDestination s d \<longleftrightarrow> dst_Raw d = s \<and>
     (dst_Type d = TypeSSH \<and> 0 \<le> dst_Port d \<and> dst_Port d \<le> 65535 \<and>
        CHR ''@'' \<notin> set (dst_Host d) \<and> dst_Service d = [] \<and> dst_Sequence d = 0
      \<or> dst_Type d = TypeDocker \<and> dst_Host d \<noteq> [] \<and> \<not> ContainsAny (dst_Host d) ''/@'' \<and>
        dst_User d = [] \<and> dst_Port d = 0 \<and> dst_Service d = [] \<and> dst_Sequence d = 0
      \<or> dst_Type d = TypeCompose \<and> dst_Host d \<noteq> [] \<and> \<not> ContainsAny (dst_Host d) ''@:/'' \<and>
        dst_Service d \<noteq> [] \<and> \<not> ContainsAny (dst_Service d) ''@:/'' \<and> 0 \<le> dst_Sequence d \<and>
        dst_User d = [] \<and> dst_Port d = 0)"

section \<open>Lemmas\<close>

text \<open>The fields that the SSH parsers leave alone.\<close>

definition sameRest :: "Destination \<Rightarrow> Destination \<Rightarrow> bool" where
  "sameRest dst d \<longleftrightarrow> dst_Type d = dst_Type dst \<and> dst_Raw d = dst_Raw dst \<and>
     dst_Service d = dst_Service dst \<and> dst_Sequence d = dst_Sequence dst"

lemma parsePort_ok:
  "parsePort p dst = Inr d \<Longrightarrow>
     sameRest dst d \<and> dst_Host d = dst_Host dst \<and> 1 \<le> dst_Port d \<and> dst_Port d \<le> 65535"
  by (auto simp: parsePort_def sameRest_def split: if_splits option.splits)

lemma parsePort_showNat:
  "1 \<le> n \<Longrightarrow> n \<le> 65535 \<Longrightarrow> parsePort (showNat n) dst = Inr (dst\<lparr>dst_Port := int n\<rparr>)"
  using showNat_ok [of n] by (simp add: parsePort_def Atoi_showNat)

lemma parseSSHHost_ok:
  assumes "parseSSHHost s dst = Inr d"
  shows "sameRest dst d \<and> set (dst_Host d) \<subseteq> set s \<and>
    (dst_Port d = dst_Port dst \<or> 1 \<le> dst_Port d \<and> dst_Port d \<le> 65535)"
  using assms unfolding parseSSHHost_def Let_def
  by (auto dest!: parsePort_ok dest: in_set_dropD [THEN in_set_takeD] in_set_takeD simp: sameRest_def
      split: if_splits option.splits)

lemma parseSSHTarget_ok:
  assumes "parseSSHTarget s dst = Inr d"
  shows "sameRest dst d \<and> CHR ''@'' \<notin> set (dst_Host d) \<and>
    (dst_Port d = dst_Port dst \<or> 1 \<le> dst_Port d \<and> dst_Port d \<le> 65535)"
proof (cases "LastIndexByte s (CHR ''@'')")
  case None
  then have "parseSSHHost s dst = Inr d"
    using assms by (simp add: parseSSHTarget_def split: if_splits)
  moreover have "CHR ''@'' \<notin> set s" using None by (simp add: LastIndexByte_None)
  ultimately show ?thesis using parseSSHHost_ok by blast
next
  case (Some i)
  then obtain a b where ab: "s = a @ CHR ''@'' # b" "CHR ''@'' \<notin> set b" "length a = i"
    using LastIndexByte_split by blast
  then have "parseSSHHost b (dst\<lparr>dst_User := a\<rparr>) = Inr d"
    using assms Some by (auto simp: parseSSHTarget_def)
  then show ?thesis using parseSSHHost_ok [of b] ab(2) by (fastforce simp: sameRest_def)
qed

lemma parseComposeService_ok:
  "parseComposeService p sv dst = Inr d \<longleftrightarrow> sv \<noteq> [] \<and> \<not> ContainsAny sv ''@:/'' \<and>
     d = dst\<lparr>dst_Host := p, dst_Service := sv\<rparr>"
  by (auto simp: parseComposeService_def)

lemma parseComposeTarget_ok:
  assumes "parseComposeTarget s dst = Inr d"
  shows "dst_Host d \<noteq> [] \<and> \<not> ContainsAny (dst_Host d) ''@:/'' \<and> dst_Service d \<noteq> [] \<and>
    \<not> ContainsAny (dst_Service d) ''@:/'' \<and> (dst_Sequence d = dst_Sequence dst \<or> 1 \<le> dst_Sequence d) \<and>
    dst_Type d = dst_Type dst \<and> dst_Raw d = dst_Raw dst \<and> dst_User d = dst_User dst \<and>
    dst_Port d = dst_Port dst"
proof -
  obtain i where i: "IndexByte s (CHR ''/'') = Some i"
    using assms by (auto simp: parseComposeTarget_def split: if_splits option.splits)
  then obtain p rest where pr: "s = p @ CHR ''/'' # rest" "CHR ''/'' \<notin> set p" "length p = i"
    using IndexByte_split by blast
  then have p: "p \<noteq> []" "\<not> ContainsAny p ''@:''"
    using assms i by (auto simp: parseComposeTarget_def split: if_splits)
  then have p': "\<not> ContainsAny p ''@:/''" using pr(2) by (auto simp: ContainsAny_iff)
  obtain sv n where "parseComposeService p sv (dst\<lparr>dst_Sequence := n\<rparr>) = Inr d"
    "n = dst_Sequence dst \<or> 1 \<le> n"
  proof (cases "IndexByte rest (CHR ''/'')")
    case None
    then have "parseComposeService p rest dst = Inr d"
      using assms i pr p by (simp add: parseComposeTarget_def)
    then show ?thesis using that [of rest "dst_Sequence dst"] by simp
  next
    case (Some j)
    then show ?thesis
      using assms i pr p that by (auto simp: parseComposeTarget_def Let_def split: option.splits if_splits)
  qed
  then show ?thesis using p p' by (auto simp: parseComposeService_ok)
qed

lemma splitScheme_simps:
  "splitScheme (TypeSSH @ CHR '':'' # CHR ''/'' # CHR ''/'' # r) t = Inr (TypeSSH, r)"
  "splitScheme (TypeDocker @ CHR '':'' # CHR ''/'' # CHR ''/'' # r) t = Inr (TypeDocker, r)"
  "splitScheme (TypeCompose @ CHR '':'' # CHR ''/'' # CHR ''/'' # r) t = Inr (TypeCompose, r)"
  by (simp_all add: splitScheme_def Type_defs Let_def)

lemma Type_ne: "TypeSSH \<noteq> []" "TypeDocker \<noteq> []" "TypeCompose \<noteq> []" "TypeDocker \<noteq> TypeSSH"
  "TypeCompose \<noteq> TypeSSH" "TypeCompose \<noteq> TypeDocker"
  by (simp_all add: Type_defs)

lemma ParseDestination_scheme:
  "ParseDestination (TypeSSH @ ''://'' @ r) t =
     parseSSHTarget r (emptyDestination\<lparr>dst_Type := TypeSSH, dst_Raw := TypeSSH @ ''://'' @ r\<rparr>)"
  "ParseDestination (TypeCompose @ ''://'' @ r) t =
     parseComposeTarget r (emptyDestination\<lparr>dst_Type := TypeCompose, dst_Raw := TypeCompose @ ''://'' @ r\<rparr>)"
  by (simp_all add: ParseDestination_def splitScheme_simps Type_ne)

lemma parseSSHTarget_user:
  "CHR ''@'' \<notin> set h \<Longrightarrow> parseSSHTarget (u @ ''@'' @ h) dst = parseSSHHost h (dst\<lparr>dst_User := u\<rparr>)"
  by (simp add: parseSSHTarget_def LastIndexByte_append)

lemma parseSSHHost_bracket:
  "CHR '']'' \<notin> set h \<Longrightarrow> 1 \<le> n \<Longrightarrow> n \<le> 65535 \<Longrightarrow>
   parseSSHHost (''['' @ h @ '']:'' @ showNat n) dst = Inr (dst\<lparr>dst_Host := h, dst_Port := int n\<rparr>)"
  using IndexByte_append [of "CHR '']''" "''['' @ h" "CHR '':'' # showNat n"]
  by (simp add: parseSSHHost_def parsePort_showNat)

lemma digits_not: "\<not> isDigit c \<Longrightarrow> c \<notin> set (showNat n)"
  using showNat_ok [of n] by (auto simp: list_all_iff)

lemma parseSSHHost_plain:
  assumes "CHR '':'' \<notin> set h" "\<not> HasPrefix h ''[''" "1 \<le> n" "n \<le> 65535"
  shows "parseSSHHost (h @ '':'' @ showNat n) dst = Inr (dst\<lparr>dst_Host := h, dst_Port := int n\<rparr>)"
proof -
  have nc: "CHR '':'' \<notin> set (showNat n)" by (rule digits_not) (simp add: isDigit_def)
  have "\<not> HasPrefix (h @ '':'' @ showNat n) ''[''" using assms(2) by (cases h) auto
  moreover have "CountByte (h @ '':'' @ showNat n) (CHR '':'') < 2"
    using assms(1) nc CountByte_0 [of h] CountByte_0 [of "showNat n"] by (simp add: CountByte_def)
  moreover have "LastIndexByte (h @ CHR '':'' # showNat n) (CHR '':'') = Some (length h)"
    using nc by (rule LastIndexByte_append)
  ultimately show ?thesis using assms by (simp add: parseSSHHost_def parsePort_showNat)
qed

lemma parseComposeTarget_parts:
  assumes "CHR ''/'' \<notin> set p" "p \<noteq> []" "\<not> ContainsAny p ''@:''" "CHR ''/'' \<notin> set sv"
  shows "1 \<le> n \<Longrightarrow> n < 2 ^ 63 \<Longrightarrow> parseComposeTarget (p @ ''/'' @ sv @ ''/'' @ showNat n) dst =
      parseComposeService p sv (dst\<lparr>dst_Sequence := int n\<rparr>)"
    and "parseComposeTarget (p @ ''/'' @ sv) dst = parseComposeService p sv dst"
  using assms IndexByte_append [of "CHR ''/''" p] IndexByte_append [of "CHR ''/''" sv]
    IndexByte_None [of sv "CHR ''/''", THEN iffD2]
  by (simp_all add: parseComposeTarget_def Let_def Atoi_showNat)

section \<open>Properties\<close>



text \<open>
  Printing then parsing an SSH destination is the identity: for any user name (it may itself
  contain an at sign), a host with no at sign, colon or leading bracket and a port from 1 to
  65535, \<open>ssh://user@host:port\<close> yields exactly these parts; the same holds for a bracketed host,
  which may contain colons.
\<close>

theorem ParseDestination_ssh_roundtrip:
  assumes "CHR ''@'' \<notin> set host" "1 \<le> n" "n \<le> 65535"
    and "bracketed \<Longrightarrow> CHR '']'' \<notin> set host"
    and "\<not> bracketed \<Longrightarrow> CHR '':'' \<notin> set host \<and> \<not> HasPrefix host ''[''"
  shows "let hp = (if bracketed then ''['' @ host @ '']:'' else host @ '':'') @ showNat n;
             s = TypeSSH @ ''://'' @ user @ ''@'' @ hp
         in ParseDestination s t = Inr \<lparr>dst_Type = TypeSSH, dst_User = user, dst_Host = host,
              dst_Port = int n, dst_Service = [], dst_Sequence = 0, dst_Raw = s\<rparr>"
proof -
  have "CHR ''@'' \<notin> set (showNat n)" by (rule digits_not) (simp add: isDigit_def)
  then have at: "CHR ''@'' \<notin> set ((if bracketed then ''['' @ host @ '']:'' else host @ '':'') @ showNat n)"
    using assms(1) by simp
  show ?thesis
    unfolding Let_def ParseDestination_scheme(1) parseSSHTarget_user [OF at]
    using assms by (auto simp: parseSSHHost_bracket [simplified] parseSSHHost_plain [simplified]
      emptyDestination_def)
qed

theorem ParseDestination_ssh_roundtrip_witness:
  "ParseDestination ''ssh://a@b@[fe80::1]:22'' [] = Inr \<lparr>dst_Type = ''ssh'', dst_User = ''a@b'',
     dst_Host = ''fe80::1'', dst_Port = 22, dst_Service = [], dst_Sequence = 0,
     dst_Raw = ''ssh://a@b@[fe80::1]:22''\<rparr>"
proof -
  have "showNat 22 = ''22''" by code_simp
  then show ?thesis
    using ParseDestination_ssh_roundtrip [of "''fe80::1''" 22 True "''a@b''" "[]"]
    by (simp add: Let_def TypeSSH_def)
qed

text \<open>
  Printing then parsing a compose destination is the identity, with and without the replica
  number.
\<close>

theorem ParseDestination_compose_roundtrip:
  assumes "project \<noteq> []" "\<not> ContainsAny project ''@:/''" "service \<noteq> []"
    "\<not> ContainsAny service ''@:/''" "n < 2 ^ 63"
  shows "let s = TypeCompose @ ''://'' @ project @ ''/'' @ service @
                   (if n = 0 then [] else ''/'' @ showNat n)
         in ParseDestination s t = Inr \<lparr>dst_Type = TypeCompose, dst_User = [], dst_Host = project,
              dst_Port = 0, dst_Service = service, dst_Sequence = int n, dst_Raw = s\<rparr>"
proof -
  have "CHR ''/'' \<notin> set project" "\<not> ContainsAny project ''@:''" "CHR ''/'' \<notin> set service"
    using assms by (auto simp: ContainsAny_iff)
  note parts = parseComposeTarget_parts [OF this(1) assms(1) this(2,3)]
  show ?thesis
    unfolding Let_def ParseDestination_scheme(2)
    using assms parts [simplified] by (simp add: parseComposeService_ok emptyDestination_def)
qed

theorem ParseDestination_compose_roundtrip_witness:
  "ParseDestination ''compose://web/db/2'' [] = Inr \<lparr>dst_Type = ''compose'', dst_User = [],
     dst_Host = ''web'', dst_Port = 0, dst_Service = ''db'', dst_Sequence = 2,
     dst_Raw = ''compose://web/db/2''\<rparr>"
proof -
  have "showNat 2 = ''2''" by code_simp
  then show ?thesis
    using ParseDestination_compose_roundtrip [of "''web''" "''db''" 2 "[]"]
    by (simp add: Let_def TypeCompose_def ContainsAny_def)
qed

text \<open>
  An SSH destination can be accepted with an empty host: the emptiness check is made before
  the user and the port are split off and in the branch without a port only, so any user and any
  valid port with nothing between them parse, as does an empty bracket pair.
\<close>

theorem ParseDestination_empty_host:
  "(\<exists>d. ParseDestination (TypeSSH @ ''://'' @ user @ ''@:22'') t = Inr d \<and> dst_Host d = []) \<and>
   (\<exists>d. ParseDestination (TypeSSH @ ''://'' @ user @ ''@[]'') t = Inr d \<and> dst_Host d = [])"
proof -
  have host: "parseSSHHost '':22'' dst = Inr (dst\<lparr>dst_Host := [], dst_Port := 22\<rparr>)"
    "parseSSHHost ''[]'' dst = Inr (dst\<lparr>dst_Host := []\<rparr>)" for dst
    by (simp_all add: parseSSHHost_def parsePort_def CountByte_def Atoi_def isDigit_def decVal_def digitVal_def)
  have split: "user @ ''@:22'' = user @ ''@'' @ '':22''" "user @ ''@[]'' = user @ ''@'' @ ''[]''"
    by simp_all
  show ?thesis
    unfolding split ParseDestination_scheme(1)
    by (subst (1 2) parseSSHTarget_user; simp add: host)
qed

end
