(* ===== verification/Paths.thy ===== *)
theory Paths
  imports GoPath
begin

text \<open>
  \<open>pkg/config/paths.go\<close> and the path helpers of \<open>pkg/config/config.go\<close>: home expansion, the
  search order for support binaries, the ancestor tests, mount entries and the prefix rewrite
  that translates between the two sides of a mount. What the operating system answers
  (environment, home directory, working directory, existence of files) is the record \<open>host\<close>.
\<close>

section \<open>Definitions\<close>

text \<open>\<^const>\<open>None\<close> is an error of the call; \<open>os.Getenv\<close> gives the empty string when unset.\<close>

record host =
  UserHomeDir :: "string option"
  Getwd :: "string option"
  Getenv :: "string \<Rightarrow> string"
  StatOk :: "string \<Rightarrow> bool"
  Executable :: "string option"
  user_Lookup :: "string \<Rightarrow> string option"
  user_LookupGroup :: "string \<Rightarrow> string option"

datatype path_error =
    NoHome | EmptyHome | EmptyRemoteHome | ConfiguredNotFound string | BinaryNotFound string

definition DefaultCacheDir :: string where "DefaultCacheDir = []"
definition DefaultAgentRemotePath :: string where
  "DefaultAgentRemotePath = ''~/.cache/machineproxy/mproxy-agent''"
definition DefaultPathStubFallbackDir :: string where
  "DefaultPathStubFallbackDir = ''/tmp/machineproxy/pathstub''"
definition LibDir :: string where "LibDir = ''/usr/lib/machineproxy''"

definition isHomeRelative :: "string \<Rightarrow> bool" where
  "isHomeRelative p \<longleftrightarrow> p = ''~'' \<or> HasPrefix p ''~/''"

definition ExpandLocalHome :: "host \<Rightarrow> string \<Rightarrow> (path_error, string) result" where
  "ExpandLocalHome h p =
     (if p \<noteq> ''~'' \<and> \<not> HasPrefix p ''~/'' then Inr p
      else case UserHomeDir h of
        None \<Rightarrow> Inl NoHome
      | Some home \<Rightarrow>
          if home = [] then Inl EmptyHome
          else if p = ''~'' then Inr home
          else Inr (JoinPath [home, drop 2 p]))"

definition ExpandRemoteHome :: "string \<Rightarrow> string \<Rightarrow> (path_error, string) result" where
  "ExpandRemoteHome p remoteHome =
     (if p \<noteq> ''~'' \<and> \<not> HasPrefix p ''~/'' then Inr p
      else if remoteHome = [] then Inl EmptyRemoteHome
      else if p = ''~'' then Inr remoteHome
      else Inr (JoinPath [remoteHome, drop 2 p]))"

definition LocalCacheDir :: "host \<Rightarrow> (path_error, string) result" where
  "LocalCacheDir h =
     (if DefaultCacheDir \<noteq> [] then ExpandLocalHome h DefaultCacheDir
      else let xdg = Getenv h ''XDG_CACHE_HOME'' in
        if IsAbs xdg then Inr (JoinPath [xdg, ''machineproxy''])
        else ExpandLocalHome h ''~/.cache/machineproxy'')"

definition defaultPathStubDir :: "host \<Rightarrow> string" where
  "defaultPathStubDir h =
     (case LocalCacheDir h of
        Inr base \<Rightarrow> JoinPath [base, ''pathstub'']
      | Inl _ \<Rightarrow> DefaultPathStubFallbackDir)"

text \<open>The last loop of \<open>resolveBinary\<close>.\<close>

fun firstExisting :: "host \<Rightarrow> string list \<Rightarrow> string option" where
  "firstExisting h [] = None"
| "firstExisting h (p # ps) = (if StatOk h p then Some p else firstExisting h ps)"

definition resolveBinary :: "host \<Rightarrow> string \<Rightarrow> string \<Rightarrow> string list \<Rightarrow> (path_error, string) result" where
  "resolveBinary h name configPath candidates =
     (if configPath \<noteq> [] then
        (if \<not> StatOk h configPath then Inl (ConfiguredNotFound name) else Inr configPath)
      else
        let rest = (case firstExisting h candidates of
              Some p \<Rightarrow> Inr p | None \<Rightarrow> Inl (BinaryNotFound name))
        in case Executable h of
             None \<Rightarrow> rest
           | Some exe \<Rightarrow>
               let candidate = JoinPath [Dir exe, name] in
               if StatOk h candidate then Inr candidate else rest)"

definition ResolveShimPath :: "host \<Rightarrow> string \<Rightarrow> (path_error, string) result" where
  "ResolveShimPath h configPath =
     resolveBinary h ''mproxy-shim'' configPath [JoinPath [LibDir, ''mproxy-shim'']]"

definition ResolveTracerPath :: "host \<Rightarrow> string \<Rightarrow> (path_error, string) result" where
  "ResolveTracerPath h configPath =
     resolveBinary h ''mproxy-tracer'' configPath [JoinPath [LibDir, ''mproxy-tracer'']]"

definition ResolveAgentBinaryPath ::
  "host \<Rightarrow> string \<Rightarrow> string \<Rightarrow> string \<Rightarrow> (path_error, string) result" where
  "ResolveAgentBinaryPath h configPath goos goarch =
     (let p = Getenv h ''MPROXY_AGENT_BIN'' in
      if p \<noteq> [] then Inr p
      else let name = (if goos = ''windows'' then ''mproxy-agent.exe'' else ''mproxy-agent'')
        in resolveBinary h name configPath [JoinPath [LibDir, ''agent'', goos, goarch, name]])"

text \<open>The local architecture \<open>runtime.GOARCH\<close> is an argument.\<close>

definition ResolveInterposerPath :: "string \<Rightarrow> host \<Rightarrow> string \<Rightarrow> (path_error, string) result" where
  "ResolveInterposerPath GOARCH h configPath =
     (let name = ''libmproxy_interposer.dylib'' in
      resolveBinary h name configPath [JoinPath [LibDir, ''agent'', ''darwin'', GOARCH, name]])"

definition homePrefix :: "string \<Rightarrow> string" where
  "homePrefix p = (if p = ''~'' \<or> HasPrefix p ''~/'' then ''~'' else [])"

definition isPosixAncestor :: "string \<Rightarrow> string \<Rightarrow> bool" where
  "isPosixAncestor ancestor p =
     (if ancestor = [] \<or> p = [] then False
      else if homePrefix ancestor \<noteq> homePrefix p then False
      else let ancestor = Clean ancestor; p = Clean p in
        if ancestor = p then True else HasPrefix p (ancestor @ ''/''))"

definition isLocalAncestor :: "string \<Rightarrow> string \<Rightarrow> bool" where
  "isLocalAncestor ancestor p =
     (if ancestor = [] \<or> p = [] then False
      else if \<not> IsAbs ancestor \<or> \<not> IsAbs p then False
      else let ancestor = Clean ancestor; p = Clean p in
        if ancestor = p then True else HasPrefix p (ancestor @ ''/''))"

definition isAbsOrHomeRelative :: "string \<Rightarrow> bool" where
  "isAbsOrHomeRelative p \<longleftrightarrow> IsAbs p \<or> p = ''~'' \<or> HasPrefix p ''~/''"

definition RewritePathPrefix :: "string \<Rightarrow> string \<Rightarrow> string \<Rightarrow> string \<times> bool" where
  "RewritePathPrefix p src dst =
     (if src = [] then (p, False)
      else if p = src then (dst, True)
      else if HasPrefix p (src @ ''/'') then (dst @ drop (length src) p, True)
      else (p, False))"

record Mount =
  RemotePath :: string
  ContainerPath :: string

datatype mount_error =
    MountEmpty | MountMissingSide string | MountLocalRelative string | MountRemoteRelative string
  | MountExpand string path_error

definition ParseMount :: "host \<Rightarrow> string \<Rightarrow> (mount_error, Mount) result" where
  "ParseMount h s0 =
     (let s = TrimSpace s0 in
      if s = [] then Inl MountEmpty
      else bindR (case Cut s (CHR '':'') of
             Some (before, after) \<Rightarrow>
               if before = [] \<or> after = [] then Inl (MountMissingSide s) else Inr (before, after)
           | None \<Rightarrow> Inr (s, s))
        (\<lambda>(local, remote).
           if \<not> isAbsOrHomeRelative local then Inl (MountLocalRelative s)
           else if \<not> isAbsOrHomeRelative remote then Inl (MountRemoteRelative s)
           else case ExpandLocalHome h local of
                  Inl err \<Rightarrow> Inl (MountExpand local err)
                | Inr expandedLocal \<Rightarrow>
                    Inr \<lparr>RemotePath = remote, ContainerPath = expandedLocal\<rparr>))"

definition splitMountRaw :: "string \<Rightarrow> (string \<times> string) option" where
  "splitMountRaw s0 =
     (let s = TrimSpace s0 in
      if s = [] then None
      else case IndexByte s (CHR '':'') of
             Some i \<Rightarrow> Some (take i s, drop (i + 1) s)
           | None \<Rightarrow> Some (s, s))"

section \<open>Lemmas\<close>

lemma homePrefix_eq: "homePrefix p = (if isHomeRelative p then ''~'' else [])"
  by (simp add: homePrefix_def isHomeRelative_def)

lemma IsAbs_not_home: "IsAbs p \<Longrightarrow> \<not> isHomeRelative p"
  by (cases p) (auto simp: IsAbs_def isHomeRelative_def)

lemma IsAbs_append [simp]: "IsAbs a \<Longrightarrow> IsAbs (a @ b)"
  by (auto simp: IsAbs_def HasPrefix_iff)

lemma IsAbs_Nil [simp]: "\<not> IsAbs []"
  by (simp add: IsAbs_def)

lemma IsAbs_ne: "IsAbs a \<Longrightarrow> a \<noteq> []"
  by (auto simp: IsAbs_def)

lemma IsAbs_JoinPath: "IsAbs a \<Longrightarrow> IsAbs (JoinPath (a # es))"
proof -
  assume a: "IsAbs a"
  then have ne: "filter (\<lambda>e. e \<noteq> []) (a # es) = a # filter (\<lambda>e. e \<noteq> []) es" by (simp add: IsAbs_ne)
  have "IsAbs (Join (a # filter (\<lambda>e. e \<noteq> []) es) ''/'')"
    using a by (cases "filter (\<lambda>e. e \<noteq> []) es") simp_all
  then show ?thesis unfolding JoinPath_def ne by simp
qed

lemma ExpandLocalHome_abs:
  assumes "ExpandLocalHome h p = Inr q" "isAbsOrHomeRelative p" "\<forall>d. UserHomeDir h = Some d \<longrightarrow> IsAbs d"
  shows "IsAbs q"
  using assms by (auto simp: ExpandLocalHome_def isAbsOrHomeRelative_def IsAbs_JoinPath
      split: if_splits option.splits)

lemma RewritePathPrefix_True:
  "RewritePathPrefix p src dst = (q, True) \<longleftrightarrow>
     src \<noteq> [] \<and> (\<exists>r. (r = [] \<or> HasPrefix r ''/'') \<and> p = src @ r \<and> q = dst @ r)"
  by (auto simp: RewritePathPrefix_def HasPrefix_iff)

lemma RewritePathPrefix_False:
  "RewritePathPrefix p src dst = (q, False) \<longleftrightarrow>
     q = p \<and> (src = [] \<or> (\<nexists>r. (r = [] \<or> HasPrefix r ''/'') \<and> p = src @ r))"
  by (auto simp: RewritePathPrefix_def HasPrefix_iff)

lemma splitMountRaw_ParseMount:
  assumes "ParseMount h s = Inr m"
  obtains local where "splitMountRaw s = Some (local, RemotePath m)" "local \<noteq> []" "RemotePath m \<noteq> []"
    "isAbsOrHomeRelative local" "isAbsOrHomeRelative (RemotePath m)"
    "ExpandLocalHome h local = Inr (ContainerPath m)"
proof -
  let ?t = "TrimSpace s"
  have ne: "?t \<noteq> []" using assms by (auto simp: ParseMount_def Let_def)
  show ?thesis
  proof (cases "Cut ?t (CHR '':'')")
    case None
    then have "IndexByte ?t (CHR '':'') = None" by (simp add: Cut_None IndexByte_None)
    with None ne assms that [of ?t] show ?thesis
      by (auto simp: ParseMount_def splitMountRaw_def Let_def split: if_splits sum.splits)
  next
    case (Some ab)
    obtain a b where ab: "ab = (a, b)" by fastforce
    with Some have t: "?t = a @ CHR '':'' # b" "CHR '':'' \<notin> set a" by (auto simp: Cut_Some)
    with IndexByte_append have "IndexByte ?t (CHR '':'') = Some (length a)" by simp
    then have "splitMountRaw s = Some (a, b)"
      using ne t(1) by (simp add: splitMountRaw_def Let_def)
    with Some ab ne assms that [of a] show ?thesis
      by (auto simp: ParseMount_def Let_def split: if_splits sum.splits)
  qed
qed

section \<open>Properties\<close>

text \<open>
  The prefix rewrite works on whole path components, keeps the sub-path, and is its own
  inverse with the two sides swapped: a path that was rewritten is rewritten back to itself.
\<close>

theorem RewritePathPrefix_invertible:
  assumes "RewritePathPrefix p src dst = (q, True)" "dst \<noteq> []"
  shows "RewritePathPrefix q dst src = (p, True) \<and>
    (\<exists>r. (r = [] \<or> HasPrefix r ''/'') \<and> p = src @ r \<and> q = dst @ r)"
  using assms unfolding RewritePathPrefix_True by blast

theorem RewritePathPrefix_invertible_witness:
  "RewritePathPrefix ''/srv/app/a.c'' ''/srv/app'' ''/w'' = (''/w/a.c'', True) \<and>
   RewritePathPrefix ''/w/a.c'' ''/w'' ''/srv/app'' = (''/srv/app/a.c'', True)"
proof -
  have "RewritePathPrefix ''/srv/app/a.c'' ''/srv/app'' ''/w'' = (''/w/a.c'', True)"
    by (simp add: RewritePathPrefix_def)
  then show ?thesis
    using RewritePathPrefix_invertible [of "''/srv/app/a.c''" "''/srv/app''" "''/w''" "''/w/a.c''"] by simp
qed

text \<open>
  The search order for a support binary: a configured path is used or is an error, never
  skipped; without one, an existing sibling of the running executable wins; after it, the first
  existing candidate; and there is an error exactly when none of these exists.
\<close>

theorem resolveBinary_order:
  "resolveBinary h name configPath candidates =
     (if configPath \<noteq> [] then
        (if StatOk h configPath then Inr configPath else Inl (ConfiguredNotFound name))
      else case find (StatOk h)
          ((case Executable h of None \<Rightarrow> [] | Some exe \<Rightarrow> [JoinPath [Dir exe, name]]) @ candidates) of
        Some p \<Rightarrow> Inr p
      | None \<Rightarrow> Inl (BinaryNotFound name))"
proof -
  have "firstExisting h ps = find (StatOk h) ps" for ps by (induction ps) auto
  then show ?thesis by (auto simp: resolveBinary_def Let_def split: option.splits)
qed

text \<open>
  The overlap test misses the root: a mount of \<open>/\<close> covers every absolute path, but
  \<open>isPosixAncestor\<close> and \<open>isLocalAncestor\<close> report it only for the root itself, because the
  cleaned root followed by a slash is the prefix \<open>//\<close>, which no cleaned path has.
\<close>

theorem isPosixAncestor_root:
  "(isPosixAncestor ''/'' p \<longleftrightarrow> p \<noteq> [] \<and> Clean p = ''/'') \<and>
   (isLocalAncestor ''/'' p \<longleftrightarrow> p \<noteq> [] \<and> Clean p = ''/'')"
proof -
  have root: "Clean ''/'' = ''/''" by (simp add: Clean_def IsAbs_def)
  have no2: "\<not> HasPrefix (Clean p) ''//''"
  proof (rule Clean_shape [of p])
    fix st
    assume wf: "wfStack (IsAbs p) st"
      and eq: "Clean p = (if IsAbs p then ''/'' @ Join (rev st) ''/''
           else if st = [] then ''.'' else Join (rev st) ''/'')"
    show ?thesis
      using Join_wfStack(3) [OF wf] by (cases "st = []") (auto simp: eq IsAbs_def HasPrefix_iff)
  qed
  have home: "homePrefix p = []" if "Clean p = ''/''"
  proof -
    have "IsAbs (Clean p)" using that by (simp add: IsAbs_def)
    then have "IsAbs p" by simp
    then show ?thesis using IsAbs_not_home homePrefix_eq by simp
  qed
  have abs: "IsAbs p" if "Clean p = ''/''"
    using that IsAbs_Clean [of p] by (simp add: IsAbs_def)
  show ?thesis
    using no2 home abs
    by (auto simp: isPosixAncestor_def isLocalAncestor_def Let_def root homePrefix_def [of "''/''"] IsAbs_def)
qed

end
