(* ===== verification/Config.thy ===== *)
theory Config
  imports Paths CommandRule
begin

text \<open>
  \<open>pkg/config/config.go\<close> and \<open>pkg/config/load.go\<close>: the configuration structure, identity maps,
  defaults, automatic identity mounts, validation, and loading. The YAML and TOML decoders and
  the file system are parameters. A warning that the code logs is part of the result.
\<close>

section \<open>The configuration\<close>

record LoggingConfig =
  log_Level :: string
  log_File :: string
  log_RecordingFile :: string

record SSHConfig =
  ssh_Host :: string
  ssh_User :: string
  ssh_Port :: int

record DockerConfig =
  docker_Container :: string
  docker_Host :: string

record ComposeConfig =
  compose_Project :: string
  compose_Service :: string
  compose_Sequence :: int
  compose_Host :: string

record RemoteConfig =
  rem_Type :: string
  rem_SSH :: SSHConfig
  rem_Docker :: DockerConfig
  rem_Compose :: ComposeConfig
  rem_OS :: string
  rem_Arch :: string
  rem_Bind :: string
  rem_BindInterface :: string

record ContainerConfig =
  LocalCommands :: "string list"
  Mounts :: "string list"
  AutoIdentityMounts :: bool
  WorkingDir :: string
  CwdMode :: string
  CwdRemap :: string
  EnvRemove :: "string list"
  PathProxy :: string
  PathStubDir :: string
  ForceResolve :: "bool option"
  UIDMode :: string
  GIDMode :: string
  UIDMap :: "string list"
  GIDMap :: "string list"

record AgentConfig =
  ag_EnvKeep :: "string list"
  ag_EnvRemove :: "string list"

record ComponentsConfig =
  ShimPath :: string
  TracerPath :: string
  InterposerPath :: string
  AgentLocalPath :: string
  AgentRemotePath :: string

record Config =
  Logging :: LoggingConfig
  Remote :: RemoteConfig
  Container :: ContainerConfig
  Agent :: AgentConfig
  Components :: ComponentsConfig

abbreviation updLogging :: "(LoggingConfig \<Rightarrow> LoggingConfig) \<Rightarrow> Config \<Rightarrow> Config" where
  "updLogging f c \<equiv> c\<lparr>Logging := f (Logging c)\<rparr>"
abbreviation updRemote :: "(RemoteConfig \<Rightarrow> RemoteConfig) \<Rightarrow> Config \<Rightarrow> Config" where
  "updRemote f c \<equiv> c\<lparr>Remote := f (Remote c)\<rparr>"
abbreviation updContainer :: "(ContainerConfig \<Rightarrow> ContainerConfig) \<Rightarrow> Config \<Rightarrow> Config" where
  "updContainer f c \<equiv> c\<lparr>Container := f (Container c)\<rparr>"
abbreviation updAgent :: "(AgentConfig \<Rightarrow> AgentConfig) \<Rightarrow> Config \<Rightarrow> Config" where
  "updAgent f c \<equiv> c\<lparr>Agent := f (Agent c)\<rparr>"
abbreviation updComponents :: "(ComponentsConfig \<Rightarrow> ComponentsConfig) \<Rightarrow> Config \<Rightarrow> Config" where
  "updComponents f c \<equiv> c\<lparr>Components := f (Components c)\<rparr>"

section \<open>Identity maps\<close>

record IDMapEntry =
  RemoteID :: uint32
  LocalID :: uint32
  Count :: uint32

datatype idmap_error =
    IDEmpty | IDFieldCount string nat | IDNoLookup string string | IDResolve string string
  | IDMapped string string | IDCount string string | IDCountZero string

definition LookupUID :: "host \<Rightarrow> string \<Rightarrow> uint32 option" where
  "LookupUID h name = (case user_Lookup h name of None \<Rightarrow> None | Some uid \<Rightarrow> ParseUint32 uid)"

definition LookupGroupGID :: "host \<Rightarrow> string \<Rightarrow> uint32 option" where
  "LookupGroupGID h name = (case user_LookupGroup h name of None \<Rightarrow> None | Some gid \<Rightarrow> ParseUint32 gid)"

text \<open>A nil \<open>lookup\<close> is \<^const>\<open>None\<close>.\<close>

definition CompileIDMapEntry ::
  "string \<Rightarrow> (string \<Rightarrow> uint32 option) option \<Rightarrow> (idmap_error, IDMapEntry) result" where
  "CompileIDMapEntry s lookup =
     (if s = [] then Inl IDEmpty
      else let parts = Split s (CHR '':'') in
        if length parts < 2 \<or> length parts > 3 then Inl (IDFieldCount s (length parts))
        else bindR (case ParseUint32 (parts ! 0) of
               Some i \<Rightarrow> Inr i
             | None \<Rightarrow> (case lookup of
                 None \<Rightarrow> Inl (IDNoLookup s (parts ! 0))
               | Some f \<Rightarrow> (case f (parts ! 0) of
                   None \<Rightarrow> Inl (IDResolve s (parts ! 0)) | Some i \<Rightarrow> Inr i)))
          (\<lambda>remote. case ParseUint32 (parts ! 1) of
             None \<Rightarrow> Inl (IDMapped s (parts ! 1))
           | Some mapped \<Rightarrow>
               if length parts = 3 then
                 (case ParseUint32 (parts ! 2) of
                    None \<Rightarrow> Inl (IDCount s (parts ! 2))
                  | Some count \<Rightarrow>
                      if count = 0 then Inl (IDCountZero s)
                      else Inr \<lparr>RemoteID = remote, LocalID = mapped, Count = count\<rparr>)
               else Inr \<lparr>RemoteID = remote, LocalID = mapped, Count = 1\<rparr>))"

section \<open>Defaults\<close>

datatype config_error =
    ErrExpand string path_error | ErrGetwd string
  | ErrLevel string | ErrSSHHost | ErrSSHPort int | ErrDockerContainer | ErrComposeService
  | ErrComposeSequence int | ErrRemoteType string | ErrNoMounts | ErrMount mount_error
  | ErrWorkingDir | ErrWorkingDirRequired | ErrCwdMode string | ErrCwdRemap string
  | ErrLocalCommand rule_error | ErrPathProxy string | ErrUIDGIDMode string string
  | ErrUIDMap idmap_error | ErrGIDMap idmap_error | ErrPathStubDir string
  | ErrRead string | ErrDecode

definition identityEntry :: "string \<Rightarrow> string" where
  "identityEntry remote = remote @ '':'' @ remote"

fun seenIdentity :: "string list \<Rightarrow> string set" where
  "seenIdentity [] = {}"
| "seenIdentity (raw # mounts) =
     (case splitMountRaw raw of
        Some (local, remote) \<Rightarrow>
          if local = remote then insert remote (seenIdentity mounts) else seenIdentity mounts
      | None \<Rightarrow> seenIdentity mounts)"

fun addIdentity :: "string list \<Rightarrow> string set \<Rightarrow> string list" where
  "addIdentity [] seen = []"
| "addIdentity (raw # mounts) seen =
     (case splitMountRaw raw of
        None \<Rightarrow> addIdentity mounts seen
      | Some (local, remote) \<Rightarrow>
          if local = remote then addIdentity mounts seen
          else if remote \<in> seen then addIdentity mounts seen
          else identityEntry remote # addIdentity mounts (insert remote seen))"

definition applyAutoIdentityMounts :: "Config \<Rightarrow> Config" where
  "applyAutoIdentityMounts c =
     (if \<not> AutoIdentityMounts (Container c) then c
      else let ms = Mounts (Container c); added = addIdentity ms (seenIdentity ms)
        in updContainer (\<lambda>k. k\<lparr>Mounts := ms @ added\<rparr>) c)"

definition orDefault :: "string \<Rightarrow> string \<Rightarrow> string" where
  "orDefault v d = (if v = [] then d else v)"

definition orDefaultList :: "string list \<Rightarrow> string list \<Rightarrow> string list" where
  "orDefaultList v d = (if length v = 0 then d else v)"

definition containerDefaults :: "host \<Rightarrow> ContainerConfig \<Rightarrow> ContainerConfig" where
  "containerDefaults h k = k\<lparr>
     EnvRemove := orDefaultList (EnvRemove k) [''MPROXY_*''],
     PathProxy := orDefault (PathProxy k) ''append'',
     PathStubDir := (if PathStubDir k = [] then defaultPathStubDir h else PathStubDir k),
     CwdMode := orDefault (CwdMode k) ''inherit'',
     CwdRemap := orDefault (CwdRemap k) ''local'',
     ForceResolve := (case ForceResolve k of None \<Rightarrow> Some True | Some b \<Rightarrow> Some b),
     UIDMode := orDefault (UIDMode k) ''override'',
     GIDMode := orDefault (GIDMode k) ''override''\<rparr>"

text \<open>One entry of the table of local path fields: its name, the field, and whether it is made absolute.\<close>

type_synonym pathField = "string \<times> (Config \<Rightarrow> string) \<times> (string \<Rightarrow> Config \<Rightarrow> Config) \<times> bool"

definition pathFields :: "pathField list" where
  "pathFields =
    [(''logging.file'', \<lambda>c. log_File (Logging c), \<lambda>v. updLogging (\<lambda>l. l\<lparr>log_File := v\<rparr>), False),
     (''container.path_stub_dir'', \<lambda>c. PathStubDir (Container c),
        \<lambda>v. updContainer (\<lambda>k. k\<lparr>PathStubDir := v\<rparr>), False),
     (''container.working_dir'', \<lambda>c. WorkingDir (Container c),
        \<lambda>v. updContainer (\<lambda>k. k\<lparr>WorkingDir := v\<rparr>), False),
     (''components.shim_path'', \<lambda>c. ShimPath (Components c),
        \<lambda>v. updComponents (\<lambda>k. k\<lparr>ShimPath := v\<rparr>), True),
     (''components.tracer_path'', \<lambda>c. TracerPath (Components c),
        \<lambda>v. updComponents (\<lambda>k. k\<lparr>TracerPath := v\<rparr>), True),
     (''components.interposer_path'', \<lambda>c. InterposerPath (Components c),
        \<lambda>v. updComponents (\<lambda>k. k\<lparr>InterposerPath := v\<rparr>), True),
     (''components.agent_local_path'', \<lambda>c. AgentLocalPath (Components c),
        \<lambda>v. updComponents (\<lambda>k. k\<lparr>AgentLocalPath := v\<rparr>), True),
     (''logging.recording_file'', \<lambda>c. log_RecordingFile (Logging c),
        \<lambda>v. updLogging (\<lambda>l. l\<lparr>log_RecordingFile := v\<rparr>), False)]"

text \<open>\<open>filepath.Abs\<close> asks for the working directory only when the path is relative.\<close>

definition AbsOf :: "host \<Rightarrow> string \<Rightarrow> string option" where
  "AbsOf h p = (if IsAbs p then Some (Clean p)
     else case Getwd h of None \<Rightarrow> None | Some wd \<Rightarrow> Some (JoinPath [wd, p]))"

fun expandFields :: "host \<Rightarrow> pathField list \<Rightarrow> Config \<Rightarrow> (config_error, Config) result" where
  "expandFields h [] c = Inr c"
| "expandFields h ((name, get, put, mkAbs) # fs) c =
     (if get c = [] then expandFields h fs c
      else case ExpandLocalHome h (get c) of
        Inl err \<Rightarrow> Inl (ErrExpand name err)
      | Inr expanded \<Rightarrow>
          if mkAbs then (case AbsOf h expanded of
              None \<Rightarrow> Inl (ErrGetwd name)
            | Some a \<Rightarrow> expandFields h fs (put a c))
          else expandFields h fs (put expanded c))"

definition applyDefaults :: "host \<Rightarrow> Config \<Rightarrow> (config_error, Config) result" where
  "applyDefaults h c =
     (let c = updLogging (\<lambda>l. l\<lparr>log_Level := orDefault (log_Level l) ''info''\<rparr>) c;
          c = updRemote (\<lambda>r. r\<lparr>rem_Type := orDefault (rem_Type r) ''ssh''\<rparr>) c;
          c = updComponents (\<lambda>k. k\<lparr>AgentRemotePath := orDefault (AgentRemotePath k) DefaultAgentRemotePath\<rparr>) c;
          c = updContainer (containerDefaults h) c
      in bindR (expandFields h pathFields c)
        (\<lambda>c. let c = updAgent (\<lambda>a. a\<lparr>
                   ag_EnvKeep := orDefaultList (ag_EnvKeep a)
                     [''HOME'', ''PATH'', ''TERM'', ''LANG'', ''LC_*'', ''USER'', ''LOGNAME'', ''SHELL'',
                      ''EDITOR'', ''VISUAL'', ''PAGER'', ''TZ'', ''DISPLAY'', ''SSH_AUTH_SOCK'', ''XDG_*''],
                   ag_EnvRemove := orDefaultList (ag_EnvRemove a)
                     [''LD_PRELOAD'', ''LD_LIBRARY_PATH'', ''MPROXY_*'']\<rparr>) c
          in Inr (applyAutoIdentityMounts c)))"

section \<open>Validation\<close>

definition validateUIDGIDMode :: "string \<Rightarrow> string \<Rightarrow> (config_error, unit) result" where
  "validateUIDGIDMode name value =
     (if value = ''transparent'' \<or> value = ''override'' then Inr () else Inl (ErrUIDGIDMode name value))"

datatype warning = CoversAgent string | CoversPathStub string

fun overlapLoop :: "host \<Rightarrow> string \<Rightarrow> string \<Rightarrow> string list \<Rightarrow> warning list" where
  "overlapLoop h agentRemote pathStub [] = []"
| "overlapLoop h agentRemote pathStub (raw # mounts) =
     (case ParseMount h raw of
        Inl _ \<Rightarrow> overlapLoop h agentRemote pathStub mounts
      | Inr m \<Rightarrow>
          (if isPosixAncestor (RemotePath m) agentRemote then [CoversAgent raw] else []) @
          (if isLocalAncestor (ContainerPath m) pathStub then [CoversPathStub raw] else []) @
          overlapLoop h agentRemote pathStub mounts)"

definition warnMountOverlaps :: "host \<Rightarrow> Config \<Rightarrow> warning list" where
  "warnMountOverlaps h c =
     overlapLoop h (AgentRemotePath (Components c)) (PathStubDir (Container c)) (Mounts (Container c))"

definition validateRemote :: "RemoteConfig \<Rightarrow> (config_error, unit) result" where
  "validateRemote r =
     (if rem_Type r = ''ssh'' then
        (if ssh_Host (rem_SSH r) = [] then Inl ErrSSHHost
         else failIf (ssh_Port (rem_SSH r) < 0 \<or> ssh_Port (rem_SSH r) > 65535)
                (ErrSSHPort (ssh_Port (rem_SSH r))))
      else if rem_Type r = ''docker'' then
        failIf (docker_Container (rem_Docker r) = []) ErrDockerContainer
      else if rem_Type r = ''compose'' then
        (if compose_Service (rem_Compose r) = [] then Inl ErrComposeService
         else failIf (compose_Sequence (rem_Compose r) < 0) (ErrComposeSequence (compose_Sequence (rem_Compose r))))
      else Inl (ErrRemoteType (rem_Type r)))"

definition validateCwd :: "ContainerConfig \<Rightarrow> (config_error, unit) result" where
  "validateCwd k =
     bindR (failIf (WorkingDir k \<noteq> [] \<and> \<not> IsAbs (WorkingDir k)) ErrWorkingDir) (\<lambda>_.
     bindR (if CwdMode k = ''inherit'' \<or> CwdMode k = ''local'' \<or> CwdMode k = ''remote'' then Inr ()
            else if CwdMode k = ''explicit'' then failIf (WorkingDir k = []) ErrWorkingDirRequired
            else Inl (ErrCwdMode (CwdMode k))) (\<lambda>_.
     if CwdRemap k = ''local'' \<or> CwdRemap k = ''remote'' then Inr () else Inl (ErrCwdRemap (CwdRemap k))))"

definition mapErr :: "('e \<Rightarrow> 'f) \<Rightarrow> ('e, 'a) result \<Rightarrow> ('f, 'a) result" where
  "mapErr f r = (case r of Inl e \<Rightarrow> Inl (f e) | Inr x \<Rightarrow> Inr x)"

definition validateContainer :: "'re engine \<Rightarrow> host \<Rightarrow> ContainerConfig \<Rightarrow> (config_error, unit) result" where
  "validateContainer eng h k =
     bindR (failIf (length (Mounts k) = 0) ErrNoMounts) (\<lambda>_.
     bindR (checkAll (\<lambda>m. mapErr ErrMount (ParseMount h m)) (Mounts k)) (\<lambda>_.
     bindR (validateCwd k) (\<lambda>_.
     bindR (checkAll (\<lambda>p. mapErr ErrLocalCommand (CompileLocalCommand eng p)) (LocalCommands k)) (\<lambda>_.
     bindR (failIf (PathProxy k \<noteq> ''prepend'' \<and> PathProxy k \<noteq> ''append'' \<and> PathProxy k \<noteq> ''disabled'')
              (ErrPathProxy (PathProxy k))) (\<lambda>_.
     bindR (validateUIDGIDMode ''container.uid_mode'' (UIDMode k)) (\<lambda>_.
     bindR (validateUIDGIDMode ''container.gid_mode'' (GIDMode k)) (\<lambda>_.
     bindR (checkAll (\<lambda>e. mapErr ErrUIDMap (CompileIDMapEntry e (Some (LookupUID h)))) (UIDMap k)) (\<lambda>_.
     bindR (checkAll (\<lambda>e. mapErr ErrGIDMap (CompileIDMapEntry e (Some (LookupGroupGID h)))) (GIDMap k)) (\<lambda>_.
     failIf (\<not> IsAbs (PathStubDir k)) (ErrPathStubDir (PathStubDir k)))))))))))"

definition Validate :: "'re engine \<Rightarrow> host \<Rightarrow> Config \<Rightarrow> (config_error, warning list) result" where
  "Validate eng h c =
     bindR (failIf (log_Level (Logging c) \<notin> {''trace'', ''debug'', ''info'', ''warn'', ''error''})
              (ErrLevel (log_Level (Logging c)))) (\<lambda>_.
     bindR (validateRemote (Remote c)) (\<lambda>_.
     bindR (validateContainer eng h (Container c)) (\<lambda>_.
     Inr (warnMountOverlaps h c))))"

section \<open>Loading\<close>

datatype Format = FormatYAML | FormatTOML

definition Finalize :: "'re engine \<Rightarrow> host \<Rightarrow> Config \<Rightarrow> (config_error, Config \<times> warning list) result" where
  "Finalize eng h c =
     bindR (applyDefaults h c) (\<lambda>c. bindR (Validate eng h c) (\<lambda>ws. Inr (c, ws)))"

text \<open>The two strict decoders (\<open>go-toml\<close>, \<open>yaml.v3\<close>) are parameters; \<^const>\<open>None\<close> is a decode error.\<close>

definition decode ::
  "(bytes \<Rightarrow> Config option) \<Rightarrow> (bytes \<Rightarrow> Config option) \<Rightarrow> bytes \<Rightarrow> Format \<Rightarrow> (config_error, Config) result" where
  "decode toml yaml data format =
     (case (case format of FormatTOML \<Rightarrow> toml data | FormatYAML \<Rightarrow> yaml data) of
        None \<Rightarrow> Inl ErrDecode | Some cfg \<Rightarrow> Inr cfg)"

text \<open>\<open>filepath.Ext\<close>: from the last dot of the last element on; no letter of the names compared
  below is the lower case of a non-ASCII letter, so \<open>strings.ToLower\<close> is ASCII lower case here.\<close>

definition Ext :: "string \<Rightarrow> string" where
  "Ext p = (let lastElem = rev (takeWhile (\<lambda>c. c \<noteq> CHR ''/'') (rev p))
     in case LastIndexByte lastElem (CHR ''.'') of None \<Rightarrow> [] | Some i \<Rightarrow> drop i lastElem)"

definition toLowerChar :: "char \<Rightarrow> char" where
  "toLowerChar c = (let n = of_char c :: nat in if 65 \<le> n \<and> n \<le> 90 then char_of (n + 32) else c)"

definition ToLower :: "string \<Rightarrow> string" where "ToLower s = map toLowerChar s"

definition formatFromExt :: "string \<Rightarrow> Format option" where
  "formatFromExt path =
     (let e = ToLower (Ext path) in
      if e = ''.yaml'' \<or> e = ''.yml'' \<or> e = ''.json'' then Some FormatYAML
      else if e = ''.toml'' then Some FormatTOML else None)"

text \<open>
  \<open>bufio.Scanner\<close> over lines: a final empty line is no token, a trailing carriage return is
  dropped, and scanning stops at a line that does not fit its 64 KiB buffer.
\<close>

definition dropCR :: "string \<Rightarrow> string" where
  "dropCR l = (if HasSuffix l [CHR 0x0D] then butlast l else l)"

definition scanLines :: "bytes \<Rightarrow> string list" where
  "scanLines data =
     (let ls = Split data (CHR 0x0A);
          ls = (if last ls = [] then butlast ls else ls)
      in map dropCR (takeWhile (\<lambda>l. length l < 65536) ls))"

fun detectLoop :: "string list \<Rightarrow> Format" where
  "detectLoop [] = FormatYAML"
| "detectLoop (text # ls) =
     (let line = TrimSpace text in
      if line = [] \<or> HasPrefix line ''#'' then detectLoop ls
      else if HasPrefix line ''['' then FormatTOML
      else detectLoop ls)"

definition detectFormat :: "bytes \<Rightarrow> Format" where
  "detectFormat data = detectLoop (scanLines data)"

definition LoadFileRaw ::
  "(string \<Rightarrow> bytes option) \<Rightarrow> (bytes \<Rightarrow> Config option) \<Rightarrow> (bytes \<Rightarrow> Config option) \<Rightarrow>
     string \<Rightarrow> (config_error, Config) result" where
  "LoadFileRaw readFile toml yaml path =
     (case readFile path of
        None \<Rightarrow> Inl (ErrRead path)
      | Some data \<Rightarrow>
          let format = (case formatFromExt path of Some f \<Rightarrow> f | None \<Rightarrow> detectFormat data)
          in decode toml yaml data format)"

definition LoadFile where
  "LoadFile eng h readFile toml yaml path =
     bindR (LoadFileRaw readFile toml yaml path) (\<lambda>cfg. Finalize eng h cfg)"

text \<open>\<open>io.ReadAll\<close>'s result is the argument.\<close>

definition Load where
  "Load eng h toml yaml (data :: bytes option) =
     (case data of None \<Rightarrow> Inl (ErrRead [])
      | Some data \<Rightarrow> bindR (decode toml yaml data (detectFormat data)) (\<lambda>cfg. Finalize eng h cfg))"

section \<open>Lemmas\<close>

lemma mapErr_eq_Inr [simp]: "mapErr f r = Inr y \<longleftrightarrow> r = Inr y"
  by (auto simp: mapErr_def split: sum.splits)

subsection \<open>Trimmed strings\<close>

lemma trimLeft_fix: "w \<in> set ws \<Longrightarrow> w \<noteq> [] \<Longrightarrow> \<not> HasPrefix (trimLeft ws s) w"
proof (induction ws s rule: trimLeft.induct)
  case (1 ws s)
  show ?case
  proof (cases "find (\<lambda>w. w \<noteq> [] \<and> HasPrefix s w) ws")
    case None
    with 1 have "\<not> HasPrefix s w" by (auto simp: find_None_iff)
    with None show ?thesis by (simp add: trimLeft.simps [of ws s])
  next
    case (Some w')
    with 1 show ?thesis by (simp add: trimLeft.simps [of ws s])
  qed
qed

lemma trimLeft_id: "(\<forall>w\<in>set ws. w \<noteq> [] \<longrightarrow> \<not> HasPrefix s w) \<Longrightarrow> trimLeft ws s = s"
  by (subst trimLeft.simps) (auto simp: find_None_iff split: option.splits dest!: find_Some_iff [THEN iffD1])

lemma TrimSpace_rev_fix: "w \<in> set spaceRunes \<Longrightarrow> \<not> HasPrefix (rev (TrimSpace s)) (rev w)"
  unfolding TrimSpace_def using trimLeft_fix [of "rev w"] spaceRunes_ne by auto

lemma spaceRunes_clean:
  "w \<in> set spaceRunes \<Longrightarrow> CHR '':'' \<notin> set w \<and> hd w \<noteq> CHR ''/'' \<and> hd w \<noteq> CHR ''~''"
  by (auto simp: spaceRunes_def)

lemma HasPrefix_before: "HasPrefix (a @ c # b) w \<Longrightarrow> c \<notin> set w \<Longrightarrow> HasPrefix a w"
proof (induction w arbitrary: a)
  case (Cons x w)
  then show ?case by (cases a) auto
qed simp

text \<open>A string that starts like a path and is the end of a trimmed string is trimmed when doubled.\<close>

lemma TrimSpace_identity:
  assumes "isAbsOrHomeRelative r" "TrimSpace s = a @ r"
  shows "TrimSpace (identityEntry r) = identityEntry r"
proof -
  have hd: "r \<noteq> [] \<and> (hd r = CHR ''/'' \<or> hd r = CHR ''~'')"
    using assms(1) by (cases r) (auto simp: isAbsOrHomeRelative_def IsAbs_def)
  have "trimLeft spaceRunes (identityEntry r) = identityEntry r"
  proof (intro trimLeft_id ballI impI)
    fix w assume w: "w \<in> set spaceRunes" "w \<noteq> []"
    have "hd w \<noteq> hd r" using hd spaceRunes_clean [OF w(1)] by auto
    then show "\<not> HasPrefix (identityEntry r) w"
      using hd w(2) by (cases r; cases "w") (simp_all add: identityEntry_def)
  qed
  moreover have "trimLeft (map rev spaceRunes) (rev (identityEntry r)) = rev (identityEntry r)"
  proof (intro trimLeft_id ballI impI notI)
    fix w assume "w \<in> set (map rev spaceRunes)" and "HasPrefix (rev (identityEntry r)) w"
    then obtain v where v: "v \<in> set spaceRunes" "HasPrefix (rev r @ CHR '':'' # rev r) (rev v)"
      by (auto simp: identityEntry_def)
    then have "HasPrefix (rev r) (rev v)"
      using HasPrefix_before spaceRunes_clean by (metis set_rev)
    then have "HasPrefix (rev (TrimSpace s)) (rev v)"
      using assms(2) by (auto simp: HasPrefix_iff)
    then show False using TrimSpace_rev_fix v(1) by blast
  qed
  ultimately show ?thesis by (simp add: TrimSpace_def)
qed

subsection \<open>Identity mounts\<close>

text \<open>A raw mount entry whose remote half is a path without a colon.\<close>

definition plainMount :: "string \<Rightarrow> bool" where
  "plainMount raw \<longleftrightarrow> (\<exists>l r. splitMountRaw raw = Some (l, r) \<and> isAbsOrHomeRelative r \<and> CHR '':'' \<notin> set r)"

lemma splitMountRaw_suffix:
  "splitMountRaw raw = Some (l, r) \<Longrightarrow> \<exists>a. TrimSpace raw = a @ r"
  by (auto simp: splitMountRaw_def Let_def split: if_splits option.splits)
    (metis append_take_drop_id)

lemma splitMountRaw_identity:
  assumes "splitMountRaw raw = Some (l, r)" "isAbsOrHomeRelative r" "CHR '':'' \<notin> set r"
  shows "splitMountRaw (identityEntry r) = Some (r, r)"
proof -
  obtain a where "TrimSpace raw = a @ r" using splitMountRaw_suffix [OF assms(1)] by blast
  then have "TrimSpace (identityEntry r) = identityEntry r" by (rule TrimSpace_identity [OF assms(2)])
  then show ?thesis
    using IndexByte_append [OF assms(3), of r] by (simp add: splitMountRaw_def identityEntry_def)
qed

lemma seenIdentity_iff: "r \<in> seenIdentity ms \<longleftrightarrow> (\<exists>raw\<in>set ms. splitMountRaw raw = Some (r, r))"
  by (induction ms) (auto split: option.splits)

lemma addIdentity_set:
  "set (addIdentity ms seen) = {identityEntry r | r l raw.
     raw \<in> set ms \<and> splitMountRaw raw = Some (l, r) \<and> l \<noteq> r \<and> r \<notin> seen}"
proof (induction ms arbitrary: seen)
  case (Cons raw ms)
  show ?case
  proof (cases "splitMountRaw raw")
    case None
    with Cons show ?thesis by auto
  next
    case (Some lr)
    obtain l r where lr: "lr = (l, r)" by fastforce
    show ?thesis
    proof (cases "l = r \<or> r \<in> seen")
      case True
      with Some lr Cons show ?thesis by auto
    next
      case False
      with Some lr Cons [of "insert r seen"] show ?thesis by auto
    qed
  qed
qed simp

lemma addIdentity_seen:
  "(\<forall>raw l r. raw \<in> set ms \<longrightarrow> splitMountRaw raw = Some (l, r) \<longrightarrow> l \<noteq> r \<longrightarrow> r \<in> seen) \<Longrightarrow>
   addIdentity ms seen = []"
  by (induction ms) (auto split: option.splits)

lemma identityEntry_inj: "CHR '':'' \<notin> set r \<Longrightarrow> identityEntry r = identityEntry r' \<Longrightarrow> CHR '':'' \<notin> set r' \<Longrightarrow> r = r'"
  unfolding identityEntry_def by (simp add: append_Cons_eq_iff)

lemma identity_covered:
  assumes "\<forall>raw\<in>set ms. plainMount raw" "raw \<in> set ms" "splitMountRaw raw = Some (l, r)"
  shows "\<exists>e\<in>set (ms @ addIdentity ms (seenIdentity ms)). splitMountRaw e = Some (r, r)"
proof (cases "l = r \<or> r \<in> seenIdentity ms")
  case True
  then show ?thesis using assms(2,3) seenIdentity_iff [of r ms] by auto
next
  case False
  then have "identityEntry r \<in> set (addIdentity ms (seenIdentity ms))"
    using assms(2,3) unfolding addIdentity_set by blast
  moreover have "splitMountRaw (identityEntry r) = Some (r, r)"
    using assms splitMountRaw_identity unfolding plainMount_def by fastforce
  ultimately show ?thesis by auto
qed

lemma identity_stable:
  assumes "\<forall>raw\<in>set ms. plainMount raw" "ms' = ms @ addIdentity ms (seenIdentity ms)"
  shows "addIdentity ms' (seenIdentity ms') = []"
proof (rule addIdentity_seen, intro allI impI)
  fix raw l r
  assume r: "raw \<in> set ms'" "splitMountRaw raw = Some (l, r)" "l \<noteq> r"
  have "raw \<in> set ms"
  proof (rule ccontr)
    assume "raw \<notin> set ms"
    then obtain r' l' raw' where "raw = identityEntry r'" "raw' \<in> set ms" "splitMountRaw raw' = Some (l', r')"
      using r(1) unfolding assms(2) set_append addIdentity_set by blast
    then have "splitMountRaw raw = Some (r', r')"
      using assms(1) splitMountRaw_identity unfolding plainMount_def by fastforce
    with r(2,3) show False by auto
  qed
  then show "r \<in> seenIdentity ms'"
    using identity_covered [OF assms(1) _ r(2)] assms(2) unfolding seenIdentity_iff by auto
qed

lemma ParseMount_plain:
  "ParseMount h raw = Inr m \<Longrightarrow> CHR '':'' \<notin> set (RemotePath m) \<Longrightarrow> plainMount raw"
  by (erule splitMountRaw_ParseMount) (auto simp: plainMount_def)

subsection \<open>Path fields\<close>

lemma expandFields_append:
  "expandFields h (fs @ gs) c = bindR (expandFields h fs c) (expandFields h gs)"
  by (induction h fs c rule: expandFields.induct) (auto split: sum.splits option.splits)

text \<open>A part of the configuration that no entry of the table writes is kept.\<close>

lemma expandFields_frame:
  assumes "expandFields h fs c = Inr c'" "\<forall>(n, get, put, a)\<in>set fs. \<forall>v c. g (put v c) = g c"
  shows "g c' = g c"
  using assms
proof (induction h fs c rule: expandFields.induct)
  case (2 h n get put a fs c)
  then show ?case by (auto split: if_splits sum.splits option.splits)
qed simp

text \<open>After expansion, a field that the table makes absolute is empty or absolute.\<close>

lemma expandFields_abs:
  assumes "expandFields h ((n, get, put, True) # fs) c = Inr c'"
    and "\<forall>v c. get (put v c) = v" "\<forall>(n, g, put, a)\<in>set fs. \<forall>v c. get (put v c) = get c"
    and "\<forall>d. Getwd h = Some d \<longrightarrow> IsAbs d"
  shows "get c' = [] \<or> IsAbs (get c')"
proof (cases "get c = []")
  case True
  then show ?thesis using expandFields_frame [OF _ assms(3)] assms(1) by fastforce
next
  case False
  with assms(1) obtain e a where a: "AbsOf h e = Some a" "expandFields h fs (put a c) = Inr c'"
    by (auto split: sum.splits option.splits)
  have "IsAbs a" using a(1) assms(4) by (auto simp: AbsOf_def IsAbs_JoinPath split: if_splits option.splits)
  then show ?thesis using expandFields_frame [OF a(2) assms(3)] assms(2) by simp
qed

definition absOrEmpty :: "string \<Rightarrow> bool" where
  "absOrEmpty p \<longleftrightarrow> p = [] \<or> IsAbs p"

abbreviation fieldGet :: "pathField \<Rightarrow> Config \<Rightarrow> string" where "fieldGet f \<equiv> fst (snd f)"
abbreviation fieldPut :: "pathField \<Rightarrow> string \<Rightarrow> Config \<Rightarrow> Config" where "fieldPut f \<equiv> fst (snd (snd f))"
abbreviation fieldAbs :: "pathField \<Rightarrow> bool" where "fieldAbs f \<equiv> snd (snd (snd f))"

lemma expandFields_abs_nth:
  assumes "expandFields h fs c = Inr c'" "i < length fs" "fieldAbs (fs ! i)"
    and "\<forall>v c. fieldGet (fs ! i) (fieldPut (fs ! i) v c) = v"
    and "\<forall>f\<in>set (drop (Suc i) fs). \<forall>v c. fieldGet (fs ! i) (fieldPut f v c) = fieldGet (fs ! i) c"
    and "\<forall>d. Getwd h = Some d \<longrightarrow> IsAbs d"
  shows "absOrEmpty (fieldGet (fs ! i) c')"
proof -
  obtain n get put where f: "fs ! i = (n, get, put, True)" using assms(3) by (metis prod.collapse)
  have "bindR (expandFields h (take i fs) c) (expandFields h ((n, get, put, True) # drop (Suc i) fs)) = Inr c'"
    unfolding expandFields_append [symmetric] f [symmetric] using assms(1,2) by (simp add: id_take_nth_drop [symmetric])
  then obtain c1 where "expandFields h ((n, get, put, True) # drop (Suc i) fs) c1 = Inr c'"
    unfolding bindR_eq_Inr by blast
  from expandFields_abs [OF this] show ?thesis
    using assms(4-6) f by (simp add: absOrEmpty_def split_beta)
qed

lemma expand_components:
  assumes "expandFields h pathFields c = Inr c'" "\<forall>d. Getwd h = Some d \<longrightarrow> IsAbs d"
  shows "absOrEmpty (ShimPath (Components c')) \<and> absOrEmpty (TracerPath (Components c')) \<and>
    absOrEmpty (InterposerPath (Components c')) \<and> absOrEmpty (AgentLocalPath (Components c'))"
  using expandFields_abs_nth [OF assms(1) _ _ _ _ assms(2), of 3]
    expandFields_abs_nth [OF assms(1) _ _ _ _ assms(2), of 4]
    expandFields_abs_nth [OF assms(1) _ _ _ _ assms(2), of 5]
    expandFields_abs_nth [OF assms(1) _ _ _ _ assms(2), of 6]
  by (simp add: pathFields_def)

lemma applyAuto_other: "Logging (applyAutoIdentityMounts c) = Logging c"
  "Remote (applyAutoIdentityMounts c) = Remote c" "Agent (applyAutoIdentityMounts c) = Agent c"
  "Components (applyAutoIdentityMounts c) = Components c"
  by (simp_all add: applyAutoIdentityMounts_def Let_def)

text \<open>What a validated configuration promises to the rest of the program.\<close>

definition remoteOk :: "RemoteConfig \<Rightarrow> bool" where
  "remoteOk r \<longleftrightarrow>
     (rem_Type r = ''ssh'' \<and> ssh_Host (rem_SSH r) \<noteq> [] \<and> 0 \<le> ssh_Port (rem_SSH r) \<and> ssh_Port (rem_SSH r) \<le> 65535) \<or>
     (rem_Type r = ''docker'' \<and> docker_Container (rem_Docker r) \<noteq> []) \<or>
     (rem_Type r = ''compose'' \<and> compose_Service (rem_Compose r) \<noteq> [] \<and> 0 \<le> compose_Sequence (rem_Compose r))"

definition containerOk :: "'re engine \<Rightarrow> host \<Rightarrow> ContainerConfig \<Rightarrow> bool" where
  "containerOk eng h k \<longleftrightarrow> Mounts k \<noteq> [] \<and>
     (\<forall>raw\<in>set (Mounts k). \<exists>m. ParseMount h raw = Inr m) \<and>
     absOrEmpty (WorkingDir k) \<and> CwdMode k \<in> {''inherit'', ''local'', ''remote'', ''explicit''} \<and>
     (CwdMode k = ''explicit'' \<longrightarrow> IsAbs (WorkingDir k)) \<and> CwdRemap k \<in> {''local'', ''remote''} \<and>
     (\<forall>p\<in>set (LocalCommands k). \<exists>r. CompileLocalCommand eng p = Inr r) \<and>
     PathProxy k \<in> {''prepend'', ''append'', ''disabled''} \<and>
     UIDMode k \<in> {''transparent'', ''override''} \<and> GIDMode k \<in> {''transparent'', ''override''} \<and>
     (\<forall>e\<in>set (UIDMap k). \<exists>i. CompileIDMapEntry e (Some (LookupUID h)) = Inr i) \<and>
     (\<forall>e\<in>set (GIDMap k). \<exists>i. CompileIDMapEntry e (Some (LookupGroupGID h)) = Inr i) \<and>
     IsAbs (PathStubDir k)"

lemma validateRemote_ok: "validateRemote r = Inr u \<longleftrightarrow> remoteOk r"
  by (auto simp: validateRemote_def remoteOk_def)

lemma validateCwd_ok: "validateCwd k = Inr u \<longleftrightarrow> absOrEmpty (WorkingDir k) \<and>
    CwdMode k \<in> {''inherit'', ''local'', ''remote'', ''explicit''} \<and>
    (CwdMode k = ''explicit'' \<longrightarrow> IsAbs (WorkingDir k)) \<and> CwdRemap k \<in> {''local'', ''remote''}"
  by (auto simp: validateCwd_def bindR_eq_Inr absOrEmpty_def split: if_splits)

lemma validateContainer_ok: "validateContainer eng h k = Inr u \<longleftrightarrow> containerOk eng h k"
  by (auto simp: validateContainer_def containerOk_def bindR_eq_Inr checkAll_ok validateCwd_ok
      validateUIDGIDMode_def)

lemma Validate_ok: "Validate eng h c = Inr ws \<longleftrightarrow>
    log_Level (Logging c) \<in> {''trace'', ''debug'', ''info'', ''warn'', ''error''} \<and>
    remoteOk (Remote c) \<and> containerOk eng h (Container c) \<and> ws = warnMountOverlaps h c"
  by (auto simp: Validate_def bindR_eq_Inr validateRemote_ok validateContainer_ok)

lemma applyDefaults_components:
  assumes "applyDefaults h c0 = Inr c" "\<forall>d. Getwd h = Some d \<longrightarrow> IsAbs d"
  shows "absOrEmpty (ShimPath (Components c)) \<and> absOrEmpty (TracerPath (Components c)) \<and>
    absOrEmpty (InterposerPath (Components c)) \<and> absOrEmpty (AgentLocalPath (Components c))"
proof -
  obtain c1 c2 where "expandFields h pathFields c1 = Inr c2" "Components c = Components c2"
    using assms(1) by (auto simp: applyDefaults_def Let_def bindR_eq_Inr applyAuto_other)
  then show ?thesis using expand_components assms(2) by metis
qed

section \<open>Properties\<close>


definition exampleHost :: host where
  "exampleHost = \<lparr>UserHomeDir = Some ''/home/u'', Getwd = Some ''/work'', Getenv = (\<lambda>_. []),
     StatOk = (\<lambda>_. True), Executable = None, user_Lookup = (\<lambda>_. None), user_LookupGroup = (\<lambda>_. None)\<rparr>"

definition exampleConfig :: Config where
  "exampleConfig = \<lparr>Logging = \<lparr>log_Level = [], log_File = [], log_RecordingFile = []\<rparr>,
     Remote = \<lparr>rem_Type = [], rem_SSH = \<lparr>ssh_Host = ''box'', ssh_User = [], ssh_Port = 22\<rparr>,
       rem_Docker = \<lparr>docker_Container = [], docker_Host = []\<rparr>,
       rem_Compose = \<lparr>compose_Project = [], compose_Service = [], compose_Sequence = 0, compose_Host = []\<rparr>,
       rem_OS = [], rem_Arch = [], rem_Bind = [], rem_BindInterface = []\<rparr>,
     Container = \<lparr>LocalCommands = [''ls''], Mounts = [''~/w:/srv/app''], AutoIdentityMounts = True,
       WorkingDir = [], CwdMode = [], CwdRemap = [], EnvRemove = [], PathProxy = [], PathStubDir = [],
       ForceResolve = None, UIDMode = [], GIDMode = [], UIDMap = [], GIDMap = []\<rparr>,
     Agent = \<lparr>ag_EnvKeep = [], ag_EnvRemove = []\<rparr>,
     Components = \<lparr>ShimPath = ''bin/shim'', TracerPath = [], InterposerPath = [], AgentLocalPath = [],
       AgentRemotePath = []\<rparr>\<rparr>"


text \<open>
  Automatic identity mounts: for mounts whose remote path has no colon, the option only
  appends entries, afterwards every mounted remote path is also mounted at its own name, and a
  second run would add nothing.
\<close>

theorem applyAutoIdentityMounts_covers:
  assumes "AutoIdentityMounts (Container c)"
    and "\<forall>raw\<in>set (Mounts (Container c)). \<exists>m. ParseMount h raw = Inr m \<and> CHR '':'' \<notin> set (RemotePath m)"
  shows "prefix (Mounts (Container c)) (Mounts (Container (applyAutoIdentityMounts c))) \<and>
    (\<forall>raw\<in>set (Mounts (Container c)). \<forall>m. ParseMount h raw = Inr m \<longrightarrow>
       (\<exists>e\<in>set (Mounts (Container (applyAutoIdentityMounts c))). splitMountRaw e = Some (RemotePath m, RemotePath m))) \<and>
    applyAutoIdentityMounts (applyAutoIdentityMounts c) = applyAutoIdentityMounts c"
proof -
  let ?ms = "Mounts (Container c)" and ?add = "addIdentity (Mounts (Container c)) (seenIdentity (Mounts (Container c)))"
  have plain: "\<forall>raw\<in>set ?ms. plainMount raw" using assms(2) ParseMount_plain by blast
  have ms: "Mounts (Container (applyAutoIdentityMounts c)) = ?ms @ ?add"
    using assms(1) by (simp add: applyAutoIdentityMounts_def Let_def)
  have "\<exists>e\<in>set (?ms @ ?add). splitMountRaw e = Some (RemotePath m, RemotePath m)"
    if raw: "raw \<in> set ?ms" "ParseMount h raw = Inr m" for raw m
    using splitMountRaw_ParseMount [OF raw(2)] identity_covered [OF plain raw(1)] by metis
  moreover have "applyAutoIdentityMounts (applyAutoIdentityMounts c) = applyAutoIdentityMounts c"
    using identity_stable [OF plain refl] assms(1) by (simp add: applyAutoIdentityMounts_def Let_def)
  ultimately show ?thesis unfolding ms by simp
qed

theorem applyAutoIdentityMounts_covers_witness:
  "splitMountRaw ''/srv/app:/srv/app'' = Some (''/srv/app'', ''/srv/app'') \<and>
   applyAutoIdentityMounts (applyAutoIdentityMounts exampleConfig) = applyAutoIdentityMounts exampleConfig"
proof -
  have s: "splitMountRaw ''/srv/app:/srv/app'' = Some (''/srv/app'', ''/srv/app'')" by code_simp
  have m: "Mounts (Container exampleConfig) = [''~/w:/srv/app'']" "AutoIdentityMounts (Container exampleConfig)"
    by (simp_all add: exampleConfig_def)
  have p: "ParseMount exampleHost ''~/w:/srv/app'' = Inr \<lparr>RemotePath = ''/srv/app'', ContainerPath = ''/home/u/w''\<rparr>"
    by code_simp
  show ?thesis
    using applyAutoIdentityMounts_covers [of exampleConfig exampleHost] m p s by simp
qed

text \<open>
  With a colon in a remote path the identity entry is cut at the wrong place: the mount
  \<open>/a:/b:/c\<close> has the remote path \<open>/b:/c\<close>, its appended entry \<open>/b:/c:/b:/c\<close> is read back as the
  remote path \<open>/c:/b:/c\<close> mounted at \<open>/b\<close>, and the remote path itself is not mounted at its name.
\<close>

theorem applyAutoIdentityMounts_colon:
  "ParseMount exampleHost ''/a:/b:/c'' = Inr \<lparr>RemotePath = ''/b:/c'', ContainerPath = ''/a''\<rparr> \<and>
   Mounts (Container (applyAutoIdentityMounts (updContainer (\<lambda>k. k\<lparr>Mounts := [''/a:/b:/c'']\<rparr>) exampleConfig))) =
     [''/a:/b:/c'', ''/b:/c:/b:/c''] \<and>
   ParseMount exampleHost ''/b:/c:/b:/c'' = Inr \<lparr>RemotePath = ''/c:/b:/c'', ContainerPath = ''/b''\<rparr>"
  by code_simp

text \<open>
  Identity-map entries round-trip: printing a remote id, a local id and a count as decimal
  fields and compiling the entry gives exactly these numbers, a zero count is rejected, and
  without a count the range has one id.
\<close>

theorem CompileIDMapEntry_roundtrip:
  "CompileIDMapEntry (showNat (unat r) @ '':'' @ showNat (unat l) @ '':'' @ showNat (unat n)) lookup =
     (if n = 0 then Inl (IDCountZero (showNat (unat r) @ '':'' @ showNat (unat l) @ '':'' @ showNat (unat n)))
      else Inr \<lparr>RemoteID = r, LocalID = l, Count = n\<rparr>) \<and>
   CompileIDMapEntry (showNat (unat r) @ '':'' @ showNat (unat l)) lookup =
     Inr \<lparr>RemoteID = r, LocalID = l, Count = 1\<rparr>"
proof -
  have nc: "CHR '':'' \<notin> set (showNat k)" for k
    using showNat_ok [of k] by (auto simp: list_all_iff isDigit_def dest!: bspec)
  have pu: "ParseUint32 (showNat (unat w)) = Some w" for w
    using ParseUint32_showNat [of "unat w"] unsigned_less [of w] by simp
  have s3: "Split (showNat (unat r) @ '':'' @ showNat (unat l) @ '':'' @ showNat (unat n)) (CHR '':'') =
      [showNat (unat r), showNat (unat l), showNat (unat n)]"
    by (simp add: Split_append nc Split_no_occ)
  have s2: "Split (showNat (unat r) @ '':'' @ showNat (unat l)) (CHR '':'') =
      [showNat (unat r), showNat (unat l)]"
    by (simp add: Split_append nc Split_no_occ)
  show ?thesis
    unfolding CompileIDMapEntry_def Let_def s3 s2 by (simp add: pu)
qed

end
