(* ===== verification/TracerEnv.thy ===== *)
theory TracerEnv
  imports EnvFilter
begin

text \<open>
  \<open>pkg/tracer/env.go\<close>: the tracer's record of the initial environment, the list of changed
  variables it computes for an exec, and the control variables it injects. The last section
  joins it with the environment filter: what the tracer reports as changed reaches the filter.
\<close>

section \<open>Definitions\<close>

record EnvBaseline =
  eb_entries :: "string \<rightharpoonup> string"

fun baselineLoop :: "string list \<Rightarrow> (string \<rightharpoonup> string) \<Rightarrow> (string \<rightharpoonup> string)" where
  "baselineLoop [] m = m"
| "baselineLoop (entry # env) m =
     (case IndexByte entry (CHR ''='') of
        None \<Rightarrow> baselineLoop env m
      | Some idx \<Rightarrow> baselineLoop env (m(take idx entry \<mapsto> entry)))"

definition NewEnvBaselineFromSlice :: "string list \<Rightarrow> EnvBaseline" where
  "NewEnvBaselineFromSlice env = \<lparr>eb_entries = baselineLoop env Map.empty\<rparr>"

definition skipKeys :: "string \<Rightarrow> bool" where
  "skipKeys key \<longleftrightarrow> key = ''MPROXY_CHANGED_ENVS'' \<or> key = ''MPROXY_HOOK_BYPASS''"

fun changedLoop :: "EnvBaseline \<Rightarrow> string list \<Rightarrow> string list" where
  "changedLoop b [] = []"
| "changedLoop b (entry # current) =
     (case IndexByte entry (CHR ''='') of
        None \<Rightarrow> changedLoop b current
      | Some idx \<Rightarrow>
          let key = take idx entry in
          if skipKeys key then changedLoop b current
          else if eb_entries b key \<noteq> Some entry then key # changedLoop b current
          else changedLoop b current)"

definition ChangedKeys :: "EnvBaseline \<Rightarrow> string list \<Rightarrow> string" where
  "ChangedKeys b current = Join (changedLoop b current) '':''"

fun dropControlVars :: "string list \<Rightarrow> string list" where
  "dropControlVars [] = []"
| "dropControlVars (e # envp) =
     (if HasPrefix e ''MPROXY_HOOK_BYPASS='' \<or> HasPrefix e ''MPROXY_CHANGED_ENVS=''
      then dropControlVars envp else e # dropControlVars envp)"

definition InjectEnvVars :: "EnvBaseline \<Rightarrow> string list \<Rightarrow> string list" where
  "InjectEnvVars b envp =
     (let changedKeys = ChangedKeys b envp;
          result = dropControlVars envp @ [''MPROXY_HOOK_BYPASS=1'']
      in if changedKeys \<noteq> [] then result @ [''MPROXY_CHANGED_ENVS='' @ changedKeys] else result)"

section \<open>Lemmas\<close>

definition isControlVar :: "string \<Rightarrow> bool" where
  "isControlVar e \<longleftrightarrow> HasPrefix e ''MPROXY_HOOK_BYPASS='' \<or> HasPrefix e ''MPROXY_CHANGED_ENVS=''"

lemma dropControlVars_eq: "dropControlVars env = filter (\<lambda>e. \<not> isControlVar e) env"
  by (induction env) (auto simp: isControlVar_def)

text \<open>An entry \<open>key=value\<close> of the current environment counts as changed.\<close>

definition changedEntry :: "EnvBaseline \<Rightarrow> string \<Rightarrow> string \<Rightarrow> bool" where
  "changedEntry b key entry \<longleftrightarrow> (\<exists>v. entry = key @ CHR ''='' # v) \<and> CHR ''='' \<notin> set key \<and>
     \<not> skipKeys key \<and> eb_entries b key \<noteq> Some entry"

lemma changedLoop_set: "key \<in> set (changedLoop b env) \<longleftrightarrow> (\<exists>e\<in>set env. changedEntry b key e)"
proof (induction env)
  case (Cons e env)
  have one: "changedEntry b key e \<longleftrightarrow> (case IndexByte e (CHR ''='') of None \<Rightarrow> False
    | Some i \<Rightarrow> key = take i e \<and> \<not> skipKeys key \<and> eb_entries b key \<noteq> Some e)"
  proof (cases "IndexByte e (CHR ''='')")
    case None
    then have "CHR ''='' \<notin> set e" by (simp add: IndexByte_None)
    with None show ?thesis by (auto simp: changedEntry_def)
  next
    case (Some i)
    then obtain a v where av: "e = a @ CHR ''='' # v" "CHR ''='' \<notin> set a" "length a = i"
      using IndexByte_split by blast
    then have "(\<exists>v. e = key @ CHR ''='' # v) \<and> CHR ''='' \<notin> set key \<longleftrightarrow> key = a"
      by (metis Cut_Some option.inject prod.inject)
    with Some av show ?thesis by (auto simp: changedEntry_def)
  qed
  show ?case by (auto simp: Cons.IH one Let_def split: option.splits)
qed simp

lemma InjectEnvVars_eq:
  "InjectEnvVars b envp = filter (\<lambda>e. \<not> isControlVar e) envp @ [''MPROXY_HOOK_BYPASS=1''] @
     (if ChangedKeys b envp = [] then [] else [''MPROXY_CHANGED_ENVS='' @ ChangedKeys b envp])"
  by (simp add: InjectEnvVars_def Let_def dropControlVars_eq)

lemma HasPrefix_key:
  assumes "CHR ''='' \<notin> set k" "CHR ''='' \<notin> set key"
  shows "HasPrefix (key @ CHR ''='' # v) (k @ ''='') \<longleftrightarrow> key = k"
proof
  assume "HasPrefix (key @ CHR ''='' # v) (k @ ''='')"
  then obtain r where "key @ CHR ''='' # v = k @ CHR ''='' # r" by (auto simp: HasPrefix_iff)
  then show "key = k" using assms by (metis Cut_Some option.inject prod.inject)
qed (auto simp: HasPrefix_iff)

lemma isControlVar_key:
  "CHR ''='' \<notin> set key \<Longrightarrow> \<not> skipKeys key \<Longrightarrow> \<not> isControlVar (key @ CHR ''='' # v)"
  using HasPrefix_key [of "''MPROXY_HOOK_BYPASS''" key v] HasPrefix_key [of "''MPROXY_CHANGED_ENVS''" key v]
  by (simp add: isControlVar_def skipKeys_def)

lemma parseChangedEnvs_append:
  "\<not> (\<exists>e\<in>set env. HasPrefix e ''MPROXY_CHANGED_ENVS='') \<Longrightarrow>
   parseChangedEnvs (env @ rest) = parseChangedEnvs rest"
  by (induction env) (auto simp: changedEnvsKey_def)

lemma parseChangedEnvs_inject:
  assumes "\<forall>k\<in>set (changedLoop b env). CHR '':'' \<notin> set k"
  shows "set (parseChangedEnvs (InjectEnvVars b env)) = set (changedLoop b env) - {[]}"
proof -
  let ?pre = "dropControlVars env @ [''MPROXY_HOOK_BYPASS=1'']"
  have "\<not> (\<exists>e\<in>set ?pre. HasPrefix e ''MPROXY_CHANGED_ENVS='')"
    by (auto simp: dropControlVars_eq isControlVar_def)
  note app = parseChangedEnvs_append [OF this]
  show ?thesis
  proof (cases "ChangedKeys b env = []")
    case True
    have "set (changedLoop b env) \<subseteq> {[]}"
    proof (cases "changedLoop b env")
      case (Cons k ks)
      with True show ?thesis by (cases ks) (auto simp: ChangedKeys_def)
    qed simp
    moreover have "parseChangedEnvs (InjectEnvVars b env) = []"
      using True app [of "[]"] by (simp add: InjectEnvVars_def Let_def)
    ultimately show ?thesis by auto
  next
    case False
    then have ne: "changedLoop b env \<noteq> []" by (auto simp: ChangedKeys_def)
    have "parseChangedEnvs (InjectEnvVars b env) =
        parseChangedEnvs [''MPROXY_CHANGED_ENVS='' @ ChangedKeys b env]"
      using False app [of "[''MPROXY_CHANGED_ENVS='' @ ChangedKeys b env]"]
      by (simp add: InjectEnvVars_def Let_def)
    also have "\<dots> = filter (\<lambda>n. n \<noteq> []) (Split (ChangedKeys b env) (CHR '':''))"
      using False by (simp add: changedEnvsKey_def)
    also have "\<dots> = filter (\<lambda>n. n \<noteq> []) (changedLoop b env)"
      unfolding ChangedKeys_def using Split_Join [OF ne assms] by simp
    finally show ?thesis by auto
  qed
qed

section \<open>Properties\<close>

text \<open>
  The environment of an intercepted exec: the tracee's entries except the two control
  variables, in order, then exactly one bypass marker, then, when a variable changed, exactly
  one change marker; the tracee cannot smuggle in a control variable of its own.
\<close>

theorem InjectEnvVars_shape:
  "InjectEnvVars b envp = filter (\<lambda>e. \<not> isControlVar e) envp @ [''MPROXY_HOOK_BYPASS=1''] @
     (if ChangedKeys b envp = [] then [] else [''MPROXY_CHANGED_ENVS='' @ ChangedKeys b envp]) \<and>
   filter isControlVar (InjectEnvVars b envp) = [''MPROXY_HOOK_BYPASS=1''] @
     (if ChangedKeys b envp = [] then [] else [''MPROXY_CHANGED_ENVS='' @ ChangedKeys b envp])"
  by (simp add: InjectEnvVars_eq) (simp add: isControlVar_def)

text \<open>
  From the traced program to the remote: a variable that the program added or changed since
  the start is in the environment after injection and filtering, with no keep pattern for it,
  provided no remove pattern matches it and no changed name contains a colon (the separator of
  the change marker).
\<close>

theorem changed_variable_forwarded:
  assumes "key @ ''='' @ val \<in> set envp" "CHR ''='' \<notin> set key" "key \<noteq> []" "\<not> skipKeys key"
    and "eb_entries b key \<noteq> Some (key @ ''='' @ val)"
    and "\<not> matchesPatterns eng remove key"
    and "\<forall>k\<in>set (changedLoop b envp). CHR '':'' \<notin> set k"
  shows "key @ ''='' @ val \<in> set (Filter eng (InjectEnvVars b envp) keep remove)"
proof -
  let ?e = "key @ ''='' @ val"
  have "changedEntry b key ?e" using assms by (auto simp: changedEntry_def)
  then have "key \<in> set (parseChangedEnvs (InjectEnvVars b envp))"
    using assms(1,3) parseChangedEnvs_inject [OF assms(7)] changedLoop_set by blast
  moreover have "\<not> isControlVar ?e" using isControlVar_key [OF assms(2,4), of val] by simp
  then have "?e \<in> set (InjectEnvVars b envp)"
    using assms(1) by (simp add: InjectEnvVars_eq)
  moreover have "key \<noteq> changedEnvsKey" using assms(4) by (auto simp: skipKeys_def changedEnvsKey_def)
  ultimately show ?thesis
    using assms(2,6) envName_eq [OF assms(2)] by (simp add: Filter_spec forwarded_def)
qed

theorem changed_variable_forwarded_witness:
  "''FOO=2'' \<in> set (Filter litEngine
     (InjectEnvVars (NewEnvBaselineFromSlice [''FOO=1'']) [''FOO=2'', ''BAR=1'']) [] [''MPROXY_*''])"
  using changed_variable_forwarded [of "''FOO''" "''2''" "[''FOO=2'', ''BAR=1'']"
      "NewEnvBaselineFromSlice [''FOO=1'']" litEngine "[''MPROXY_*'']" "[]"]
  by (simp add: NewEnvBaselineFromSlice_def skipKeys_def matchesPatterns_def compileMatcher_def
      litEngine_def HasSuffix_def)

end
