(* ===== verification/Regs.thy ===== *)
theory Regs
  imports Prelude
begin

text \<open>
  The register interface of \<open>pkg/tracer\<close>. Every architecture file \<open>rewrite_linux_*.go\<close> provides
  the same methods of \<open>SyscallRegs\<close>; the record \<open>arch\<close> is that method table, for a register
  structure \<open>'r\<close> and addresses of type \<open>'p\<close> (the build's \<open>uintptr\<close>). The locale
  \<open>syscall_regs\<close> states what the tracer relies on; the theories \<open>RegsX86\<close>, \<open>RegsArm\<close>,
  \<open>RegsRisc\<close> and \<open>RegsMips\<close> interpret it for every architecture of the source. The extension
  \<open>syscall_regs_stable\<close> adds that the syscall number can still be read at the exit stop, which
  the getcwd interception needs.
\<close>

unbundle bit_operations_syntax

record ('r, 'p) arch =
  sysExecve :: uint32
  sysExecveat :: uint32
  bigEndian :: bool
  SyscallNum :: "'r \<Rightarrow> uint64"
  BlockSyscall :: "'r \<Rightarrow> 'r"
  PathAddr :: "'r \<Rightarrow> bool \<Rightarrow> 'p"
  ArgvAddr :: "'r \<Rightarrow> bool \<Rightarrow> 'p"
  EnvpAddr :: "'r \<Rightarrow> bool \<Rightarrow> 'p"
  SetPathAddr :: "'r \<Rightarrow> bool \<Rightarrow> 'p \<Rightarrow> 'r"
  SetArgvAddr :: "'r \<Rightarrow> bool \<Rightarrow> 'p \<Rightarrow> 'r"
  SetEnvpAddr :: "'r \<Rightarrow> bool \<Rightarrow> 'p \<Rightarrow> 'r"
  StackPointer :: "'r \<Rightarrow> 'p"
  Ret :: "'r \<Rightarrow> 'p \<times> bool"
  SetRetSuccess :: "'r \<Rightarrow> 'p \<Rightarrow> 'r"
  SetRetError :: "'r \<Rightarrow> 'p \<Rightarrow> 'r"

text \<open>Whether a syscall number is one of the two exec calls.\<close>

definition isExecNum :: "('r, 'p) arch \<Rightarrow> uint64 \<Rightarrow> bool" where
  "isExecNum A n \<longleftrightarrow> n = ucast (sysExecve A) \<or> n = ucast (sysExecveat A)"

text \<open>The three writes that redirect an exec, in the order of \<open>handleSyscallStop\<close>.\<close>

definition redirectExec :: "('r, 'p) arch \<Rightarrow> 'r \<Rightarrow> bool \<Rightarrow> 'p \<Rightarrow> 'p \<Rightarrow> 'p \<Rightarrow> 'r" where
  "redirectExec A r b path argv envp =
     SetEnvpAddr A (SetArgvAddr A (SetPathAddr A r b path) b argv) b envp"

text \<open>
  What the tracer needs of an architecture, as one statement: the rewritten registers carry
  exactly the three new pointers for the same call on the same stack, a blocked call is no exec
  call, and the result accessors agree with each other.
\<close>

definition redirects :: "('r, 'w::len word) arch \<Rightarrow> bool" where
  "redirects A \<longleftrightarrow> sysExecve A \<noteq> sysExecveat A \<and>
     (\<forall>r b p a e. let r' = redirectExec A r b p a e in
        PathAddr A r' b = p \<and> ArgvAddr A r' b = a \<and> EnvpAddr A r' b = e \<and>
        SyscallNum A r' = SyscallNum A r \<and> StackPointer A r' = StackPointer A r) \<and>
     (\<forall>r. \<not> isExecNum A (SyscallNum A (BlockSyscall A r))) \<and>
     (\<forall>r v. 0 \<le> sint v \<longrightarrow> Ret A (SetRetSuccess A r v) = (v, True)) \<and>
     (\<forall>r e. 0 < unat e \<and> unat e < 4096 \<longrightarrow> \<not> snd (Ret A (SetRetError A r e)))"

locale syscall_regs =
  fixes A :: "('r, 'w::len word) arch"
  assumes exec_distinct: "sysExecve A \<noteq> sysExecveat A"
    and block: "\<not> isExecNum A (SyscallNum A (BlockSyscall A r))"
    and path_path: "PathAddr A (SetPathAddr A r b a) b = a"
    and argv_argv: "ArgvAddr A (SetArgvAddr A r b a) b = a"
    and envp_envp: "EnvpAddr A (SetEnvpAddr A r b a) b = a"
    and path_argv: "PathAddr A (SetArgvAddr A r b a) b = PathAddr A r b"
    and path_envp: "PathAddr A (SetEnvpAddr A r b a) b = PathAddr A r b"
    and argv_envp: "ArgvAddr A (SetEnvpAddr A r b a) b = ArgvAddr A r b"
    and num_path: "SyscallNum A (SetPathAddr A r b a) = SyscallNum A r"
    and num_argv: "SyscallNum A (SetArgvAddr A r b a) = SyscallNum A r"
    and num_envp: "SyscallNum A (SetEnvpAddr A r b a) = SyscallNum A r"
    and sp_path: "StackPointer A (SetPathAddr A r b a) = StackPointer A r"
    and sp_argv: "StackPointer A (SetArgvAddr A r b a) = StackPointer A r"
    and sp_envp: "StackPointer A (SetEnvpAddr A r b a) = StackPointer A r"
    and ret_success: "0 \<le> sint v \<Longrightarrow> Ret A (SetRetSuccess A r v) = (v, True)"
    and ret_error: "0 < unat e \<Longrightarrow> unat e < 4096 \<Longrightarrow> \<not> snd (Ret A (SetRetError A r e))"
begin

lemma redirect_args:
  "PathAddr A (redirectExec A r b p a e) b = p"
  "ArgvAddr A (redirectExec A r b p a e) b = a"
  "EnvpAddr A (redirectExec A r b p a e) b = e"
  by (simp_all add: redirectExec_def path_path argv_argv envp_envp path_argv path_envp argv_envp)

lemma redirect_frame:
  "SyscallNum A (redirectExec A r b p a e) = SyscallNum A r"
  "StackPointer A (redirectExec A r b p a e) = StackPointer A r"
  by (simp_all add: redirectExec_def num_path num_argv num_envp sp_path sp_argv sp_envp)

lemma all_redirects: "redirects A"
  by (simp add: redirects_def exec_distinct block ret_success ret_error redirect_args redirect_frame)

end

locale syscall_regs_stable = syscall_regs +
  assumes num_ret: "SyscallNum A (SetRetSuccess A r v) = SyscallNum A r"
    and num_ret_error: "SyscallNum A (SetRetError A r v) = SyscallNum A r"

section \<open>Word facts the architectures share\<close>

lemma sint_neg_errno:
  fixes e :: "'w::len word"
  assumes "12 < LENGTH('w)" "0 < unat e" "unat e < 4096"
  shows "\<not> 0 \<le> sint (- e)"
proof -
  have p: "(4096::int) \<le> 2 ^ (LENGTH('w) - 1)"
    using assms(1) power_increasing [of 12 "LENGTH('w) - 1" "2::int"] by simp
  have e: "0 < uint e" "uint e < 4096"
    using assms(2,3) uint_nat [of e] by linarith+
  have s: "sint e = uint e"
    using p e by (simp add: sint_uint signed_take_bit_int_eq_self)
  have "sint (- e) = - uint e"
    unfolding sint_word_ariths(4) s using p e by (intro signed_take_bit_int_eq_self) auto
  then show ?thesis using e by simp
qed

lemma ucast32_64 [simp]: "ucast (ucast (a::32 word)::64 word) = a"
  by (rule ucast_up_ucast_id) (simp add: is_up)

lemma ucast32_64_inj: "(ucast (a::32 word) :: 64 word) = ucast (b::32 word) \<longleftrightarrow> a = b"
  by (metis ucast32_64)

lemma ucast_minus_1: "(ucast (- 1 :: 32 word) :: 64 word) = 0xFFFFFFFF"
  by (simp add: unsigned_minus_1_eq_mask mask_eq_exp_minus_1)

lemma bit_clear: "((a::64 word) AND NOT m) AND m = 0"
  by (simp add: and.assoc)

lemma bit_set: "m \<noteq> 0 \<Longrightarrow> ((a::64 word) OR m) AND m \<noteq> 0"
  by (simp add: bit.conj_disj_distrib2)

end
