(* ===== verification/TraceeMemory.thy ===== *)
theory TraceeMemory
  imports Regs
begin

text \<open>
  \<open>pkg/tracer/memory.go\<close>: reading and writing the tracee's address space. The kernel calls are a
  parameter, the record \<open>kernel\<close> over an opaque system state \<open>'k\<close>. The locale
  \<open>tracee_memory\<close> states what is relied on: a read returns at least the mapped bytes asked for,
  a write to mapped bytes stores them and touches nothing else, and committed registers read
  back. Under it, what \<open>WriteStringArray\<close> lays out is what \<open>ReadStringArray\<close> (and the kernel's
  own exec) reads.
\<close>

unbundle bit_operations_syntax

section \<open>The kernel interface\<close>

text \<open>
  An error is an errno. \<open>process_vm_readv\<close> returns the bytes it transferred, at most as many as
  asked for; the results of \<open>PtraceSyscall\<close> and \<open>Kill\<close> are ignored by the source.
\<close>

record ('k, 'r, 'p) kernel =
  process_vm_readv :: "'k \<Rightarrow> int \<Rightarrow> 'p \<Rightarrow> nat \<Rightarrow> nat + bytes"
  process_vm_writev :: "'k \<Rightarrow> int \<Rightarrow> 'p \<Rightarrow> bytes \<Rightarrow> nat option \<times> 'k"
  ptrace_getregs :: "'k \<Rightarrow> int \<Rightarrow> nat + 'r"
  ptrace_setregs :: "'k \<Rightarrow> int \<Rightarrow> 'r \<Rightarrow> nat option \<times> 'k"
  ptrace_syscall :: "'k \<Rightarrow> int \<Rightarrow> nat \<Rightarrow> 'k"
  ptrace_geteventmsg :: "'k \<Rightarrow> int \<Rightarrow> nat + nat"
  kill_process :: "'k \<Rightarrow> int \<Rightarrow> nat \<Rightarrow> 'k"

section \<open>Definitions\<close>

abbreviation NUL :: char where "NUL \<equiv> CHR 0x00"

definition ptrSize :: "'w::len itself \<Rightarrow> nat" where
  "ptrSize w = LENGTH('w) div 8"

text \<open>The bytes of a \<open>uintptr\<close> in the machine's byte order, and back.\<close>

definition ptrBytes :: "bool \<Rightarrow> 'w::len word \<Rightarrow> bytes" where
  "ptrBytes be w = (let le = map (\<lambda>i. char_of (unat w div 256 ^ i)) [0..<ptrSize TYPE('w)]
                    in if be then rev le else le)"

definition bytesPtr :: "bool \<Rightarrow> bytes \<Rightarrow> 'w::len word" where
  "bytesPtr be bs = word_of_nat (foldr (\<lambda>c n. of_char c + 256 * n) (if be then rev bs else bs) 0)"

definition ReadString ::
  "('k, 'r, 'w::len word) kernel \<Rightarrow> 'k \<Rightarrow> int \<Rightarrow> 'w word \<Rightarrow> nat + string" where
  "ReadString K k pid addr =
     (if addr = 0 then Inr []
      else case process_vm_readv K k pid addr 4096 of
        Inl err \<Rightarrow> Inl err
      | Inr buf \<Rightarrow> (case IndexByte buf NUL of Some idx \<Rightarrow> Inr (take idx buf) | None \<Rightarrow> Inr buf))"

text \<open>The transferred count is ignored: bytes that were not transferred stay zero.\<close>

definition ReadPointer ::
  "bool \<Rightarrow> ('k, 'r, 'w::len word) kernel \<Rightarrow> 'k \<Rightarrow> int \<Rightarrow> 'w word \<Rightarrow> nat + 'w word" where
  "ReadPointer be K k pid addr =
     (let n = ptrSize TYPE('w) in
      case process_vm_readv K k pid addr n of
        Inl err \<Rightarrow> Inl err
      | Inr bs \<Rightarrow> Inr (bytesPtr be (take n (bs @ replicate n NUL))))"

text \<open>The loop ends at a null pointer or an error; \<^const>\<open>None\<close> is a loop that never ends.\<close>

partial_function (option) readArrayLoop ::
  "bool \<Rightarrow> ('k, 'r, 'w::len word) kernel \<Rightarrow> 'k \<Rightarrow> int \<Rightarrow> 'w word \<Rightarrow> nat \<Rightarrow> string list \<Rightarrow>
     (nat + string list) option" where
  "readArrayLoop be K k pid addr i result =
     (case ReadPointer be K k pid (addr + word_of_nat i * word_of_nat (ptrSize TYPE('w))) of
        Inl err \<Rightarrow> Some (Inl err)
      | Inr ptr \<Rightarrow>
          if ptr = 0 then Some (Inr result)
          else (case ReadString K k pid ptr of
                  Inl err \<Rightarrow> Some (Inl err)
                | Inr s \<Rightarrow> readArrayLoop be K k pid addr (i + 1) (result @ [s])))"

definition ReadStringArray ::
  "bool \<Rightarrow> ('k, 'r, 'w::len word) kernel \<Rightarrow> 'k \<Rightarrow> int \<Rightarrow> 'w word \<Rightarrow> (nat + string list) option" where
  "ReadStringArray be K k pid addr =
     (if addr = 0 then Some (Inr []) else readArrayLoop be K k pid addr 0 [])"

definition WriteBytes ::
  "('k, 'r, 'w::len word) kernel \<Rightarrow> 'k \<Rightarrow> int \<Rightarrow> 'w word \<Rightarrow> bytes \<Rightarrow> nat option \<times> 'k" where
  "WriteBytes K k pid addr data =
     (if data = [] then (None, k) else process_vm_writev K k pid addr data)"

fun stringPtrs :: "'w::len word \<Rightarrow> nat \<Rightarrow> string list \<Rightarrow> 'w word list" where
  "stringPtrs dataStart offset [] = []"
| "stringPtrs dataStart offset (s # strs) =
     (dataStart + word_of_nat offset) # stringPtrs dataStart (offset + length s + 1) strs"

definition stringBlock :: "string list \<Rightarrow> bytes" where
  "stringBlock strs = concat (map (\<lambda>s. s @ [NUL]) strs)"

definition tableSize :: "'w::len itself \<Rightarrow> string list \<Rightarrow> nat" where
  "tableSize w strs = (length strs + 1) * ptrSize w"

definition ptrTable :: "bool \<Rightarrow> 'w::len word \<Rightarrow> string list \<Rightarrow> bytes" where
  "ptrTable be dataStart strs = concat (map (ptrBytes be) (stringPtrs dataStart 0 strs @ [0]))"

definition WriteStringArray ::
  "bool \<Rightarrow> ('k, 'r, 'w::len word) kernel \<Rightarrow> 'k \<Rightarrow> int \<Rightarrow> 'w word \<Rightarrow> string list \<Rightarrow> (nat + nat) \<times> 'k" where
  "WriteStringArray be K k pid addr strs =
     (let tableSize = tableSize TYPE('w) strs;
          dataStart = addr + word_of_nat tableSize;
          stringData = stringBlock strs;
          ptrBuf = ptrTable be dataStart strs
      in case WriteBytes K k pid addr ptrBuf of
           (Some err, k) \<Rightarrow> (Inl err, k)
         | (None, k) \<Rightarrow>
             (case WriteBytes K k pid dataStart stringData of
                (Some err, k) \<Rightarrow> (Inl err, k)
              | (None, k) \<Rightarrow> (Inr (tableSize + length stringData), k)))"

section \<open>Pointer bytes\<close>

lemma foldr_bytes:
  "foldr (\<lambda>c n. of_char c + 256 * n) (map (\<lambda>i. char_of ((x::nat) div 256 ^ i)) [0..<n]) 0 = x mod 256 ^ n"
proof (induction n arbitrary: x)
  case (Suc n)
  have "map (\<lambda>i. char_of (x div 256 ^ i)) [0..<Suc n] =
      char_of x # map (\<lambda>i. char_of (x div 256 div 256 ^ i)) [0..<n]"
    by (subst upt_conv_Cons, simp)
      (simp del: upt_Suc add: map_Suc_upt [symmetric] comp_def div_mult2_eq)
  then have "foldr (\<lambda>c n. of_char c + 256 * n) (map (\<lambda>i. char_of (x div 256 ^ i)) [0..<Suc n]) 0 =
      x mod 256 + 256 * (x div 256 mod 256 ^ n)"
    using Suc.IH [of "x div 256"] by simp
  then show ?case by (simp add: mod_mult2_eq)
qed simp

lemma length_ptrBytes [simp]: "length (ptrBytes be (w::'w::len word)) = ptrSize TYPE('w)"
  by (simp add: ptrBytes_def Let_def)

lemma ptrSize_pos: "8 dvd LENGTH('w::len) \<Longrightarrow> 0 < ptrSize TYPE('w)"
  using len_gt_0 [where 'a = 'w] by (metis div_greater_zero_iff dvd_imp_le ptrSize_def zero_less_numeral)

lemma bytesPtr_ptrBytes:
  fixes w :: "'w::len word"
  assumes "8 dvd LENGTH('w)"
  shows "bytesPtr be (ptrBytes be w) = w"
proof -
  have "(256::nat) ^ ptrSize TYPE('w) = 2 ^ LENGTH('w)"
    using assms power_mult [of "2::nat" 8] by (auto simp: ptrSize_def elim!: dvdE)
  moreover have "unat w < 2 ^ LENGTH('w)" by (rule unsigned_less)
  ultimately show ?thesis
    by (simp add: bytesPtr_def ptrBytes_def Let_def foldr_bytes)
qed

section \<open>Memory contents\<close>

text \<open>The bytes from an address on are mapped and are the given ones.\<close>

definition memHas :: "('w::len word \<Rightarrow> char option) \<Rightarrow> 'w word \<Rightarrow> bytes \<Rightarrow> bool" where
  "memHas m a bs \<longleftrightarrow> (\<forall>i<length bs. m (a + word_of_nat i) = Some (bs ! i))"

definition mapped :: "('w::len word \<Rightarrow> char option) \<Rightarrow> 'w word \<Rightarrow> nat \<Rightarrow> bool" where
  "mapped m a n \<longleftrightarrow> (\<forall>i<n. m (a + word_of_nat i) \<noteq> None)"

lemma memHas_append:
  "memHas m a (xs @ ys) \<longleftrightarrow> memHas m a xs \<and> memHas m (a + word_of_nat (length xs)) ys"
proof
  assume h: "memHas m a (xs @ ys)"
  have "m (a + word_of_nat (length xs) + word_of_nat i) = Some (ys ! i)" if "i < length ys" for i
    using h that unfolding memHas_def by (auto dest: spec [of _ "length xs + i"] simp: add.assoc)
  moreover have "m (a + word_of_nat i) = Some (xs ! i)" if "i < length xs" for i
    using h that unfolding memHas_def by (auto dest: spec [of _ i] simp: nth_append)
  ultimately show "memHas m a xs \<and> memHas m (a + word_of_nat (length xs)) ys"
    by (simp add: memHas_def)
next
  assume h: "memHas m a xs \<and> memHas m (a + word_of_nat (length xs)) ys"
  show "memHas m a (xs @ ys)"
    unfolding memHas_def
  proof (intro allI impI)
    fix i
    assume i: "i < length (xs @ ys)"
    show "m (a + word_of_nat i) = Some ((xs @ ys) ! i)"
    proof (cases "i < length xs")
      case False
      then obtain j where j: "i = length xs + j" using le_Suc_ex not_less by blast
      then show ?thesis using h i unfolding memHas_def by (auto simp: add.assoc nth_append)
    qed (use h in \<open>auto simp: memHas_def nth_append\<close>)
  qed
qed

lemma mapped_append:
  "mapped m a (n + n') \<longleftrightarrow> mapped m a n \<and> mapped m (a + word_of_nat n) n'"
proof
  assume h: "mapped m a n \<and> mapped m (a + word_of_nat n) n'"
  have "m (a + word_of_nat i) \<noteq> None" if "i < n + n'" for i
  proof (cases "i < n")
    case False
    then obtain j where "i = n + j" using le_Suc_ex not_less by blast
    then show ?thesis using h that unfolding mapped_def by (auto simp: add.assoc)
  qed (use h in \<open>auto simp: mapped_def\<close>)
  then show "mapped m a (n + n')" by (simp add: mapped_def)
next
  assume h: "mapped m a (n + n')"
  then have "m (a + word_of_nat n + word_of_nat i) \<noteq> None" if "i < n'" for i
    using that unfolding mapped_def by (auto dest: spec [of _ "n + i"] simp: add.assoc)
  then show "mapped m a n \<and> mapped m (a + word_of_nat n) n'" using h by (simp add: mapped_def)
qed

lemma word_of_nat_inj_below:
  "i < 2 ^ LENGTH('w) \<Longrightarrow> j < 2 ^ LENGTH('w) \<Longrightarrow>
   (word_of_nat i :: 'w::len word) = word_of_nat j \<longleftrightarrow> i = j"
  by (metis of_nat_inverse)

section \<open>Frames\<close>

text \<open>
  Regions are offsets from one base address, below the size of the address space; a write to
  one leaves a disjoint one alone.
\<close>

lemma offset_ne:
  fixes c :: "'w::len word"
  assumes "i < 2 ^ LENGTH('w)" "j < 2 ^ LENGTH('w)" "i \<noteq> j"
  shows "c + word_of_nat i \<noteq> c + word_of_nat j"
  using assms word_of_nat_inj_below [where 'w = 'w] by simp

lemma memHas_frame:
  fixes c :: "'w::len word"
  assumes has: "memHas m (c + word_of_nat q) bs"
    and eq: "\<forall>x. (\<forall>i<n. x \<noteq> c + word_of_nat p + word_of_nat i) \<longrightarrow> m' x = m x"
    and dis: "q + length bs \<le> p \<or> p + n \<le> q"
    and fit: "q + length bs \<le> 2 ^ LENGTH('w)" "p + n \<le> 2 ^ LENGTH('w)"
  shows "memHas m' (c + word_of_nat q) bs"
  unfolding memHas_def
proof (intro allI impI)
  fix i
  assume i: "i < length bs"
  have "c + word_of_nat q + word_of_nat i \<noteq> c + word_of_nat p + word_of_nat j" if "j < n" for j
    using offset_ne [of "q + i" "p + j" c] i that dis fit by (auto simp: add.assoc)
  then have "m' (c + word_of_nat q + word_of_nat i) = m (c + word_of_nat q + word_of_nat i)"
    using eq by blast
  then show "m' (c + word_of_nat q + word_of_nat i) = Some (bs ! i)"
    using has i by (simp add: memHas_def)
qed

lemma mapped_frame:
  assumes "mapped m c n" "memHas m' a bs"
    and "\<forall>x. (\<forall>i<length bs. x \<noteq> a + word_of_nat i) \<longrightarrow> m' x = m x"
  shows "mapped m' c n"
  unfolding mapped_def
proof (intro allI impI)
  fix i
  assume "i < n"
  then have "m (c + word_of_nat i) \<noteq> None" using assms(1) by (simp add: mapped_def)
  then show "m' (c + word_of_nat i) \<noteq> None"
    using assms(2,3) unfolding memHas_def by (metis option.distinct(1))
qed

section \<open>String arrays in memory\<close>

text \<open>The bytes that represent an array of strings at an address.\<close>

definition arraySize :: "'w::len itself \<Rightarrow> string list \<Rightarrow> nat" where
  "arraySize w strs = tableSize w strs + length (stringBlock strs)"

definition arrayImage :: "bool \<Rightarrow> 'w::len word \<Rightarrow> string list \<Rightarrow> bytes" where
  "arrayImage be a strs = ptrTable be (a + word_of_nat (tableSize TYPE('w) strs)) strs @ stringBlock strs"

lemma length_stringPtrs [simp]: "length (stringPtrs d off strs) = length strs"
  by (induction d off strs rule: stringPtrs.induct) auto

lemma length_concat_ptrs:
  "length (concat (map (ptrBytes be) (ps :: 'w::len word list))) = length ps * ptrSize TYPE('w)"
  by (induction ps) auto

lemma length_ptrTable [simp]: "length (ptrTable be (d::'w::len word) strs) = tableSize TYPE('w) strs"
  unfolding ptrTable_def length_concat_ptrs by (simp add: tableSize_def)

lemma length_arrayImage [simp]: "length (arrayImage be (a::'w::len word) strs) = arraySize TYPE('w) strs"
  by (simp add: arrayImage_def arraySize_def)

lemma stringBlock_simps [simp]:
  "stringBlock [] = []" "stringBlock (s # strs) = s @ NUL # stringBlock strs"
  by (simp_all add: stringBlock_def)

lemma stringPtrs_memHas:
  "memHas m (d + word_of_nat off) (stringBlock strs) \<Longrightarrow> (p, s) \<in> set (zip (stringPtrs d off strs) strs) \<Longrightarrow>
   memHas m p (s @ [NUL])"
proof (induction d off strs rule: stringPtrs.induct)
  case (2 d off x strs)
  have split: "stringBlock (x # strs) = (x @ [NUL]) @ stringBlock strs" by simp
  have "memHas m (d + word_of_nat off) (x @ [NUL])"
    "memHas m (d + word_of_nat (off + length x + 1)) (stringBlock strs)"
    using "2.prems"(1) unfolding split memHas_append by (simp_all add: algebra_simps)
  with 2 show ?case by auto
qed simp

lemma stringPtrs_bounds:
  "p \<in> set (stringPtrs d off strs) \<Longrightarrow> \<exists>o'. p = d + word_of_nat o' \<and> o' < off + length (stringBlock strs)"
proof (induction d off strs rule: stringPtrs.induct)
  case (2 d off x strs)
  show ?case
  proof (cases "p = d + word_of_nat off")
    case False
    with 2 obtain o' where "p = d + word_of_nat o'" "o' < off + length x + 1 + length (stringBlock strs)"
      by auto
    then show ?thesis by (auto intro!: exI [of _ o'])
  qed (auto intro: exI [of _ off])
qed simp

lemma unat_offset:
  fixes a :: "'w::len word"
  shows "unat a + n < 2 ^ LENGTH('w) \<Longrightarrow> unat (a + word_of_nat n) = unat a + n"
  by (simp add: unat_word_ariths unat_of_nat)

lemma stringPtrs_nonzero:
  fixes a :: "'w::len word"
  assumes "8 dvd LENGTH('w)" "unat a + arraySize TYPE('w) strs \<le> 2 ^ LENGTH('w)"
  shows "0 \<notin> set (stringPtrs (a + word_of_nat (tableSize TYPE('w) strs)) 0 strs)"
proof
  let ?t = "tableSize TYPE('w) strs"
  assume "0 \<in> set (stringPtrs (a + word_of_nat ?t) 0 strs)"
  then obtain o' where o': "0 = a + word_of_nat ?t + word_of_nat o'" "o' < length (stringBlock strs)"
    using stringPtrs_bounds by fastforce
  then have z: "a + word_of_nat (?t + o') = 0" by (simp add: add.assoc)
  have "unat a + (?t + o') < 2 ^ LENGTH('w)" using o'(2) assms(2) by (simp add: arraySize_def)
  then have "unat (a + word_of_nat (?t + o')) = unat a + (?t + o')" by (rule unat_offset)
  then have "?t = 0" using z by simp
  then show False using ptrSize_pos [OF assms(1)] by (simp add: tableSize_def)
qed

section \<open>The kernel laws\<close>

locale tracee_memory =
  fixes K :: "('k, 'r, 'w::len word) kernel" and mem :: "'k \<Rightarrow> int \<Rightarrow> 'w word \<Rightarrow> char option"
  assumes readv: "memHas (mem k pid) a bs \<Longrightarrow> bs \<noteq> [] \<Longrightarrow> length bs \<le> n \<Longrightarrow>
      \<exists>rest. process_vm_readv K k pid a n = Inr (bs @ rest)"
    and writev: "mapped (mem k pid) a (length bs) \<Longrightarrow> bs \<noteq> [] \<Longrightarrow> length bs \<le> 2 ^ LENGTH('w) \<Longrightarrow>
      \<exists>k'. process_vm_writev K k pid a bs = (None, k') \<and> memHas (mem k' pid) a bs \<and>
        (\<forall>x. (\<forall>i<length bs. x \<noteq> a + word_of_nat i) \<longrightarrow> mem k' pid x = mem k pid x)"
    and setregs: "ptrace_setregs K k pid r = (None, k') \<Longrightarrow>
      ptrace_getregs K k' pid = Inr r \<and> mem k' pid = mem k pid"
begin

lemma ReadString_ok:
  assumes "memHas (mem k pid) a (s @ [NUL])" "NUL \<notin> set s" "length s < 4096" "a \<noteq> 0"
  shows "ReadString K k pid a = Inr s"
proof -
  obtain rest where "process_vm_readv K k pid a 4096 = Inr (s @ [NUL] @ rest)"
    using readv [OF assms(1), of 4096] assms(3) by auto
  then show ?thesis using assms(2,4) IndexByte_append [OF assms(2)] by (simp add: ReadString_def)
qed

lemma ReadPointer_ok:
  assumes "memHas (mem k pid) a (ptrBytes be w)" "8 dvd LENGTH('w)"
  shows "ReadPointer be K k pid a = Inr w"
proof -
  have ne: "ptrBytes be w \<noteq> []"
    using ptrSize_pos [OF assms(2)] by (metis length_greater_0_conv length_ptrBytes)
  obtain rest where "process_vm_readv K k pid a (ptrSize TYPE('w)) = Inr (ptrBytes be w @ rest)"
    using readv [OF assms(1) ne, of "ptrSize TYPE('w)"] by auto
  then show ?thesis by (simp add: ReadPointer_def Let_def bytesPtr_ptrBytes [OF assms(2)])
qed

text \<open>A null-terminated array of pointers to the given strings.\<close>

lemma readArrayLoop_ok:
  assumes "8 dvd LENGTH('w)"
  shows "\<lbrakk>length ptrs = length strs; 0 \<notin> set ptrs;
     \<forall>(p, s)\<in>set (zip ptrs strs). memHas (mem k pid) p (s @ [NUL]) \<and> NUL \<notin> set s \<and> length s < 4096;
     memHas (mem k pid) (addr + word_of_nat i * word_of_nat (ptrSize TYPE('w)))
       (concat (map (ptrBytes be) (ptrs @ [0])))\<rbrakk>
   \<Longrightarrow> readArrayLoop be K k pid addr i acc = Some (Inr (acc @ strs))"
proof (induction ptrs strs arbitrary: i acc rule: list_induct2')
  case 1
  then show ?case by (subst readArrayLoop.simps) (simp add: ReadPointer_ok [OF _ assms])
next
  case (4 p ptrs s strs)
  let ?a = "addr + word_of_nat i * word_of_nat (ptrSize TYPE('w)) :: 'w word"
  have tab: "memHas (mem k pid) ?a (ptrBytes be p)"
    "memHas (mem k pid) (addr + word_of_nat (i + 1) * word_of_nat (ptrSize TYPE('w)))
       (concat (map (ptrBytes be) (ptrs @ [0])))"
    using "4.prems"(4) by (simp_all add: memHas_append algebra_simps)
  have rd: "ReadPointer be K k pid ?a = Inr p" using ReadPointer_ok [OF tab(1) assms] .
  have st: "ReadString K k pid p = Inr s" using "4.prems" by (intro ReadString_ok) auto
  have "readArrayLoop be K k pid addr (i + 1) (acc @ [s]) = Some (Inr ((acc @ [s]) @ strs))"
    using "4.prems" tab(2) by (intro "4.IH") auto
  then show ?case using "4.prems"(2) by (subst readArrayLoop.simps) (simp add: rd st)
qed auto

lemma WriteBytes_ok:
  assumes "mapped (mem k pid) a (length bs)" "length bs \<le> 2 ^ LENGTH('w)"
  obtains k' where "WriteBytes K k pid a bs = (None, k')" "memHas (mem k' pid) a bs"
    "\<forall>x. (\<forall>i<length bs. x \<noteq> a + word_of_nat i) \<longrightarrow> mem k' pid x = mem k pid x"
proof (cases "bs = []")
  case True
  then show ?thesis using that [of k] by (simp add: WriteBytes_def memHas_def)
next
  case False
  then show ?thesis using that writev [OF assms(1) False assms(2)] by (auto simp: WriteBytes_def)
qed

lemma WriteStringArray_ok:
  fixes a :: "'w word"
  assumes d8: "8 dvd LENGTH('w)" and map: "mapped (mem k pid) a (arraySize TYPE('w) strs)"
    and fit: "arraySize TYPE('w) strs \<le> 2 ^ LENGTH('w)"
  obtains k' where "WriteStringArray be K k pid a strs = (Inr (arraySize TYPE('w) strs), k')"
    "memHas (mem k' pid) a (arrayImage be a strs)"
    "\<forall>x. (\<forall>i<arraySize TYPE('w) strs. x \<noteq> a + word_of_nat i) \<longrightarrow> mem k' pid x = mem k pid x"
proof -
  let ?t = "tableSize TYPE('w) strs"
  let ?tab = "ptrTable be (a + word_of_nat ?t) strs"
  let ?dat = "stringBlock strs"
  have len: "length ?tab = ?t" by simp
  have sz: "arraySize TYPE('w) strs = ?t + length ?dat" by (simp add: arraySize_def)
  have fits: "?t \<le> 2 ^ LENGTH('w)" "length ?dat \<le> 2 ^ LENGTH('w)"
    using fit unfolding sz by linarith+
  have m: "mapped (mem k pid) a ?t" "mapped (mem k pid) (a + word_of_nat ?t) (length ?dat)"
    using map unfolding sz mapped_append by auto
  obtain k1 where k1: "WriteBytes K k pid a ?tab = (None, k1)" "memHas (mem k1 pid) a ?tab"
    "\<forall>x. (\<forall>i<?t. x \<noteq> a + word_of_nat i) \<longrightarrow> mem k1 pid x = mem k pid x"
    using WriteBytes_ok [of k pid a ?tab] m(1) fits(1) unfolding len by blast
  have m1: "mapped (mem k1 pid) (a + word_of_nat ?t) (length ?dat)"
    using mapped_frame [OF m(2) k1(2)] k1(3) len by simp
  obtain k2 where k2: "WriteBytes K k1 pid (a + word_of_nat ?t) ?dat = (None, k2)"
    "memHas (mem k2 pid) (a + word_of_nat ?t) ?dat"
    "\<forall>x. (\<forall>i<length ?dat. x \<noteq> a + word_of_nat ?t + word_of_nat i) \<longrightarrow> mem k2 pid x = mem k1 pid x"
    by (rule WriteBytes_ok [OF m1 fits(2)])
  have "memHas (mem k2 pid) (a + word_of_nat 0) ?tab"
    by (rule memHas_frame [of "mem k1 pid" a 0 ?tab "length ?dat" ?t])
      (use k1(2) k2(3) fit sz fits in simp_all)
  then have img: "memHas (mem k2 pid) a (arrayImage be a strs)"
    using k2(2) len by (simp only: arrayImage_def memHas_append) simp
  have "mem k2 pid x = mem k pid x" if "\<forall>i<?t + length ?dat. x \<noteq> a + word_of_nat i" for x
  proof -
    have "x \<noteq> a + word_of_nat ?t + word_of_nat i" if "i < length ?dat" for i
      using \<open>\<forall>i<?t + length ?dat. x \<noteq> a + word_of_nat i\<close> that
      by (auto dest: spec [of _ "?t + i"] simp: add.assoc)
    then show ?thesis using that k1(3) k2(3) by simp
  qed
  with img show ?thesis
    using that [of k2] k1(1) k2(1) by (simp add: WriteStringArray_def Let_def sz)
qed

lemma ReadStringArray_ok:
  fixes a :: "'w word"
  assumes d8: "8 dvd LENGTH('w)" and img: "memHas (mem k pid) a (arrayImage be a strs)"
    and fit: "unat a + arraySize TYPE('w) strs \<le> 2 ^ LENGTH('w)" and nz: "a \<noteq> 0"
    and str: "\<forall>s\<in>set strs. NUL \<notin> set s \<and> length s < 4096"
  shows "ReadStringArray be K k pid a = Some (Inr strs)"
proof -
  let ?t = "tableSize TYPE('w) strs"
  let ?ptrs = "stringPtrs (a + word_of_nat ?t) 0 strs"
  have tab: "memHas (mem k pid) a (concat (map (ptrBytes be) (?ptrs @ [0])))"
    and dat: "memHas (mem k pid) (a + word_of_nat ?t + word_of_nat 0) (stringBlock strs)"
    using img unfolding arrayImage_def memHas_append length_ptrTable
    unfolding ptrTable_def by simp_all
  have "readArrayLoop be K k pid a 0 [] = Some (Inr ([] @ strs))"
  proof (rule readArrayLoop_ok [OF d8, where ptrs = ?ptrs])
    show "0 \<notin> set ?ptrs" using stringPtrs_nonzero [OF d8 fit] .
    show "\<forall>(p, s)\<in>set (zip ?ptrs strs). memHas (mem k pid) p (s @ [NUL]) \<and> NUL \<notin> set s \<and> length s < 4096"
      using stringPtrs_memHas [OF dat] str by (auto dest: set_zip_rightD)
  qed (use tab in simp_all)
  then show ?thesis using nz by (simp add: ReadStringArray_def)
qed

end

section \<open>Termination of the array read\<close>

text \<open>An entry that ends the read: it cannot be read, is null, or names a string that cannot be read.\<close>

definition arrayStops :: "bool \<Rightarrow> ('k, 'r, 'w::len word) kernel \<Rightarrow> 'k \<Rightarrow> int \<Rightarrow> 'w word \<Rightarrow> nat \<Rightarrow> bool" where
  "arrayStops be K k pid addr i \<longleftrightarrow>
     (case ReadPointer be K k pid (addr + word_of_nat i * word_of_nat (ptrSize TYPE('w))) of
        Inl err \<Rightarrow> True
      | Inr ptr \<Rightarrow> ptr = 0 \<or> (case ReadString K k pid ptr of Inl err \<Rightarrow> True | Inr s \<Rightarrow> False))"

lemma readArrayLoop_stops:
  "readArrayLoop be (K :: ('k, 'r, 'w::len word) kernel) k pid addr i acc = Some r \<Longrightarrow> \<exists>j\<ge>i. arrayStops be K k pid addr j"
proof (rule readArrayLoop.raw_induct [where P = "\<lambda>be K k pid addr i acc r. \<exists>j\<ge>i. arrayStops be K k pid addr j", rotated])
  fix f be i acc r pid and k :: 'k and K :: "('k, 'r, 'w::len word) kernel" and addr :: "'w word"
  assume 1: "\<And>be K k pid addr i acc r. f be K k pid addr i acc = Some r \<Longrightarrow> \<exists>j\<ge>i. arrayStops be K k pid addr j"
    "(case ReadPointer be K k pid (addr + word_of_nat i * word_of_nat (ptrSize TYPE('w::len))) of
        Inl err \<Rightarrow> Some (Inl err)
      | Inr ptr \<Rightarrow> if ptr = 0 then Some (Inr acc)
          else (case ReadString K k pid ptr of
                  Inl err \<Rightarrow> Some (Inl err)
                | Inr s \<Rightarrow> f be K k pid addr (i + 1) (acc @ [s]))) = Some r"
  show "\<exists>j\<ge>i. arrayStops be K k pid addr j"
  proof (cases "arrayStops be K k pid addr i")
    case False
    then obtain s where "f be K k pid addr (i + 1) (acc @ [s]) = Some r"
      using 1(2) by (auto simp: arrayStops_def split: sum.splits if_splits)
    then obtain j where "j \<ge> i + 1" "arrayStops be K k pid addr j" using 1(1) by blast
    then show ?thesis by (meson add_leD1)
  qed blast
qed

lemma readArrayLoop_returns:
  "arrayStops be K k pid addr (i + n) \<Longrightarrow> \<exists>r. readArrayLoop be K k pid addr i acc = Some r"
proof (induction n arbitrary: i acc)
  case 0
  then show ?case by (subst readArrayLoop.simps) (auto simp: arrayStops_def split: sum.splits)
next
  case (Suc n)
  then have "\<exists>r. readArrayLoop be K k pid addr (i + 1) acc' = Some r" for acc' by simp
  then show ?case by (subst readArrayLoop.simps) (auto split: sum.splits)
qed

text \<open>
  C19. Reading an argument or environment array from a tracee ends exactly when the array does: the
  loop has no bound of its own, and it returns if and only if the address is null or some entry,
  at any index and with the address wrapping around, is null, unreadable, or names an unreadable
  string. A tracee in which no entry does keeps the tracer in the loop.
\<close>

theorem ReadStringArray_terminates:
  "(\<exists>r. ReadStringArray be K k pid addr = Some r) \<longleftrightarrow> addr = 0 \<or> (\<exists>i. arrayStops be K k pid addr i)"
proof (cases "addr = 0")
  case False
  have "(\<exists>r. readArrayLoop be K k pid addr 0 [] = Some r) \<longleftrightarrow> (\<exists>i. arrayStops be K k pid addr i)"
    using readArrayLoop_stops [of be K k pid addr 0] readArrayLoop_returns [of be K k pid addr 0] by auto
  with False show ?thesis by (simp add: ReadStringArray_def)
qed (simp add: ReadStringArray_def)

end
