(* ===== verification/Layout.thy ===== *)
theory Layout
  imports TraceeMemory
begin

text \<open>
  The scratch area that the tracer uses below the tracee's stack pointer: the alignment and size
  computations of \<open>pkg/tracer/tracer.go\<close>, address intervals as natural numbers, and, under the
  memory laws, what the three writes of an intercepted exec leave in memory.
\<close>

unbundle bit_operations_syntax

section \<open>Definitions\<close>

definition estimateWriteSize :: "'w::len itself \<Rightarrow> string \<Rightarrow> string list \<Rightarrow> string list \<Rightarrow> nat" where
  "estimateWriteSize w shimPath argv envp =
     length shimPath + 1 + ptrSize w
     + (length argv + 1) * ptrSize w + sum_list (map (\<lambda>s. length s + 1) argv)
     + ptrSize w
     + (length envp + 1) * ptrSize w + sum_list (map (\<lambda>s. length s + 1) envp)"

definition alignDown :: "'w::len word \<Rightarrow> 'w word" where
  "alignDown addr = addr AND NOT (word_of_nat (ptrSize TYPE('w)) - 1)"

definition alignUp :: "'w::len word \<Rightarrow> 'w word" where
  "alignUp addr = (addr + word_of_nat (ptrSize TYPE('w)) - 1) AND NOT (word_of_nat (ptrSize TYPE('w)) - 1)"

section \<open>Address intervals\<close>

lemma unat_below: "unat (x :: 'w::len word) < 2 ^ LENGTH('w)"
  by (rule unsigned_less)

lemma unat_add_small:
  fixes x :: "'w::len word"
  shows "unat x + n < 2 ^ LENGTH('w) \<Longrightarrow> unat (x + word_of_nat n) = unat x + n"
  by (simp add: unat_word_ariths unsigned_of_nat take_bit_nat_eq_self)

lemma unat_sub_small:
  fixes x :: "'w::len word"
  assumes "n \<le> unat x"
  shows "unat (x - word_of_nat n) = unat x - n"
proof -
  have "n < 2 ^ LENGTH('w)" using assms unat_below [of x] by linarith
  then have u: "unat (word_of_nat n :: 'w word) = n" by (simp add: unsigned_of_nat take_bit_nat_eq_self)
  then have "word_of_nat n \<le> x" using assms by (simp add: word_le_nat_alt)
  then show ?thesis using u by (simp add: unat_sub)
qed

lemma in_range:
  fixes a x :: "'w::len word"
  assumes "unat a + n \<le> 2 ^ LENGTH('w)"
  shows "(\<exists>i<n. x = a + word_of_nat i) \<longleftrightarrow> unat a \<le> unat x \<and> unat x < unat a + n"
proof
  assume "\<exists>i<n. x = a + word_of_nat i"
  then obtain i where i: "i < n" "x = a + word_of_nat i" by blast
  have "unat a + i < 2 ^ LENGTH('w)" using assms i(1) by linarith
  then have "unat x = unat a + i" using i(2) unat_add_small by simp
  then show "unat a \<le> unat x \<and> unat x < unat a + n" using i(1) by linarith
next
  assume h: "unat a \<le> unat x \<and> unat x < unat a + n"
  then have "x = a + word_of_nat (unat x - unat a)" by simp
  then show "\<exists>i<n. x = a + word_of_nat i" using h by (intro exI [of _ "unat x - unat a"]) auto
qed

lemma out_range:
  fixes a x :: "'w::len word"
  assumes "unat a + n \<le> 2 ^ LENGTH('w)"
  shows "(\<forall>i<n. x \<noteq> a + word_of_nat i) \<longleftrightarrow> unat x < unat a \<or> unat a + n \<le> unat x"
  using in_range [OF assms, of x] by (metis not_le)

text \<open>All addresses of an interval are mapped.\<close>

definition mappedBetween :: "('w::len word \<Rightarrow> char option) \<Rightarrow> nat \<Rightarrow> nat \<Rightarrow> bool" where
  "mappedBetween m lo hi \<longleftrightarrow> (\<forall>x. lo \<le> unat x \<and> unat x < hi \<longrightarrow> m x \<noteq> None)"

lemma mappedBetween_mapped:
  fixes a :: "'w::len word"
  assumes "mappedBetween m lo hi" "lo \<le> unat a" "unat a + n \<le> hi" "unat a + n \<le> 2 ^ LENGTH('w)"
  shows "mapped m a n"
  unfolding mapped_def
proof (intro allI impI)
  fix i
  assume "i < n"
  then have "unat a \<le> unat (a + word_of_nat i) \<and> unat (a + word_of_nat i) < unat a + n"
    using in_range [OF assms(4), of "a + word_of_nat i"] by blast
  then show "m (a + word_of_nat i) \<noteq> None" using assms(1-3) unfolding mappedBetween_def by fastforce
qed

lemma memHas_keep:
  fixes a :: "'w::len word"
  assumes "memHas m a bs" "unat a + length bs \<le> 2 ^ LENGTH('w)"
    and "\<forall>x. unat a \<le> unat x \<and> unat x < unat a + length bs \<longrightarrow> m' x = m x"
  shows "memHas m' a bs"
  unfolding memHas_def
proof (intro allI impI)
  fix i
  assume i: "i < length bs"
  then have "m' (a + word_of_nat i) = m (a + word_of_nat i)"
    using assms(3) in_range [OF assms(2), of "a + word_of_nat i"] by blast
  then show "m' (a + word_of_nat i) = Some (bs ! i)" using assms(1) i by (simp add: memHas_def)
qed

lemma memHas_Between:
  fixes a :: "'w::len word" and m :: "'w word \<Rightarrow> char option"
  assumes "mappedBetween m lo hi" "memHas m' a bs" "unat a + length bs \<le> 2 ^ LENGTH('w)"
    and "\<forall>x. unat x < unat a \<or> unat a + length bs \<le> unat x \<longrightarrow> m' x = m x"
  shows "mappedBetween m' lo hi"
  unfolding mappedBetween_def
proof (intro allI impI)
  fix x :: "'w word"
  assume x: "lo \<le> unat x \<and> unat x < hi"
  show "m' x \<noteq> None"
  proof (cases "unat x < unat a \<or> unat a + length bs \<le> unat x")
    case True
    then have "m' x = m x" using assms(4) by blast
    then show ?thesis using assms(1) x by (simp add: mappedBetween_def)
  next
    case False
    then obtain i where "i < length bs" "x = a + word_of_nat i"
      using in_range [OF assms(3), of x] by (metis not_le)
    then show ?thesis using assms(2) by (simp add: memHas_def)
  qed
qed

section \<open>Alignment\<close>

lemma and_not_mask_unat:
  fixes x :: "'w::len word"
  shows "unat (x AND NOT (mask n)) = unat x - unat x mod 2 ^ n"
proof -
  have "x AND NOT (mask n) = push_bit n (drop_bit n x)"
    by (rule bit_eqI) (auto simp: bit_simps dest: bit_imp_le_length)
  moreover have "push_bit n (drop_bit n x) + take_bit n x = x" by (rule bits_ident)
  ultimately have e: "x AND NOT (mask n) = x - take_bit n x" by (metis add_diff_cancel_right')
  have t: "unat (take_bit n x) = unat x mod 2 ^ n"
    unfolding unsigned_take_bit_eq by (rule take_bit_eq_mod)
  then have "take_bit n x \<le> x" by (simp add: word_le_nat_alt)
  then show ?thesis unfolding e using t by (simp add: unat_sub)
qed

lemma ptrSize_mask:
  assumes "LENGTH('w::len) = 32 \<or> LENGTH('w) = 64"
  obtains n where "ptrSize TYPE('w) = 2 ^ n" "(word_of_nat (ptrSize TYPE('w)) - 1 :: 'w word) = mask n"
  using assms
proof
  assume "LENGTH('w) = 32"
  then show ?thesis using that [of 2] by (simp add: ptrSize_def mask_eq_exp_minus_1)
next
  assume "LENGTH('w) = 64"
  then show ?thesis using that [of 3] by (simp add: ptrSize_def mask_eq_exp_minus_1)
qed

lemma alignDown_unat:
  fixes x :: "'w::len word"
  assumes "LENGTH('w) = 32 \<or> LENGTH('w) = 64"
  shows "unat (alignDown x) = unat x - unat x mod ptrSize TYPE('w)"
proof (rule ptrSize_mask [OF assms])
  fix n
  assume n: "ptrSize TYPE('w) = 2 ^ n" "(word_of_nat (ptrSize TYPE('w)) - 1 :: 'w word) = mask n"
  have "unat (alignDown x) = unat (x AND NOT (mask n))" unfolding alignDown_def n(2) ..
  then show ?thesis unfolding and_not_mask_unat n(1) .
qed

lemma alignUp_bounds:
  fixes x :: "'w::len word"
  assumes w: "LENGTH('w) = 32 \<or> LENGTH('w) = 64" and fit: "unat x + ptrSize TYPE('w) \<le> 2 ^ LENGTH('w)"
  shows "unat x \<le> unat (alignUp x)" "unat (alignUp x) < unat x + ptrSize TYPE('w)"
    "ptrSize TYPE('w) dvd unat (alignUp x)"
proof -
  let ?P = "ptrSize TYPE('w)"
  have P: "0 < ?P" using w by (auto simp: ptrSize_def)
  have "x + word_of_nat ?P - 1 = x + word_of_nat (?P - 1)" using P by (cases ?P) simp_all
  moreover have "unat (x + word_of_nat (?P - 1)) = unat x + (?P - 1)"
    by (rule unat_add_small) (use fit P in linarith)
  ultimately have u: "unat (x + word_of_nat ?P - 1) = unat x + (?P - 1)" by (simp only:)
  have e: "unat (alignUp x) = (unat x + (?P - 1)) - (unat x + (?P - 1)) mod ?P"
    using alignDown_unat [OF w, of "x + word_of_nat ?P - 1"] unfolding u
    by (simp add: alignUp_def alignDown_def)
  have "(unat x + (?P - 1)) mod ?P < ?P" using P by simp
  then show "unat x \<le> unat (alignUp x)" "unat (alignUp x) < unat x + ?P"
    unfolding e using P by linarith+
  show "?P dvd unat (alignUp x)" unfolding e by (simp add: dvd_minus_mod)
qed

lemma length_stringBlock: "length (stringBlock strs) = sum_list (map (\<lambda>s. length s + 1) strs)"
  by (induction strs) (simp_all add: stringBlock_def)

lemma estimate_eq:
  "estimateWriteSize w shim argv envp =
     length shim + 1 + ptrSize w + arraySize w argv + ptrSize w + arraySize w envp"
  by (simp add: estimateWriteSize_def arraySize_def tableSize_def length_stringBlock)

text \<open>
  The addresses of the three parts: they start below the estimate, follow each other without
  overlap, and end 256 bytes below the stack pointer or earlier.
\<close>

definition stageBase :: "'w::len word \<Rightarrow> nat \<Rightarrow> 'w word" where
  "stageBase sp n = alignDown (sp - 256 - word_of_nat n)"

lemma stage_layout:
  fixes sp :: "'w::len word"
  assumes w: "LENGTH('w) = 32 \<or> LENGTH('w) = 64"
    and room: "256 + (l1 + ptrSize TYPE('w) + l2 + ptrSize TYPE('w) + l3) + ptrSize TYPE('w) \<le> unat sp"
    and c: "c = stageBase sp (l1 + ptrSize TYPE('w) + l2 + ptrSize TYPE('w) + l3)"
    and a: "a = alignUp (c + word_of_nat l1)" and e: "e = alignUp (a + word_of_nat l2)"
  shows "unat sp - 256 - (l1 + ptrSize TYPE('w) + l2 + ptrSize TYPE('w) + l3) - ptrSize TYPE('w) < unat c"
    "unat c + l1 \<le> unat a" "unat a + l2 \<le> unat e" "unat e + l3 \<le> unat sp - 256"
    "unat a < unat c + l1 + ptrSize TYPE('w)" "unat e < unat a + l2 + ptrSize TYPE('w)"
proof -
  let ?P = "ptrSize TYPE('w)" and ?t = "l1 + ptrSize TYPE('w) + l2 + ptrSize TYPE('w) + l3"
  have P: "0 < ?P" using w by (auto simp: ptrSize_def)
  note sp = unat_below [of sp]
  have "unat (sp - 256) = unat sp - 256" using unat_sub_small [of 256 sp] room by simp
  then have s: "unat (sp - 256 - word_of_nat ?t) = unat sp - 256 - ?t"
    using unat_sub_small [of ?t "sp - 256"] room by simp
  have "(unat sp - 256 - ?t) mod ?P < ?P" using P by simp
  moreover have cu: "unat c = (unat sp - 256 - ?t) - (unat sp - 256 - ?t) mod ?P"
    unfolding c stageBase_def alignDown_unat [OF w] s ..
  ultimately show lo: "unat sp - 256 - ?t - ?P < unat c" using room by linarith
  have cup: "unat c \<le> unat sp - 256 - ?t" unfolding cu by simp
  have c1: "unat (c + word_of_nat l1) = unat c + l1"
    by (rule unat_add_small) (use cup sp room in linarith)
  have fa: "unat (c + word_of_nat l1) + ?P \<le> 2 ^ LENGTH('w)" unfolding c1 using cup sp room by linarith
  show a1: "unat c + l1 \<le> unat a" and a2: "unat a < unat c + l1 + ?P"
    using alignUp_bounds [OF w fa] unfolding a c1 by auto
  have e1: "unat (a + word_of_nat l2) = unat a + l2"
    by (rule unat_add_small) (use a2 cup sp room in linarith)
  have fe: "unat (a + word_of_nat l2) + ?P \<le> 2 ^ LENGTH('w)" unfolding e1 using a2 cup sp room by linarith
  show "unat a + l2 \<le> unat e" and e2: "unat e < unat a + l2 + ?P"
    using alignUp_bounds [OF w fe] unfolding e e1 by auto
  show "unat e + l3 \<le> unat sp - 256" using e2 a2 cup room by linarith
qed

section \<open>Staging an exec\<close>

context tracee_memory
begin

text \<open>A write to an interval of a mapped range, with its frame in terms of addresses.\<close>

lemma WriteBytes_between:
  assumes "mappedBetween (mem k pid) lo hi" "lo \<le> unat a" "unat a + length bs \<le> hi" "hi \<le> 2 ^ LENGTH('w)"
  obtains k' where "WriteBytes K k pid a bs = (None, k')" "memHas (mem k' pid) a bs"
    "\<forall>x. unat x < unat a \<or> unat a + length bs \<le> unat x \<longrightarrow> mem k' pid x = mem k pid x"
    "mappedBetween (mem k' pid) lo hi"
proof -
  have fit: "unat a + length bs \<le> 2 ^ LENGTH('w)" using assms(3,4) by linarith
  then have len: "length bs \<le> 2 ^ LENGTH('w)" by linarith
  obtain k' where k': "WriteBytes K k pid a bs = (None, k')" "memHas (mem k' pid) a bs"
    "\<forall>x. (\<forall>i<length bs. x \<noteq> a + word_of_nat i) \<longrightarrow> mem k' pid x = mem k pid x"
    by (rule WriteBytes_ok [OF mappedBetween_mapped [OF assms(1-3) fit] len])
  then have "\<forall>x. unat x < unat a \<or> unat a + length bs \<le> unat x \<longrightarrow> mem k' pid x = mem k pid x"
    unfolding out_range [OF fit] by blast
  then show ?thesis using that k' memHas_Between [OF assms(1) k'(2) fit] by blast
qed

lemma WriteStringArray_between:
  assumes "8 dvd LENGTH('w)" "mappedBetween (mem k pid) lo hi" "lo \<le> unat a"
    "unat a + arraySize TYPE('w) strs \<le> hi" "hi \<le> 2 ^ LENGTH('w)"
  obtains k' where "WriteStringArray be K k pid a strs = (Inr (arraySize TYPE('w) strs), k')"
    "memHas (mem k' pid) a (arrayImage be a strs)"
    "\<forall>x. unat x < unat a \<or> unat a + arraySize TYPE('w) strs \<le> unat x \<longrightarrow> mem k' pid x = mem k pid x"
    "mappedBetween (mem k' pid) lo hi"
proof -
  have fit: "unat a + arraySize TYPE('w) strs \<le> 2 ^ LENGTH('w)" using assms(4,5) by linarith
  then have len: "arraySize TYPE('w) strs \<le> 2 ^ LENGTH('w)" by linarith
  obtain k' where k': "WriteStringArray be K k pid a strs = (Inr (arraySize TYPE('w) strs), k')"
    "memHas (mem k' pid) a (arrayImage be a strs)"
    "\<forall>x. (\<forall>i<arraySize TYPE('w) strs. x \<noteq> a + word_of_nat i) \<longrightarrow> mem k' pid x = mem k pid x"
    by (rule WriteStringArray_ok [OF assms(1) mappedBetween_mapped [OF assms(2-4) fit] len])
  then have fr: "\<forall>x. unat x < unat a \<or> unat a + arraySize TYPE('w) strs \<le> unat x \<longrightarrow> mem k' pid x = mem k pid x"
    unfolding out_range [OF fit] by blast
  have im: "length (arrayImage be a strs) = arraySize TYPE('w) strs"
    by (simp add: arrayImage_def arraySize_def)
  have "mappedBetween (mem k' pid) lo hi"
    by (rule memHas_Between [OF assms(2) k'(2)]) (use fit fr im in simp_all)
  then show ?thesis using that k' fr by blast
qed

text \<open>The three writes of an intercepted exec, one after the other.\<close>

lemma stage_exec:
  fixes sp :: "'w word"
  assumes w: "LENGTH('w) = 32 \<or> LENGTH('w) = 64"
    and tot: "t = estimateWriteSize TYPE('w) shim argv envp"
    and room: "256 + t + ptrSize TYPE('w) \<le> unat sp"
    and map: "mappedBetween (mem k pid) (unat sp - 256 - t - ptrSize TYPE('w)) (unat sp - 256)"
    and c: "c = stageBase sp t" and a: "a = alignUp (c + word_of_nat (length shim + 1))"
    and e: "e = alignUp (a + word_of_nat (arraySize TYPE('w) argv))"
  obtains k1 k2 k3 where "WriteBytes K k pid c (shim @ [NUL]) = (None, k1)"
    "WriteStringArray be K k1 pid a argv = (Inr (arraySize TYPE('w) argv), k2)"
    "WriteStringArray be K k2 pid e envp = (Inr (arraySize TYPE('w) envp), k3)"
    "memHas (mem k3 pid) c (shim @ [NUL])" "memHas (mem k3 pid) a (arrayImage be a argv)"
    "memHas (mem k3 pid) e (arrayImage be e envp)"
    "unat a + arraySize TYPE('w) argv \<le> 2 ^ LENGTH('w)" "unat e + arraySize TYPE('w) envp \<le> 2 ^ LENGTH('w)"
    "c \<noteq> 0" "a \<noteq> 0" "e \<noteq> 0" "\<forall>x. unat sp - 256 \<le> unat x \<longrightarrow> mem k3 pid x = mem k pid x"
proof -
  let ?P = "ptrSize TYPE('w)" and ?sa = "arraySize TYPE('w) argv" and ?se = "arraySize TYPE('w) envp"
  let ?l = "length (shim @ [NUL])" and ?lo = "unat sp - 256 - t - ptrSize TYPE('w)" and ?hi = "unat sp - 256"
  have d8: "8 dvd LENGTH('w)" using w by auto
  have t: "t = ?l + ?P + ?sa + ?P + ?se" unfolding tot estimate_eq by simp
  note lay = stage_layout [OF w room [unfolded t] c [unfolded t], of a e]
  have L: "?lo < unat c" "unat c + ?l \<le> unat a" "unat a + ?sa \<le> unat e" "unat e + ?se \<le> ?hi"
    using lay a e unfolding t by simp_all
  have hi: "?hi \<le> 2 ^ LENGTH('w)" using unat_below [of sp] by linarith
  have lo: "?lo \<le> unat c" "?lo \<le> unat a" "?lo \<le> unat e" using L by linarith+
  have ends: "unat c + ?l \<le> ?hi" "unat a + ?sa \<le> ?hi" using L by linarith+
  obtain k1 where k1: "WriteBytes K k pid c (shim @ [NUL]) = (None, k1)" "memHas (mem k1 pid) c (shim @ [NUL])"
    "\<forall>x. unat x < unat c \<or> unat c + ?l \<le> unat x \<longrightarrow> mem k1 pid x = mem k pid x"
    "mappedBetween (mem k1 pid) ?lo ?hi"
    by (rule WriteBytes_between [OF map lo(1) ends(1) hi])
  obtain k2 where k2: "WriteStringArray be K k1 pid a argv = (Inr ?sa, k2)"
    "memHas (mem k2 pid) a (arrayImage be a argv)"
    "\<forall>x. unat x < unat a \<or> unat a + ?sa \<le> unat x \<longrightarrow> mem k2 pid x = mem k1 pid x"
    "mappedBetween (mem k2 pid) ?lo ?hi"
    by (rule WriteStringArray_between [OF d8 k1(4) lo(2) ends(2) hi])
  obtain k3 where k3: "WriteStringArray be K k2 pid e envp = (Inr ?se, k3)"
    "memHas (mem k3 pid) e (arrayImage be e envp)"
    "\<forall>x. unat x < unat e \<or> unat e + ?se \<le> unat x \<longrightarrow> mem k3 pid x = mem k2 pid x"
    by (rule WriteStringArray_between [OF d8 k2(4) lo(3) L(4) hi])
  have im: "length (arrayImage be a argv) = ?sa" by (simp add: arrayImage_def arraySize_def)
  have fits: "unat c + ?l \<le> 2 ^ LENGTH('w)" "unat a + ?sa \<le> 2 ^ LENGTH('w)" "unat e + ?se \<le> 2 ^ LENGTH('w)"
    using ends L(4) hi by linarith+
  have keep1: "memHas (mem k3 pid) c (shim @ [NUL])"
    by (rule memHas_keep [OF k1(2) fits(1)]) (use k2(3) k3(3) L in auto)
  have keep2: "memHas (mem k3 pid) a (arrayImage be a argv)"
    by (rule memHas_keep [OF k2(2)]) (use fits im k3(3) L in auto)
  have "unat c \<noteq> 0" "unat a \<noteq> 0" "unat e \<noteq> 0" using L by linarith+
  then have nz: "c \<noteq> 0" "a \<noteq> 0" "e \<noteq> 0" by auto
  have "mem k3 pid x = mem k pid x" if "?hi \<le> unat x" for x
    using that k1(3) k2(3) k3(3) L by (metis le_trans trans_le_add1)
  then show ?thesis
    using that k1(1) k2(1) k3(1,2) keep1 keep2 fits(2,3) nz by blast
qed

end

end
