(* ===== verification/FlatKernel.thy ===== *)
theory FlatKernel
  imports TraceeMemory
begin

text \<open>
  A concrete system for the kernel interface: one flat byte map per process, one register set
  per process, and a log of the ptrace and signal calls. It satisfies the laws of
  \<open>tracee_memory\<close>, so the properties stated under them apply to it; the witnesses of the tracer's
  properties run on it.
\<close>

datatype kcall = Resume int nat | Kill int nat | SetRegs int

record ('r, 'p) flatState =
  fs_mem :: "int \<Rightarrow> 'p \<Rightarrow> char option"
  fs_regs :: "int \<Rightarrow> 'r option"
  fs_event :: "int \<Rightarrow> nat option"
  fs_log :: "kcall list"

fun flatRead :: "('w::len word \<Rightarrow> char option) \<Rightarrow> 'w word \<Rightarrow> nat \<Rightarrow> bytes" where
  "flatRead m a 0 = []"
| "flatRead m a (Suc n) = (case m a of None \<Rightarrow> [] | Some c \<Rightarrow> c # flatRead m (a + 1) n)"

fun flatWrite :: "('w::len word \<Rightarrow> char option) \<Rightarrow> 'w word \<Rightarrow> bytes \<Rightarrow> ('w word \<Rightarrow> char option)" where
  "flatWrite m a [] = m"
| "flatWrite m a (b # bs) = flatWrite (m(a \<mapsto> b)) (a + 1) bs"

definition EFAULT :: nat where "EFAULT = 14"
definition ESRCH :: nat where "ESRCH = 3"

definition flatKernel :: "(('r, 'w::len word) flatState, 'r, 'w word) kernel" where
  "flatKernel = \<lparr>
     process_vm_readv = (\<lambda>k pid a n. let bs = flatRead (fs_mem k pid) a n in
        if bs = [] \<and> 0 < n then Inl EFAULT else Inr bs),
     process_vm_writev = (\<lambda>k pid a bs.
        if list_all (\<lambda>i. fs_mem k pid (a + word_of_nat i) \<noteq> None) [0..<length bs]
        then (None, k\<lparr>fs_mem := (fs_mem k)(pid := flatWrite (fs_mem k pid) a bs)\<rparr>)
        else (Some EFAULT, k)),
     ptrace_getregs = (\<lambda>k pid. case fs_regs k pid of None \<Rightarrow> Inl ESRCH | Some r \<Rightarrow> Inr r),
     ptrace_setregs = (\<lambda>k pid r.
        if fs_regs k pid = None then (Some ESRCH, k)
        else (None, k\<lparr>fs_regs := (fs_regs k)(pid \<mapsto> r), fs_log := SetRegs pid # fs_log k\<rparr>)),
     ptrace_syscall = (\<lambda>k pid sig. k\<lparr>fs_log := Resume pid sig # fs_log k\<rparr>),
     ptrace_geteventmsg = (\<lambda>k pid. case fs_event k pid of None \<Rightarrow> Inl ESRCH | Some m \<Rightarrow> Inr m),
     kill_process = (\<lambda>k pid sig. k\<lparr>fs_log := Kill pid sig # fs_log k\<rparr>)\<rparr>"

lemma flatRead_prefix:
  "memHas m a bs \<Longrightarrow> length bs \<le> n \<Longrightarrow> \<exists>rest. flatRead m a n = bs @ rest"
proof (induction bs arbitrary: a n)
  case (Cons b bs)
  have "memHas m a ([b] @ bs)" using Cons.prems(1) by simp
  then have m: "memHas m a [b]" "memHas m (a + 1) bs" unfolding memHas_append by simp_all
  then have b: "m a = Some b" by (simp add: memHas_def)
  obtain n' where n: "n = Suc n'" using Cons.prems(2) by (cases n) auto
  obtain rest where "flatRead m (a + 1) n' = bs @ rest" using Cons.IH m(2) Cons.prems(2) n by fastforce
  then show ?case by (simp add: n b)
qed simp

lemma flatWrite_other: "(\<forall>i<length bs. x \<noteq> a + word_of_nat i) \<Longrightarrow> flatWrite m a bs x = m x"
proof (induction bs arbitrary: m a)
  case (Cons b bs)
  have "x \<noteq> a + 1 + word_of_nat i" if "i < length bs" for i
    using Cons.prems that by (auto dest: spec [of _ "Suc i"] simp: add.assoc)
  then have "flatWrite (m(a \<mapsto> b)) (a + 1) bs x = (m(a \<mapsto> b)) x" using Cons.IH by blast
  moreover have "x \<noteq> a" using Cons.prems by (auto dest: spec [of _ 0])
  ultimately show ?case by simp
qed simp

lemma flatWrite_memHas:
  fixes a :: "'w::len word"
  shows "length bs \<le> 2 ^ LENGTH('w) \<Longrightarrow> memHas (flatWrite m a bs) a bs"
proof (induction bs arbitrary: m a)
  case (Cons b bs)
  have "a \<noteq> a + 1 + word_of_nat i" if "i < length bs" for i
    using offset_ne [of 0 "Suc i" a] that Cons.prems by (simp add: add.assoc)
  then have "flatWrite (m(a \<mapsto> b)) (a + 1) bs a = Some b" by (subst flatWrite_other) auto
  then have "memHas (flatWrite m a (b # bs)) a [b]" by (simp add: memHas_def)
  moreover have "memHas (flatWrite m a (b # bs)) (a + 1) bs" using Cons by simp
  ultimately have "memHas (flatWrite m a (b # bs)) a ([b] @ bs)" unfolding memHas_append by simp
  then show ?case by simp
qed (simp add: memHas_def)

interpretation flat: tracee_memory "flatKernel :: (('r, 'w::len word) flatState, 'r, 'w word) kernel" fs_mem
proof
  fix k :: "('r, 'w word) flatState" and pid and a :: "'w word" and bs :: bytes and n
  assume h: "memHas (fs_mem k pid) a bs" "bs \<noteq> []" "length bs \<le> n"
  then obtain rest where "flatRead (fs_mem k pid) a n = bs @ rest" using flatRead_prefix by blast
  then show "\<exists>rest. process_vm_readv flatKernel k pid a n = Inr (bs @ rest)"
    using h(2) by (simp add: flatKernel_def)
next
  fix k :: "('r, 'w word) flatState" and pid and a :: "'w word" and bs :: bytes
  assume "mapped (fs_mem k pid) a (length bs)" "bs \<noteq> []" "length bs \<le> 2 ^ LENGTH('w)"
  then show "\<exists>k'. process_vm_writev flatKernel k pid a bs = (None, k') \<and> memHas (fs_mem k' pid) a bs \<and>
      (\<forall>x. (\<forall>i<length bs. x \<noteq> a + word_of_nat i) \<longrightarrow> fs_mem k' pid x = fs_mem k pid x)"
    by (simp add: flatKernel_def mapped_def list_all_iff flatWrite_memHas flatWrite_other)
next
  fix k k' :: "('r, 'w word) flatState" and pid r
  assume "ptrace_setregs flatKernel k pid r = (None, k')"
  then show "ptrace_getregs flatKernel k' pid = Inr r \<and> fs_mem k' pid = fs_mem k pid"
    by (auto simp: flatKernel_def split: if_splits)
qed

section \<open>Properties\<close>



end
