(* ===== verification/WaitStatus.thy ===== *)
theory WaitStatus
  imports Prelude
begin

text \<open>
  Wait statuses: Go's \<open>syscall.WaitStatus\<close> on Linux and the exit code of
  \<open>pkg/childproc/signal_unix.go\<close>, shared by the tracer and the agent.
\<close>

unbundle bit_operations_syntax

text \<open>The accessors of \<open>syscall.WaitStatus\<close>; each returns -1 where it does not apply.\<close>

definition wsExited :: "uint32 \<Rightarrow> bool" where "wsExited ws \<longleftrightarrow> ws AND 0x7F = 0"
definition wsSignaled :: "uint32 \<Rightarrow> bool" where "wsSignaled ws \<longleftrightarrow> ws AND 0x7F \<noteq> 0x7F \<and> ws AND 0x7F \<noteq> 0"
definition wsStopped :: "uint32 \<Rightarrow> bool" where "wsStopped ws \<longleftrightarrow> ws AND 0xFF = 0x7F"
definition wsExitStatus :: "uint32 \<Rightarrow> int" where
  "wsExitStatus ws = (if wsExited ws then uint (drop_bit 8 ws AND 0xFF) else -1)"
definition wsSignal :: "uint32 \<Rightarrow> int" where
  "wsSignal ws = (if wsSignaled ws then uint (ws AND 0x7F) else -1)"
definition wsStopSignal :: "uint32 \<Rightarrow> int" where
  "wsStopSignal ws = (if wsStopped ws then uint (drop_bit 8 ws AND 0xFF) else -1)"

definition ExitCodeFromWaitStatus :: "uint32 \<Rightarrow> int" where
  "ExitCodeFromWaitStatus ws = (if wsSignaled ws then 128 + wsSignal ws else wsExitStatus ws)"

section \<open>Bounds\<close>

lemma wsExitStatus_bounds: "wsExited ws \<Longrightarrow> 0 \<le> wsExitStatus ws \<and> wsExitStatus ws \<le> 255"
proof -
  have "drop_bit 8 ws AND 0xFF \<le> (0xFF :: uint32)" by (rule word_and_le1)
  then show "wsExited ws \<Longrightarrow> ?thesis" by (simp add: wsExitStatus_def word_le_def)
qed

lemma wsSignal_bounds:
  assumes "wsSignaled ws"
  shows "1 \<le> wsSignal ws \<and> wsSignal ws \<le> 126"
proof -
  have "ws AND 0x7F \<le> (0x7F :: uint32)" by (rule word_and_le1)
  moreover have ne: "ws AND 0x7F \<noteq> 0" "ws AND 0x7F \<noteq> 0x7F" using assms by (auto simp: wsSignaled_def)
  moreover have "uint (ws AND 0x7F) \<noteq> 0x7F" using ne(2) by (simp add: word_uint_eq_iff)
  moreover have "0 < uint (ws AND 0x7F)" using ne(1) by (simp add: word_neq_0_conv word_less_def)
  ultimately show ?thesis using assms by (simp add: wsSignal_def word_le_def)
qed

lemma ExitCode_bounds:
  "wsExited ws \<or> wsSignaled ws \<Longrightarrow> 0 \<le> ExitCodeFromWaitStatus ws \<and> ExitCodeFromWaitStatus ws \<le> 255"
  using wsExitStatus_bounds [of ws] wsSignal_bounds [of ws] by (auto simp: ExitCodeFromWaitStatus_def)

end
