(* ===== verification/Tracer.thy ===== *)
theory Tracer
  imports TracerEnv CommandRule Paths Layout FlatKernel WaitStatus "HOL-Library.AList_Mapping"
begin

text \<open>
  \<open>pkg/tracer/tracer.go\<close>: the ptrace event loop. The tracer's state is explicit and every
  operation returns the new tracer state and the new system state. The kernel, the register
  access of the architecture and the regular expression engine come from the record \<open>machine\<close>.
  Log output is not modelled. An operation that reads a string array of the tracee returns
  \<^const>\<open>None\<close> when that array never ends.
\<close>

unbundle bit_operations_syntax

section \<open>State\<close>

record ('k, 'r, 'p, 're) machine =
  m_arch :: "('r, 'p) arch"
  m_kernel :: "('k, 'r, 'p) kernel"
  m_engine :: "'re engine"
  m_getcwd :: uint32
  m_SIGSTOP :: nat

record TracerConfig =
  tc_ShimPath :: string
  tc_Whitelist :: "string list"
  tc_BrokerSock :: string
  tc_CwdFrom :: string
  tc_CwdTo :: string

record 'p pidState =
  inSyscall :: bool
  expectStop :: bool
  cwdPending :: bool
  cwdBuf :: 'p
  cwdSize :: uint64

record 'p Tracer =
  t_cfg :: TracerConfig
  t_baseline :: EnvBaseline
  t_pids :: "(int, 'p pidState) mapping"

definition newPidState :: "'p::zero pidState" where
  "newPidState = \<lparr>inSyscall = False, expectStop = False, cwdPending = False, cwdBuf = 0, cwdSize = 0\<rparr>"

text \<open>The baseline is a nil pointer until \<open>Start\<close> sets it.\<close>

definition NewTracer :: "TracerConfig \<Rightarrow> 'p Tracer" where
  "NewTracer cfg = \<lparr>t_cfg = cfg, t_baseline = NewEnvBaselineFromSlice [], t_pids = Mapping.empty\<rparr>"

definition setPid :: "'p Tracer \<Rightarrow> int \<Rightarrow> 'p pidState \<Rightarrow> 'p Tracer" where
  "setPid t pid ps = t\<lparr>t_pids := Mapping.update pid ps (t_pids t)\<rparr>"

definition delPid :: "'p Tracer \<Rightarrow> int \<Rightarrow> 'p Tracer" where
  "delPid t pid = t\<lparr>t_pids := Mapping.delete pid (t_pids t)\<rparr>"

abbreviation SIGKILL :: nat where "SIGKILL \<equiv> 9"
abbreviation SIGTRAP :: nat where "SIGTRAP \<equiv> 5"
abbreviation ERANGE :: nat where "ERANGE \<equiv> 34"

section \<open>Decisions\<close>

definition cwdMapEnabled :: "TracerConfig \<Rightarrow> bool" where
  "cwdMapEnabled cfg \<longleftrightarrow> tc_CwdFrom cfg \<noteq> [] \<and> tc_CwdTo cfg \<noteq> []"

definition shouldAllow :: "'re engine \<Rightarrow> TracerConfig \<Rightarrow> string \<Rightarrow> bool" where
  "shouldAllow eng cfg pathname =
     (if pathname = [] \<or> pathname = tc_ShimPath cfg then True
      else list_ex (\<lambda>entry. MatchLocalCommand eng entry pathname) (tc_Whitelist cfg))"

fun remapPWDEnv :: "string list \<Rightarrow> string \<Rightarrow> string \<Rightarrow> string list \<times> bool" where
  "remapPWDEnv [] src dst = ([], False)"
| "remapPWDEnv (e # env) src dst =
     (if \<not> HasPrefix e ''PWD='' then
        (let (out, changed) = remapPWDEnv env src dst in (e # out, changed))
      else let v = drop 4 e; (mapped, matched) = RewritePathPrefix v src dst in
        if \<not> matched \<or> mapped = v then (e # env, False)
        else ((''PWD='' @ mapped) # env, True))"

section \<open>Exec interception\<close>

definition killTracee :: "('k, 'r, 'p, 're) machine \<Rightarrow> 'k \<Rightarrow> int \<Rightarrow> 'k" where
  "killTracee M k pid = kill_process (m_kernel M) k pid SIGKILL"

text \<open>\<open>regs.Set(pid)\<close>, and a kill of the tracee when it fails.\<close>

definition commitOrKill :: "('k, 'r, 'p, 're) machine \<Rightarrow> 'k \<Rightarrow> int \<Rightarrow> 'r \<Rightarrow> 'k" where
  "commitOrKill M k pid regs =
     (case ptrace_setregs (m_kernel M) k pid regs of
        (None, k') \<Rightarrow> k' | (Some err, k') \<Rightarrow> killTracee M k' pid)"

definition blockExec :: "('k, 'r, 'p, 're) machine \<Rightarrow> 'k \<Rightarrow> int \<Rightarrow> 'r \<Rightarrow> 'k" where
  "blockExec M k pid regs = commitOrKill M k pid (BlockSyscall (m_arch M) regs)"

text \<open>The environment handed to the shim.\<close>

definition shimEnv :: "'p Tracer \<Rightarrow> string list \<Rightarrow> string list" where
  "shimEnv t envp =
     (let newEnvp = InjectEnvVars (t_baseline t) envp in
      if cwdMapEnabled (t_cfg t)
      then fst (remapPWDEnv newEnvp (tc_CwdFrom (t_cfg t)) (tc_CwdTo (t_cfg t))) else newEnvp)"

definition rewriteExec ::
  "('k, 'r, 'w::len word, 're) machine \<Rightarrow> 'w word Tracer \<Rightarrow> 'k \<Rightarrow> int \<Rightarrow> 'r \<Rightarrow> bool \<Rightarrow> string \<Rightarrow>
     string list \<Rightarrow> string list \<Rightarrow> 'k" where
  "rewriteExec M t k pid regs isExecveat pathname argv envp =
     (let A = m_arch M; K = m_kernel M; be = bigEndian A; shim = tc_ShimPath (t_cfg t);
          newArgv = shim # pathname # argv;
          newEnvp = shimEnv t envp;
          totalSize = estimateWriteSize TYPE('w) shim newArgv newEnvp;
          sp = StackPointer A regs;
          cursor = alignDown (sp - 256 - word_of_nat totalSize);
          shimPathBytes = shim @ [NUL]
      in case WriteBytes K k pid cursor shimPathBytes of
           (Some err, k) \<Rightarrow> blockExec M k pid regs
         | (None, k) \<Rightarrow>
      let newPathAddr = cursor;
          newArgvAddr = alignUp (cursor + word_of_nat (length shimPathBytes))
      in case WriteStringArray be K k pid newArgvAddr newArgv of
           (Inl err, k) \<Rightarrow> blockExec M k pid regs
         | (Inr n, k) \<Rightarrow>
      let newEnvpAddr = alignUp (newArgvAddr + word_of_nat n)
      in case WriteStringArray be K k pid newEnvpAddr newEnvp of
           (Inl err, k) \<Rightarrow> blockExec M k pid regs
         | (Inr n, k) \<Rightarrow>
      commitOrKill M k pid (redirectExec A regs isExecveat newPathAddr newArgvAddr newEnvpAddr))"

definition interceptExec ::
  "('k, 'r, 'w::len word, 're) machine \<Rightarrow> 'w word Tracer \<Rightarrow> 'k \<Rightarrow> int \<Rightarrow> 'r \<Rightarrow> bool \<Rightarrow> string \<Rightarrow> 'k option" where
  "interceptExec M t k pid regs isExecveat pathname =
     (let A = m_arch M; K = m_kernel M; be = bigEndian A in
      case ReadStringArray be K k pid (ArgvAddr A regs isExecveat) of
        None \<Rightarrow> None
      | Some (Inl err) \<Rightarrow> Some (blockExec M k pid regs)
      | Some (Inr argv) \<Rightarrow>
      (case ReadStringArray be K k pid (EnvpAddr A regs isExecveat) of
        None \<Rightarrow> None
      | Some (Inl err) \<Rightarrow> Some (blockExec M k pid regs)
      | Some (Inr envp) \<Rightarrow> Some (rewriteExec M t k pid regs isExecveat pathname argv envp)))"

text \<open>The size of the staged environment is computed as in the source, one string at a time.\<close>

definition remapAllowedExecPWD ::
  "('k, 'r, 'w::len word, 're) machine \<Rightarrow> 'w word Tracer \<Rightarrow> 'k \<Rightarrow> int \<Rightarrow> 'r \<Rightarrow> bool \<Rightarrow> 'k option" where
  "remapAllowedExecPWD M t k pid regs isExecveat =
     (let A = m_arch M; K = m_kernel M; be = bigEndian A in
      case ReadStringArray be K k pid (EnvpAddr A regs isExecveat) of
        None \<Rightarrow> None
      | Some (Inl err) \<Rightarrow> Some k
      | Some (Inr envp) \<Rightarrow>
      let (newEnvp, changed) = remapPWDEnv envp (tc_CwdFrom (t_cfg t)) (tc_CwdTo (t_cfg t)) in
      if \<not> changed then Some k
      else let size = ptrSize TYPE('w) + sum_list (map (\<lambda>s. length s + 1 + ptrSize TYPE('w)) newEnvp);
               sp = StackPointer A regs;
               cursor = alignDown (sp - 256 - word_of_nat size)
        in case WriteStringArray be K k pid cursor newEnvp of
             (Inl err, k) \<Rightarrow> Some k
           | (Inr n, k) \<Rightarrow> Some (snd (ptrace_setregs K k pid (SetEnvpAddr A regs isExecveat cursor))))"

definition rewriteGetcwd ::
  "('k, 'r, 'w::len word, 're) machine \<Rightarrow> 'w word Tracer \<Rightarrow> 'k \<Rightarrow> int \<Rightarrow> 'w word pidState \<Rightarrow> 'r \<Rightarrow> 'k" where
  "rewriteGetcwd M t k pid ps regs =
     (let A = m_arch M; K = m_kernel M in
      if cwdBuf ps = 0 then k
      else let (ret, ok) = Ret A regs in
      if \<not> ok \<or> ret = 0 then k
      else case ReadString K k pid (cwdBuf ps) of
        Inl err \<Rightarrow> k
      | Inr cwd \<Rightarrow>
      if cwd = [] then k
      else let (mapped, matched) = RewritePathPrefix cwd (tc_CwdFrom (t_cfg t)) (tc_CwdTo (t_cfg t)) in
      if \<not> matched \<or> mapped = cwd then k
      else let needed = length mapped + 1 in
      if (word_of_nat needed :: uint64) > cwdSize ps
      then snd (ptrace_setregs K k pid (SetRetError A regs (word_of_nat ERANGE)))
      else case WriteBytes K k pid (cwdBuf ps) (mapped @ [NUL]) of
        (Some err, k) \<Rightarrow> k
      | (None, k) \<Rightarrow> snd (ptrace_setregs K k pid (SetRetSuccess A regs (word_of_nat needed))))"

text \<open>The part of \<open>handleSyscallStop\<close> after \<open>Syscall-entry\<close>.\<close>

definition handleExecEntry ::
  "('k, 'r, 'w::len word, 're) machine \<Rightarrow> 'w word Tracer \<Rightarrow> 'k \<Rightarrow> int \<Rightarrow> 'k option" where
  "handleExecEntry M t k pid =
     (let A = m_arch M; K = m_kernel M in
      case ptrace_getregs K k pid of
        Inl err \<Rightarrow> Some k
      | Inr regs \<Rightarrow>
      let sysno = SyscallNum A regs in
      if sysno \<noteq> ucast (sysExecve A) \<and> sysno \<noteq> ucast (sysExecveat A) then Some k
      else let isExecveat = (sysno = ucast (sysExecveat A)) in
      case ReadString K k pid (PathAddr A regs isExecveat) of
        Inl err \<Rightarrow> Some (blockExec M k pid regs)
      | Inr pathname \<Rightarrow>
      if isExecveat \<and> pathname = [] then Some k
      else if shouldAllow (m_engine M) (t_cfg t) pathname then
        (if cwdMapEnabled (t_cfg t) then remapAllowedExecPWD M t k pid regs isExecveat else Some k)
      else interceptExec M t k pid regs isExecveat pathname)"

text \<open>The getcwd part: \<^const>\<open>None\<close> when the stop is none of getcwd's.\<close>

definition handleGetcwdStop ::
  "('k, 'r, 'w::len word, 're) machine \<Rightarrow> 'w word Tracer \<Rightarrow> 'k \<Rightarrow> int \<Rightarrow> 'w word pidState \<Rightarrow>
     ('w word pidState \<times> 'k) option" where
  "handleGetcwdStop M t k pid ps =
     (let A = m_arch M in
      if \<not> cwdMapEnabled (t_cfg t) then None
      else case ptrace_getregs (m_kernel M) k pid of
        Inl err \<Rightarrow> None
      | Inr regs \<Rightarrow>
      if SyscallNum A regs \<noteq> ucast (m_getcwd M) then None
      else if \<not> cwdPending ps then
        Some (ps\<lparr>cwdBuf := PathAddr A regs False, cwdSize := ucast (ArgvAddr A regs False),
                 cwdPending := True, inSyscall := \<not> inSyscall ps\<rparr>, k)
      else
        Some (ps\<lparr>cwdPending := False, inSyscall := \<not> inSyscall ps\<rparr>,
              rewriteGetcwd M t k pid (ps\<lparr>cwdPending := False\<rparr>) regs))"

definition handleSyscallStop ::
  "('k, 'r, 'w::len word, 're) machine \<Rightarrow> 'w word Tracer \<Rightarrow> 'k \<Rightarrow> int \<Rightarrow> ('w word Tracer \<times> 'k) option" where
  "handleSyscallStop M t k pid =
     (case Mapping.lookup (t_pids t) pid of
        None \<Rightarrow> Some (setPid t pid (newPidState\<lparr>inSyscall := True, expectStop := True\<rparr>), k)
      | Some ps \<Rightarrow>
      (case handleGetcwdStop M t k pid ps of
        Some (ps', k') \<Rightarrow> Some (setPid t pid ps', k')
      | None \<Rightarrow>
      if inSyscall ps then Some (setPid t pid (ps\<lparr>inSyscall := False\<rparr>), k)
      else let t' = setPid t pid (ps\<lparr>inSyscall := True\<rparr>) in
        map_option (Pair t') (handleExecEntry M t' k pid)))"

section \<open>The event loop\<close>

definition resume :: "('k, 'r, 'p, 're) machine \<Rightarrow> 'k \<Rightarrow> int \<Rightarrow> int \<Rightarrow> 'k" where
  "resume M k pid sig = ptrace_syscall (m_kernel M) k pid (nat sig)"

text \<open>A stop that is neither a syscall stop nor a ptrace event.\<close>

definition handleSignalStop ::
  "('k, 'r, 'p::zero, 're) machine \<Rightarrow> 'p Tracer \<Rightarrow> 'k \<Rightarrow> int \<Rightarrow> int \<Rightarrow> 'p Tracer \<times> 'k" where
  "handleSignalStop M t k pid sig =
     (if sig = int (m_SIGSTOP M) then
        (case Mapping.lookup (t_pids t) pid of
           None \<Rightarrow> (setPid t pid newPidState, resume M k pid 0)
         | Some ps \<Rightarrow>
             if expectStop ps then (setPid t pid (ps\<lparr>expectStop := False\<rparr>), resume M k pid 0)
             else (t, resume M k pid sig))
      else (t, resume M k pid sig))"

definition handleNewChild ::
  "('k, 'r, 'p::zero, 're) machine \<Rightarrow> 'p Tracer \<Rightarrow> 'k \<Rightarrow> int \<Rightarrow> 'p Tracer" where
  "handleNewChild M t k pid =
     (case ptrace_geteventmsg (m_kernel M) k pid of
        Inl err \<Rightarrow> t
      | Inr newPid \<Rightarrow>
          let np = int newPid in
          if Mapping.lookup (t_pids t) np = None then setPid t np (newPidState\<lparr>expectStop := True\<rparr>) else t)"

definition handleStop ::
  "('k, 'r, 'w::len word, 're) machine \<Rightarrow> 'w word Tracer \<Rightarrow> 'k \<Rightarrow> int \<Rightarrow> uint32 \<Rightarrow> ('w word Tracer \<times> 'k) option" where
  "handleStop M t k pid ws =
     (let sig = wsStopSignal ws; event = drop_bit 16 ws in
      if sig = 0x85 then
        map_option (\<lambda>(t, k). (t, resume M k pid 0)) (handleSyscallStop M t k pid)
      else if event = 1 \<or> event = 2 \<or> event = 3 then
        Some (handleNewChild M t k pid, resume M k pid 0)
      else if event = 4 then
        Some (case Mapping.lookup (t_pids t) pid of
                None \<Rightarrow> t | Some ps \<Rightarrow> setPid t pid (ps\<lparr>inSyscall := False\<rparr>), resume M k pid 0)
      else if sig = int SIGTRAP then Some (t, resume M k pid 0)
      else Some (handleSignalStop M t k pid sig))"

text \<open>
  One result of \<open>Wait4\<close>. The loop runs over the results the kernel delivers; it stops with the
  exit code when no traced process is left or when \<open>Wait4\<close> fails.
\<close>

datatype 's outcome = ExitCode int 's | Waiting int 's | Diverges | Panics

definition traceStep ::
  "('k, 'r, 'w::len word, 're) machine \<Rightarrow> int \<Rightarrow> int \<Rightarrow> 'w word Tracer \<Rightarrow> 'k \<Rightarrow> int \<Rightarrow> uint32 \<Rightarrow>
     (int \<times> 'w word Tracer \<times> 'k) option" where
  "traceStep M childPid exitCode t k pid ws =
     (if wsExited ws then
        Some (if pid = childPid then wsExitStatus ws else exitCode, delPid t pid, k)
      else if wsSignaled ws then
        Some (if pid = childPid then 128 + wsSignal ws else exitCode, delPid t pid, k)
      else if \<not> wsStopped ws then Some (exitCode, t, k)
      else map_option (Pair exitCode) (handleStop M t k pid ws))"

fun traceLoop ::
  "('k, 'r, 'w::len word, 're) machine \<Rightarrow> int \<Rightarrow> int \<Rightarrow> 'w word Tracer \<Rightarrow> 'k \<Rightarrow>
     (nat + int \<times> uint32) list \<Rightarrow> ('w word Tracer \<times> 'k) outcome" where
  "traceLoop M childPid exitCode t k evs =
     (if Mapping.is_empty (t_pids t) then ExitCode exitCode (t, k)
      else case evs of
        [] \<Rightarrow> Waiting exitCode (t, k)
      | Inl err # evs \<Rightarrow> ExitCode exitCode (t, k)
      | Inr (pid, ws) # evs \<Rightarrow>
          (case traceStep M childPid exitCode t k pid ws of
             None \<Rightarrow> Diverges
           | Some (exitCode, t, k) \<Rightarrow> traceLoop M childPid exitCode t k evs))"

declare traceLoop.simps [simp del]

text \<open>
  \<open>Start\<close>, after the fork: the child's pid, the environment after the \<open>PWD\<close> remap, and the
  results of the calls before the loop are what the system returns.
\<close>

definition startEnv :: "TracerConfig \<Rightarrow> string list \<Rightarrow> string list" where
  "startEnv cfg env = (if cwdMapEnabled cfg then fst (remapPWDEnv env (tc_CwdFrom cfg) (tc_CwdTo cfg)) else env)"

record 'k startCalls =
  sc_LookPath :: "string \<Rightarrow> string option"
  sc_ForkExec :: "'k \<Rightarrow> string \<Rightarrow> string list \<Rightarrow> string list \<Rightarrow> (nat + int) \<times> 'k"
  sc_WaitInitial :: "'k \<Rightarrow> int \<Rightarrow> nat option"
  sc_SetOptions :: "'k \<Rightarrow> int \<Rightarrow> nat option \<times> 'k"
  sc_PtraceSyscall :: "'k \<Rightarrow> int \<Rightarrow> nat option \<times> 'k"

definition Start ::
  "('k, 'r, 'w::len word, 're) machine \<Rightarrow> 'k startCalls \<Rightarrow> 'w word Tracer \<Rightarrow> 'k \<Rightarrow> string list \<Rightarrow>
     string list \<Rightarrow> (nat + int \<times> uint32) list \<Rightarrow> ('w word Tracer \<times> 'k) outcome" where
  "Start M S t k argv env evs =
     (case argv of [] \<Rightarrow> Panics | argv0 # _ \<Rightarrow>
      case sc_LookPath S argv0 of
        None \<Rightarrow> ExitCode 127 (t, k)
      | Some binary \<Rightarrow>
      let env = startEnv (t_cfg t) env in
      case sc_ForkExec S k binary argv env of
        (Inl err, k) \<Rightarrow> ExitCode 127 (t, k)
      | (Inr pid, k) \<Rightarrow>
      (case sc_WaitInitial S k pid of Some err \<Rightarrow> ExitCode 127 (t, k)
      | None \<Rightarrow>
      (case sc_SetOptions S k pid of
        (Some err, k) \<Rightarrow> ExitCode 127 (t, k)
      | (None, k) \<Rightarrow>
      let t = setPid (t\<lparr>t_baseline := NewEnvBaselineFromSlice env\<rparr>) pid newPidState in
      (case sc_PtraceSyscall S k pid of
        (Some err, k) \<Rightarrow> ExitCode 127 (t, k)
      | (None, k) \<Rightarrow> traceLoop M pid 127 t k evs))))"

end
