(* ===== verification/RegsX86.thy ===== *)
theory RegsX86
  imports Regs
begin

text \<open>
  x86: \<open>rewrite_linux_amd64.go\<close> and \<open>rewrite_linux_386.go\<close>. The 386 register fields are \<open>int32\<close>; a 32-bit word carries the same bits, and the conversions \<open>uint32(x)\<close> and \<open>int32(x)\<close> do not change them.
\<close>

unbundle bit_operations_syntax

section \<open>\<open>rewrite_linux_amd64.go\<close>\<close>

record amd64_regs =
  amd64_Orig_rax :: "64 word"
  amd64_Rdi :: "64 word"
  amd64_Rsi :: "64 word"
  amd64_Rdx :: "64 word"
  amd64_R10 :: "64 word"
  amd64_Rsp :: "64 word"
  amd64_Rax :: "64 word"

definition amd64_SyscallNum :: "amd64_regs \<Rightarrow> uint64" where
  "amd64_SyscallNum r = amd64_Orig_rax r"

definition amd64_BlockSyscall :: "amd64_regs \<Rightarrow> amd64_regs" where
  "amd64_BlockSyscall r = r\<lparr>amd64_Orig_rax := NOT 0\<rparr>"

definition amd64_PathAddr :: "amd64_regs \<Rightarrow> bool \<Rightarrow> 64 word" where
  "amd64_PathAddr r isExecveat = (if isExecveat then amd64_Rsi r else amd64_Rdi r)"

definition amd64_ArgvAddr :: "amd64_regs \<Rightarrow> bool \<Rightarrow> 64 word" where
  "amd64_ArgvAddr r isExecveat = (if isExecveat then amd64_Rdx r else amd64_Rsi r)"

definition amd64_EnvpAddr :: "amd64_regs \<Rightarrow> bool \<Rightarrow> 64 word" where
  "amd64_EnvpAddr r isExecveat = (if isExecveat then amd64_R10 r else amd64_Rdx r)"

definition amd64_SetPathAddr :: "amd64_regs \<Rightarrow> bool \<Rightarrow> 64 word \<Rightarrow> amd64_regs" where
  "amd64_SetPathAddr r isExecveat addr =
     (if isExecveat then r\<lparr>amd64_Rsi := addr\<rparr>
      else r\<lparr>amd64_Rdi := addr\<rparr>)"

definition amd64_SetArgvAddr :: "amd64_regs \<Rightarrow> bool \<Rightarrow> 64 word \<Rightarrow> amd64_regs" where
  "amd64_SetArgvAddr r isExecveat addr =
     (if isExecveat then r\<lparr>amd64_Rdx := addr\<rparr>
      else r\<lparr>amd64_Rsi := addr\<rparr>)"

definition amd64_SetEnvpAddr :: "amd64_regs \<Rightarrow> bool \<Rightarrow> 64 word \<Rightarrow> amd64_regs" where
  "amd64_SetEnvpAddr r isExecveat addr =
     (if isExecveat then r\<lparr>amd64_R10 := addr\<rparr>
      else r\<lparr>amd64_Rdx := addr\<rparr>)"

definition amd64_StackPointer :: "amd64_regs \<Rightarrow> 64 word" where
  "amd64_StackPointer r = amd64_Rsp r"

definition amd64_Ret :: "amd64_regs \<Rightarrow> 64 word \<times> bool" where
  "amd64_Ret r = (amd64_Rax r, 0 \<le> sint (amd64_Rax r))"

definition amd64_SetRetSuccess :: "amd64_regs \<Rightarrow> 64 word \<Rightarrow> amd64_regs" where
  "amd64_SetRetSuccess r v = r\<lparr>amd64_Rax := v\<rparr>"

definition amd64_SetRetError :: "amd64_regs \<Rightarrow> 64 word \<Rightarrow> amd64_regs" where
  "amd64_SetRetError r errno = r\<lparr>amd64_Rax := - errno\<rparr>"

definition amd64_arch :: "(amd64_regs, 64 word) arch" where
  "amd64_arch = \<lparr>sysExecve = 59, sysExecveat = 322, bigEndian = False,
     SyscallNum = amd64_SyscallNum, BlockSyscall = amd64_BlockSyscall,
     PathAddr = amd64_PathAddr, ArgvAddr = amd64_ArgvAddr,
     EnvpAddr = amd64_EnvpAddr, SetPathAddr = amd64_SetPathAddr,
     SetArgvAddr = amd64_SetArgvAddr, SetEnvpAddr = amd64_SetEnvpAddr,
     StackPointer = amd64_StackPointer, Ret = amd64_Ret,
     SetRetSuccess = amd64_SetRetSuccess, SetRetError = amd64_SetRetError\<rparr>"

lemmas amd64_defs = amd64_arch_def amd64_SyscallNum_def amd64_BlockSyscall_def amd64_PathAddr_def amd64_ArgvAddr_def amd64_EnvpAddr_def amd64_SetPathAddr_def amd64_SetArgvAddr_def amd64_SetEnvpAddr_def amd64_StackPointer_def amd64_Ret_def amd64_SetRetSuccess_def amd64_SetRetError_def

interpretation amd64: syscall_regs_stable amd64_arch
  by unfold_locales (auto simp: amd64_defs isExecNum_def sint_neg_errno)

section \<open>\<open>rewrite_linux_386.go\<close>\<close>

record i386_regs =
  i386_Orig_eax :: "32 word"
  i386_Ebx :: "32 word"
  i386_Ecx :: "32 word"
  i386_Edx :: "32 word"
  i386_Esi :: "32 word"
  i386_Esp :: "32 word"
  i386_Eax :: "32 word"

definition i386_SyscallNum :: "i386_regs \<Rightarrow> uint64" where
  "i386_SyscallNum r = ucast (i386_Orig_eax r)"

definition i386_BlockSyscall :: "i386_regs \<Rightarrow> i386_regs" where
  "i386_BlockSyscall r = r\<lparr>i386_Orig_eax := NOT 0\<rparr>"

definition i386_PathAddr :: "i386_regs \<Rightarrow> bool \<Rightarrow> 32 word" where
  "i386_PathAddr r isExecveat = (if isExecveat then i386_Ecx r else i386_Ebx r)"

definition i386_ArgvAddr :: "i386_regs \<Rightarrow> bool \<Rightarrow> 32 word" where
  "i386_ArgvAddr r isExecveat = (if isExecveat then i386_Edx r else i386_Ecx r)"

definition i386_EnvpAddr :: "i386_regs \<Rightarrow> bool \<Rightarrow> 32 word" where
  "i386_EnvpAddr r isExecveat = (if isExecveat then i386_Esi r else i386_Edx r)"

definition i386_SetPathAddr :: "i386_regs \<Rightarrow> bool \<Rightarrow> 32 word \<Rightarrow> i386_regs" where
  "i386_SetPathAddr r isExecveat addr =
     (if isExecveat then r\<lparr>i386_Ecx := addr\<rparr>
      else r\<lparr>i386_Ebx := addr\<rparr>)"

definition i386_SetArgvAddr :: "i386_regs \<Rightarrow> bool \<Rightarrow> 32 word \<Rightarrow> i386_regs" where
  "i386_SetArgvAddr r isExecveat addr =
     (if isExecveat then r\<lparr>i386_Edx := addr\<rparr>
      else r\<lparr>i386_Ecx := addr\<rparr>)"

definition i386_SetEnvpAddr :: "i386_regs \<Rightarrow> bool \<Rightarrow> 32 word \<Rightarrow> i386_regs" where
  "i386_SetEnvpAddr r isExecveat addr =
     (if isExecveat then r\<lparr>i386_Esi := addr\<rparr>
      else r\<lparr>i386_Edx := addr\<rparr>)"

definition i386_StackPointer :: "i386_regs \<Rightarrow> 32 word" where
  "i386_StackPointer r = i386_Esp r"

definition i386_Ret :: "i386_regs \<Rightarrow> 32 word \<times> bool" where
  "i386_Ret r = (i386_Eax r, 0 \<le> sint (i386_Eax r))"

definition i386_SetRetSuccess :: "i386_regs \<Rightarrow> 32 word \<Rightarrow> i386_regs" where
  "i386_SetRetSuccess r v = r\<lparr>i386_Eax := v\<rparr>"

definition i386_SetRetError :: "i386_regs \<Rightarrow> 32 word \<Rightarrow> i386_regs" where
  "i386_SetRetError r errno = r\<lparr>i386_Eax := - errno\<rparr>"

definition i386_arch :: "(i386_regs, 32 word) arch" where
  "i386_arch = \<lparr>sysExecve = 11, sysExecveat = 358, bigEndian = False,
     SyscallNum = i386_SyscallNum, BlockSyscall = i386_BlockSyscall,
     PathAddr = i386_PathAddr, ArgvAddr = i386_ArgvAddr,
     EnvpAddr = i386_EnvpAddr, SetPathAddr = i386_SetPathAddr,
     SetArgvAddr = i386_SetArgvAddr, SetEnvpAddr = i386_SetEnvpAddr,
     StackPointer = i386_StackPointer, Ret = i386_Ret,
     SetRetSuccess = i386_SetRetSuccess, SetRetError = i386_SetRetError\<rparr>"

lemmas i386_defs = i386_arch_def i386_SyscallNum_def i386_BlockSyscall_def i386_PathAddr_def i386_ArgvAddr_def i386_EnvpAddr_def i386_SetPathAddr_def i386_SetArgvAddr_def i386_SetEnvpAddr_def i386_StackPointer_def i386_Ret_def i386_SetRetSuccess_def i386_SetRetError_def

interpretation i386: syscall_regs_stable i386_arch
  by unfold_locales (auto simp: i386_defs isExecNum_def sint_neg_errno ucast_minus_1)

end
