(* ===== verification/TracerProps.thy ===== *)
theory TracerProps
  imports Tracer RegsX86
begin

text \<open>
  What the tracer guarantees. The locale \<open>traced_machine\<close> joins the memory laws and the
  register laws; inside it an intercepted exec is shown to hand the shim exactly the documented
  arguments, and a getcwd result to be rewritten within the caller's buffer. The properties of
  the event loop need no law of the kernel.
\<close>

section \<open>Machines that satisfy the laws\<close>

locale traced_machine = mm: tracee_memory "m_kernel M" mem + rr: syscall_regs "m_arch M"
  for M :: "('k, 'r, 'w::len word, 're) machine" and mem :: "'k \<Rightarrow> int \<Rightarrow> 'w word \<Rightarrow> char option" +
  assumes width: "LENGTH('w) = 32 \<or> LENGTH('w) = 64"
begin

lemma width8: "8 dvd LENGTH('w)"
  using width by auto

text \<open>The rewritten exec: what the kernel will read once the registers are committed.\<close>

lemma rewriteExec_ok:
  fixes regs :: 'r
  assumes t: "tot = estimateWriteSize TYPE('w) (tc_ShimPath (t_cfg t)) (tc_ShimPath (t_cfg t) # path # argv) (shimEnv t envp)"
    and room: "256 + tot + ptrSize TYPE('w) \<le> unat (StackPointer (m_arch M) regs)"
    and map: "mappedBetween (mem k pid) (unat (StackPointer (m_arch M) regs) - 256 - tot - ptrSize TYPE('w))
      (unat (StackPointer (m_arch M) regs) - 256)"
    and str: "\<forall>s\<in>set (tc_ShimPath (t_cfg t) # path # argv @ shimEnv t envp). NUL \<notin> set s \<and> length s < 4096"
  shows "\<exists>k3 r'. rewriteExec M t k pid regs b path argv envp = commitOrKill M k3 pid r' \<and>
    SyscallNum (m_arch M) r' = SyscallNum (m_arch M) regs \<and>
    (\<forall>x. unat (StackPointer (m_arch M) regs) - 256 \<le> unat x \<longrightarrow> mem k3 pid x = mem k pid x) \<and>
    (\<forall>k'. mem k' pid = mem k3 pid \<longrightarrow>
       ReadString (m_kernel M) k' pid (PathAddr (m_arch M) r' b) = Inr (tc_ShimPath (t_cfg t)) \<and>
       ReadStringArray (bigEndian (m_arch M)) (m_kernel M) k' pid (ArgvAddr (m_arch M) r' b) =
         Some (Inr (tc_ShimPath (t_cfg t) # path # argv)) \<and>
       ReadStringArray (bigEndian (m_arch M)) (m_kernel M) k' pid (EnvpAddr (m_arch M) r' b) =
         Some (Inr (shimEnv t envp)))"
proof -
  let ?A = "m_arch M" and ?K = "m_kernel M" and ?be = "bigEndian (m_arch M)"
  let ?shim = "tc_ShimPath (t_cfg t)" and ?argv = "tc_ShimPath (t_cfg t) # path # argv" and ?envp = "shimEnv t envp"
  define c where "c = stageBase (StackPointer ?A regs) tot"
  define a where "a = alignUp (c + word_of_nat (length ?shim + 1))"
  define e where "e = alignUp (a + word_of_nat (arraySize TYPE('w) ?argv))"
  obtain k1 k2 k3 where w: "WriteBytes ?K k pid c (?shim @ [NUL]) = (None, k1)"
    "WriteStringArray ?be ?K k1 pid a ?argv = (Inr (arraySize TYPE('w) ?argv), k2)"
    "WriteStringArray ?be ?K k2 pid e ?envp = (Inr (arraySize TYPE('w) ?envp), k3)"
    and h: "memHas (mem k3 pid) c (?shim @ [NUL])" "memHas (mem k3 pid) a (arrayImage ?be a ?argv)"
    "memHas (mem k3 pid) e (arrayImage ?be e ?envp)"
    and fit: "unat a + arraySize TYPE('w) ?argv \<le> 2 ^ LENGTH('w)" "unat e + arraySize TYPE('w) ?envp \<le> 2 ^ LENGTH('w)"
    and nz: "c \<noteq> 0" "a \<noteq> 0" "e \<noteq> 0"
    and fr: "\<forall>x. unat (StackPointer ?A regs) - 256 \<le> unat x \<longrightarrow> mem k3 pid x = mem k pid x"
    by (rule mm.stage_exec [OF width t room map c_def a_def e_def])
  let ?r = "redirectExec ?A regs b c a e"
  have run: "rewriteExec M t k pid regs b path argv envp = commitOrKill M k3 pid ?r"
    using w unfolding c_def a_def e_def stageBase_def t
    by (simp add: rewriteExec_def Let_def)
  have "ReadString ?K k' pid c = Inr ?shim \<and>
      ReadStringArray ?be ?K k' pid a = Some (Inr ?argv) \<and>
      ReadStringArray ?be ?K k' pid e = Some (Inr ?envp)" if "mem k' pid = mem k3 pid" for k'
  proof (intro conjI)
    show "ReadString ?K k' pid c = Inr ?shim"
      by (rule mm.ReadString_ok) (use h str nz that in auto)
    show "ReadStringArray ?be ?K k' pid a = Some (Inr ?argv)"
      by (rule mm.ReadStringArray_ok [OF width8 _ fit(1) nz(2)]) (use h str that in auto)
    show "ReadStringArray ?be ?K k' pid e = Some (Inr ?envp)"
      by (rule mm.ReadStringArray_ok [OF width8 _ fit(2) nz(3)]) (use h str that in auto)
  qed
  then show ?thesis
    using run fr rr.redirect_args rr.redirect_frame(1) by (intro exI [of _ k3] exI [of _ ?r]) simp
qed

text \<open>The exit stop of a getcwd whose result is to be rewritten.\<close>

lemma rewriteGetcwd_ok:
  assumes "cwdBuf ps \<noteq> 0" "Ret (m_arch M) regs = (ret, True)" "ret \<noteq> 0"
    and "memHas (mem k pid) (cwdBuf ps) (cwd @ [NUL])" "cwd \<noteq> []" "NUL \<notin> set cwd" "length cwd < 4096"
    and "RewritePathPrefix cwd (tc_CwdFrom (t_cfg t)) (tc_CwdTo (t_cfg t)) = (new, True)" "new \<noteq> cwd"
    and "length new + 1 < 2 ^ 64" "unat (cwdBuf ps) + unat (cwdSize ps) \<le> 2 ^ LENGTH('w)"
    and "mappedBetween (mem k pid) (unat (cwdBuf ps)) (unat (cwdBuf ps) + unat (cwdSize ps))"
  shows "if unat (cwdSize ps) < length new + 1
    then rewriteGetcwd M t k pid ps regs =
      snd (ptrace_setregs (m_kernel M) k pid (SetRetError (m_arch M) regs (word_of_nat ERANGE)))
    else \<exists>k1. rewriteGetcwd M t k pid ps regs =
        snd (ptrace_setregs (m_kernel M) k1 pid (SetRetSuccess (m_arch M) regs (word_of_nat (length new + 1)))) \<and>
      memHas (mem k1 pid) (cwdBuf ps) (new @ [NUL]) \<and>
      (\<forall>x. unat x < unat (cwdBuf ps) \<or> unat (cwdBuf ps) + unat (cwdSize ps) \<le> unat x \<longrightarrow> mem k1 pid x = mem k pid x)"
proof -
  have rd: "ReadString (m_kernel M) k pid (cwdBuf ps) = Inr cwd"
    by (rule mm.ReadString_ok) (use assms in auto)
  have gt: "cwdSize ps < word_of_nat (length new + 1) \<longleftrightarrow> unat (cwdSize ps) < length new + 1"
  proof -
    have "unat (word_of_nat (length new + 1) :: uint64) = length new + 1"
      using assms(10) unat_of_nat [of "length new + 1", where 'a = 64] by simp
    then show ?thesis unfolding word_less_nat_alt by (simp only:)
  qed
  have run: "rewriteGetcwd M t k pid ps regs =
      (if unat (cwdSize ps) < length new + 1
       then snd (ptrace_setregs (m_kernel M) k pid (SetRetError (m_arch M) regs (word_of_nat ERANGE)))
       else case WriteBytes (m_kernel M) k pid (cwdBuf ps) (new @ [NUL]) of
         (Some err, k) \<Rightarrow> k
       | (None, k) \<Rightarrow> snd (ptrace_setregs (m_kernel M) k pid (SetRetSuccess (m_arch M) regs (word_of_nat (length new + 1)))))"
    using assms(1-3,5,8,9) rd unfolding gt [symmetric]
    by (simp add: rewriteGetcwd_def Let_def split: prod.split option.split)
  show ?thesis
  proof (cases "unat (cwdSize ps) < length new + 1")
    case True
    then show ?thesis unfolding run by simp
  next
    case False
    then have len: "unat (cwdBuf ps) + length (new @ [NUL]) \<le> unat (cwdBuf ps) + unat (cwdSize ps)" by simp
    obtain k1 where "WriteBytes (m_kernel M) k pid (cwdBuf ps) (new @ [NUL]) = (None, k1)"
      "memHas (mem k1 pid) (cwdBuf ps) (new @ [NUL])"
      "\<forall>x. unat x < unat (cwdBuf ps) \<or> unat (cwdBuf ps) + length (new @ [NUL]) \<le> unat x \<longrightarrow> mem k1 pid x = mem k pid x"
      by (rule mm.WriteBytes_between [OF assms(12) order.refl len assms(11)])
    with False len show ?thesis unfolding run by (auto intro!: exI [of _ k1])
  qed
qed

end

definition flatMachine ::
  "('r, 'w::len word) arch \<Rightarrow> 're engine \<Rightarrow> uint32 \<Rightarrow> nat \<Rightarrow> (('r, 'w word) flatState, 'r, 'w word, 're) machine" where
  "flatMachine A eng getcwd sigstop =
     \<lparr>m_arch = A, m_kernel = flatKernel, m_engine = eng, m_getcwd = getcwd, m_SIGSTOP = sigstop\<rparr>"

lemma flatMachine_simps [simp]:
  "m_arch (flatMachine A eng g s) = A" "m_kernel (flatMachine A eng g s) = flatKernel"
  "m_engine (flatMachine A eng g s) = eng" "m_getcwd (flatMachine A eng g s) = g"
  "m_SIGSTOP (flatMachine A eng g s) = s"
  by (simp_all add: flatMachine_def)

interpretation flat_amd64: traced_machine "flatMachine amd64_arch eng g s" fs_mem for eng g s
proof -
  have "syscall_regs amd64_arch" by (rule amd64.syscall_regs_axioms)
  then show "traced_machine (flatMachine amd64_arch eng g s) fs_mem"
    using flat.tracee_memory_axioms by (simp add: traced_machine_def traced_machine_axioms_def)
qed

section \<open>Lemmas\<close>

text \<open>The registers are in place, or the tracee has been sent \<open>SIGKILL\<close>.\<close>

definition committedOrKilled :: "('k, 'r, 'p, 're) machine \<Rightarrow> 'k \<Rightarrow> int \<Rightarrow> 'r \<Rightarrow> 'k \<Rightarrow> bool" where
  "committedOrKilled M k pid r k' \<longleftrightarrow>
     ptrace_setregs (m_kernel M) k pid r = (None, k') \<or>
     (\<exists>err k2. ptrace_setregs (m_kernel M) k pid r = (Some err, k2) \<and> k' = kill_process (m_kernel M) k2 pid SIGKILL)"

lemma commitOrKill_iff: "k' = commitOrKill M k pid r \<longleftrightarrow> committedOrKilled M k pid r k'"
  by (auto simp: commitOrKill_def committedOrKilled_def killTracee_def split: prod.split option.split)

lemma commitOrKill_ends [simp]: "committedOrKilled M k pid r (commitOrKill M k pid r)"
  by (simp add: commitOrKill_iff [symmetric])

text \<open>Every path of an interception ends in a commit of blocked or redirected registers.\<close>

definition contained :: "('k, 'r, 'w::len word, 're) machine \<Rightarrow> 'w word Tracer \<Rightarrow> int \<Rightarrow> 'r \<Rightarrow> bool \<Rightarrow> 'k \<Rightarrow> bool" where
  "contained M t pid regs b k' \<longleftrightarrow>
     (\<exists>k1. committedOrKilled M k1 pid (BlockSyscall (m_arch M) regs) k') \<or>
     (\<exists>k0 k1 k2 c a e path argv envp.
        WriteBytes (m_kernel M) k0 pid c (tc_ShimPath (t_cfg t) @ [NUL]) = (None, k1) \<and>
        WriteStringArray (bigEndian (m_arch M)) (m_kernel M) k1 pid a (tc_ShimPath (t_cfg t) # path # argv) = (Inr (arraySize TYPE('w) (tc_ShimPath (t_cfg t) # path # argv)), k2) \<and>
        (\<exists>k3. WriteStringArray (bigEndian (m_arch M)) (m_kernel M) k2 pid e (shimEnv t envp) = (Inr (arraySize TYPE('w) (shimEnv t envp)), k3) \<and>
          committedOrKilled M k3 pid (redirectExec (m_arch M) regs b c a e) k'))"

lemma contained_block: "contained M t pid regs b (blockExec M k pid regs)"
  by (auto simp: contained_def blockExec_def intro: commitOrKill_ends)

lemma WriteStringArray_size:
  "WriteStringArray be K k pid (a::'w::len word) strs = (Inr n, k') \<Longrightarrow> n = arraySize TYPE('w) strs"
  by (auto simp: WriteStringArray_def arraySize_def Let_def split: prod.splits option.splits)

lemma rewriteExec_contained:
  fixes M :: "('k, 'r, 'w::len word, 're) machine"
  shows "contained M t pid regs b (rewriteExec M t k pid regs b path argv envp)"
proof -
  let ?shim = "tc_ShimPath (t_cfg t)"
  let ?c = "alignDown (StackPointer (m_arch M) regs - 256 -
    word_of_nat (estimateWriteSize TYPE('w) ?shim (?shim # path # argv) (shimEnv t envp)))"
  let ?a = "alignUp (?c + word_of_nat (length ?shim + 1))"
  obtain e1 k1 where w1: "WriteBytes (m_kernel M) k pid ?c (?shim @ [NUL]) = (e1, k1)" by fastforce
  obtain n2 k2 where w2: "WriteStringArray (bigEndian (m_arch M)) (m_kernel M) k1 pid ?a (?shim # path # argv) = (n2, k2)"
    by fastforce
  show ?thesis
  proof (cases e1; cases n2)
    fix u n
    assume n: "e1 = None" "n2 = Inr n"
    let ?e = "alignUp (?a + word_of_nat n)"
    obtain n3 k3 where w3: "WriteStringArray (bigEndian (m_arch M)) (m_kernel M) k2 pid ?e (shimEnv t envp) = (n3, k3)"
      by fastforce
    show ?thesis
    proof (cases n3)
      case (Inl err)
      then show ?thesis
        using w1 w2 w3 n contained_block [of M t pid regs b k3] by (simp add: rewriteExec_def Let_def)
    next
      case (Inr m)
      then have "rewriteExec M t k pid regs b path argv envp =
          commitOrKill M k3 pid (redirectExec (m_arch M) regs b ?c ?a ?e)"
        using w1 w2 w3 n by (simp add: rewriteExec_def Let_def)
      moreover have "n = arraySize TYPE('w) (?shim # path # argv)" "m = arraySize TYPE('w) (shimEnv t envp)"
        using WriteStringArray_size w2 w3 n(2) Inr by metis+
      ultimately show ?thesis
        unfolding contained_def using w1 w2 w3 n Inr commitOrKill_ends by metis
    qed
  qed (use w1 w2 contained_block [of M t pid regs b k1] contained_block [of M t pid regs b k2]
      in \<open>auto simp: rewriteExec_def Let_def\<close>)
qed

lemma interceptExec_contained:
  "interceptExec M t k pid regs b path = Some k' \<Longrightarrow> contained M t pid regs b k'"
  using rewriteExec_contained contained_block
  by (auto simp: interceptExec_def Let_def split: option.splits sum.splits)

lemma isExecNum_guard:
  "isExecNum A n \<Longrightarrow> \<not> (n \<noteq> ucast (sysExecve A) \<and> n \<noteq> ucast (sysExecveat A))"
  by (auto simp: isExecNum_def)

section \<open>A concrete tracee\<close>

definition exampleRegs :: amd64_regs where
  "exampleRegs = \<lparr>amd64_Orig_rax = 59, amd64_Rdi = 0x1000, amd64_Rsi = 0, amd64_Rdx = 0, amd64_R10 = 0,
     amd64_Rsp = 0x8000, amd64_Rax = 0\<rparr>"

definition exampleState :: "(amd64_regs, 64 word) flatState" where
  "exampleState = \<lparr>fs_mem = (\<lambda>_ a. Some (if a = 0x1000 then CHR ''/'' else if a = 0x1001 then CHR ''x'' else NUL)),
     fs_regs = (\<lambda>_. Some exampleRegs), fs_event = (\<lambda>_. Some 8), fs_log = []\<rparr>"

definition exampleTracer :: "64 word Tracer" where
  "exampleTracer = setPid (NewTracer \<lparr>tc_ShimPath = ''/s'', tc_Whitelist = [''ls''], tc_BrokerSock = [],
     tc_CwdFrom = [], tc_CwdTo = []\<rparr>) 7 newPidState"

abbreviation exampleMachine :: "((amd64_regs, 64 word) flatState, amd64_regs, 64 word, string) machine" where
  "exampleMachine \<equiv> flatMachine amd64_arch litEngine 79 19"

lemma example_simps [simp]:
  "ptrace_getregs flatKernel exampleState pid = Inr exampleRegs"
  "SyscallNum amd64_arch exampleRegs = 59" "sysExecve amd64_arch = 59" "sysExecveat amd64_arch = 322"
  "PathAddr amd64_arch exampleRegs False = 0x1000" "ArgvAddr amd64_arch exampleRegs False = 0"
  "EnvpAddr amd64_arch exampleRegs False = 0" "StackPointer amd64_arch exampleRegs = 0x8000"
  "tc_ShimPath (t_cfg exampleTracer) = ''/s''" "tc_CwdFrom (t_cfg exampleTracer) = []"
  "shouldAllow litEngine (t_cfg exampleTracer) ''/x'' = False"
  "ReadStringArray be flatKernel exampleState pid 0 = Some (Inr [])"
  "cwdMapEnabled (t_cfg exampleTracer) = False"
  by (simp_all add: flatKernel_def exampleState_def exampleRegs_def amd64_defs exampleTracer_def NewTracer_def
      setPid_def shouldAllow_def MatchLocalCommand_def CompileLocalCommand_def ruleMatch_def Base_def
      ReadStringArray_def cwdMapEnabled_def)

lemma example_path: "ReadString flatKernel exampleState pid 0x1000 = Inr ''/x''"
  by (rule flat.ReadString_ok) (auto simp: memHas_def exampleState_def less_Suc_eq numeral_3_eq_3 nth_Cons')

lemma example_mapped: "mappedBetween (fs_mem exampleState pid) lo hi"
  by (simp add: mappedBetween_def exampleState_def)

lemma example_env: "shimEnv exampleTracer [] = [''MPROXY_HOOK_BYPASS=1'']"
  by (simp add: shimEnv_def InjectEnvVars_def ChangedKeys_def)

section \<open>Properties\<close>





text \<open>
  The \<open>PWD\<close> remap changes at most the first \<open>PWD\<close> entry, exactly when its value lies under
  the source prefix and the rewrite differs, and reports a change exactly then; every other entry
  and the order stay.
\<close>

theorem remapPWDEnv_spec:
  "remapPWDEnv env src dst =
     (let others = takeWhile (\<lambda>e. \<not> HasPrefix e ''PWD='') env in
      case dropWhile (\<lambda>e. \<not> HasPrefix e ''PWD='') env of
        [] \<Rightarrow> (env, False)
      | e # rest \<Rightarrow>
          let (v', matched) = RewritePathPrefix (drop 4 e) src dst in
          if matched \<and> e \<noteq> ''PWD='' @ v' then (others @ (''PWD='' @ v') # rest, True) else (env, False))"
proof (induction env)
  case (Cons e env)
  show ?case
  proof (cases "HasPrefix e ''PWD=''")
    case True
    then obtain v where "e = ''PWD='' @ v" by (auto simp: HasPrefix_iff)
    then show ?thesis by (auto simp: Let_def split: prod.splits)
  next
    case False
    then have step: "remapPWDEnv (e # env) src dst = (e # fst (remapPWDEnv env src dst), snd (remapPWDEnv env src dst))"
      by (simp add: split_beta)
    show ?thesis
    proof (cases "dropWhile (\<lambda>e. \<not> HasPrefix e ''PWD='') env")
      case Nil
      with Cons.IH False show ?thesis unfolding step by (simp del: dropWhile_eq_Nil_conv)
    next
      case (Cons x rest)
      obtain q ok where "RewritePathPrefix (drop 4 x) src dst = (q, ok)" by fastforce
      with Cons Cons.IH False show ?thesis unfolding step
        by (cases "ok \<and> x \<noteq> ''PWD='' @ q") simp_all
    qed
  qed
qed simp

subsection \<open>The event loop\<close>

lemma wsStopSignal_stopped: "wsStopSignal ws = s \<Longrightarrow> 0 \<le> s \<Longrightarrow> wsStopped ws"
  by (auto simp: wsStopSignal_def split: if_splits)

lemma lookup_setPid [simp]:
  "Mapping.lookup (t_pids (setPid t pid ps)) q = (if q = pid then Some ps else Mapping.lookup (t_pids t) q)"
  by (simp add: setPid_def lookup_update')

lemma setPid_cfg [simp]: "t_cfg (setPid t pid ps) = t_cfg t" "t_baseline (setPid t pid ps) = t_baseline t"
  by (simp_all add: setPid_def)

lemma setPid_setPid [simp]: "setPid (setPid t pid ps) pid ps' = setPid t pid ps'"
  by (simp add: setPid_def mapping_eqI lookup_update')

text \<open>Successive syscall stops of one process, each in the system state it happens in.\<close>

fun stopsAt :: "('k, 'r, 'w::len word, 're) machine \<Rightarrow> int \<Rightarrow> 'w word Tracer \<Rightarrow> 'k list \<Rightarrow> 'w word Tracer option" where
  "stopsAt M pid t [] = Some t"
| "stopsAt M pid t (k # ks) =
     (case handleSyscallStop M t k pid of None \<Rightarrow> None | Some (t', k') \<Rightarrow> stopsAt M pid t' ks)"

lemma handleSyscallStop_toggles:
  assumes "handleSyscallStop M t k pid = Some (t', k')" "\<not> cwdMapEnabled (t_cfg t)"
    "Mapping.lookup (t_pids t) pid = Some ps"
  shows "\<exists>ps'. Mapping.lookup (t_pids t') pid = Some ps' \<and> inSyscall ps' = (\<not> inSyscall ps)"
    and "t_cfg t' = t_cfg t"
  using assms by (auto simp: handleSyscallStop_def handleGetcwdStop_def Let_def split: if_splits option.splits)

lemma stopsAt_parity:
  assumes "stopsAt M pid t ks = Some t'" "\<not> cwdMapEnabled (t_cfg t)" "Mapping.lookup (t_pids t) pid = Some ps"
  shows "\<exists>ps'. Mapping.lookup (t_pids t') pid = Some ps' \<and> inSyscall ps' = (inSyscall ps \<noteq> odd (length ks)) \<and>
    t_cfg t' = t_cfg t"
  using assms
proof (induction ks arbitrary: t ps)
  case (Cons k ks)
  then obtain t1 k1 where s: "handleSyscallStop M t k pid = Some (t1, k1)" "stopsAt M pid t1 ks = Some t'"
    by (auto split: option.splits)
  obtain ps1 where p: "Mapping.lookup (t_pids t1) pid = Some ps1" "inSyscall ps1 = (\<not> inSyscall ps)"
    and c: "t_cfg t1 = t_cfg t"
    using handleSyscallStop_toggles [OF s(1) Cons.prems(2,3)] by blast
  have "\<not> cwdMapEnabled (t_cfg t1)" using Cons.prems(2) c by simp
  from Cons.IH [OF s(2) this p(1)] show ?case using p(2) c by auto
qed auto

text \<open>
  C12. Execs after a completed exec are not intercepted. Once the exec event of a process has been
  handled, the kernel still reports the exit stop of that exec and then an entry and an exit stop
  per system call, so the entry of a later exec comes after an odd number of stops. The tracer
  takes that entry for an exit: it changes nothing in the tracee, whatever the registers hold.
\<close>

theorem exec_after_exec_missed:
  assumes "Mapping.lookup (t_pids t) pid = Some ps" "\<not> cwdMapEnabled (t_cfg t)"
    and "wsStopSignal ws = int SIGTRAP" "drop_bit 16 ws = 4" "handleStop M t k pid ws = Some (t1, k1)"
    and "odd (length ks)" "stopsAt M pid t1 ks = Some t2"
  shows "\<exists>t3. \<forall>k. handleSyscallStop M t2 k pid = Some (t3, k)"
proof -
  have t1: "t1 = setPid t pid (ps\<lparr>inSyscall := False\<rparr>)"
    using assms(1,3,4,5) by (simp add: handleStop_def)
  then have "Mapping.lookup (t_pids t1) pid = Some (ps\<lparr>inSyscall := False\<rparr>)" "\<not> cwdMapEnabled (t_cfg t1)"
    using assms(2) by simp_all
  from stopsAt_parity [OF assms(7) this(2,1)] assms(6)
  obtain ps' where "Mapping.lookup (t_pids t2) pid = Some ps'" "inSyscall ps'" "t_cfg t2 = t_cfg t1" by auto
  then show ?thesis
    using assms(2) t1 by (simp add: handleSyscallStop_def handleGetcwdStop_def)
qed

theorem exec_after_exec_missed_witness:
  "\<exists>t3. \<forall>k. handleSyscallStop exampleMachine (setPid exampleTracer 7 (newPidState\<lparr>inSyscall := True\<rparr>)) k 7 = Some (t3, k)"
proof -
  let ?k = "exampleState\<lparr>fs_regs := (\<lambda>_. Some (exampleRegs\<lparr>amd64_Rdi := 0\<rparr>))\<rparr>"
  have l: "Mapping.lookup (t_pids exampleTracer) 7 = Some newPidState" by (simp add: exampleTracer_def)
  have "handleExecEntry exampleMachine t ?k 7 = Some ?k" if "t_cfg t = t_cfg exampleTracer" for t
    using that by (simp add: handleExecEntry_def flatKernel_def amd64_defs exampleRegs_def ReadString_def
        shouldAllow_def cwdMapEnabled_def exampleTracer_def NewTracer_def)
  then have s: "stopsAt exampleMachine 7 (setPid exampleTracer 7 newPidState) [?k] =
      Some (setPid exampleTracer 7 (newPidState\<lparr>inSyscall := True\<rparr>))"
    by (simp add: handleSyscallStop_def handleGetcwdStop_def newPidState_def)
  have ws: "wsStopSignal 0x4057F = 5" "drop_bit 16 (0x4057F :: uint32) = 4"
    by (simp_all add: wsStopSignal_def wsStopped_def)
  have "handleStop exampleMachine exampleTracer ?k 7 0x4057F =
      Some (setPid exampleTracer 7 newPidState, resume exampleMachine ?k 7 0)"
    using l ws by (simp add: handleStop_def newPidState_def)
  from exec_after_exec_missed [OF l _ _ _ this _ s] ws show ?thesis by simp
qed

text \<open>
  The initial stop of a new child is suppressed in whichever order the two events arrive: the
  parent's fork event before the child's SIGSTOP, or after it. Both orders leave the same tracer
  state, in which the child is known and expects no further stop, and both resume parent and
  child without a signal; a later SIGSTOP of the child is delivered.
\<close>

theorem initial_stop_suppressed:
  assumes "Mapping.lookup (t_pids t) child = None" "parent \<noteq> child"
    and "wsStopSignal wsF = int SIGTRAP" "drop_bit 16 wsF \<in> {1, 2, 3}"
    and "wsStopSignal wsC = int (m_SIGSTOP M)" "drop_bit 16 wsC = 0" "m_SIGSTOP M \<noteq> SIGTRAP" "m_SIGSTOP M \<noteq> 0x85"
    and "\<forall>k. ptrace_geteventmsg (m_kernel M) k parent = Inr (nat child)" "0 \<le> child"
  shows "(\<exists>t1 k1. handleStop M t k parent wsF = Some (t1, k1) \<and>
      handleStop M t1 k1 child wsC = Some (setPid t child newPidState, resume M (resume M k parent 0) child 0)) \<and>
    (\<exists>t1 k1. handleStop M t k child wsC = Some (t1, k1) \<and>
      handleStop M t1 k1 parent wsF = Some (setPid t child newPidState, resume M (resume M k child 0) parent 0)) \<and>
    handleStop M (setPid t child newPidState) k child wsC = Some (setPid t child newPidState, resume M k child (int (m_SIGSTOP M)))"
proof -
  have c: "handleStop M s k child wsC = Some (handleSignalStop M s k child (int (m_SIGSTOP M)))" for s k
    using assms(5-8) by (simp add: handleStop_def)
  have f: "handleStop M s k parent wsF = Some (handleNewChild M s k parent, resume M k parent 0)" for s k
    using assms(3,4) by (auto simp: handleStop_def)
  have new: "handleNewChild M s k parent =
      (if Mapping.lookup (t_pids s) child = None then setPid s child (newPidState\<lparr>expectStop := True\<rparr>) else s)" for s k
    using assms(9,10) by (simp add: handleNewChild_def)
  show ?thesis
    using assms(1,2) by (simp add: c f new handleSignalStop_def newPidState_def)
qed

theorem initial_stop_suppressed_witness:
  "handleStop exampleMachine (setPid exampleTracer 8 newPidState) exampleState 8 0x137F =
     Some (setPid exampleTracer 8 newPidState, resume exampleMachine exampleState 8 19)"
proof -
  have ws: "wsStopSignal 0x1057F = 5" "wsStopSignal 0x137F = 19"
    "drop_bit 16 (0x1057F :: uint32) = 1" "drop_bit 16 (0x137F :: uint32) = 0"
    by (simp_all add: wsStopSignal_def wsStopped_def)
  have l: "Mapping.lookup (t_pids exampleTracer) 8 = None"
    by (simp add: exampleTracer_def NewTracer_def)
  let ?K = "flatKernel\<lparr>ptrace_geteventmsg := (\<lambda>_ _. Inr 8)\<rparr>"
  have "handleStop (exampleMachine\<lparr>m_kernel := ?K\<rparr>) (setPid exampleTracer 8 newPidState) exampleState 8 0x137F =
     Some (setPid exampleTracer 8 newPidState, resume (exampleMachine\<lparr>m_kernel := ?K\<rparr>) exampleState 8 19)"
    using initial_stop_suppressed [of exampleTracer 8 7 "0x1057F" "0x137F" "exampleMachine\<lparr>m_kernel := ?K\<rparr>" exampleState]
      l ws by simp
  then show ?thesis using ws by (simp add: handleStop_def handleSignalStop_def resume_def newPidState_def)
qed

text \<open>
  The exit code of a traced run: it is the initial value 127, or comes from a termination
  event of the traced child itself, namely its exit status (0 to 255) or 128 plus the number of
  the signal that killed it (129 to 254). No other process changes it.
\<close>

theorem traceLoop_exit_code:
  "traceLoop M childPid code t k evs = ExitCode c s \<Longrightarrow>
     c = code \<or> (\<exists>ws. Inr (childPid, ws) \<in> set evs \<and>
       (wsExited ws \<and> c = wsExitStatus ws \<and> 0 \<le> c \<and> c \<le> 255 \<or>
        wsSignaled ws \<and> c = 128 + wsSignal ws \<and> 129 \<le> c \<and> c \<le> 254))"
proof (induction evs arbitrary: code t k)
  case Nil
  then show ?case by (simp add: traceLoop.simps split: if_splits)
next
  case (Cons ev evs)
  show ?case
  proof (cases "Mapping.is_empty (t_pids t)")
    case True
    then show ?thesis using Cons.prems by (simp add: traceLoop.simps)
  next
    case run: False
    show ?thesis
    proof (cases ev)
      case (Inl err)
      then show ?thesis using Cons.prems run by (simp add: traceLoop.simps [of M childPid code t k])
    next
      case (Inr pw)
      obtain pid ws where pw: "pw = (pid, ws)" by fastforce
      obtain code' t' k' where st: "traceStep M childPid code t k pid ws = Some (code', t', k')"
        and rec: "traceLoop M childPid code' t' k' evs = ExitCode c s"
        using Cons.prems run Inr pw
        by (auto simp: traceLoop.simps [of M childPid code t k] split: option.splits)
      have "code' = code \<or> pid = childPid \<and> (wsExited ws \<and> code' = wsExitStatus ws \<or>
          wsSignaled ws \<and> code' = 128 + wsSignal ws)"
        using st by (auto simp: traceStep_def split: if_splits)
      then show ?thesis
        using Cons.IH [OF rec] wsExitStatus_bounds [of ws] wsSignal_bounds [of ws] Inr pw by fastforce
    qed
  qed
qed

theorem traceLoop_exit_code_witness:
  "\<exists>s. traceLoop exampleMachine 7 127 exampleTracer exampleState [Inr (7, 0x0300)] = ExitCode 3 s"
proof -
  have e: "Mapping.is_empty (t_pids (delPid exampleTracer 7))" "\<not> Mapping.is_empty (t_pids exampleTracer)"
    by (simp_all add: exampleTracer_def delPid_def setPid_def NewTracer_def is_empty_empty delete_update)
  then obtain c s where r: "traceLoop exampleMachine 7 127 exampleTracer exampleState [Inr (7, 0x0300)] = ExitCode c s"
    and "c \<noteq> 127"
    by (simp add: traceLoop.simps traceStep_def wsExited_def wsExitStatus_def)
  with traceLoop_exit_code [OF r] show ?thesis
    by (auto simp: wsExited_def wsExitStatus_def wsSignaled_def)
qed

text \<open>
  C20. A rewritten getcwd stays inside the caller's buffer: if the mapped directory with its NUL
  fits the size the caller gave, the buffer then holds it, the call returns its length, and no
  byte outside the buffer has changed; if it does not fit, memory is untouched and the call
  returns ERANGE.
\<close>

theorem getcwd_within_buffer:
  fixes M :: "('k, 'r, 'w::len word, 're) machine"
  assumes "traced_machine M mem" "cwdBuf ps \<noteq> 0" "Ret (m_arch M) regs = (ret, True)" "ret \<noteq> 0"
    and "memHas (mem k pid) (cwdBuf ps) (cwd @ [NUL])" "cwd \<noteq> []" "NUL \<notin> set cwd" "length cwd < 4096"
    and "RewritePathPrefix cwd (tc_CwdFrom (t_cfg t)) (tc_CwdTo (t_cfg t)) = (new, True)" "new \<noteq> cwd"
    and "length new + 1 < 2 ^ 64" "unat (cwdBuf ps) + unat (cwdSize ps) \<le> 2 ^ LENGTH('w)"
    and "mappedBetween (mem k pid) (unat (cwdBuf ps)) (unat (cwdBuf ps) + unat (cwdSize ps))"
  shows "if unat (cwdSize ps) < length new + 1
    then rewriteGetcwd M t k pid ps regs =
      snd (ptrace_setregs (m_kernel M) k pid (SetRetError (m_arch M) regs (word_of_nat ERANGE)))
    else \<exists>k1. rewriteGetcwd M t k pid ps regs =
        snd (ptrace_setregs (m_kernel M) k1 pid (SetRetSuccess (m_arch M) regs (word_of_nat (length new + 1)))) \<and>
      memHas (mem k1 pid) (cwdBuf ps) (new @ [NUL]) \<and>
      (\<forall>x. unat x < unat (cwdBuf ps) \<or> unat (cwdBuf ps) + unat (cwdSize ps) \<le> unat x \<longrightarrow> mem k1 pid x = mem k pid x)"
  using assms by (rule traced_machine.rewriteGetcwd_ok)

theorem getcwd_within_buffer_witness:
  "\<exists>k1. rewriteGetcwd exampleMachine (exampleTracer\<lparr>t_cfg := (t_cfg exampleTracer)\<lparr>tc_CwdFrom := ''/x'', tc_CwdTo := ''/remote''\<rparr>\<rparr>)
     exampleState 7 (newPidState\<lparr>cwdBuf := 0x1000, cwdSize := 0x100\<rparr>) (exampleRegs\<lparr>amd64_Rax := 3\<rparr>) =
       snd (ptrace_setregs flatKernel k1 7 (SetRetSuccess amd64_arch (exampleRegs\<lparr>amd64_Rax := 3\<rparr>) 8)) \<and>
     memHas (fs_mem k1 7) 0x1000 (''/remote'' @ [NUL])"
proof -
  have m: "memHas (fs_mem exampleState 7) 0x1000 (''/x'' @ [NUL])"
    by (auto simp: memHas_def exampleState_def less_Suc_eq numeral_3_eq_3 nth_Cons')
  have r: "Ret amd64_arch (exampleRegs\<lparr>amd64_Rax := 3\<rparr>) = (3, True)" by (simp add: amd64_defs)
  show ?thesis
    using getcwd_within_buffer [OF flat_amd64.traced_machine_axioms, of
        "newPidState\<lparr>cwdBuf := 0x1000, cwdSize := 0x100\<rparr>" litEngine 79 19 "exampleRegs\<lparr>amd64_Rax := 3\<rparr>" 3 exampleState 7 "''/x''"
        "exampleTracer\<lparr>t_cfg := (t_cfg exampleTracer)\<lparr>tc_CwdFrom := ''/x'', tc_CwdTo := ''/remote''\<rparr>\<rparr>" "''/remote''"]
      m r by (auto simp: RewritePathPrefix_def example_mapped)
qed

end
