(* ===== verification/RegsArm.thy ===== *)
theory RegsArm
  imports Regs
begin

text \<open>
  ARM: \<open>rewrite_linux_arm64.go\<close> and \<open>rewrite_linux_arm.go\<close>, whose registers are arrays indexed by register number.
\<close>

unbundle bit_operations_syntax

section \<open>\<open>rewrite_linux_arm64.go\<close>\<close>

record arm64_regs =
  arm64_Regs :: "nat \<Rightarrow> 64 word"
  arm64_Sp :: "64 word"

definition arm64_SyscallNum :: "arm64_regs \<Rightarrow> uint64" where
  "arm64_SyscallNum r = arm64_Regs r 8"

definition arm64_BlockSyscall :: "arm64_regs \<Rightarrow> arm64_regs" where
  "arm64_BlockSyscall r = r\<lparr>arm64_Regs := (arm64_Regs r)(8 := NOT 0)\<rparr>"

definition arm64_PathAddr :: "arm64_regs \<Rightarrow> bool \<Rightarrow> 64 word" where
  "arm64_PathAddr r isExecveat = (if isExecveat then arm64_Regs r 1 else arm64_Regs r 0)"

definition arm64_ArgvAddr :: "arm64_regs \<Rightarrow> bool \<Rightarrow> 64 word" where
  "arm64_ArgvAddr r isExecveat = (if isExecveat then arm64_Regs r 2 else arm64_Regs r 1)"

definition arm64_EnvpAddr :: "arm64_regs \<Rightarrow> bool \<Rightarrow> 64 word" where
  "arm64_EnvpAddr r isExecveat = (if isExecveat then arm64_Regs r 3 else arm64_Regs r 2)"

definition arm64_SetPathAddr :: "arm64_regs \<Rightarrow> bool \<Rightarrow> 64 word \<Rightarrow> arm64_regs" where
  "arm64_SetPathAddr r isExecveat addr =
     (if isExecveat then r\<lparr>arm64_Regs := (arm64_Regs r)(1 := addr)\<rparr>
      else r\<lparr>arm64_Regs := (arm64_Regs r)(0 := addr)\<rparr>)"

definition arm64_SetArgvAddr :: "arm64_regs \<Rightarrow> bool \<Rightarrow> 64 word \<Rightarrow> arm64_regs" where
  "arm64_SetArgvAddr r isExecveat addr =
     (if isExecveat then r\<lparr>arm64_Regs := (arm64_Regs r)(2 := addr)\<rparr>
      else r\<lparr>arm64_Regs := (arm64_Regs r)(1 := addr)\<rparr>)"

definition arm64_SetEnvpAddr :: "arm64_regs \<Rightarrow> bool \<Rightarrow> 64 word \<Rightarrow> arm64_regs" where
  "arm64_SetEnvpAddr r isExecveat addr =
     (if isExecveat then r\<lparr>arm64_Regs := (arm64_Regs r)(3 := addr)\<rparr>
      else r\<lparr>arm64_Regs := (arm64_Regs r)(2 := addr)\<rparr>)"

definition arm64_StackPointer :: "arm64_regs \<Rightarrow> 64 word" where
  "arm64_StackPointer r = arm64_Sp r"

definition arm64_Ret :: "arm64_regs \<Rightarrow> 64 word \<times> bool" where
  "arm64_Ret r = (arm64_Regs r 0, 0 \<le> sint (arm64_Regs r 0))"

definition arm64_SetRetSuccess :: "arm64_regs \<Rightarrow> 64 word \<Rightarrow> arm64_regs" where
  "arm64_SetRetSuccess r v = r\<lparr>arm64_Regs := (arm64_Regs r)(0 := v)\<rparr>"

definition arm64_SetRetError :: "arm64_regs \<Rightarrow> 64 word \<Rightarrow> arm64_regs" where
  "arm64_SetRetError r errno = r\<lparr>arm64_Regs := (arm64_Regs r)(0 := - errno)\<rparr>"

definition arm64_arch :: "(arm64_regs, 64 word) arch" where
  "arm64_arch = \<lparr>sysExecve = 221, sysExecveat = 281, bigEndian = False,
     SyscallNum = arm64_SyscallNum, BlockSyscall = arm64_BlockSyscall,
     PathAddr = arm64_PathAddr, ArgvAddr = arm64_ArgvAddr,
     EnvpAddr = arm64_EnvpAddr, SetPathAddr = arm64_SetPathAddr,
     SetArgvAddr = arm64_SetArgvAddr, SetEnvpAddr = arm64_SetEnvpAddr,
     StackPointer = arm64_StackPointer, Ret = arm64_Ret,
     SetRetSuccess = arm64_SetRetSuccess, SetRetError = arm64_SetRetError\<rparr>"

lemmas arm64_defs = arm64_arch_def arm64_SyscallNum_def arm64_BlockSyscall_def arm64_PathAddr_def arm64_ArgvAddr_def arm64_EnvpAddr_def arm64_SetPathAddr_def arm64_SetArgvAddr_def arm64_SetEnvpAddr_def arm64_StackPointer_def arm64_Ret_def arm64_SetRetSuccess_def arm64_SetRetError_def

interpretation arm64: syscall_regs_stable arm64_arch
  by unfold_locales (auto simp: arm64_defs isExecNum_def sint_neg_errno)

section \<open>\<open>rewrite_linux_arm.go\<close>\<close>

record arm_regs =
  arm_Uregs :: "nat \<Rightarrow> 32 word"

definition arm_SyscallNum :: "arm_regs \<Rightarrow> uint64" where
  "arm_SyscallNum r = ucast (arm_Uregs r 7)"

definition arm_BlockSyscall :: "arm_regs \<Rightarrow> arm_regs" where
  "arm_BlockSyscall r = r\<lparr>arm_Uregs := (arm_Uregs r)(7 := NOT 0)\<rparr>"

definition arm_PathAddr :: "arm_regs \<Rightarrow> bool \<Rightarrow> 32 word" where
  "arm_PathAddr r isExecveat = (if isExecveat then arm_Uregs r 1 else arm_Uregs r 0)"

definition arm_ArgvAddr :: "arm_regs \<Rightarrow> bool \<Rightarrow> 32 word" where
  "arm_ArgvAddr r isExecveat = (if isExecveat then arm_Uregs r 2 else arm_Uregs r 1)"

definition arm_EnvpAddr :: "arm_regs \<Rightarrow> bool \<Rightarrow> 32 word" where
  "arm_EnvpAddr r isExecveat = (if isExecveat then arm_Uregs r 3 else arm_Uregs r 2)"

definition arm_SetPathAddr :: "arm_regs \<Rightarrow> bool \<Rightarrow> 32 word \<Rightarrow> arm_regs" where
  "arm_SetPathAddr r isExecveat addr =
     (if isExecveat then r\<lparr>arm_Uregs := (arm_Uregs r)(1 := addr)\<rparr>
      else r\<lparr>arm_Uregs := (arm_Uregs r)(0 := addr)\<rparr>)"

definition arm_SetArgvAddr :: "arm_regs \<Rightarrow> bool \<Rightarrow> 32 word \<Rightarrow> arm_regs" where
  "arm_SetArgvAddr r isExecveat addr =
     (if isExecveat then r\<lparr>arm_Uregs := (arm_Uregs r)(2 := addr)\<rparr>
      else r\<lparr>arm_Uregs := (arm_Uregs r)(1 := addr)\<rparr>)"

definition arm_SetEnvpAddr :: "arm_regs \<Rightarrow> bool \<Rightarrow> 32 word \<Rightarrow> arm_regs" where
  "arm_SetEnvpAddr r isExecveat addr =
     (if isExecveat then r\<lparr>arm_Uregs := (arm_Uregs r)(3 := addr)\<rparr>
      else r\<lparr>arm_Uregs := (arm_Uregs r)(2 := addr)\<rparr>)"

definition arm_StackPointer :: "arm_regs \<Rightarrow> 32 word" where
  "arm_StackPointer r = arm_Uregs r 13"

definition arm_Ret :: "arm_regs \<Rightarrow> 32 word \<times> bool" where
  "arm_Ret r = (arm_Uregs r 0, 0 \<le> sint (arm_Uregs r 0))"

definition arm_SetRetSuccess :: "arm_regs \<Rightarrow> 32 word \<Rightarrow> arm_regs" where
  "arm_SetRetSuccess r v = r\<lparr>arm_Uregs := (arm_Uregs r)(0 := v)\<rparr>"

definition arm_SetRetError :: "arm_regs \<Rightarrow> 32 word \<Rightarrow> arm_regs" where
  "arm_SetRetError r errno = r\<lparr>arm_Uregs := (arm_Uregs r)(0 := - errno)\<rparr>"

definition arm_arch :: "(arm_regs, 32 word) arch" where
  "arm_arch = \<lparr>sysExecve = 11, sysExecveat = 387, bigEndian = False,
     SyscallNum = arm_SyscallNum, BlockSyscall = arm_BlockSyscall,
     PathAddr = arm_PathAddr, ArgvAddr = arm_ArgvAddr,
     EnvpAddr = arm_EnvpAddr, SetPathAddr = arm_SetPathAddr,
     SetArgvAddr = arm_SetArgvAddr, SetEnvpAddr = arm_SetEnvpAddr,
     StackPointer = arm_StackPointer, Ret = arm_Ret,
     SetRetSuccess = arm_SetRetSuccess, SetRetError = arm_SetRetError\<rparr>"

lemmas arm_defs = arm_arch_def arm_SyscallNum_def arm_BlockSyscall_def arm_PathAddr_def arm_ArgvAddr_def arm_EnvpAddr_def arm_SetPathAddr_def arm_SetArgvAddr_def arm_SetEnvpAddr_def arm_StackPointer_def arm_Ret_def arm_SetRetSuccess_def arm_SetRetError_def

interpretation arm: syscall_regs_stable arm_arch
  by unfold_locales (auto simp: arm_defs isExecNum_def sint_neg_errno ucast_minus_1)

end
