(* ===== verification/RegsRisc.thy ===== *)
theory RegsRisc
  imports Regs
begin

text \<open>
  RISC-V, LoongArch, s390x and POWER: \<open>rewrite_linux_riscv64.go\<close>, \<open>rewrite_linux_loong64.go\<close>, \<open>rewrite_linux_s390x.go\<close> and \<open>rewrite_linux_ppc64x.go\<close>. The ppc64x file is built for both byte orders, so its method table takes the byte order as an argument.
\<close>

unbundle bit_operations_syntax

section \<open>\<open>rewrite_linux_riscv64.go\<close>\<close>

record riscv64_regs =
  riscv64_A0 :: "64 word"
  riscv64_A1 :: "64 word"
  riscv64_A2 :: "64 word"
  riscv64_A3 :: "64 word"
  riscv64_A7 :: "64 word"
  riscv64_Sp :: "64 word"

definition riscv64_SyscallNum :: "riscv64_regs \<Rightarrow> uint64" where
  "riscv64_SyscallNum r = riscv64_A7 r"

definition riscv64_BlockSyscall :: "riscv64_regs \<Rightarrow> riscv64_regs" where
  "riscv64_BlockSyscall r = r\<lparr>riscv64_A7 := NOT 0\<rparr>"

definition riscv64_PathAddr :: "riscv64_regs \<Rightarrow> bool \<Rightarrow> 64 word" where
  "riscv64_PathAddr r isExecveat = (if isExecveat then riscv64_A1 r else riscv64_A0 r)"

definition riscv64_ArgvAddr :: "riscv64_regs \<Rightarrow> bool \<Rightarrow> 64 word" where
  "riscv64_ArgvAddr r isExecveat = (if isExecveat then riscv64_A2 r else riscv64_A1 r)"

definition riscv64_EnvpAddr :: "riscv64_regs \<Rightarrow> bool \<Rightarrow> 64 word" where
  "riscv64_EnvpAddr r isExecveat = (if isExecveat then riscv64_A3 r else riscv64_A2 r)"

definition riscv64_SetPathAddr :: "riscv64_regs \<Rightarrow> bool \<Rightarrow> 64 word \<Rightarrow> riscv64_regs" where
  "riscv64_SetPathAddr r isExecveat addr =
     (if isExecveat then r\<lparr>riscv64_A1 := addr\<rparr>
      else r\<lparr>riscv64_A0 := addr\<rparr>)"

definition riscv64_SetArgvAddr :: "riscv64_regs \<Rightarrow> bool \<Rightarrow> 64 word \<Rightarrow> riscv64_regs" where
  "riscv64_SetArgvAddr r isExecveat addr =
     (if isExecveat then r\<lparr>riscv64_A2 := addr\<rparr>
      else r\<lparr>riscv64_A1 := addr\<rparr>)"

definition riscv64_SetEnvpAddr :: "riscv64_regs \<Rightarrow> bool \<Rightarrow> 64 word \<Rightarrow> riscv64_regs" where
  "riscv64_SetEnvpAddr r isExecveat addr =
     (if isExecveat then r\<lparr>riscv64_A3 := addr\<rparr>
      else r\<lparr>riscv64_A2 := addr\<rparr>)"

definition riscv64_StackPointer :: "riscv64_regs \<Rightarrow> 64 word" where
  "riscv64_StackPointer r = riscv64_Sp r"

definition riscv64_Ret :: "riscv64_regs \<Rightarrow> 64 word \<times> bool" where
  "riscv64_Ret r = (riscv64_A0 r, 0 \<le> sint (riscv64_A0 r))"

definition riscv64_SetRetSuccess :: "riscv64_regs \<Rightarrow> 64 word \<Rightarrow> riscv64_regs" where
  "riscv64_SetRetSuccess r v = r\<lparr>riscv64_A0 := v\<rparr>"

definition riscv64_SetRetError :: "riscv64_regs \<Rightarrow> 64 word \<Rightarrow> riscv64_regs" where
  "riscv64_SetRetError r errno = r\<lparr>riscv64_A0 := - errno\<rparr>"

definition riscv64_arch :: "(riscv64_regs, 64 word) arch" where
  "riscv64_arch = \<lparr>sysExecve = 221, sysExecveat = 281, bigEndian = False,
     SyscallNum = riscv64_SyscallNum, BlockSyscall = riscv64_BlockSyscall,
     PathAddr = riscv64_PathAddr, ArgvAddr = riscv64_ArgvAddr,
     EnvpAddr = riscv64_EnvpAddr, SetPathAddr = riscv64_SetPathAddr,
     SetArgvAddr = riscv64_SetArgvAddr, SetEnvpAddr = riscv64_SetEnvpAddr,
     StackPointer = riscv64_StackPointer, Ret = riscv64_Ret,
     SetRetSuccess = riscv64_SetRetSuccess, SetRetError = riscv64_SetRetError\<rparr>"

lemmas riscv64_defs = riscv64_arch_def riscv64_SyscallNum_def riscv64_BlockSyscall_def riscv64_PathAddr_def riscv64_ArgvAddr_def riscv64_EnvpAddr_def riscv64_SetPathAddr_def riscv64_SetArgvAddr_def riscv64_SetEnvpAddr_def riscv64_StackPointer_def riscv64_Ret_def riscv64_SetRetSuccess_def riscv64_SetRetError_def

interpretation riscv64: syscall_regs_stable riscv64_arch
  by unfold_locales (auto simp: riscv64_defs isExecNum_def sint_neg_errno)

section \<open>\<open>rewrite_linux_loong64.go\<close>\<close>

record loong64_regs =
  loong64_Regs :: "nat \<Rightarrow> 64 word"

definition loong64_SyscallNum :: "loong64_regs \<Rightarrow> uint64" where
  "loong64_SyscallNum r = loong64_Regs r 11"

definition loong64_BlockSyscall :: "loong64_regs \<Rightarrow> loong64_regs" where
  "loong64_BlockSyscall r = r\<lparr>loong64_Regs := (loong64_Regs r)(11 := NOT 0)\<rparr>"

definition loong64_PathAddr :: "loong64_regs \<Rightarrow> bool \<Rightarrow> 64 word" where
  "loong64_PathAddr r isExecveat = (if isExecveat then loong64_Regs r 5 else loong64_Regs r 4)"

definition loong64_ArgvAddr :: "loong64_regs \<Rightarrow> bool \<Rightarrow> 64 word" where
  "loong64_ArgvAddr r isExecveat = (if isExecveat then loong64_Regs r 6 else loong64_Regs r 5)"

definition loong64_EnvpAddr :: "loong64_regs \<Rightarrow> bool \<Rightarrow> 64 word" where
  "loong64_EnvpAddr r isExecveat = (if isExecveat then loong64_Regs r 7 else loong64_Regs r 6)"

definition loong64_SetPathAddr :: "loong64_regs \<Rightarrow> bool \<Rightarrow> 64 word \<Rightarrow> loong64_regs" where
  "loong64_SetPathAddr r isExecveat addr =
     (if isExecveat then r\<lparr>loong64_Regs := (loong64_Regs r)(5 := addr)\<rparr>
      else r\<lparr>loong64_Regs := (loong64_Regs r)(4 := addr)\<rparr>)"

definition loong64_SetArgvAddr :: "loong64_regs \<Rightarrow> bool \<Rightarrow> 64 word \<Rightarrow> loong64_regs" where
  "loong64_SetArgvAddr r isExecveat addr =
     (if isExecveat then r\<lparr>loong64_Regs := (loong64_Regs r)(6 := addr)\<rparr>
      else r\<lparr>loong64_Regs := (loong64_Regs r)(5 := addr)\<rparr>)"

definition loong64_SetEnvpAddr :: "loong64_regs \<Rightarrow> bool \<Rightarrow> 64 word \<Rightarrow> loong64_regs" where
  "loong64_SetEnvpAddr r isExecveat addr =
     (if isExecveat then r\<lparr>loong64_Regs := (loong64_Regs r)(7 := addr)\<rparr>
      else r\<lparr>loong64_Regs := (loong64_Regs r)(6 := addr)\<rparr>)"

definition loong64_StackPointer :: "loong64_regs \<Rightarrow> 64 word" where
  "loong64_StackPointer r = loong64_Regs r 3"

definition loong64_Ret :: "loong64_regs \<Rightarrow> 64 word \<times> bool" where
  "loong64_Ret r = (loong64_Regs r 4, 0 \<le> sint (loong64_Regs r 4))"

definition loong64_SetRetSuccess :: "loong64_regs \<Rightarrow> 64 word \<Rightarrow> loong64_regs" where
  "loong64_SetRetSuccess r v = r\<lparr>loong64_Regs := (loong64_Regs r)(4 := v)\<rparr>"

definition loong64_SetRetError :: "loong64_regs \<Rightarrow> 64 word \<Rightarrow> loong64_regs" where
  "loong64_SetRetError r errno = r\<lparr>loong64_Regs := (loong64_Regs r)(4 := - errno)\<rparr>"

definition loong64_arch :: "(loong64_regs, 64 word) arch" where
  "loong64_arch = \<lparr>sysExecve = 221, sysExecveat = 281, bigEndian = False,
     SyscallNum = loong64_SyscallNum, BlockSyscall = loong64_BlockSyscall,
     PathAddr = loong64_PathAddr, ArgvAddr = loong64_ArgvAddr,
     EnvpAddr = loong64_EnvpAddr, SetPathAddr = loong64_SetPathAddr,
     SetArgvAddr = loong64_SetArgvAddr, SetEnvpAddr = loong64_SetEnvpAddr,
     StackPointer = loong64_StackPointer, Ret = loong64_Ret,
     SetRetSuccess = loong64_SetRetSuccess, SetRetError = loong64_SetRetError\<rparr>"

lemmas loong64_defs = loong64_arch_def loong64_SyscallNum_def loong64_BlockSyscall_def loong64_PathAddr_def loong64_ArgvAddr_def loong64_EnvpAddr_def loong64_SetPathAddr_def loong64_SetArgvAddr_def loong64_SetEnvpAddr_def loong64_StackPointer_def loong64_Ret_def loong64_SetRetSuccess_def loong64_SetRetError_def

interpretation loong64: syscall_regs_stable loong64_arch
  by unfold_locales (auto simp: loong64_defs isExecNum_def sint_neg_errno)

section \<open>\<open>rewrite_linux_s390x.go\<close>\<close>

record s390x_regs =
  s390x_Gprs :: "nat \<Rightarrow> 64 word"
  s390x_Orig_gpr2 :: "64 word"

definition s390x_SyscallNum :: "s390x_regs \<Rightarrow> uint64" where
  "s390x_SyscallNum r = s390x_Gprs r 1"

definition s390x_BlockSyscall :: "s390x_regs \<Rightarrow> s390x_regs" where
  "s390x_BlockSyscall r = r\<lparr>s390x_Gprs := (s390x_Gprs r)(1 := NOT 0)\<rparr>"

definition s390x_PathAddr :: "s390x_regs \<Rightarrow> bool \<Rightarrow> 64 word" where
  "s390x_PathAddr r isExecveat = (if isExecveat then s390x_Gprs r 3 else s390x_Gprs r 2)"

definition s390x_ArgvAddr :: "s390x_regs \<Rightarrow> bool \<Rightarrow> 64 word" where
  "s390x_ArgvAddr r isExecveat = (if isExecveat then s390x_Gprs r 4 else s390x_Gprs r 3)"

definition s390x_EnvpAddr :: "s390x_regs \<Rightarrow> bool \<Rightarrow> 64 word" where
  "s390x_EnvpAddr r isExecveat = (if isExecveat then s390x_Gprs r 5 else s390x_Gprs r 4)"

definition s390x_SetPathAddr :: "s390x_regs \<Rightarrow> bool \<Rightarrow> 64 word \<Rightarrow> s390x_regs" where
  "s390x_SetPathAddr r isExecveat addr =
     (if isExecveat then r\<lparr>s390x_Gprs := (s390x_Gprs r)(3 := addr)\<rparr>
      else r\<lparr>s390x_Gprs := (s390x_Gprs r)(2 := addr), s390x_Orig_gpr2 := addr\<rparr>)"

definition s390x_SetArgvAddr :: "s390x_regs \<Rightarrow> bool \<Rightarrow> 64 word \<Rightarrow> s390x_regs" where
  "s390x_SetArgvAddr r isExecveat addr =
     (if isExecveat then r\<lparr>s390x_Gprs := (s390x_Gprs r)(4 := addr)\<rparr>
      else r\<lparr>s390x_Gprs := (s390x_Gprs r)(3 := addr)\<rparr>)"

definition s390x_SetEnvpAddr :: "s390x_regs \<Rightarrow> bool \<Rightarrow> 64 word \<Rightarrow> s390x_regs" where
  "s390x_SetEnvpAddr r isExecveat addr =
     (if isExecveat then r\<lparr>s390x_Gprs := (s390x_Gprs r)(5 := addr)\<rparr>
      else r\<lparr>s390x_Gprs := (s390x_Gprs r)(4 := addr)\<rparr>)"

definition s390x_StackPointer :: "s390x_regs \<Rightarrow> 64 word" where
  "s390x_StackPointer r = s390x_Gprs r 15"

definition s390x_Ret :: "s390x_regs \<Rightarrow> 64 word \<times> bool" where
  "s390x_Ret r = (s390x_Gprs r 2, 0 \<le> sint (s390x_Gprs r 2))"

definition s390x_SetRetSuccess :: "s390x_regs \<Rightarrow> 64 word \<Rightarrow> s390x_regs" where
  "s390x_SetRetSuccess r v = r\<lparr>s390x_Gprs := (s390x_Gprs r)(2 := v)\<rparr>"

definition s390x_SetRetError :: "s390x_regs \<Rightarrow> 64 word \<Rightarrow> s390x_regs" where
  "s390x_SetRetError r errno = r\<lparr>s390x_Gprs := (s390x_Gprs r)(2 := - errno)\<rparr>"

definition s390x_arch :: "(s390x_regs, 64 word) arch" where
  "s390x_arch = \<lparr>sysExecve = 11, sysExecveat = 354, bigEndian = True,
     SyscallNum = s390x_SyscallNum, BlockSyscall = s390x_BlockSyscall,
     PathAddr = s390x_PathAddr, ArgvAddr = s390x_ArgvAddr,
     EnvpAddr = s390x_EnvpAddr, SetPathAddr = s390x_SetPathAddr,
     SetArgvAddr = s390x_SetArgvAddr, SetEnvpAddr = s390x_SetEnvpAddr,
     StackPointer = s390x_StackPointer, Ret = s390x_Ret,
     SetRetSuccess = s390x_SetRetSuccess, SetRetError = s390x_SetRetError\<rparr>"

lemmas s390x_defs = s390x_arch_def s390x_SyscallNum_def s390x_BlockSyscall_def s390x_PathAddr_def s390x_ArgvAddr_def s390x_EnvpAddr_def s390x_SetPathAddr_def s390x_SetArgvAddr_def s390x_SetEnvpAddr_def s390x_StackPointer_def s390x_Ret_def s390x_SetRetSuccess_def s390x_SetRetError_def

interpretation s390x: syscall_regs_stable s390x_arch
  by unfold_locales (auto simp: s390x_defs isExecNum_def sint_neg_errno)

section \<open>\<open>rewrite_linux_ppc64x.go\<close>\<close>

record ppc64_regs =
  ppc64_Gpr :: "nat \<Rightarrow> 64 word"
  ppc64_Orig_gpr3 :: "64 word"
  ppc64_Ccr :: "64 word"

definition ppc64_SyscallNum :: "ppc64_regs \<Rightarrow> uint64" where
  "ppc64_SyscallNum r = ppc64_Gpr r 0"

definition ppc64_BlockSyscall :: "ppc64_regs \<Rightarrow> ppc64_regs" where
  "ppc64_BlockSyscall r = r\<lparr>ppc64_Gpr := (ppc64_Gpr r)(0 := NOT 0)\<rparr>"

definition ppc64_PathAddr :: "ppc64_regs \<Rightarrow> bool \<Rightarrow> 64 word" where
  "ppc64_PathAddr r isExecveat = (if isExecveat then ppc64_Gpr r 4 else ppc64_Gpr r 3)"

definition ppc64_ArgvAddr :: "ppc64_regs \<Rightarrow> bool \<Rightarrow> 64 word" where
  "ppc64_ArgvAddr r isExecveat = (if isExecveat then ppc64_Gpr r 5 else ppc64_Gpr r 4)"

definition ppc64_EnvpAddr :: "ppc64_regs \<Rightarrow> bool \<Rightarrow> 64 word" where
  "ppc64_EnvpAddr r isExecveat = (if isExecveat then ppc64_Gpr r 6 else ppc64_Gpr r 5)"

definition ppc64_SetPathAddr :: "ppc64_regs \<Rightarrow> bool \<Rightarrow> 64 word \<Rightarrow> ppc64_regs" where
  "ppc64_SetPathAddr r isExecveat addr =
     (if isExecveat then r\<lparr>ppc64_Gpr := (ppc64_Gpr r)(4 := addr)\<rparr>
      else r\<lparr>ppc64_Gpr := (ppc64_Gpr r)(3 := addr), ppc64_Orig_gpr3 := addr\<rparr>)"

definition ppc64_SetArgvAddr :: "ppc64_regs \<Rightarrow> bool \<Rightarrow> 64 word \<Rightarrow> ppc64_regs" where
  "ppc64_SetArgvAddr r isExecveat addr =
     (if isExecveat then r\<lparr>ppc64_Gpr := (ppc64_Gpr r)(5 := addr)\<rparr>
      else r\<lparr>ppc64_Gpr := (ppc64_Gpr r)(4 := addr)\<rparr>)"

definition ppc64_SetEnvpAddr :: "ppc64_regs \<Rightarrow> bool \<Rightarrow> 64 word \<Rightarrow> ppc64_regs" where
  "ppc64_SetEnvpAddr r isExecveat addr =
     (if isExecveat then r\<lparr>ppc64_Gpr := (ppc64_Gpr r)(6 := addr)\<rparr>
      else r\<lparr>ppc64_Gpr := (ppc64_Gpr r)(5 := addr)\<rparr>)"

definition ppc64_StackPointer :: "ppc64_regs \<Rightarrow> 64 word" where
  "ppc64_StackPointer r = ppc64_Gpr r 1"

definition ppcCR0SO :: uint64 where
  "ppcCR0SO = 0x10000000"

lemma ppcCR0SO_ne: "ppcCR0SO \<noteq> 0"
  by (simp add: ppcCR0SO_def)

definition ppc64_Ret :: "ppc64_regs \<Rightarrow> 64 word \<times> bool" where
  "ppc64_Ret r = (ppc64_Gpr r 3, ppc64_Ccr r AND ppcCR0SO = 0)"

definition ppc64_SetRetSuccess :: "ppc64_regs \<Rightarrow> 64 word \<Rightarrow> ppc64_regs" where
  "ppc64_SetRetSuccess r v = r\<lparr>ppc64_Gpr := (ppc64_Gpr r)(3 := v), ppc64_Ccr := ppc64_Ccr r AND NOT ppcCR0SO\<rparr>"

definition ppc64_SetRetError :: "ppc64_regs \<Rightarrow> 64 word \<Rightarrow> ppc64_regs" where
  "ppc64_SetRetError r errno = r\<lparr>ppc64_Gpr := (ppc64_Gpr r)(3 := errno), ppc64_Ccr := ppc64_Ccr r OR ppcCR0SO\<rparr>"

definition ppc64_arch :: "bool \<Rightarrow> (ppc64_regs, 64 word) arch" where
  "ppc64_arch be = \<lparr>sysExecve = 11, sysExecveat = 362, bigEndian = be,
     SyscallNum = ppc64_SyscallNum, BlockSyscall = ppc64_BlockSyscall,
     PathAddr = ppc64_PathAddr, ArgvAddr = ppc64_ArgvAddr,
     EnvpAddr = ppc64_EnvpAddr, SetPathAddr = ppc64_SetPathAddr,
     SetArgvAddr = ppc64_SetArgvAddr, SetEnvpAddr = ppc64_SetEnvpAddr,
     StackPointer = ppc64_StackPointer, Ret = ppc64_Ret,
     SetRetSuccess = ppc64_SetRetSuccess, SetRetError = ppc64_SetRetError\<rparr>"

lemmas ppc64_defs = ppc64_arch_def ppc64_SyscallNum_def ppc64_BlockSyscall_def ppc64_PathAddr_def ppc64_ArgvAddr_def ppc64_EnvpAddr_def ppc64_SetPathAddr_def ppc64_SetArgvAddr_def ppc64_SetEnvpAddr_def ppc64_StackPointer_def ppc64_Ret_def ppc64_SetRetSuccess_def ppc64_SetRetError_def

interpretation ppc64: syscall_regs_stable "ppc64_arch be" for be
  by unfold_locales (auto simp: ppc64_defs isExecNum_def bit_clear bit_set ppcCR0SO_ne)

end
