(* ===== verification/RegsMips.thy ===== *)
theory RegsMips
  imports Regs
begin

text \<open>
  MIPS: \<open>rewrite_linux_mips_o32.go\<close> (32-bit addresses in 64-bit registers) and \<open>rewrite_linux_mips64_n64.go\<close>. The register \<open>v0\<close> holds the syscall number at the entry stop and the result at the exit stop, so these two satisfy \<open>syscall_regs\<close> but not \<open>syscall_regs_stable\<close>; see \<open>mips_exit_hides_syscall\<close>.
\<close>

unbundle bit_operations_syntax

section \<open>\<open>rewrite_linux_mips_o32.go\<close>\<close>

record mips_o32_regs =
  mips_o32_Regs :: "nat \<Rightarrow> 64 word"

definition mips_o32_SyscallNum :: "mips_o32_regs \<Rightarrow> uint64" where
  "mips_o32_SyscallNum r = mips_o32_Regs r 2"

definition mips_o32_BlockSyscall :: "mips_o32_regs \<Rightarrow> mips_o32_regs" where
  "mips_o32_BlockSyscall r = r\<lparr>mips_o32_Regs := (mips_o32_Regs r)(2 := NOT 0)\<rparr>"

definition mips_o32_PathAddr :: "mips_o32_regs \<Rightarrow> bool \<Rightarrow> 32 word" where
  "mips_o32_PathAddr r isExecveat = (if isExecveat then ucast (mips_o32_Regs r 5) else ucast (mips_o32_Regs r 4))"

definition mips_o32_ArgvAddr :: "mips_o32_regs \<Rightarrow> bool \<Rightarrow> 32 word" where
  "mips_o32_ArgvAddr r isExecveat = (if isExecveat then ucast (mips_o32_Regs r 6) else ucast (mips_o32_Regs r 5))"

definition mips_o32_EnvpAddr :: "mips_o32_regs \<Rightarrow> bool \<Rightarrow> 32 word" where
  "mips_o32_EnvpAddr r isExecveat = (if isExecveat then ucast (mips_o32_Regs r 7) else ucast (mips_o32_Regs r 6))"

definition mips_o32_SetPathAddr :: "mips_o32_regs \<Rightarrow> bool \<Rightarrow> 32 word \<Rightarrow> mips_o32_regs" where
  "mips_o32_SetPathAddr r isExecveat addr =
     (if isExecveat then r\<lparr>mips_o32_Regs := (mips_o32_Regs r)(5 := ucast addr)\<rparr>
      else r\<lparr>mips_o32_Regs := (mips_o32_Regs r)(4 := ucast addr)\<rparr>)"

definition mips_o32_SetArgvAddr :: "mips_o32_regs \<Rightarrow> bool \<Rightarrow> 32 word \<Rightarrow> mips_o32_regs" where
  "mips_o32_SetArgvAddr r isExecveat addr =
     (if isExecveat then r\<lparr>mips_o32_Regs := (mips_o32_Regs r)(6 := ucast addr)\<rparr>
      else r\<lparr>mips_o32_Regs := (mips_o32_Regs r)(5 := ucast addr)\<rparr>)"

definition mips_o32_SetEnvpAddr :: "mips_o32_regs \<Rightarrow> bool \<Rightarrow> 32 word \<Rightarrow> mips_o32_regs" where
  "mips_o32_SetEnvpAddr r isExecveat addr =
     (if isExecveat then r\<lparr>mips_o32_Regs := (mips_o32_Regs r)(7 := ucast addr)\<rparr>
      else r\<lparr>mips_o32_Regs := (mips_o32_Regs r)(6 := ucast addr)\<rparr>)"

definition mips_o32_StackPointer :: "mips_o32_regs \<Rightarrow> 32 word" where
  "mips_o32_StackPointer r = ucast (mips_o32_Regs r 29)"

definition mips_o32_Ret :: "mips_o32_regs \<Rightarrow> 32 word \<times> bool" where
  "mips_o32_Ret r = (ucast (mips_o32_Regs r 2), mips_o32_Regs r 7 = 0)"

definition mips_o32_SetRetSuccess :: "mips_o32_regs \<Rightarrow> 32 word \<Rightarrow> mips_o32_regs" where
  "mips_o32_SetRetSuccess r v = r\<lparr>mips_o32_Regs := (mips_o32_Regs r)(2 := ucast v, 7 := 0)\<rparr>"

definition mips_o32_SetRetError :: "mips_o32_regs \<Rightarrow> 32 word \<Rightarrow> mips_o32_regs" where
  "mips_o32_SetRetError r errno = r\<lparr>mips_o32_Regs := (mips_o32_Regs r)(2 := ucast errno, 7 := 1)\<rparr>"

definition mips_o32_arch :: "bool \<Rightarrow> (mips_o32_regs, 32 word) arch" where
  "mips_o32_arch be = \<lparr>sysExecve = 4011, sysExecveat = 4356, bigEndian = be,
     SyscallNum = mips_o32_SyscallNum, BlockSyscall = mips_o32_BlockSyscall,
     PathAddr = mips_o32_PathAddr, ArgvAddr = mips_o32_ArgvAddr,
     EnvpAddr = mips_o32_EnvpAddr, SetPathAddr = mips_o32_SetPathAddr,
     SetArgvAddr = mips_o32_SetArgvAddr, SetEnvpAddr = mips_o32_SetEnvpAddr,
     StackPointer = mips_o32_StackPointer, Ret = mips_o32_Ret,
     SetRetSuccess = mips_o32_SetRetSuccess, SetRetError = mips_o32_SetRetError\<rparr>"

lemmas mips_o32_defs = mips_o32_arch_def mips_o32_SyscallNum_def mips_o32_BlockSyscall_def mips_o32_PathAddr_def mips_o32_ArgvAddr_def mips_o32_EnvpAddr_def mips_o32_SetPathAddr_def mips_o32_SetArgvAddr_def mips_o32_SetEnvpAddr_def mips_o32_StackPointer_def mips_o32_Ret_def mips_o32_SetRetSuccess_def mips_o32_SetRetError_def

interpretation mips_o32: syscall_regs "mips_o32_arch be" for be
  by unfold_locales (auto simp: mips_o32_defs isExecNum_def )

section \<open>\<open>rewrite_linux_mips64_n64.go\<close>\<close>

record mips_n64_regs =
  mips_n64_Regs :: "nat \<Rightarrow> 64 word"

definition mips_n64_SyscallNum :: "mips_n64_regs \<Rightarrow> uint64" where
  "mips_n64_SyscallNum r = mips_n64_Regs r 2"

definition mips_n64_BlockSyscall :: "mips_n64_regs \<Rightarrow> mips_n64_regs" where
  "mips_n64_BlockSyscall r = r\<lparr>mips_n64_Regs := (mips_n64_Regs r)(2 := NOT 0)\<rparr>"

definition mips_n64_PathAddr :: "mips_n64_regs \<Rightarrow> bool \<Rightarrow> 64 word" where
  "mips_n64_PathAddr r isExecveat = (if isExecveat then mips_n64_Regs r 5 else mips_n64_Regs r 4)"

definition mips_n64_ArgvAddr :: "mips_n64_regs \<Rightarrow> bool \<Rightarrow> 64 word" where
  "mips_n64_ArgvAddr r isExecveat = (if isExecveat then mips_n64_Regs r 6 else mips_n64_Regs r 5)"

definition mips_n64_EnvpAddr :: "mips_n64_regs \<Rightarrow> bool \<Rightarrow> 64 word" where
  "mips_n64_EnvpAddr r isExecveat = (if isExecveat then mips_n64_Regs r 7 else mips_n64_Regs r 6)"

definition mips_n64_SetPathAddr :: "mips_n64_regs \<Rightarrow> bool \<Rightarrow> 64 word \<Rightarrow> mips_n64_regs" where
  "mips_n64_SetPathAddr r isExecveat addr =
     (if isExecveat then r\<lparr>mips_n64_Regs := (mips_n64_Regs r)(5 := addr)\<rparr>
      else r\<lparr>mips_n64_Regs := (mips_n64_Regs r)(4 := addr)\<rparr>)"

definition mips_n64_SetArgvAddr :: "mips_n64_regs \<Rightarrow> bool \<Rightarrow> 64 word \<Rightarrow> mips_n64_regs" where
  "mips_n64_SetArgvAddr r isExecveat addr =
     (if isExecveat then r\<lparr>mips_n64_Regs := (mips_n64_Regs r)(6 := addr)\<rparr>
      else r\<lparr>mips_n64_Regs := (mips_n64_Regs r)(5 := addr)\<rparr>)"

definition mips_n64_SetEnvpAddr :: "mips_n64_regs \<Rightarrow> bool \<Rightarrow> 64 word \<Rightarrow> mips_n64_regs" where
  "mips_n64_SetEnvpAddr r isExecveat addr =
     (if isExecveat then r\<lparr>mips_n64_Regs := (mips_n64_Regs r)(7 := addr)\<rparr>
      else r\<lparr>mips_n64_Regs := (mips_n64_Regs r)(6 := addr)\<rparr>)"

definition mips_n64_StackPointer :: "mips_n64_regs \<Rightarrow> 64 word" where
  "mips_n64_StackPointer r = mips_n64_Regs r 29"

definition mips_n64_Ret :: "mips_n64_regs \<Rightarrow> 64 word \<times> bool" where
  "mips_n64_Ret r = (mips_n64_Regs r 2, mips_n64_Regs r 7 = 0)"

definition mips_n64_SetRetSuccess :: "mips_n64_regs \<Rightarrow> 64 word \<Rightarrow> mips_n64_regs" where
  "mips_n64_SetRetSuccess r v = r\<lparr>mips_n64_Regs := (mips_n64_Regs r)(2 := v, 7 := 0)\<rparr>"

definition mips_n64_SetRetError :: "mips_n64_regs \<Rightarrow> 64 word \<Rightarrow> mips_n64_regs" where
  "mips_n64_SetRetError r errno = r\<lparr>mips_n64_Regs := (mips_n64_Regs r)(2 := errno, 7 := 1)\<rparr>"

definition mips_n64_arch :: "bool \<Rightarrow> (mips_n64_regs, 64 word) arch" where
  "mips_n64_arch be = \<lparr>sysExecve = 5057, sysExecveat = 5316, bigEndian = be,
     SyscallNum = mips_n64_SyscallNum, BlockSyscall = mips_n64_BlockSyscall,
     PathAddr = mips_n64_PathAddr, ArgvAddr = mips_n64_ArgvAddr,
     EnvpAddr = mips_n64_EnvpAddr, SetPathAddr = mips_n64_SetPathAddr,
     SetArgvAddr = mips_n64_SetArgvAddr, SetEnvpAddr = mips_n64_SetEnvpAddr,
     StackPointer = mips_n64_StackPointer, Ret = mips_n64_Ret,
     SetRetSuccess = mips_n64_SetRetSuccess, SetRetError = mips_n64_SetRetError\<rparr>"

lemmas mips_n64_defs = mips_n64_arch_def mips_n64_SyscallNum_def mips_n64_BlockSyscall_def mips_n64_PathAddr_def mips_n64_ArgvAddr_def mips_n64_EnvpAddr_def mips_n64_SetPathAddr_def mips_n64_SetArgvAddr_def mips_n64_SetEnvpAddr_def mips_n64_StackPointer_def mips_n64_Ret_def mips_n64_SetRetSuccess_def mips_n64_SetRetError_def

interpretation mips_n64: syscall_regs "mips_n64_arch be" for be
  by unfold_locales (auto simp: mips_n64_defs isExecNum_def )

section \<open>Properties\<close>

text \<open>
  On MIPS the register that \<open>SyscallNum\<close> reads is the result register: at the exit stop of
  a call that returned \<open>v\<close>, \<open>SyscallNum\<close> is \<open>v\<close> and no longer the number of the call, on both
  MIPS ABIs. A stop is therefore recognised as the exit of the call only when the result happens
  to equal the number.
\<close>

theorem mips_exit_hides_syscall:
  "SyscallNum (mips_n64_arch be) (SetRetSuccess (mips_n64_arch be) r v) = v \<and>
   SyscallNum (mips_o32_arch be) (SetRetSuccess (mips_o32_arch be) r' v') = ucast v'"
  by (simp add: mips_n64_defs mips_o32_defs)

end
