(* ===== verification/Frame.thy ===== *)
theory Frame
  imports Prelude
begin

text \<open>
  \<open>pkg/agentproto/frame.go\<close> and \<open>pkg/agentproto/filemode.go\<close>: the messages of the agent
  protocol and the translation of POSIX permission and type bits into Go's \<open>os.FileMode\<close>.
  A pointer field is an option; a signed 64-bit field is an \<^typ>\<open>int\<close>.
\<close>

unbundle bit_operations_syntax

section \<open>Messages\<close>

type_synonym FrameType = uint8

definition FrameExec :: FrameType where "FrameExec = 1"
definition FrameData :: FrameType where "FrameData = 2"
definition FrameEOF :: FrameType where "FrameEOF = 3"
definition FrameSignal :: FrameType where "FrameSignal = 4"
definition FrameExit :: FrameType where "FrameExit = 5"
definition FrameError :: FrameType where "FrameError = 6"
definition FrameLog :: FrameType where "FrameLog = 7"
definition FrameConfig :: FrameType where "FrameConfig = 8"
definition FramePathQuery :: FrameType where "FramePathQuery = 9"
definition FramePathInfo :: FrameType where "FramePathInfo = 10"
definition FrameFileOp :: FrameType where "FrameFileOp = 11"
definition FrameFileResp :: FrameType where "FrameFileResp = 12"

lemmas FrameType_defs = FrameExec_def FrameData_def FrameEOF_def FrameSignal_def FrameExit_def
  FrameError_def FrameLog_def FrameConfig_def FramePathQuery_def FramePathInfo_def FrameFileOp_def
  FrameFileResp_def

record LogEntry =
  le_Level :: int
  le_Msg :: string
  le_Attrs :: "string list"

record AgentConfigMsg =
  ac_EnvKeep :: "string list"
  ac_EnvRemove :: "string list"

record ExecMsg =
  em_Path :: string
  em_Argv :: "string list"
  em_Env :: "string list"
  em_Cwd :: string
  em_ExtraFDs :: "uint32 list"

record PathQuery =
  pq_Paths :: "string list"

record PathInfoEntry =
  pi_Name :: string
  pi_RemotePath :: string
  pi_Mode :: uint32
  pi_Size :: int
  pi_MTimeNanos :: int

record PathInfo =
  pi_Entries :: "PathInfoEntry list"

datatype FileOp =
    FileOpOpen | FileOpCreate | FileOpOpenFile | FileOpClose | FileOpReadAt | FileOpWriteAt
  | FileOpStat | FileOpLstat | FileOpReadDir | FileOpMkdir | FileOpMkdirAll | FileOpRemove
  | FileOpRename | FileOpChmod | FileOpTruncate | FileOpGetwd | FileOpFsync | FileOpReadlink
  | FileOpSymlink | FileOpLink | FileOpChown | FileOpChtimes | FileOpStatfs | FileOpFstat
  | FileOpFtruncate | FileOpUnknown uint8

record FileOpReq =
  rq_ReqID :: uint32
  rq_Op :: FileOp
  rq_Path :: string
  rq_NewPath :: string
  rq_Flags :: int
  rq_Mode :: uint32
  rq_UID :: uint32
  rq_GID :: uint32
  rq_Handle :: uint32
  rq_Offset :: int
  rq_Size :: int
  rq_AtimeNanos :: int
  rq_MTimeNanos :: int
  rq_Data :: bytes

record FileStat =
  st_Name :: string
  st_Size :: int
  st_Mode :: uint32
  st_MTimeNanos :: int
  st_ATimeNanos :: int
  st_CTimeNanos :: int
  st_UID :: uint32
  st_GID :: uint32
  st_Nlink :: uint32
  st_Rdev :: uint32
  st_Blocks :: uint64
  st_Blksize :: uint32
  st_Ino :: uint64
  st_IsDir :: bool

record FileStatfs =
  sf_Blocks :: uint64
  sf_Bfree :: uint64
  sf_Bavail :: uint64
  sf_Files :: uint64
  sf_Ffree :: uint64
  sf_Bsize :: uint32
  sf_Frsize :: uint32
  sf_NameLen :: uint32

record FileOpResp =
  rs_ReqID :: uint32
  rs_Errno :: uint32
  rs_ErrMsg :: string
  rs_Handle :: uint32
  rs_Data :: bytes
  rs_N :: int
  rs_EOF :: bool
  rs_Path :: string
  rs_Stat :: "FileStat option"
  rs_Statfs :: "FileStatfs option"
  rs_Entries :: "FileStat list"

definition emptyResp :: FileOpResp where
  "emptyResp = \<lparr>rs_ReqID = 0, rs_Errno = 0, rs_ErrMsg = [], rs_Handle = 0, rs_Data = [], rs_N = 0,
     rs_EOF = False, rs_Path = [], rs_Stat = None, rs_Statfs = None, rs_Entries = []\<rparr>"

record Frame =
  fr_Type :: FrameType
  fr_Stream :: uint32
  fr_Data :: bytes
  fr_Signal :: int
  fr_Code :: int
  fr_Error :: string
  fr_Exec :: "ExecMsg option"
  fr_Log :: "LogEntry option"
  fr_Config :: "AgentConfigMsg option"
  fr_Query :: "PathQuery option"
  fr_Info :: "PathInfo option"
  fr_FileOp :: "FileOpReq option"
  fr_FileResp :: "FileOpResp option"

definition emptyFrame :: Frame where
  "emptyFrame = \<lparr>fr_Type = 0, fr_Stream = 0, fr_Data = [], fr_Signal = 0, fr_Code = 0, fr_Error = [],
     fr_Exec = None, fr_Log = None, fr_Config = None, fr_Query = None, fr_Info = None,
     fr_FileOp = None, fr_FileResp = None\<rparr>"

section \<open>File modes\<close>

text \<open>The bits of \<open>os.FileMode\<close>.\<close>

definition ModeDir :: uint32 where "ModeDir = 0x80000000"
definition ModeSymlink :: uint32 where "ModeSymlink = 0x8000000"
definition ModeDevice :: uint32 where "ModeDevice = 0x4000000"
definition ModeNamedPipe :: uint32 where "ModeNamedPipe = 0x2000000"
definition ModeSocket :: uint32 where "ModeSocket = 0x1000000"
definition ModeSetuid :: uint32 where "ModeSetuid = 0x800000"
definition ModeSetgid :: uint32 where "ModeSetgid = 0x400000"
definition ModeCharDevice :: uint32 where "ModeCharDevice = 0x200000"
definition ModeSticky :: uint32 where "ModeSticky = 0x100000"
definition ModeIrregular :: uint32 where "ModeIrregular = 0x80000"

lemmas Mode_defs = ModeDir_def ModeSymlink_def ModeDevice_def ModeNamedPipe_def ModeSocket_def
  ModeSetuid_def ModeSetgid_def ModeCharDevice_def ModeSticky_def ModeIrregular_def

definition ModeType :: uint32 where
  "ModeType = ModeDir OR ModeSymlink OR ModeNamedPipe OR ModeSocket OR ModeDevice OR ModeCharDevice OR ModeIrregular"

definition fileModeFromPOSIX :: "uint32 \<Rightarrow> uint32" where
  "fileModeFromPOSIX mode =
     (let out = mode AND 0x1FF;
          out = (if mode AND 0x800 \<noteq> 0 \<or> mode AND ModeSetuid \<noteq> 0 then out OR ModeSetuid else out);
          out = (if mode AND 0x400 \<noteq> 0 \<or> mode AND ModeSetgid \<noteq> 0 then out OR ModeSetgid else out)
      in if mode AND 0x200 \<noteq> 0 \<or> mode AND ModeSticky \<noteq> 0 then out OR ModeSticky else out)"

abbreviation unixSIFMT :: uint32 where "unixSIFMT \<equiv> 0xF000"

definition modeFromUnix :: "uint32 \<Rightarrow> uint32" where
  "modeFromUnix mode =
     (let out = fileModeFromPOSIX mode; ft = mode AND unixSIFMT in
      if ft = 0x4000 then out OR ModeDir
      else if ft = 0xA000 then out OR ModeSymlink
      else if ft = 0x1000 then out OR ModeNamedPipe
      else if ft = 0xC000 then out OR ModeSocket
      else if ft = 0x6000 then out OR ModeDevice
      else if ft = 0x2000 then out OR (ModeDevice OR ModeCharDevice)
      else out)"

section \<open>Lemmas\<close>

text \<open>A mode is its permission bits and the three special bits.\<close>

definition special :: "bool \<Rightarrow> bool \<Rightarrow> bool \<Rightarrow> uint32" where
  "special u g s = (if u then ModeSetuid else 0) OR (if g then ModeSetgid else 0) OR (if s then ModeSticky else 0)"

lemma fileModeFromPOSIX_eq:
  "fileModeFromPOSIX mode = (mode AND 0x1FF) OR
     special (mode AND 0x800 \<noteq> 0 \<or> mode AND ModeSetuid \<noteq> 0)
       (mode AND 0x400 \<noteq> 0 \<or> mode AND ModeSetgid \<noteq> 0) (mode AND 0x200 \<noteq> 0 \<or> mode AND ModeSticky \<noteq> 0)"
  by (simp add: fileModeFromPOSIX_def Let_def special_def or.assoc)

lemma and_const_disj: "((m AND a) OR b) AND (c :: uint32) = (m AND (a AND c)) OR (b AND c)"
  by (simp add: bit.conj_disj_distrib2 and.assoc)

lemma special_masks:
  "special u g s AND 0x1FF = 0" "special u g s AND 0x800 = 0" "special u g s AND 0x400 = 0"
  "special u g s AND 0x200 = 0" "special u g s AND ModeType = 0"
  "special u g s AND ModeSetuid \<noteq> 0 \<longleftrightarrow> u" "special u g s AND ModeSetgid \<noteq> 0 \<longleftrightarrow> g"
  "special u g s AND ModeSticky \<noteq> 0 \<longleftrightarrow> s"
  by (cases u; cases g; cases s; simp add: special_def Mode_defs ModeType_def)+

section \<open>Properties\<close>

text \<open>
  The translation of modes accepts both notations: it keeps the nine permission bits, maps
  the POSIX set-user, set-group and sticky bits to Go's, sets no type bit, and a mode that is
  already in Go's notation (without a type) is a fixed point.
\<close>

theorem fileModeFromPOSIX_spec:
  "fileModeFromPOSIX m AND 0x1FF = m AND 0x1FF \<and>
   (fileModeFromPOSIX m AND ModeSetuid \<noteq> 0 \<longleftrightarrow> m AND 0x800 \<noteq> 0 \<or> m AND ModeSetuid \<noteq> 0) \<and>
   (fileModeFromPOSIX m AND ModeSetgid \<noteq> 0 \<longleftrightarrow> m AND 0x400 \<noteq> 0 \<or> m AND ModeSetgid \<noteq> 0) \<and>
   (fileModeFromPOSIX m AND ModeSticky \<noteq> 0 \<longleftrightarrow> m AND 0x200 \<noteq> 0 \<or> m AND ModeSticky \<noteq> 0) \<and>
   fileModeFromPOSIX m AND ModeType = 0 \<and>
   fileModeFromPOSIX (fileModeFromPOSIX m) = fileModeFromPOSIX m"
proof -
  let ?u = "m AND 0x800 \<noteq> 0 \<or> m AND ModeSetuid \<noteq> 0" and ?g = "m AND 0x400 \<noteq> 0 \<or> m AND ModeSetgid \<noteq> 0"
    and ?s = "m AND 0x200 \<noteq> 0 \<or> m AND ModeSticky \<noteq> 0"
  define x where "x = special ?u ?g ?s"
  have e: "fileModeFromPOSIX m = (m AND 0x1FF) OR x" unfolding fileModeFromPOSIX_eq x_def ..
  have c: "(0x1FF AND ModeSetuid) = 0" "(0x1FF AND ModeSetgid) = 0" "(0x1FF AND ModeSticky) = 0"
    "(0x1FF AND ModeType) = 0" "(0x1FF AND 0x800) = (0::uint32)" "(0x1FF AND 0x400) = (0::uint32)"
    "(0x1FF AND 0x200) = (0::uint32)" "(0x1FF AND 0x1FF) = (0x1FF::uint32)"
    by (simp_all add: Mode_defs ModeType_def)
  have a: "((m AND 0x1FF) OR x) AND 0x1FF = m AND 0x1FF" "((m AND 0x1FF) OR x) AND ModeType = 0"
    "((m AND 0x1FF) OR x) AND ModeSetuid \<noteq> 0 \<longleftrightarrow> ?u" "((m AND 0x1FF) OR x) AND ModeSetgid \<noteq> 0 \<longleftrightarrow> ?g"
    "((m AND 0x1FF) OR x) AND ModeSticky \<noteq> 0 \<longleftrightarrow> ?s" "((m AND 0x1FF) OR x) AND 0x800 = 0"
    "((m AND 0x1FF) OR x) AND 0x400 = 0" "((m AND 0x1FF) OR x) AND 0x200 = 0"
    unfolding and_const_disj c using special_masks [of ?u ?g ?s] unfolding x_def [symmetric] by simp_all
  have "fileModeFromPOSIX ((m AND 0x1FF) OR x) = (m AND 0x1FF) OR x"
    unfolding fileModeFromPOSIX_eq [of "(m AND 0x1FF) OR x"] a by (simp add: x_def)
  then show ?thesis using a unfolding e by blast
qed

text \<open>
  A Unix file type becomes exactly the Go type bits of that type, for directories, symbolic
  links, pipes, sockets, block and character devices, and no type bit for a regular file.
\<close>

theorem modeFromUnix_type:
  "modeFromUnix m AND ModeType =
     (if m AND unixSIFMT = 0x4000 then ModeDir else if m AND unixSIFMT = 0xA000 then ModeSymlink
      else if m AND unixSIFMT = 0x1000 then ModeNamedPipe else if m AND unixSIFMT = 0xC000 then ModeSocket
      else if m AND unixSIFMT = 0x6000 then ModeDevice
      else if m AND unixSIFMT = 0x2000 then ModeDevice OR ModeCharDevice else 0)"
proof -
  have "(0x1FF AND ModeType) = 0" by (simp add: Mode_defs ModeType_def)
  then have f: "fileModeFromPOSIX m AND ModeType = 0"
    unfolding fileModeFromPOSIX_eq and_const_disj by (simp add: special_masks)
  have d: "(fileModeFromPOSIX m OR b) AND ModeType = b AND ModeType" for b
    by (simp add: bit.conj_disj_distrib2 f)
  have k: "ModeDir AND ModeType = ModeDir" "ModeSymlink AND ModeType = ModeSymlink"
    "ModeNamedPipe AND ModeType = ModeNamedPipe" "ModeSocket AND ModeType = ModeSocket"
    "ModeDevice AND ModeType = ModeDevice" "(ModeDevice OR ModeCharDevice) AND ModeType = ModeDevice OR ModeCharDevice"
    by (simp_all add: Mode_defs ModeType_def)
  show ?thesis by (simp add: modeFromUnix_def Let_def d f k)
qed

end
