(* ===== verification/Alloc.thy ===== *)
theory Alloc
  imports Prelude
begin

text \<open>
  Identifiers of the agent protocol: the file-op server's handles and the mux's request ids are
  both taken from a \<open>uint32\<close> counter that skips zero. Within one cycle of the counter the
  identifiers are pairwise different.
\<close>

definition nextNonZero :: "uint32 \<Rightarrow> uint32" where
  "nextNonZero n = (if n + 1 = 0 then 1 else n + 1)"

text \<open>The identifier handed out by the \<open>i\<close>-th allocation after the counter value \<open>n\<close>.\<close>

definition nthID :: "uint32 \<Rightarrow> nat \<Rightarrow> uint32" where
  "nthID n i = (nextNonZero ^^ i) n"

lemma nextNonZero_ne [simp]: "nextNonZero n \<noteq> 0"
  by (simp add: nextNonZero_def)

lemma nthID_0 [simp]: "nthID n 0 = n"
  by (simp add: nthID_def)

lemma nthID_Suc: "nthID n (Suc i) = nextNonZero (nthID n i)"
  by (simp add: nthID_def)

lemma nthID_shift: "nthID n (Suc i) = nthID (nextNonZero n) i"
  by (simp add: nthID_def funpow_swap1)

lemma nthID_add: "nthID n (i + j) = nthID (nthID n i) j"
  by (induction j) (simp_all add: nthID_Suc)

lemma unat_nextNonZero:
  "unat (nextNonZero n) = (if unat n = 2 ^ 32 - 1 then 1 else unat n + 1)"
proof (cases "unat n = 2 ^ 32 - 1")
  case True
  then have "unat (n + 1) = 0" by (simp add: unat_word_ariths)
  then have "n + 1 = 0" by (simp only: unat_eq_0)
  then show ?thesis using True by (simp add: nextNonZero_def)
next
  case False
  have "unat n < 2 ^ 32" using unsigned_less [of n] by simp
  with False have "unat n + 1 < 2 ^ 32" by linarith
  then have u: "unat (n + 1) = unat n + 1" by (simp add: unat_word_ariths)
  then have "n + 1 \<noteq> 0" by auto
  then show ?thesis using False u by (simp add: nextNonZero_def)
qed

lemma nthID_closed:
  assumes "n \<noteq> 0"
  shows "unat (nthID n i) = (unat n - 1 + i) mod (2 ^ 32 - 1) + 1"
proof (induction i)
  case 0
  have "0 < unat n" using assms by (simp add: unat_gt_0)
  moreover have "unat n < 2 ^ 32" using unsigned_less [of n] by simp
  ultimately have "unat n - 1 < 2 ^ 32 - 1" by linarith
  then show ?case using \<open>0 < unat n\<close> by simp
next
  case (Suc i)
  let ?m = "(2 ^ 32 - 1) :: nat" and ?x = "unat n - 1 + i"
  have lt: "?x mod ?m < ?m" by simp
  have "unat (nthID n (Suc i)) = (if ?x mod ?m = ?m - 1 then 1 else ?x mod ?m + 2)"
    unfolding nthID_Suc unat_nextNonZero Suc.IH by simp
  moreover have "Suc ?x mod ?m = (if Suc (?x mod ?m) = ?m then 0 else Suc (?x mod ?m))"
    by (rule mod_Suc)
  ultimately show ?case using lt by (cases "?x mod ?m = ?m - 1") auto
qed

lemma nthID_distinct:
  assumes "i < j" "j - i < 2 ^ 32 - 1" "n \<noteq> 0 \<or> 0 < i"
  shows "nthID n i \<noteq> nthID n j"
proof
  assume eq: "nthID n i = nthID n j"
  let ?m = "(2 ^ 32 - 1) :: nat"
  have ne: "nthID n i \<noteq> 0"
  proof (cases i)
    case 0
    then show ?thesis using assms(3) by simp
  qed (simp add: nthID_Suc)
  have "nthID n j = nthID (nthID n i) (j - i)"
    using nthID_add [of n i "j - i"] assms(1) by simp
  then have j: "unat (nthID n j) = (unat (nthID n i) - 1 + (j - i)) mod ?m + 1"
    using nthID_closed [OF ne] by simp
  define a where "a = unat (nthID n i) - 1"
  have i: "unat (nthID n i) = a mod ?m + 1"
    using nthID_closed [OF ne, of 0] unfolding a_def nthID_0 add_0_right .
  have "a mod ?m + 1 = unat (nthID n j)" unfolding i [symmetric] eq ..
  also have "\<dots> = (a + (j - i)) mod ?m + 1" unfolding a_def by (rule j)
  finally have "(a + (j - i)) mod ?m = a mod ?m" by linarith
  then have "?m dvd (j - i)"
    using mod_eq_dvd_iff_nat [of a "a + (j - i)" ?m] by simp
  then show False using assms(1,2) by (auto dest: dvd_imp_le)
qed

end
