(* ===== verification/FileOpServer.thy ===== *)
theory FileOpServer
  imports Frame Alloc "HOL-Library.AList_Mapping"
begin

text \<open>
  \<open>pkg/agentproto/fileop_server.go\<close> and the \<open>fileop_stat_*\<close> files: the agent's file
  operations. The operating system is the record \<open>os\<close> over a state \<open>'o\<close> and a type \<open>'f\<close> of open
  files. The locale \<open>handle_table\<close> states the contract of the handle table.
\<close>

unbundle bit_operations_syntax

section \<open>The operating system\<close>

text \<open>An error: the errno it wraps, if any, the sentinels it matches, and its text.\<close>

record oserr =
  oe_errno :: "uint32 option"
  oe_NotExist :: bool
  oe_Permission :: bool
  oe_Exist :: bool
  oe_Invalid :: bool
  oe_EOF :: bool
  oe_Msg :: string

record Stat_t =
  sys_Mode :: uint32
  sys_Uid :: uint32
  sys_Gid :: uint32
  sys_Ino :: uint64
  sys_Rdev :: uint64
  sys_Blocks :: uint64
  sys_Blksize :: uint64
  sys_Nlink :: uint64
  sys_Atim :: int
  sys_Mtim :: int
  sys_Ctim :: int

record Statfs_t =
  sfs_Blocks :: uint64
  sfs_Bfree :: uint64
  sfs_Bavail :: uint64
  sfs_Files :: uint64
  sfs_Ffree :: uint64
  sfs_Bsize :: uint64
  sfs_Frsize :: uint64
  sfs_Namelen :: uint64

record FileInfo =
  fi_Name :: string
  fi_Size :: int
  fi_Mode :: uint32
  fi_ModTime :: int
  fi_IsDir :: bool
  fi_Sys :: "Stat_t option"

record ('o, 'f) os =
  os_Open :: "'o \<Rightarrow> string \<Rightarrow> (oserr + 'f) \<times> 'o"
  os_Create :: "'o \<Rightarrow> string \<Rightarrow> (oserr + 'f) \<times> 'o"
  os_OpenFile :: "'o \<Rightarrow> string \<Rightarrow> int \<Rightarrow> uint32 \<Rightarrow> (oserr + 'f) \<times> 'o"
  f_Close :: "'o \<Rightarrow> 'f \<Rightarrow> oserr option \<times> 'o"
  f_Sync :: "'o \<Rightarrow> 'f \<Rightarrow> oserr option \<times> 'o"
  f_Stat :: "'o \<Rightarrow> 'f \<Rightarrow> oserr + FileInfo"
  f_Truncate :: "'o \<Rightarrow> 'f \<Rightarrow> int \<Rightarrow> oserr option \<times> 'o"
  f_ReadAt :: "'o \<Rightarrow> 'f \<Rightarrow> nat \<Rightarrow> int \<Rightarrow> bytes \<times> oserr option"
  f_Write :: "'o \<Rightarrow> 'f \<Rightarrow> bytes \<Rightarrow> (int \<times> oserr option) \<times> 'o"
  f_WriteAt :: "'o \<Rightarrow> 'f \<Rightarrow> bytes \<Rightarrow> int \<Rightarrow> (int \<times> oserr option) \<times> 'o"
  os_Stat :: "'o \<Rightarrow> string \<Rightarrow> oserr + FileInfo"
  os_Lstat :: "'o \<Rightarrow> string \<Rightarrow> oserr + FileInfo"
  os_ReadDir :: "'o \<Rightarrow> string \<Rightarrow> oserr + (oserr + FileInfo) list"
  os_Mkdir :: "'o \<Rightarrow> string \<Rightarrow> uint32 \<Rightarrow> oserr option \<times> 'o"
  os_MkdirAll :: "'o \<Rightarrow> string \<Rightarrow> uint32 \<Rightarrow> oserr option \<times> 'o"
  os_Remove :: "'o \<Rightarrow> string \<Rightarrow> oserr option \<times> 'o"
  os_Rename :: "'o \<Rightarrow> string \<Rightarrow> string \<Rightarrow> oserr option \<times> 'o"
  os_Readlink :: "'o \<Rightarrow> string \<Rightarrow> oserr + string"
  os_Symlink :: "'o \<Rightarrow> string \<Rightarrow> string \<Rightarrow> oserr option \<times> 'o"
  os_Link :: "'o \<Rightarrow> string \<Rightarrow> string \<Rightarrow> oserr option \<times> 'o"
  os_Chmod :: "'o \<Rightarrow> string \<Rightarrow> uint32 \<Rightarrow> oserr option \<times> 'o"
  os_Chown :: "'o \<Rightarrow> string \<Rightarrow> uint32 \<Rightarrow> uint32 \<Rightarrow> oserr option \<times> 'o"
  os_Chtimes :: "'o \<Rightarrow> string \<Rightarrow> int \<Rightarrow> int \<Rightarrow> oserr option \<times> 'o"
  os_Truncate :: "'o \<Rightarrow> string \<Rightarrow> int \<Rightarrow> oserr option \<times> 'o"
  os_Statfs :: "'o \<Rightarrow> string \<Rightarrow> oserr + Statfs_t"
  os_Getwd :: "'o \<Rightarrow> oserr + string"

section \<open>Definitions\<close>

record 'f FileOpServer =
  srv_handles :: "(uint32, 'f) mapping"
  srv_next :: uint32

definition NewFileOpServer :: "'f FileOpServer" where
  "NewFileOpServer = \<lparr>srv_handles = Mapping.empty, srv_next = 0\<rparr>"

definition putHandle :: "'f FileOpServer \<Rightarrow> 'f \<Rightarrow> uint32 \<times> 'f FileOpServer" where
  "putHandle s f =
     (let n = srv_next s + 1; n = (if n = 0 then 1 else n)
      in (n, s\<lparr>srv_next := n, srv_handles := Mapping.update n f (srv_handles s)\<rparr>))"

definition getHandle :: "'f FileOpServer \<Rightarrow> uint32 \<Rightarrow> 'f option" where
  "getHandle s h = Mapping.lookup (srv_handles s) h"

definition takeHandle :: "'f FileOpServer \<Rightarrow> uint32 \<Rightarrow> 'f option \<times> 'f FileOpServer" where
  "takeHandle s h =
     (case Mapping.lookup (srv_handles s) h of
        None \<Rightarrow> (None, s)
      | Some f \<Rightarrow> (Some f, s\<lparr>srv_handles := Mapping.delete h (srv_handles s)\<rparr>))"

abbreviation ENOENT :: uint32 where "ENOENT \<equiv> 2"
abbreviation EIO :: uint32 where "EIO \<equiv> 5"
abbreviation EBADF :: uint32 where "EBADF \<equiv> 9"
abbreviation EACCES :: uint32 where "EACCES \<equiv> 13"
abbreviation EEXIST :: uint32 where "EEXIST \<equiv> 17"
abbreviation EINVAL :: uint32 where "EINVAL \<equiv> 22"
abbreviation ENOSYS :: uint32 where "ENOSYS \<equiv> 38"

definition errResp :: "oserr \<Rightarrow> FileOpResp" where
  "errResp err =
     emptyResp\<lparr>rs_ErrMsg := oe_Msg err, rs_Errno :=
       (case oe_errno err of
          Some errno \<Rightarrow> errno
        | None \<Rightarrow>
            if oe_NotExist err then ENOENT
            else if oe_Permission err then EACCES
            else if oe_Exist err then EEXIST
            else if oe_Invalid err then EINVAL
            else EIO)\<rparr>"

text \<open>The bare error value \<open>syscall.EBADF\<close>.\<close>

definition badFD :: oserr where
  "badFD = \<lparr>oe_errno = Some EBADF, oe_NotExist = False, oe_Permission = False, oe_Exist = False,
     oe_Invalid = False, oe_EOF = False, oe_Msg = ''bad file descriptor''\<rparr>"

definition augmentStatFromSys :: "FileStat \<Rightarrow> Stat_t option \<Rightarrow> FileStat" where
  "augmentStatFromSys out sys =
     (case sys of None \<Rightarrow> out
      | Some st \<Rightarrow> out\<lparr>st_UID := sys_Uid st, st_GID := sys_Gid st, st_Ino := sys_Ino st,
          st_Rdev := ucast (sys_Rdev st), st_Blocks := sys_Blocks st, st_Blksize := ucast (sys_Blksize st),
          st_Nlink := ucast (sys_Nlink st), st_ATimeNanos := sys_Atim st, st_MTimeNanos := sys_Mtim st,
          st_CTimeNanos := sys_Ctim st\<rparr>)"

definition statFromInfo :: "FileInfo \<Rightarrow> FileStat" where
  "statFromInfo info =
     (let mode = fi_Mode info;
          mode = (if mode AND ModeType = ModeIrregular then
                    (case fi_Sys info of
                       Some st \<Rightarrow> modeFromUnix (sys_Mode st) OR (mode AND 0x1FF)
                     | None \<Rightarrow> mode)
                  else mode);
          st = \<lparr>st_Name = fi_Name info, st_Size = fi_Size info, st_Mode = mode, st_MTimeNanos = fi_ModTime info,
                st_ATimeNanos = 0, st_CTimeNanos = 0, st_UID = 0, st_GID = 0, st_Nlink = 0, st_Rdev = 0,
                st_Blocks = 0, st_Blksize = 0, st_Ino = 0, st_IsDir = fi_IsDir info\<rparr>
      in augmentStatFromSys st (fi_Sys info))"

definition statfsFromSyscall :: "Statfs_t \<Rightarrow> FileStatfs" where
  "statfsFromSyscall st = \<lparr>sf_Blocks = sfs_Blocks st, sf_Bfree = sfs_Bfree st, sf_Bavail = sfs_Bavail st,
     sf_Files = sfs_Files st, sf_Ffree = sfs_Ffree st, sf_Bsize = ucast (sfs_Bsize st),
     sf_Frsize = ucast (sfs_Frsize st), sf_NameLen = ucast (sfs_Namelen st)\<rparr>"

definition handleStatfs :: "('o, 'f) os \<Rightarrow> 'o \<Rightarrow> FileOpReq \<Rightarrow> FileOpResp" where
  "handleStatfs O\<^sub>s s req =
     (case os_Statfs O\<^sub>s s (rq_Path req) of
        Inl err \<Rightarrow> errResp err
      | Inr st \<Rightarrow> emptyResp\<lparr>rs_Statfs := Some (statfsFromSyscall st)\<rparr>)"

fun dirEntries :: "(oserr + FileInfo) list \<Rightarrow> oserr + FileStat list" where
  "dirEntries [] = Inr []"
| "dirEntries (Inl ierr # es) = Inl ierr"
| "dirEntries (Inr info # es) =
     (case dirEntries es of Inl e \<Rightarrow> Inl e | Inr out \<Rightarrow> Inr (statFromInfo info # out))"

text \<open>An operation without result, and one that opens a file.\<close>

definition plainOp :: "oserr option \<times> 'o \<Rightarrow> 's \<Rightarrow> FileOpResp \<times> 's \<times> 'o" where
  "plainOp r srv = (case r of (Some err, s') \<Rightarrow> (errResp err, srv, s') | (None, s') \<Rightarrow> (emptyResp, srv, s'))"

definition openOp :: "(oserr + 'f) \<times> 'o \<Rightarrow> 'f FileOpServer \<Rightarrow> FileOpResp \<times> 'f FileOpServer \<times> 'o" where
  "openOp r srv =
     (case r of
        (Inl err, s') \<Rightarrow> (errResp err, srv, s')
      | (Inr f, s') \<Rightarrow> (let (h, srv') = putHandle srv f in (emptyResp\<lparr>rs_Handle := h\<rparr>, srv', s')))"

definition withHandle ::
  "'f FileOpServer \<Rightarrow> 'o \<Rightarrow> uint32 \<Rightarrow> ('f \<Rightarrow> FileOpResp \<times> 'f FileOpServer \<times> 'o) \<Rightarrow>
     FileOpResp \<times> 'f FileOpServer \<times> 'o" where
  "withHandle srv s h k = (case getHandle srv h of None \<Rightarrow> (errResp badFD, srv, s) | Some f \<Rightarrow> k f)"

definition handleReadAt ::
  "('o, 'f) os \<Rightarrow> 'f FileOpServer \<Rightarrow> 'o \<Rightarrow> FileOpReq \<Rightarrow> 'f \<Rightarrow> FileOpResp \<times> 'f FileOpServer \<times> 'o" where
  "handleReadAt O\<^sub>s srv s req f =
     (if rq_Size req \<le> 0 then (emptyResp, srv, s)
      else let (data, err) = f_ReadAt O\<^sub>s s f (nat (rq_Size req)) (rq_Offset req);
               ok = emptyResp\<lparr>rs_Data := data, rs_N := int (length data)\<rparr>
        in case err of
             None \<Rightarrow> (ok, srv, s)
           | Some e \<Rightarrow> if oe_EOF e then (ok\<lparr>rs_EOF := True\<rparr>, srv, s) else (errResp e, srv, s))"

definition handleWriteAt ::
  "('o, 'f) os \<Rightarrow> 'f FileOpServer \<Rightarrow> 'o \<Rightarrow> FileOpReq \<Rightarrow> 'f \<Rightarrow> FileOpResp \<times> 'f FileOpServer \<times> 'o" where
  "handleWriteAt O\<^sub>s srv s req f =
     (let ((n, err), s') = (if rq_Offset req < 0 then f_Write O\<^sub>s s f (rq_Data req)
                            else f_WriteAt O\<^sub>s s f (rq_Data req) (rq_Offset req))
      in case err of
           Some e \<Rightarrow> ((errResp e)\<lparr>rs_N := n\<rparr>, srv, s')
         | None \<Rightarrow> (emptyResp\<lparr>rs_N := n\<rparr>, srv, s'))"

definition statOp :: "oserr + FileInfo \<Rightarrow> 's \<Rightarrow> 'o \<Rightarrow> FileOpResp \<times> 's \<times> 'o" where
  "statOp r srv s =
     (case r of Inl err \<Rightarrow> (errResp err, srv, s)
      | Inr info \<Rightarrow> (emptyResp\<lparr>rs_Stat := Some (statFromInfo info)\<rparr>, srv, s))"

definition pathOp :: "oserr + string \<Rightarrow> 's \<Rightarrow> 'o \<Rightarrow> FileOpResp \<times> 's \<times> 'o" where
  "pathOp r srv s =
     (case r of Inl err \<Rightarrow> (errResp err, srv, s) | Inr p \<Rightarrow> (emptyResp\<lparr>rs_Path := p\<rparr>, srv, s))"

definition Handle ::
  "('o, 'f) os \<Rightarrow> 'f FileOpServer \<Rightarrow> 'o \<Rightarrow> FileOpReq \<Rightarrow> FileOpResp \<times> 'f FileOpServer \<times> 'o" where
  "Handle O\<^sub>s srv s req =
     (case rq_Op req of
        FileOpOpen \<Rightarrow> openOp (os_Open O\<^sub>s s (rq_Path req)) srv
      | FileOpCreate \<Rightarrow> openOp (os_Create O\<^sub>s s (rq_Path req)) srv
      | FileOpOpenFile \<Rightarrow>
          openOp (os_OpenFile O\<^sub>s s (rq_Path req) (rq_Flags req) (fileModeFromPOSIX (rq_Mode req))) srv
      | FileOpClose \<Rightarrow>
          (case takeHandle srv (rq_Handle req) of
             (None, srv') \<Rightarrow> (errResp badFD, srv', s)
           | (Some f, srv') \<Rightarrow> plainOp (f_Close O\<^sub>s s f) srv')
      | FileOpFsync \<Rightarrow> withHandle srv s (rq_Handle req) (\<lambda>f. plainOp (f_Sync O\<^sub>s s f) srv)
      | FileOpFstat \<Rightarrow> withHandle srv s (rq_Handle req) (\<lambda>f. statOp (f_Stat O\<^sub>s s f) srv s)
      | FileOpFtruncate \<Rightarrow>
          withHandle srv s (rq_Handle req) (\<lambda>f. plainOp (f_Truncate O\<^sub>s s f (rq_Size req)) srv)
      | FileOpReadAt \<Rightarrow> withHandle srv s (rq_Handle req) (\<lambda>f. handleReadAt O\<^sub>s srv s req f)
      | FileOpWriteAt \<Rightarrow> withHandle srv s (rq_Handle req) (\<lambda>f. handleWriteAt O\<^sub>s srv s req f)
      | FileOpStat \<Rightarrow> statOp (os_Stat O\<^sub>s s (rq_Path req)) srv s
      | FileOpLstat \<Rightarrow> statOp (os_Lstat O\<^sub>s s (rq_Path req)) srv s
      | FileOpReadDir \<Rightarrow>
          (case os_ReadDir O\<^sub>s s (rq_Path req) of
             Inl err \<Rightarrow> (errResp err, srv, s)
           | Inr entries \<Rightarrow>
               (case dirEntries entries of
                  Inl ierr \<Rightarrow> (errResp ierr, srv, s)
                | Inr out \<Rightarrow> (emptyResp\<lparr>rs_Entries := out\<rparr>, srv, s)))
      | FileOpMkdir \<Rightarrow> plainOp (os_Mkdir O\<^sub>s s (rq_Path req) (fileModeFromPOSIX (rq_Mode req))) srv
      | FileOpMkdirAll \<Rightarrow> plainOp (os_MkdirAll O\<^sub>s s (rq_Path req) (fileModeFromPOSIX (rq_Mode req))) srv
      | FileOpRemove \<Rightarrow> plainOp (os_Remove O\<^sub>s s (rq_Path req)) srv
      | FileOpRename \<Rightarrow> plainOp (os_Rename O\<^sub>s s (rq_Path req) (rq_NewPath req)) srv
      | FileOpReadlink \<Rightarrow> pathOp (os_Readlink O\<^sub>s s (rq_Path req)) srv s
      | FileOpSymlink \<Rightarrow> plainOp (os_Symlink O\<^sub>s s (rq_Path req) (rq_NewPath req)) srv
      | FileOpLink \<Rightarrow> plainOp (os_Link O\<^sub>s s (rq_Path req) (rq_NewPath req)) srv
      | FileOpChmod \<Rightarrow> plainOp (os_Chmod O\<^sub>s s (rq_Path req) (fileModeFromPOSIX (rq_Mode req))) srv
      | FileOpChown \<Rightarrow> plainOp (os_Chown O\<^sub>s s (rq_Path req) (rq_UID req) (rq_GID req)) srv
      | FileOpChtimes \<Rightarrow> plainOp (os_Chtimes O\<^sub>s s (rq_Path req) (rq_AtimeNanos req) (rq_MTimeNanos req)) srv
      | FileOpTruncate \<Rightarrow> plainOp (os_Truncate O\<^sub>s s (rq_Path req) (rq_Size req)) srv
      | FileOpStatfs \<Rightarrow> (handleStatfs O\<^sub>s s req, srv, s)
      | FileOpGetwd \<Rightarrow> pathOp (os_Getwd O\<^sub>s s) srv s
      | FileOpUnknown _ \<Rightarrow> (emptyResp\<lparr>rs_Errno := ENOSYS, rs_ErrMsg := ''unknown file op''\<rparr>, srv, s))"

text \<open>\<open>CloseAll\<close>; the order in which the map is walked is the argument \<open>hs\<close>.\<close>

definition CloseAll ::
  "('o, 'f) os \<Rightarrow> uint32 list \<Rightarrow> 'f FileOpServer \<Rightarrow> 'o \<Rightarrow> 'f FileOpServer \<times> 'o" where
  "CloseAll O\<^sub>s hs srv s =
     (srv\<lparr>srv_handles := Mapping.empty\<rparr>,
      foldl (\<lambda>s h. case getHandle srv h of None \<Rightarrow> s | Some f \<Rightarrow> snd (f_Close O\<^sub>s s f)) s hs)"

text \<open>A sequence of requests.\<close>

fun HandleAll ::
  "('o, 'f) os \<Rightarrow> 'f FileOpServer \<Rightarrow> 'o \<Rightarrow> FileOpReq list \<Rightarrow> FileOpResp list \<times> 'f FileOpServer \<times> 'o" where
  "HandleAll O\<^sub>s srv s [] = ([], srv, s)"
| "HandleAll O\<^sub>s srv s (req # reqs) =
     (let (resp, srv', s') = Handle O\<^sub>s srv s req;
          (resps, srv'', s'') = HandleAll O\<^sub>s srv' s' reqs
      in (resp # resps, srv'', s''))"

section \<open>The handle table contract\<close>

locale handle_table =
  fixes put :: "'s \<Rightarrow> 'f \<Rightarrow> uint32 \<times> 's"
    and get :: "'s \<Rightarrow> uint32 \<Rightarrow> 'f option"
    and tak :: "'s \<Rightarrow> uint32 \<Rightarrow> 'f option \<times> 's"
    and last :: "'s \<Rightarrow> uint32"
  assumes put_last: "last (snd (put s f)) = nextNonZero (last s)"
    and put_id: "fst (put s f) = nextNonZero (last s)"
    and put_get: "get (snd (put s f)) h = (if h = nextNonZero (last s) then Some f else get s h)"
    and tak_res: "fst (tak s h) = get s h"
    and tak_last: "last (snd (tak s h)) = last s"
    and tak_get: "get (snd (tak s h)) h' = (if h' = h then None else get s h')"
begin

text \<open>The states a table goes through, counting the allocations.\<close>

inductive runs :: "uint32 \<Rightarrow> 's \<Rightarrow> nat \<Rightarrow> 's \<Rightarrow> bool" for h where
  runs_refl: "runs h s 0 s"
| runs_put: "runs h s n s' \<Longrightarrow> runs h s (Suc n) (snd (put s' f))"
| runs_take: "runs h s n s' \<Longrightarrow> h' \<noteq> h \<Longrightarrow> runs h s n (snd (tak s' h'))"

lemma runs_last: "runs h s n s' \<Longrightarrow> last s' = nthID (last s) n"
  by (induction rule: runs.induct) (simp_all add: put_last tak_last nthID_Suc)

text \<open>A handle stays valid while it is not taken, for one cycle of the counter.\<close>

lemma runs_valid:
  assumes "runs h s n s'" "last s = h" "h \<noteq> 0" "n < 2 ^ 32 - 1" "get s h = Some f"
  shows "get s' h = Some f"
  using assms
proof (induction rule: runs.induct)
  case (runs_put s n s' g)
  have "nextNonZero (last s') = nthID h (Suc n)"
    using runs_last [OF runs_put.hyps] runs_put.prems(1) by (simp add: nthID_Suc)
  moreover have "nthID h 0 \<noteq> nthID h (Suc n)"
    by (rule nthID_distinct) (use runs_put.prems in simp_all)
  ultimately show ?case using runs_put by (simp add: put_get)
qed (auto simp: tak_get)

end

interpretation srv: handle_table putHandle getHandle takeHandle srv_next
proof
  fix s :: "'f FileOpServer" and f h h'
  have p: "putHandle s f = (nextNonZero (srv_next s),
      s\<lparr>srv_next := nextNonZero (srv_next s), srv_handles := Mapping.update (nextNonZero (srv_next s)) f (srv_handles s)\<rparr>)"
    by (simp add: putHandle_def nextNonZero_def Let_def)
  show "srv_next (snd (putHandle s f)) = nextNonZero (srv_next s)" by (simp add: p)
  show "fst (putHandle s f) = nextNonZero (srv_next s)" by (simp add: p)
  show "getHandle (snd (putHandle s f)) h = (if h = nextNonZero (srv_next s) then Some f else getHandle s h)"
    by (simp add: p getHandle_def lookup_update')
  show "fst (takeHandle s h) = getHandle s h" by (simp add: takeHandle_def getHandle_def split: option.split)
  show "srv_next (snd (takeHandle s h)) = srv_next s" by (simp add: takeHandle_def split: option.split)
  show "getHandle (snd (takeHandle s h)) h' = (if h' = h then None else getHandle s h')"
    by (cases "h' = h") (auto simp: takeHandle_def getHandle_def split: option.split)
qed

section \<open>Lemmas\<close>

text \<open>Every request leaves the table alone, opens one file, or takes the handle it closes.\<close>

lemma plainOp_srv [simp]: "fst (snd (plainOp r srv)) = srv"
  by (simp add: plainOp_def split: prod.split option.split)

lemma statOp_srv [simp]: "fst (snd (statOp r srv s)) = srv"
  by (simp add: statOp_def split: sum.split)

lemma pathOp_srv [simp]: "fst (snd (pathOp r srv s)) = srv"
  by (simp add: pathOp_def split: sum.split)

lemma handleReadAt_srv [simp]: "fst (snd (handleReadAt O\<^sub>s srv s req f)) = srv"
  by (simp add: handleReadAt_def Let_def split: prod.split option.split)

lemma handleWriteAt_srv [simp]: "fst (snd (handleWriteAt O\<^sub>s srv s req f)) = srv"
  by (simp add: handleWriteAt_def Let_def split: prod.split option.split)

lemma withHandle_srv: "(\<And>f. fst (snd (k f)) = srv) \<Longrightarrow> fst (snd (withHandle srv s h k)) = srv"
  by (simp add: withHandle_def split: option.split)

lemma openOp_srv: "fst (snd (openOp r srv)) = srv \<or> (\<exists>f. fst (snd (openOp r srv)) = snd (putHandle srv f))"
proof (cases r)
  case (Pair x o')
  then show ?thesis
    by (cases x) (auto simp: openOp_def putHandle_def Let_def)
qed

lemma Handle_srv:
  "fst (snd (Handle O\<^sub>s srv s req)) = srv \<or>
   (\<exists>f. fst (snd (Handle O\<^sub>s srv s req)) = snd (putHandle srv f)) \<or>
   (rq_Op req = FileOpClose \<and> fst (snd (Handle O\<^sub>s srv s req)) = snd (takeHandle srv (rq_Handle req)))"
proof (cases "rq_Op req")
  case FileOpClose
  obtain x srv' where "takeHandle srv (rq_Handle req) = (x, srv')" by fastforce
  then show ?thesis using FileOpClose by (simp add: Handle_def split: option.split)
qed (use openOp_srv [of "os_Open O\<^sub>s s (rq_Path req)" srv] openOp_srv [of "os_Create O\<^sub>s s (rq_Path req)" srv]
    openOp_srv [of "os_OpenFile O\<^sub>s s (rq_Path req) (rq_Flags req) (fileModeFromPOSIX (rq_Mode req))" srv]
    in \<open>auto simp: Handle_def withHandle_srv split: sum.split\<close>)

lemma HandleAll_runs:
  assumes "HandleAll O\<^sub>s srv s reqs = (resps, srv', s')"
    "\<forall>r\<in>set reqs. \<not> (rq_Op r = FileOpClose \<and> rq_Handle r = h)" "srv.runs h srv0 n srv"
  shows "\<exists>m. m \<le> n + length reqs \<and> srv.runs h srv0 m srv'"
  using assms
proof (induction reqs arbitrary: srv s n resps)
  case (Cons req reqs)
  obtain resp srv1 s1 where H: "Handle O\<^sub>s srv s req = (resp, srv1, s1)" by (metis prod_cases3)
  obtain rs where rs: "HandleAll O\<^sub>s srv1 s1 reqs = (rs, srv', s')"
    using Cons.prems(1) H by (auto simp: Let_def split: prod.splits)
  have "srv.runs h srv0 n srv1 \<or> srv.runs h srv0 (Suc n) srv1"
    using Handle_srv [of O\<^sub>s srv s req] H Cons.prems(2,3) by (auto intro: srv.runs_put srv.runs_take)
  then show ?case
    using Cons.IH [OF rs] Cons.prems(2) by (metis add_Suc_shift le_SucI length_Cons add_Suc_right list.set_intros(2))
qed auto

text \<open>The primitive behind an opening request.\<close>

definition opens :: "('o, 'f) os \<Rightarrow> 'o \<Rightarrow> FileOpReq \<Rightarrow> ((oserr + 'f) \<times> 'o) option" where
  "opens O\<^sub>s s req =
     (case rq_Op req of
        FileOpOpen \<Rightarrow> Some (os_Open O\<^sub>s s (rq_Path req))
      | FileOpCreate \<Rightarrow> Some (os_Create O\<^sub>s s (rq_Path req))
      | FileOpOpenFile \<Rightarrow> Some (os_OpenFile O\<^sub>s s (rq_Path req) (rq_Flags req) (fileModeFromPOSIX (rq_Mode req)))
      | _ \<Rightarrow> None)"

lemma Handle_opens: "opens O\<^sub>s s req = Some r \<Longrightarrow> Handle O\<^sub>s srv s req = openOp r srv"
  by (auto simp: opens_def Handle_def split: FileOp.splits)

section \<open>Properties\<close>

text \<open>
  C31. A handle returned by a successful open stays bound to that file: it is not zero, and after
  any further requests, fewer than a full cycle of the counter and none of them closing it, it
  still names the same file, whatever else is opened and closed in between.
\<close>

theorem handle_stays_valid:
  assumes "opens O\<^sub>s s req = Some (Inr f, s1)" "Handle O\<^sub>s srv s req = (resp, srv1, s2)"
    and "HandleAll O\<^sub>s srv1 s2 reqs = (resps, srv2, s3)" "length reqs < 2 ^ 32 - 1"
    and "\<forall>r\<in>set reqs. \<not> (rq_Op r = FileOpClose \<and> rq_Handle r = rs_Handle resp)"
  shows "rs_Handle resp \<noteq> 0 \<and> rs_Errno resp = 0 \<and> getHandle srv2 (rs_Handle resp) = Some f"
proof -
  let ?h = "nextNonZero (srv_next srv)"
  have H: "resp = emptyResp\<lparr>rs_Handle := ?h\<rparr>" "srv1 = snd (putHandle srv f)"
    using assms(2) Handle_opens [OF assms(1), of srv] srv.put_id [of srv f]
    by (auto simp: openOp_def split: prod.splits)
  obtain m where m: "m \<le> 0 + length reqs" "srv.runs ?h srv1 m srv2"
    using HandleAll_runs [OF assms(3), of ?h srv1 0] assms(5) H(1) srv.runs_refl by auto
  have "getHandle srv2 ?h = Some f"
    by (rule srv.runs_valid [OF m(2)]) (use m(1) assms(4) H(2) in \<open>simp_all add: srv.put_last srv.put_get\<close>)
  then show ?thesis by (simp add: H(1) emptyResp_def)
qed

text \<open>A file system in which every call succeeds; an open file is its name.\<close>

definition exampleOS :: "(unit, string) os" where
  "exampleOS = \<lparr>os_Open = (\<lambda>s p. (Inr p, s)), os_Create = (\<lambda>s p. (Inr p, s)), os_OpenFile = (\<lambda>s p _ _. (Inr p, s)),
     f_Close = (\<lambda>s _. (None, s)), f_Sync = (\<lambda>s _. (None, s)), f_Stat = (\<lambda>_ _. Inl badFD),
     f_Truncate = (\<lambda>s _ _. (None, s)), f_ReadAt = (\<lambda>_ _ _ _. ([], None)), f_Write = (\<lambda>s _ d. ((int (length d), None), s)),
     f_WriteAt = (\<lambda>s _ d _. ((int (length d), None), s)), os_Stat = (\<lambda>_ _. Inl badFD), os_Lstat = (\<lambda>_ _. Inl badFD),
     os_ReadDir = (\<lambda>_ _. Inr []), os_Mkdir = (\<lambda>s _ _. (None, s)), os_MkdirAll = (\<lambda>s _ _. (None, s)),
     os_Remove = (\<lambda>s _. (None, s)), os_Rename = (\<lambda>s _ _. (None, s)), os_Readlink = (\<lambda>_ _. Inl badFD),
     os_Symlink = (\<lambda>s _ _. (None, s)), os_Link = (\<lambda>s _ _. (None, s)), os_Chmod = (\<lambda>s _ _. (None, s)),
     os_Chown = (\<lambda>s _ _ _. (None, s)), os_Chtimes = (\<lambda>s _ _ _. (None, s)), os_Truncate = (\<lambda>s _ _. (None, s)),
     os_Statfs = (\<lambda>_ _. Inl badFD), os_Getwd = (\<lambda>_. Inr ''/'')\<rparr>"

definition exampleReq :: "FileOp \<Rightarrow> uint32 \<Rightarrow> FileOpReq" where
  "exampleReq op h = \<lparr>rq_ReqID = 1, rq_Op = op, rq_Path = ''/f'', rq_NewPath = [], rq_Flags = 0, rq_Mode = 0,
     rq_UID = 0, rq_GID = 0, rq_Handle = h, rq_Offset = 0, rq_Size = 0, rq_AtimeNanos = 0, rq_MTimeNanos = 0,
     rq_Data = []\<rparr>"

theorem handle_stays_valid_witness:
  "\<exists>srv2. HandleAll exampleOS NewFileOpServer () [exampleReq FileOpOpen 0, exampleReq FileOpOpen 0, exampleReq FileOpClose 2] =
     ([emptyResp\<lparr>rs_Handle := 1\<rparr>, emptyResp\<lparr>rs_Handle := 2\<rparr>, emptyResp], srv2, ()) \<and> getHandle srv2 1 = Some ''/f''"
proof -
  let ?s1 = "snd (putHandle NewFileOpServer ''/f'')" and ?s2 = "snd (putHandle (snd (putHandle NewFileOpServer ''/f'')) ''/f'')"
  have o: "opens exampleOS () (exampleReq FileOpOpen 0) = Some (Inr ''/f'', ())"
    by (simp add: opens_def exampleReq_def exampleOS_def)
  have h: "Handle exampleOS NewFileOpServer () (exampleReq FileOpOpen 0) = (emptyResp\<lparr>rs_Handle := 1\<rparr>, ?s1, ())"
    by (simp add: Handle_def exampleReq_def exampleOS_def openOp_def putHandle_def NewFileOpServer_def)
  have r: "HandleAll exampleOS ?s1 () [exampleReq FileOpOpen 0, exampleReq FileOpClose 2] =
      ([emptyResp\<lparr>rs_Handle := 2\<rparr>, emptyResp], snd (takeHandle ?s2 2), ())"
    by (simp add: Handle_def exampleReq_def exampleOS_def openOp_def putHandle_def NewFileOpServer_def
        takeHandle_def plainOp_def)
  show ?thesis
    using handle_stays_valid [OF o h r] h r by (simp add: emptyResp_def exampleReq_def)
qed

text \<open>
  A request on a handle that is not open is answered with EBADF and changes neither the
  handle table nor the file system; this includes every handle after \<open>CloseAll\<close> and a second
  close of the same handle.
\<close>

theorem stale_handle_rejected:
  assumes "rq_Op req \<in> {FileOpClose, FileOpFsync, FileOpFstat, FileOpFtruncate, FileOpReadAt, FileOpWriteAt}"
    and "getHandle srv (rq_Handle req) = None"
  shows "Handle O\<^sub>s srv s req = (emptyResp\<lparr>rs_Errno := EBADF, rs_ErrMsg := ''bad file descriptor''\<rparr>, srv, s) \<and>
    getHandle (fst (CloseAll O\<^sub>s hs srv' s)) h = None \<and>
    getHandle (snd (takeHandle srv' h)) h = None"
proof -
  have "takeHandle srv (rq_Handle req) = (None, srv)" using assms(2) by (simp add: takeHandle_def getHandle_def)
  moreover have "errResp badFD = emptyResp\<lparr>rs_Errno := EBADF, rs_ErrMsg := ''bad file descriptor''\<rparr>"
    by (simp add: errResp_def badFD_def)
  ultimately have "Handle O\<^sub>s srv s req = (emptyResp\<lparr>rs_Errno := EBADF, rs_ErrMsg := ''bad file descriptor''\<rparr>, srv, s)"
    using assms by (auto simp: Handle_def withHandle_def)
  then show ?thesis by (simp add: CloseAll_def getHandle_def) (metis getHandle_def srv.tak_get)
qed

theorem stale_handle_rejected_witness:
  "Handle exampleOS NewFileOpServer () (exampleReq FileOpReadAt 3) =
     (emptyResp\<lparr>rs_Errno := EBADF, rs_ErrMsg := ''bad file descriptor''\<rparr>, NewFileOpServer, ())"
  using stale_handle_rejected [of "exampleReq FileOpReadAt 3" NewFileOpServer exampleOS "()"]
  by (simp add: exampleReq_def getHandle_def NewFileOpServer_def)

end
