(* ===== verification/Mux.thy ===== *)
theory Mux
  imports FileOpServer
begin

text \<open>
  The read loop of \<open>pkg/agentproto/mux.go\<close> and its senders. The registered callbacks are flags,
  the file-op handler is a state transformer, and what the loop does is a list of events. What
  \<open>Decode\<close> returns, and whether the context is done before it, is the input. The delivery of a
  file-op response to its caller is the theory \<open>MuxRpc\<close>.
\<close>

section \<open>Definitions\<close>

datatype muxEvent =
    CallExec ExecMsg
  | StreamWrite uint32 bytes
  | StreamEOF uint32
  | CallSignal int
  | CallExit int string
  | CallError string
  | CallLog LogEntry
  | SendFrame Frame
  | DeliverResp FileOpResp

record 'h Mux =
  mx_streams :: "uint32 set"
  mx_onExec :: bool
  mx_onSignal :: bool
  mx_onExit :: bool
  mx_onError :: bool
  mx_onLog :: bool
  mx_onFileOp :: "('h \<Rightarrow> FileOpReq \<Rightarrow> FileOpResp option \<times> 'h) option"

definition NewMux :: "'h Mux" where
  "NewMux = \<lparr>mx_streams = {}, mx_onExec = False, mx_onSignal = False, mx_onExit = False, mx_onError = False,
     mx_onLog = False, mx_onFileOp = None\<rparr>"

definition RegisterStream :: "'h Mux \<Rightarrow> uint32 \<Rightarrow> 'h Mux" where
  "RegisterStream m i = m\<lparr>mx_streams := insert i (mx_streams m)\<rparr>"

definition OnSignal :: "'h Mux \<Rightarrow> 'h Mux" where "OnSignal m = m\<lparr>mx_onSignal := True\<rparr>"
definition OnLog :: "'h Mux \<Rightarrow> 'h Mux" where "OnLog m = m\<lparr>mx_onLog := True\<rparr>"
definition OnFileOp :: "'h Mux \<Rightarrow> ('h \<Rightarrow> FileOpReq \<Rightarrow> FileOpResp option \<times> 'h) \<Rightarrow> 'h Mux" where
  "OnFileOp m f = m\<lparr>mx_onFileOp := Some f\<rparr>"

definition dataFrame :: "uint32 \<Rightarrow> bytes \<Rightarrow> Frame" where
  "dataFrame i d = emptyFrame\<lparr>fr_Type := FrameData, fr_Stream := i, fr_Data := d\<rparr>"

definition eofFrame :: "uint32 \<Rightarrow> Frame" where
  "eofFrame i = emptyFrame\<lparr>fr_Type := FrameEOF, fr_Stream := i\<rparr>"

definition respFrame :: "FileOpResp \<Rightarrow> Frame" where
  "respFrame r = emptyFrame\<lparr>fr_Type := FrameFileResp, fr_FileResp := Some r\<rparr>"

text \<open>One frame; the last component is the exit code of a terminal frame.\<close>

definition dispatch :: "'h Mux \<Rightarrow> 'h \<Rightarrow> Frame \<Rightarrow> muxEvent list \<times> 'h \<times> int option" where
  "dispatch m h f =
     (let t = fr_Type f in
      if t = FrameExec then
        (case fr_Exec f of Some x \<Rightarrow> (if mx_onExec m then [CallExec x] else [], h, None) | None \<Rightarrow> ([], h, None))
      else if t = FrameData then
        (if fr_Stream f \<in> mx_streams m \<and> length (fr_Data f) > 0
         then ([StreamWrite (fr_Stream f) (fr_Data f)], h, None) else ([], h, None))
      else if t = FrameEOF then
        (if fr_Stream f \<in> mx_streams m then ([StreamEOF (fr_Stream f)], h, None) else ([], h, None))
      else if t = FrameSignal then
        (if mx_onSignal m then [CallSignal (fr_Signal f)] else [], h, None)
      else if t = FrameExit then
        (if mx_onExit m then [CallExit (fr_Code f) (fr_Error f)] else [], h, Some (fr_Code f))
      else if t = FrameError then
        (if mx_onError m then [CallError (fr_Error f)] else [], h, None)
      else if t = FrameLog then
        (case fr_Log f of Some l \<Rightarrow> (if mx_onLog m then [CallLog l] else [], h, None) | None \<Rightarrow> ([], h, None))
      else if t = FrameFileOp then
        (case (mx_onFileOp m, fr_FileOp f) of
           (Some fn, Some req) \<Rightarrow>
             (let (resp, h') = fn h req;
                  resp = (case resp of None \<Rightarrow> emptyResp | Some r \<Rightarrow> r)
              in ([SendFrame (respFrame (resp\<lparr>rs_ReqID := rq_ReqID req\<rparr>))], h', None))
         | _ \<Rightarrow> ([], h, None))
      else if t = FrameFileResp then
        (case fr_FileResp f of Some r \<Rightarrow> ([DeliverResp r], h, None) | None \<Rightarrow> ([], h, None))
      else ([], h, None))"

datatype loopInput = CtxDone | DecodeErr | Got Frame

datatype loopEnd = Cancelled | Failed | ExitFrame | StillReading

fun ReadLoop :: "'h Mux \<Rightarrow> 'h \<Rightarrow> loopInput list \<Rightarrow> muxEvent list \<times> 'h \<times> int \<times> loopEnd" where
  "ReadLoop m h [] = ([], h, -1, StillReading)"
| "ReadLoop m h (CtxDone # ins) = ([], h, -1, Cancelled)"
| "ReadLoop m h (DecodeErr # ins) = ([], h, -1, Failed)"
| "ReadLoop m h (Got f # ins) =
     (case dispatch m h f of
        (evs, h', Some code) \<Rightarrow> (evs, h', code, ExitFrame)
      | (evs, h', None) \<Rightarrow>
          (case ReadLoop m h' ins of (evs', h'', code, e) \<Rightarrow> (evs @ evs', h'', code, e)))"

section \<open>Lemmas\<close>

lemma dispatch_exit: "snd (snd (dispatch m h f)) = (if fr_Type f = FrameExit then Some (fr_Code f) else None)"
  by (auto simp: dispatch_def Let_def FrameType_defs split: option.splits prod.splits)

definition isGot :: "loopInput \<Rightarrow> bool" where
  "isGot x \<longleftrightarrow> (\<exists>f. x = Got f)"

text \<open>The frames the loop dispatches: up to and including the first exit frame.\<close>

fun handled :: "loopInput list \<Rightarrow> Frame list" where
  "handled (Got f # ins) = (if fr_Type f = FrameExit then [f] else f # handled ins)"
| "handled _ = []"

definition requests :: "Frame list \<Rightarrow> FileOpReq list" where
  "requests fs = List.map_filter (\<lambda>f. if fr_Type f = FrameFileOp then fr_FileOp f else None) fs"

definition replyIDs :: "muxEvent list \<Rightarrow> uint32 list" where
  "replyIDs evs = List.map_filter (\<lambda>e. case e of SendFrame f \<Rightarrow> map_option rs_ReqID (fr_FileResp f) | _ \<Rightarrow> None) evs"

lemma replyIDs_append [simp]: "replyIDs (a @ b) = replyIDs a @ replyIDs b"
  by (simp add: replyIDs_def map_filter_def)

lemma requests_Cons:
  "requests (f # fs) = (if fr_Type f = FrameFileOp then case fr_FileOp f of None \<Rightarrow> [] | Some r \<Rightarrow> [r] else []) @ requests fs"
  by (auto simp: requests_def map_filter_simps split: option.split)

lemma replyIDs_dispatch:
  assumes "mx_onFileOp m = Some fn"
  shows "replyIDs (fst (dispatch m h f)) = map rq_ReqID (requests [f])"
  using assms
  by (auto simp: dispatch_def Let_def FrameType_defs requests_def replyIDs_def map_filter_simps respFrame_def
      split: option.splits prod.splits)

section \<open>Properties\<close>

text \<open>
  The agent answers every file-op request exactly once: the responses the read loop sends
  carry, in order, exactly the ids of the requests it handled, whatever the handler returns.
\<close>

theorem ReadLoop_answers_all:
  assumes "mx_onFileOp m = Some fn"
  shows "replyIDs (fst (ReadLoop m h ins)) = map rq_ReqID (requests (handled ins))"
proof (induction ins arbitrary: h)
  case (Cons x ins)
  show ?case
  proof (cases x)
    case (Got f)
    obtain evs h' e where d: "dispatch m h f = (evs, h', e)" by (metis prod_cases3)
    have r: "replyIDs evs = map rq_ReqID (requests [f])" using replyIDs_dispatch [OF assms, of h f] d by simp
    have e: "e = (if fr_Type f = FrameExit then Some (fr_Code f) else None)" using dispatch_exit [of m h f] d by simp
    obtain evs' h'' c en where rl: "ReadLoop m h' ins = (evs', h'', c, en)" by (metis prod_cases4)
    have i: "replyIDs evs' = map rq_ReqID (requests (handled ins))" using Cons.IH [of h'] rl by simp
    show ?thesis
    proof (cases "fr_Type f = FrameExit")
      case True
      then show ?thesis using Got d e r by simp
    next
      case False
      then show ?thesis using Got d e r rl i requests_Cons [of f "handled ins"] requests_Cons [of f "[]"]
        by (simp add: requests_def map_filter_simps)
    qed
  qed (simp_all add: requests_def replyIDs_def map_filter_simps)
qed (simp add: requests_def replyIDs_def map_filter_simps)

theorem ReadLoop_answers_all_witness:
  "replyIDs (fst (ReadLoop (OnFileOp NewMux (\<lambda>h r. (None, h))) () [Got (emptyFrame\<lparr>fr_Type := FrameFileOp,
     fr_FileOp := Some ((exampleReq FileOpGetwd 0)\<lparr>rq_ReqID := 9\<rparr>)\<rparr>), DecodeErr])) = [9]"
proof -
  let ?ins = "[Got (emptyFrame\<lparr>fr_Type := FrameFileOp, fr_FileOp := Some ((exampleReq FileOpGetwd 0)\<lparr>rq_ReqID := 9\<rparr>)\<rparr>), DecodeErr]"
  have "map rq_ReqID (requests (handled ?ins)) = [9]"
    by (simp add: FrameType_defs requests_def map_filter_simps)
  then show ?thesis
    using ReadLoop_answers_all [of "OnFileOp NewMux (\<lambda>h r. (None, h))" "\<lambda>h r. (None, h)" "()" ?ins]
    by (simp only: OnFileOp_def) (simp add: OnFileOp_def)
qed

text \<open>
  The first exit frame ends the read loop: its code is the result, and no input after it is
  looked at.
\<close>

theorem ReadLoop_exit:
  assumes "\<forall>f\<in>set fs. fr_Type f \<noteq> FrameExit" "fr_Type x = FrameExit"
  shows "ReadLoop m h (map Got fs @ Got x # ins) = ReadLoop m h (map Got fs @ [Got x]) \<and>
    snd (snd (ReadLoop m h (map Got fs @ Got x # ins))) = (fr_Code x, ExitFrame)"
  using assms(1)
proof (induction fs arbitrary: h)
  case Nil
  obtain evs h' e where "dispatch m h x = (evs, h', e)" by (metis prod_cases3)
  then show ?case using dispatch_exit [of m h x] assms(2) by simp
next
  case (Cons f fs)
  obtain evs h' e where d: "dispatch m h f = (evs, h', e)" by (metis prod_cases3)
  have "e = None" using dispatch_exit [of m h f] d Cons.prems by simp
  moreover have "\<forall>f\<in>set fs. fr_Type f \<noteq> FrameExit" using Cons.prems by simp
  note IH = Cons.IH [of h', OF this]
  obtain evs' h'' c en where "ReadLoop m h' (map Got fs @ [Got x]) = (evs', h'', c, en)" by (metis prod_cases4)
  ultimately show ?case using d IH by auto
qed

theorem ReadLoop_exit_witness:
  "snd (snd (ReadLoop (NewMux :: unit Mux) () [Got (eofFrame 1), Got (emptyFrame\<lparr>fr_Type := FrameExit, fr_Code := 3\<rparr>), DecodeErr])) =
     (3, ExitFrame)"
proof -
  have "\<forall>f\<in>set [eofFrame 1]. fr_Type f \<noteq> FrameExit" by (simp add: eofFrame_def FrameType_defs)
  from ReadLoop_exit [OF this, of "emptyFrame\<lparr>fr_Type := FrameExit, fr_Code := 3\<rparr>" "NewMux :: unit Mux" "()" "[DecodeErr]"]
  show ?thesis by (auto simp del: ReadLoop.simps)
qed

end
