(* ===== verification/MuxRpc.thy ===== *)
theory MuxRpc
  imports Frame
begin

text \<open>
  The file-op RPC of \<open>pkg/agentproto/mux.go\<close>: \<open>FileOp\<close>, \<open>deliverFileResp\<close> and \<open>failPending\<close> run
  concurrently, callers on their own goroutines and delivery on the read loop's. Every lock
  region, atomic operation, channel operation and the network send is one step; a call's channel
  is named by the call, a natural number. A send on a closed channel and a second close set the
  flag \<open>panicked\<close>.
\<close>

section \<open>State and steps\<close>

record chan =
  ch_buf :: "FileOpResp option"
  ch_closed :: bool

datatype rpc_result = GotResp FileOpResp | ErrSend | ErrCtx | ErrUnexpectedEOF

datatype phase =
    Idle
  | Allocated uint32
  | Registered uint32
  | Sent uint32
  | Returning uint32 rpc_result
  | Done uint32 rpc_result

datatype loop = Running | Delivering nat FileOpResp | Closing "nat set" | Ended

record rpc =
  nextReqID :: uint32
  adds :: nat
  pending :: "uint32 \<rightharpoonup> nat"
  chans :: "nat \<Rightarrow> chan"
  phases :: "nat \<Rightarrow> phase"
  rloop :: loop
  panicked :: bool

definition emptyChan :: chan where
  "emptyChan = \<lparr>ch_buf = None, ch_closed = False\<rparr>"

definition rpcInit :: rpc where
  "rpcInit = \<lparr>nextReqID = 0, adds = 0, pending = Map.empty, chans = (\<lambda>_. emptyChan), phases = (\<lambda>_. Idle),
     rloop = Running, panicked = False\<rparr>"

abbreviation setPhase :: "rpc \<Rightarrow> nat \<Rightarrow> phase \<Rightarrow> rpc" where
  "setPhase s c p \<equiv> s\<lparr>phases := (phases s)(c := p)\<rparr>"

text \<open>\<open>m.nextReqID.Add(1)\<close>, repeated by the caller while it gives zero.\<close>

definition addReqID :: "rpc \<Rightarrow> nat \<Rightarrow> rpc" where
  "addReqID s c =
     (let i = nextReqID s + 1; s' = s\<lparr>nextReqID := i, adds := adds s + 1\<rparr>
      in if i = 0 then s' else setPhase s' c (Allocated i))"

definition registerCall :: "rpc \<Rightarrow> nat \<Rightarrow> uint32 \<Rightarrow> rpc" where
  "registerCall s c i =
     (setPhase s c (Registered i))\<lparr>chans := (chans s)(c := emptyChan), pending := (pending s)(i \<mapsto> c)\<rparr>"

definition receive :: "rpc \<Rightarrow> nat \<Rightarrow> uint32 \<Rightarrow> rpc" where
  "receive s c i =
     (case ch_buf (chans s c) of
        Some resp \<Rightarrow> (setPhase s c (Returning i (GotResp resp)))\<lparr>chans := (chans s)(c := (chans s c)\<lparr>ch_buf := None\<rparr>)\<rparr>
      | None \<Rightarrow> setPhase s c (Returning i ErrUnexpectedEOF))"

definition cleanup :: "rpc \<Rightarrow> nat \<Rightarrow> uint32 \<Rightarrow> rpc_result \<Rightarrow> rpc" where
  "cleanup s c i r = (setPhase s c (Done i r))\<lparr>pending := (pending s)(i := None)\<rparr>"

definition deliverTake :: "rpc \<Rightarrow> FileOpResp \<Rightarrow> rpc" where
  "deliverTake s resp =
     (case pending s (rs_ReqID resp) of
        None \<Rightarrow> s
      | Some c \<Rightarrow> s\<lparr>pending := (pending s)(rs_ReqID resp := None), rloop := Delivering c resp\<rparr>)"

definition deliverPut :: "rpc \<Rightarrow> nat \<Rightarrow> FileOpResp \<Rightarrow> rpc" where
  "deliverPut s c resp =
     (let ch = chans s c; s' = s\<lparr>rloop := Running\<rparr> in
      if ch_closed ch then s'\<lparr>panicked := True\<rparr>
      else if ch_buf ch = None then s'\<lparr>chans := (chans s)(c := ch\<lparr>ch_buf := Some resp\<rparr>)\<rparr>
      else s')"

definition failTake :: "rpc \<Rightarrow> rpc" where
  "failTake s = s\<lparr>pending := Map.empty, rloop := Closing (ran (pending s))\<rparr>"

definition closeChan :: "rpc \<Rightarrow> nat \<Rightarrow> nat set \<Rightarrow> rpc" where
  "closeChan s c S =
     (let s' = s\<lparr>rloop := Closing (S - {c})\<rparr> in
      if ch_closed (chans s c) then s'\<lparr>panicked := True\<rparr>
      else s'\<lparr>chans := (chans s)(c := (chans s c)\<lparr>ch_closed := True\<rparr>)\<rparr>)"

inductive rpc_step :: "rpc \<Rightarrow> rpc \<Rightarrow> bool" where
  step_add: "phases s c = Idle \<Longrightarrow> rpc_step s (addReqID s c)"
| step_register: "phases s c = Allocated i \<Longrightarrow> rpc_step s (registerCall s c i)"
| step_send: "phases s c = Registered i \<Longrightarrow> rpc_step s (setPhase s c (Sent i))"
| step_send_fail: "phases s c = Registered i \<Longrightarrow> rpc_step s (setPhase s c (Returning i ErrSend))"
| step_receive: "phases s c = Sent i \<Longrightarrow> ch_buf (chans s c) \<noteq> None \<or> ch_closed (chans s c) \<Longrightarrow>
    rpc_step s (receive s c i)"
| step_cancel: "phases s c = Sent i \<Longrightarrow> rpc_step s (setPhase s c (Returning i ErrCtx))"
| step_cleanup: "phases s c = Returning i r \<Longrightarrow> rpc_step s (cleanup s c i r)"
| step_deliver: "rloop s = Running \<Longrightarrow> rpc_step s (deliverTake s resp)"
| step_put: "rloop s = Delivering c resp \<Longrightarrow> rpc_step s (deliverPut s c resp)"
| step_fail: "rloop s = Running \<Longrightarrow> rpc_step s (failTake s)"
| step_close: "rloop s = Closing S \<Longrightarrow> c \<in> S \<Longrightarrow> rpc_step s (closeChan s c S)"
| step_end: "rloop s = Closing {} \<Longrightarrow> rpc_step s (s\<lparr>rloop := Ended\<rparr>)"

inductive reachable :: "rpc \<Rightarrow> bool" where
  reach_init: "reachable rpcInit"
| reach_step: "reachable s \<Longrightarrow> rpc_step s s' \<Longrightarrow> reachable s'"

section \<open>Invariant\<close>

fun phaseID :: "phase \<Rightarrow> uint32 option" where
  "phaseID Idle = None"
| "phaseID (Allocated i) = Some i"
| "phaseID (Registered i) = Some i"
| "phaseID (Sent i) = Some i"
| "phaseID (Returning i r) = Some i"
| "phaseID (Done i r) = Some i"

fun started :: "phase \<Rightarrow> bool" where
  "started Idle = False"
| "started (Allocated i) = False"
| "started p = True"

fun resultOK :: "phase \<Rightarrow> bool" where
  "resultOK (Returning i (GotResp r)) = (rs_ReqID r = i)"
| "resultOK (Done i (GotResp r)) = (rs_ReqID r = i)"
| "resultOK p = True"

fun claimed :: "loop \<Rightarrow> nat set" where
  "claimed Running = {}"
| "claimed (Delivering c r) = {c}"
| "claimed (Closing S) = S"
| "claimed Ended = {}"

text \<open>One call: its phase, its channel, the table entries that name it, and the read loop.\<close>

definition callOK :: "phase \<Rightarrow> chan \<Rightarrow> uint32 set \<Rightarrow> loop \<Rightarrow> nat \<Rightarrow> bool" where
  "callOK p ch ids lp c \<longleftrightarrow>
     (\<forall>i\<in>ids. phaseID p = Some i) \<and>
     (ids \<noteq> {} \<longrightarrow> started p \<and> ch = emptyChan \<and> c \<notin> claimed lp) \<and>
     (c \<in> claimed lp \<longrightarrow> started p \<and> ch = emptyChan) \<and>
     (\<forall>r. lp = Delivering c r \<longrightarrow> phaseID p = Some (rs_ReqID r)) \<and>
     (\<forall>r. ch_buf ch = Some r \<longrightarrow> phaseID p = Some (rs_ReqID r)) \<and>
     (started p \<or> ch = emptyChan) \<and> resultOK p \<and> phaseID p \<noteq> Some 0"

definition entries :: "rpc \<Rightarrow> nat \<Rightarrow> uint32 set" where
  "entries s c = {i. pending s i = Some c}"

definition rpcInv :: "rpc \<Rightarrow> bool" where
  "rpcInv s \<longleftrightarrow> (\<forall>c. callOK (phases s c) (chans s c) (entries s c) (rloop s) c) \<and> \<not> panicked s"

lemma emptyChan_simps [simp]: "ch_buf emptyChan = None" "\<not> ch_closed emptyChan"
  by (simp_all add: emptyChan_def)

lemma rpcInv_call: "rpcInv s \<Longrightarrow> callOK (phases s c) (chans s c) (entries s c) (rloop s) c"
  by (simp add: rpcInv_def)

lemma rpcInv_init: "rpcInv rpcInit"
  by (simp add: rpcInv_def rpcInit_def callOK_def entries_def)

text \<open>Fewer entries, and a loop that no longer claims the call, keep a call well formed.\<close>

lemma callOK_mono:
  "callOK p ch ids lp c \<Longrightarrow> ids' \<subseteq> ids \<Longrightarrow> (c \<in> claimed lp' \<Longrightarrow> c \<in> claimed lp \<or> c \<in> claimed lp' \<and> ids' = {} \<and> ids \<noteq> {}) \<Longrightarrow>
   (\<And>r. lp' = Delivering c r \<Longrightarrow> phaseID p = Some (rs_ReqID r)) \<Longrightarrow> callOK p ch ids' lp' c"
  unfolding callOK_def by blast

lemma callOK_move:
  "callOK p ch ids lp c \<Longrightarrow> phaseID p' = phaseID p \<Longrightarrow> started p' = started p \<Longrightarrow> resultOK p' \<Longrightarrow> callOK p' ch ids lp c"
  unfolding callOK_def by simp

lemma rpcInv_step_add: "rpcInv s \<Longrightarrow> phases s c = Idle \<Longrightarrow> rpcInv (addReqID s c)"
  using rpcInv_call [of s c]
  by (auto simp: rpcInv_def addReqID_def Let_def entries_def callOK_def [of Idle] callOK_def [of "Allocated i" for i])

lemma rpcInv_step_move:
  assumes "rpcInv s" "phaseID p = phaseID (phases s c)" "started p = started (phases s c)" "resultOK p"
  shows "rpcInv (setPhase s c p)"
  using assms callOK_move [OF rpcInv_call [OF assms(1), of c]] by (auto simp: rpcInv_def entries_def)

lemma rpcInv_step_register:
  assumes "rpcInv s" "phases s c = Allocated i"
  shows "rpcInv (registerCall s c i)"
proof -
  have c: "entries s c = {}" "c \<notin> claimed (rloop s)" "\<And>r. rloop s \<noteq> Delivering c r" "i \<noteq> 0"
    using rpcInv_call [OF assms(1), of c] assms(2) by (auto simp: callOK_def)
  have "callOK (phases s d) (chans s d) (entries (registerCall s c i) d) (rloop s) d" if "d \<noteq> c" for d
    by (rule callOK_mono [OF rpcInv_call [OF assms(1)]])
      (use rpcInv_call [OF assms(1), of d] that in \<open>auto simp: entries_def registerCall_def callOK_def split: if_splits\<close>)
  moreover have "entries (registerCall s c i) c = {i}" using c(1) by (auto simp: entries_def registerCall_def)
  moreover have "\<not> panicked s" using assms(1) by (simp add: rpcInv_def)
  ultimately show ?thesis
    using c by (auto simp: rpcInv_def registerCall_def callOK_def [of "Registered i"])
qed

lemma rpcInv_step_receive:
  assumes "rpcInv s" "phases s c = Sent i" "ch_buf (chans s c) \<noteq> None \<or> ch_closed (chans s c)"
  shows "rpcInv (receive s c i)"
proof -
  have ne: "chans s c \<noteq> emptyChan" using assms(3) by auto
  have c: "callOK (Sent i) (chans s c) (entries s c) (rloop s) c" using rpcInv_call [OF assms(1), of c] assms(2) by simp
  then have cc: "entries s c = {}" "c \<notin> claimed (rloop s)" "\<And>r. rloop s \<noteq> Delivering c r"
    using ne by (auto simp: callOK_def)
  have e: "entries (receive s c i) = entries s" by (auto simp: entries_def receive_def fun_eq_iff split: option.split)
  show ?thesis
    using assms(1) c cc e by (auto simp: rpcInv_def receive_def callOK_def [of "Sent i"]
        callOK_def [of "Returning j r" for j r] entries_def split: option.split)
qed

lemma rpcInv_step_cleanup:
  assumes "rpcInv s" "phases s c = Returning i r"
  shows "rpcInv (cleanup s c i r)"
proof -
  have sub: "entries (cleanup s c i r) d \<subseteq> entries s d" for d by (auto simp: entries_def cleanup_def split: if_splits)
  have "callOK (phases s d) (chans s d) (entries (cleanup s c i r) d) (rloop s) d" for d
    by (rule callOK_mono [OF rpcInv_call [OF assms(1)] sub])
      (use rpcInv_call [OF assms(1), of d] in \<open>auto simp: callOK_def\<close>)
  then have d: "callOK (phases s d) (chans s d) (entries (cleanup s c i r) d) (rloop s) d" for d .
  have "callOK (Done i r) (chans s c) (entries (cleanup s c i r) c) (rloop s) c"
  proof (rule callOK_move [OF d [of c]])
    show "resultOK (Done i r)" using assms(2) rpcInv_call [OF assms(1), of c] by (cases r) (auto simp: callOK_def)
  qed (simp_all add: assms(2))
  moreover have "\<not> panicked s" using assms(1) by (simp add: rpcInv_def)
  ultimately show ?thesis using d unfolding rpcInv_def by (simp add: cleanup_def)
qed

lemma rpcInv_step_deliver:
  assumes "rpcInv s" "rloop s = Running"
  shows "rpcInv (deliverTake s resp)"
proof (cases "pending s (rs_ReqID resp)")
  case None
  then show ?thesis using assms(1) by (simp add: deliverTake_def)
next
  case (Some c)
  let ?s = "deliverTake s resp"
  have c: "entries s c \<noteq> {}" "phaseID (phases s c) = Some (rs_ReqID resp)"
    using Some rpcInv_call [OF assms(1), of c] by (auto simp: entries_def callOK_def)
  have "entries s c \<subseteq> {rs_ReqID resp}"
    using c rpcInv_call [OF assms(1), of c] by (auto simp: callOK_def)
  then have e: "entries ?s c = {}" using Some by (auto simp: entries_def deliverTake_def split: if_splits)
  have sub: "entries ?s d \<subseteq> entries s d" for d
    using Some by (auto simp: entries_def deliverTake_def split: if_splits)
  have "callOK (phases s d) (chans s d) (entries ?s d) (Delivering c resp) d" for d
    by (rule callOK_mono [OF rpcInv_call [OF assms(1)] sub]) (use c e in auto)
  moreover have "\<not> panicked s" using assms(1) by (simp add: rpcInv_def)
  ultimately show ?thesis using Some by (auto simp: rpcInv_def deliverTake_def)
qed

lemma rpcInv_step_put:
  assumes "rpcInv s" "rloop s = Delivering c resp"
  shows "rpcInv (deliverPut s c resp)"
proof -
  have c: "chans s c = emptyChan" "started (phases s c)" "phaseID (phases s c) = Some (rs_ReqID resp)" "entries s c = {}"
    using rpcInv_call [OF assms(1), of c] assms(2) by (auto simp: callOK_def)
  have s': "deliverPut s c resp = s\<lparr>rloop := Running, chans := (chans s)(c := emptyChan\<lparr>ch_buf := Some resp\<rparr>)\<rparr>"
    using c(1) by (simp add: deliverPut_def Let_def)
  have e: "entries (deliverPut s c resp) = entries s" by (simp add: s' entries_def fun_eq_iff)
  have "callOK (phases s d) (chans s d) (entries s d) Running d" for d
    by (rule callOK_mono [OF rpcInv_call [OF assms(1)]]) auto
  moreover have "callOK (phases s c) (emptyChan\<lparr>ch_buf := Some resp\<rparr>) (entries s c) Running c"
    using c rpcInv_call [OF assms(1), of c] by (auto simp: callOK_def)
  moreover have "\<not> panicked s" using assms(1) by (simp add: rpcInv_def)
  ultimately show ?thesis unfolding rpcInv_def e by (simp add: s')
qed

lemma rpcInv_step_fail:
  assumes "rpcInv s" "rloop s = Running"
  shows "rpcInv (failTake s)"
proof -
  have "callOK (phases s d) (chans s d) {} (Closing (ran (pending s))) d" for d
    using rpcInv_call [OF assms(1), of d] assms(2)
    by (auto simp: callOK_def entries_def ran_def)
  moreover have "\<not> panicked s" using assms(1) by (simp add: rpcInv_def)
  ultimately show ?thesis by (simp add: rpcInv_def failTake_def entries_def)
qed

lemma rpcInv_step_close:
  assumes "rpcInv s" "rloop s = Closing S" "c \<in> S"
  shows "rpcInv (closeChan s c S)"
proof -
  have c: "chans s c = emptyChan" "started (phases s c)" "entries s c = {}"
    using rpcInv_call [OF assms(1), of c] assms(2,3) by (auto simp: callOK_def)
  have s': "closeChan s c S = s\<lparr>rloop := Closing (S - {c}), chans := (chans s)(c := emptyChan\<lparr>ch_closed := True\<rparr>)\<rparr>"
    using c(1) by (simp add: closeChan_def Let_def)
  have e: "entries (closeChan s c S) = entries s" by (simp add: s' entries_def fun_eq_iff)
  have "callOK (phases s d) (chans s d) (entries s d) (Closing (S - {c})) d" for d
    by (rule callOK_mono [OF rpcInv_call [OF assms(1)]]) (use assms(2) in auto)
  moreover have "callOK (phases s c) (emptyChan\<lparr>ch_closed := True\<rparr>) (entries s c) (Closing (S - {c})) c"
    using c rpcInv_call [OF assms(1), of c] by (auto simp: callOK_def)
  moreover have "\<not> panicked s" using assms(1) by (simp add: rpcInv_def)
  ultimately show ?thesis unfolding rpcInv_def e by (simp add: s')
qed

lemma rpcInv_step_end:
  assumes "rpcInv s" "rloop s = Closing {}"
  shows "rpcInv (s\<lparr>rloop := Ended\<rparr>)"
proof -
  have "callOK (phases s d) (chans s d) (entries s d) Ended d" for d
    by (rule callOK_mono [OF rpcInv_call [OF assms(1)]]) auto
  then show ?thesis using assms(1) by (simp add: rpcInv_def entries_def)
qed

lemma rpcInv_step: "rpc_step s s' \<Longrightarrow> rpcInv s \<Longrightarrow> rpcInv s'"
proof (induction rule: rpc_step.induct)
  case (step_send s c i)
  then show ?case by (intro rpcInv_step_move) simp_all
next
  case (step_send_fail s c i)
  then show ?case by (intro rpcInv_step_move) simp_all
next
  case (step_cancel s c i)
  then show ?case by (intro rpcInv_step_move) simp_all
qed (blast intro: rpcInv_step_add rpcInv_step_register rpcInv_step_receive rpcInv_step_cleanup
    rpcInv_step_deliver rpcInv_step_put rpcInv_step_fail rpcInv_step_close rpcInv_step_end)+

lemma reachable_inv: "reachable s \<Longrightarrow> rpcInv s"
  by (induction rule: reachable.induct) (auto intro: rpcInv_init rpcInv_step)

section \<open>Unique request ids\<close>

definition idInv :: "rpc \<Rightarrow> bool" where
  "idInv s \<longleftrightarrow> nextReqID s = word_of_nat (adds s) \<and>
     (adds s < 2 ^ 32 \<longrightarrow>
        (\<forall>c i. phaseID (phases s c) = Some i \<longrightarrow> unat i \<le> adds s) \<and>
        (\<forall>c d i. phaseID (phases s c) = Some i \<longrightarrow> phaseID (phases s d) = Some i \<longrightarrow> c = d))"

text \<open>Only the counter step gives a call an id.\<close>

lemma step_keeps_ids:
  assumes "rpc_step s s'"
  shows "(\<exists>c. phases s c = Idle \<and> s' = addReqID s c) \<or>
    (nextReqID s' = nextReqID s \<and> adds s' = adds s \<and> (\<forall>d. phaseID (phases s' d) = phaseID (phases s d)))"
  using assms
  by (induction rule: rpc_step.induct)
    (auto simp: registerCall_def receive_def cleanup_def deliverTake_def deliverPut_def failTake_def closeChan_def
      Let_def split: option.split)

lemma idInv_add:
  assumes "idInv s" "phases s c = Idle"
  shows "idInv (addReqID s c)"
proof -
  let ?i = "nextReqID s + 1" and ?s = "addReqID s c"
  have i: "?i = word_of_nat (adds s + 1)" using assms(1) by (simp add: idInv_def)
  have a: "nextReqID ?s = ?i" "adds ?s = adds s + 1" by (simp_all add: addReqID_def Let_def)
  have ph: "phaseID (phases ?s d) = (if d = c \<and> ?i \<noteq> 0 then Some ?i else phaseID (phases s d))" for d
    using assms(2) by (simp add: addReqID_def Let_def)
  show ?thesis
  proof (cases "adds s + 1 < 2 ^ 32")
    case True
    then have u: "unat ?i = adds s + 1" unfolding i using unat_of_nat [of "adds s + 1", where 'a = 32] by simp
    have old: "unat j \<le> adds s" if "phaseID (phases s d) = Some j" for d j
      using assms(1) True that by (auto simp: idInv_def)
    have fresh: "phaseID (phases s d) \<noteq> Some ?i" for d using old [of d ?i] u by auto
    have uniq: "d = e" if "phaseID (phases s d) = Some j" "phaseID (phases s e) = Some j" for d e j
      using assms(1) True that unfolding idInv_def by (metis Suc_eq_plus1 Suc_lessD)
    have "unat j \<le> adds s + 1" if "phaseID (phases ?s d) = Some j" for d j
      using that u old [of d j] unfolding ph by (auto split: if_splits)
    moreover have "d = e" if "phaseID (phases ?s d) = Some j" "phaseID (phases ?s e) = Some j" for d e j
      using that fresh uniq unfolding ph by (auto split: if_splits)
    ultimately show ?thesis unfolding idInv_def a using i by blast
  next
    case False
    then show ?thesis unfolding idInv_def a using i by simp
  qed
qed

lemma reachable_idInv: "reachable s \<Longrightarrow> idInv s"
proof (induction rule: reachable.induct)
  case reach_init
  then show ?case by (simp add: idInv_def rpcInit_def)
next
  case (reach_step s s')
  from step_keeps_ids [OF reach_step.hyps(2)] show ?case
  proof
    assume "\<exists>c. phases s c = Idle \<and> s' = addReqID s c"
    then show ?thesis using idInv_add reach_step.IH by blast
  next
    assume "nextReqID s' = nextReqID s \<and> adds s' = adds s \<and> (\<forall>d. phaseID (phases s' d) = phaseID (phases s d))"
    then show ?thesis using reach_step.IH by (simp add: idInv_def)
  qed
qed

section \<open>Waiting calls\<close>

text \<open>A registered call that has not returned is in the table, or has its answer, or is being served.\<close>

definition served :: "rpc \<Rightarrow> nat \<Rightarrow> uint32 \<Rightarrow> bool" where
  "served s c i \<longleftrightarrow> pending s i = Some c \<or> ch_buf (chans s c) \<noteq> None \<or> ch_closed (chans s c) \<or> c \<in> claimed (rloop s)"

fun waiting :: "phase \<Rightarrow> uint32 option" where
  "waiting (Registered i) = Some i"
| "waiting (Sent i) = Some i"
| "waiting p = None"

lemma waiting_phaseID: "waiting p = Some i \<Longrightarrow> phaseID p = Some i"
  by (cases p) auto

lemma served_step:
  assumes "rpc_step s s'" "idInv s" "adds s < 2 ^ 32" "waiting (phases s' c) = Some i"
    and "\<And>j. waiting (phases s c) = Some j \<Longrightarrow> served s c j"
  shows "served s' c i"
proof -
  have uniq: "d = e" if "phaseID (phases s d) = Some j" "phaseID (phases s e) = Some j" for d e j
    using assms(2,3) that unfolding idInv_def by blast
  show ?thesis using assms(1,4,5)
  proof (cases rule: rpc_step.cases)
    case (step_add d)
    then show ?thesis using assms(4,5) by (auto simp: addReqID_def Let_def served_def split: if_splits)
  next
    case (step_register d j)
    show ?thesis
    proof (cases "d = c")
      case True
      then show ?thesis using step_register assms(4) by (auto simp: registerCall_def served_def)
    next
      case False
      then have w: "waiting (phases s c) = Some i" using step_register assms(4) by (simp add: registerCall_def)
      then have "j \<noteq> i" using False uniq [of d j c] step_register waiting_phaseID by auto
      then show ?thesis using assms(5) [OF w] step_register False by (simp add: registerCall_def served_def)
    qed
  next
    case (step_cleanup d j r)
    then have "d \<noteq> c" using assms(4) by (auto simp: cleanup_def)
    then have w: "waiting (phases s c) = Some i" using step_cleanup assms(4) by (simp add: cleanup_def)
    then have "j \<noteq> i" using \<open>d \<noteq> c\<close> uniq [of d j c] step_cleanup waiting_phaseID by auto
    then show ?thesis using assms(5) [OF w] step_cleanup by (simp add: cleanup_def served_def)
  next
    case (step_deliver resp)
    then show ?thesis using assms(4,5) by (auto simp: deliverTake_def served_def split: option.splits if_splits)
  next
    case (step_put d resp)
    then show ?thesis using assms(4,5) by (auto simp: deliverPut_def Let_def served_def split: if_splits)
  next
    case (step_fail)
    then show ?thesis using assms(4,5) by (auto simp: failTake_def served_def ran_def)
  next
    case (step_close S d)
    then show ?thesis using assms(4,5) by (auto simp: closeChan_def Let_def served_def split: if_splits)
  next
    case (step_receive d j)
    then have "d \<noteq> c" using assms(4) by (auto simp: receive_def split: option.splits)
    then show ?thesis using step_receive assms(4,5) by (auto simp: receive_def served_def split: option.splits)
  qed (use assms(4,5) in \<open>auto simp: served_def split: if_splits\<close>)
qed

lemma adds_mono: "rpc_step s s' \<Longrightarrow> adds s \<le> adds s'"
  using step_keeps_ids by (fastforce simp: addReqID_def Let_def)

lemma reachable_served:
  "reachable s \<Longrightarrow> adds s < 2 ^ 32 \<Longrightarrow> waiting (phases s c) = Some i \<Longrightarrow> served s c i"
proof (induction arbitrary: i rule: reachable.induct)
  case reach_init
  then show ?case by (simp add: rpcInit_def)
next
  case (reach_step s s')
  have "adds s < 2 ^ 32" using adds_mono [OF reach_step.hyps(2)] reach_step.prems(1) by linarith
  then show ?case
    using served_step [OF reach_step.hyps(2) reachable_idInv [OF reach_step.hyps(1)]] reach_step by blast
qed

section \<open>Concrete runs\<close>

definition exampleResp :: FileOpResp where "exampleResp = emptyResp\<lparr>rs_ReqID := 1\<rparr>"

text \<open>One call from a given state up to its send, as call 0 with id 1.\<close>

definition sentFrom :: "rpc \<Rightarrow> rpc" where
  "sentFrom s = setPhase (registerCall (addReqID s 0) 0 1) 0 (Sent 1)"

lemma sentFrom_reachable:
  assumes "reachable s" "phases s 0 = Idle" "nextReqID s = 0"
  shows "reachable (sentFrom s)"
proof -
  have "reachable (addReqID s 0)" by (rule reach_step [OF assms(1) step_add [OF assms(2)]])
  moreover have "phases (addReqID s 0) 0 = Allocated 1" using assms(3) by (simp add: addReqID_def)
  ultimately have "reachable (registerCall (addReqID s 0) 0 1)" by (rule reach_step [OF _ step_register])
  then show ?thesis unfolding sentFrom_def by (rule reach_step [OF _ step_send]) (simp add: registerCall_def)
qed

definition answered :: rpc where
  "answered = cleanup (receive (deliverPut (deliverTake (sentFrom rpcInit) exampleResp) 0 exampleResp) 0 1) 0 1 (GotResp exampleResp)"

lemma rpcInit_simps [simp]:
  "nextReqID rpcInit = 0" "adds rpcInit = 0" "pending rpcInit = Map.empty" "phases rpcInit c = Idle"
  "chans rpcInit c = emptyChan" "rloop rpcInit = Running" "\<not> panicked rpcInit"
  by (simp_all add: rpcInit_def)

lemmas run_defs = sentFrom_def addReqID_def registerCall_def deliverTake_def deliverPut_def receive_def
  cleanup_def failTake_def closeChan_def exampleResp_def emptyResp_def

lemma answered_run: "reachable answered" "phases answered 0 = Done 1 (GotResp exampleResp)"
proof -
  let ?a = "deliverTake (sentFrom rpcInit) exampleResp"
  let ?b = "deliverPut ?a 0 exampleResp"
  let ?c = "receive ?b 0 1"
  have s0: "reachable (sentFrom rpcInit)" by (rule sentFrom_reachable [OF reach_init]) simp_all
  have "reachable ?a" by (rule reach_step [OF s0 step_deliver]) (simp add: run_defs)
  then have "reachable ?b" by (rule reach_step [OF _ step_put]) (simp add: run_defs)
  then have "reachable ?c" by (rule reach_step [OF _ step_receive]) (simp_all add: run_defs)
  then show "reachable answered" unfolding answered_def
    by (rule reach_step [OF _ step_cleanup]) (simp add: run_defs)
  show "phases answered 0 = Done 1 (GotResp exampleResp)" by (simp add: answered_def cleanup_def)
qed

text \<open>The read loop ends while call 0 waits, and before call 0 starts.\<close>

definition released :: rpc where
  "released = (closeChan (failTake (sentFrom rpcInit)) 0 {0})\<lparr>rloop := Ended\<rparr>"

definition late :: rpc where
  "late = sentFrom ((failTake rpcInit)\<lparr>rloop := Ended\<rparr>)"

lemma released_run: "reachable released" "rloop released = Ended" "phases released 0 = Sent 1"
  "pending released 1 = None" "adds released = 1"
proof -
  have s0: "reachable (sentFrom rpcInit)" by (rule sentFrom_reachable [OF reach_init]) simp_all
  have "reachable (failTake (sentFrom rpcInit))" by (rule reach_step [OF s0 step_fail]) (simp add: run_defs)
  then have "reachable (closeChan (failTake (sentFrom rpcInit)) 0 {0})"
    by (rule reach_step [OF _ step_close]) (simp_all add: run_defs ran_def)
  then show "reachable released" unfolding released_def
    by (rule reach_step [OF _ step_end]) (simp add: run_defs)
qed (simp_all add: released_def run_defs)

lemma late_run: "reachable late" "rloop late = Ended" "phases late 0 = Sent 1" "pending late 1 = Some 0" "adds late = 1"
proof -
  have "reachable (failTake rpcInit)" by (rule reach_step [OF reach_init step_fail]) simp
  then have "reachable ((failTake rpcInit)\<lparr>rloop := Ended\<rparr>)"
    by (rule reach_step [OF _ step_end]) (simp add: failTake_def ran_def)
  then show "reachable late" unfolding late_def by (rule sentFrom_reachable) (simp_all add: failTake_def)
qed (simp_all add: late_def run_defs)

section \<open>Properties\<close>

text \<open>
  C16. Responses reach the right caller in every interleaving: when a call returns a response, the
  response carries the request id that this call sent, and that id is not zero; no goroutine
  ever sends on a closed channel or closes a channel twice.
\<close>

theorem rpc_routing:
  assumes "reachable s"
  shows "\<not> panicked s \<and> (phases s c = Done i (GotResp resp) \<longrightarrow> rs_ReqID resp = i \<and> i \<noteq> 0)"
  using reachable_inv [OF assms] by (auto simp: rpcInv_def callOK_def dest: spec [of _ c])

theorem rpc_routing_witness:
  "rs_ReqID exampleResp = 1 \<and> (1 :: uint32) \<noteq> 0 \<and> \<not> panicked answered"
  using rpc_routing [OF answered_run(1), of 0 1 exampleResp] answered_run(2) by simp

text \<open>
  Request ids are unique: as long as the counter has been advanced fewer than \<open>2^32\<close> times,
  no two calls, finished or in flight, ever have the same request id.
\<close>

theorem rpc_ids_unique:
  assumes "reachable s" "adds s < 2 ^ 32" "phaseID (phases s c) = Some i" "phaseID (phases s d) = Some i"
  shows "c = d"
  using reachable_idInv [OF assms(1)] assms(2-4) by (auto simp: idInv_def)

theorem rpc_ids_unique_witness:
  "phaseID (phases (addReqID (addReqID rpcInit 0) 1) 0) = Some 1 \<and>
   phaseID (phases (addReqID (addReqID rpcInit 0) 1) 1) \<noteq> Some 1"
proof -
  let ?s = "addReqID (addReqID rpcInit 0) 1"
  have "reachable (addReqID rpcInit 0)" by (rule reach_step [OF reach_init step_add]) simp
  then have r: "reachable ?s" by (rule reach_step [OF _ step_add]) (simp add: addReqID_def)
  have "phaseID (phases ?s 0) = Some 1" "adds ?s = 2" by (simp_all add: addReqID_def Let_def)
  then show ?thesis using rpc_ids_unique [OF r, of 0 1 1] by auto
qed

text \<open>
  The end of the read loop releases the waiting callers: once the loop has ended and closed
  the channels it took, a call that waits for its response can return at once, except a call
  that is still in the table because it registered after the loop gave up.
\<close>

theorem rpc_released:
  assumes "reachable s" "adds s < 2 ^ 32" "rloop s = Ended" "phases s c = Sent i" "pending s i \<noteq> Some c"
  shows "\<exists>r. rpc_step s (receive s c i) \<and> phases (receive s c i) c = Returning i r \<and> r \<noteq> ErrCtx"
proof -
  have "served s c i" using reachable_served [OF assms(1,2), of c i] assms(4) by simp
  then have "ch_buf (chans s c) \<noteq> None \<or> ch_closed (chans s c)" using assms(3,5) by (auto simp: served_def)
  then have "rpc_step s (receive s c i)" using assms(4) by (intro step_receive)
  then show ?thesis by (auto simp: receive_def split: option.split)
qed

theorem rpc_released_witness:
  "\<exists>r. rpc_step released (receive released 0 1) \<and> phases (receive released 0 1) 0 = Returning 1 r \<and> r \<noteq> ErrCtx"
  using rpc_released [OF released_run(1), of 0 1] released_run by simp

text \<open>
  A call made after the read loop has ended hangs: it registers in a fresh table that nobody
  will ever serve, and whatever else happens it keeps waiting until its own context is
  cancelled.
\<close>

theorem rpc_late_call_hangs:
  assumes "reachable s" "adds s < 2 ^ 32" "rloop s = Ended" "phases s c = Sent i" "pending s i = Some c"
    and "rpc_step s s'"
  shows "phases s' c = Returning i ErrCtx \<or> (rloop s' = Ended \<and> phases s' c = Sent i \<and> pending s' i = Some c)"
proof -
  have uniq: "d = c" if "phaseID (phases s d) = Some i" for d
    using reachable_idInv [OF assms(1)] assms(2,4) that unfolding idInv_def by fastforce
  have ch: "ch_buf (chans s c) = None" "\<not> ch_closed (chans s c)"
    using rpcInv_call [OF reachable_inv [OF assms(1)], of c] assms(5) by (auto simp: callOK_def entries_def)
  show ?thesis using assms(6)
  proof (cases rule: rpc_step.cases)
    case (step_register d j)
    then have "d \<noteq> c" "j \<noteq> i" using assms(4) uniq [of d] by auto
    then show ?thesis using step_register assms by (simp add: registerCall_def)
  next
    case (step_cleanup d j r)
    then have "d \<noteq> c" "j \<noteq> i" using assms(4) uniq [of d] by auto
    then show ?thesis using step_cleanup assms by (simp add: cleanup_def)
  next
    case (step_receive d j)
    then have "d \<noteq> c" using ch by auto
    then show ?thesis using step_receive assms by (simp add: receive_def split: option.split)
  qed (use assms in \<open>auto simp: addReqID_def Let_def\<close>)
qed

theorem rpc_late_call_hangs_witness:
  "rloop (addReqID late 5) = Ended \<and> phases (addReqID late 5) 0 = Sent 1 \<and> pending (addReqID late 5) 1 = Some 0"
proof -
  have "phases late 5 = Idle" by (simp add: late_def run_defs)
  then have "rpc_step late (addReqID late 5)" by (rule step_add)
  moreover have "phases (addReqID late 5) 0 = Sent 1" using late_run(3) by (simp add: addReqID_def Let_def)
  ultimately show ?thesis using rpc_late_call_hangs [OF late_run(1), of 0 1 "addReqID late 5"] late_run by simp
qed

end
