(* ===== verification/PathStub.thy ===== *)
theory PathStub
  imports FileOpServer CommandRule Paths "HOL-Library.List_Lexorder" "HOL-Library.Char_ord"
begin

text \<open>
  \<open>pkg/pathstub\<close> and \<open>cmd/machineproxy/pathmapper.go\<close>: the executables of the remote PATH are
  enumerated on the agent, filtered by the local command rules, served as a read-only stub
  directory, and translated back to remote paths by the path mapper. The directories and files of
  the host are the record \<open>dirs\<close>; the FUSE server and the remote file client are parameters.
\<close>

unbundle bit_operations_syntax

section \<open>Enumeration\<close>

text \<open>\<open>ReadDir\<close> lists the names of a directory in order; \<^const>\<open>None\<close> is an error.\<close>

record dirs =
  ReadDirNames :: "string \<Rightarrow> string list option"
  StatPath :: "string \<Rightarrow> FileInfo option"
  PathEnv :: string

definition splitPath :: "string \<Rightarrow> string list" where
  "splitPath p = (if p = [] then [] else Split p (CHR '':''))"

definition runnable :: "FileInfo \<Rightarrow> bool" where
  "runnable st \<longleftrightarrow> fi_Mode st AND ModeType = 0 \<and> (fi_Mode st AND 0x1FF) AND 0x49 \<noteq> 0"

definition infoEntry :: "string \<Rightarrow> string \<Rightarrow> FileInfo \<Rightarrow> PathInfoEntry" where
  "infoEntry name fullPath st = \<lparr>pi_Name = name, pi_RemotePath = fullPath, pi_Mode = fi_Mode st AND 0x1FF,
     pi_Size = fi_Size st, pi_MTimeNanos = fi_ModTime st\<rparr>"

fun enumNames :: "dirs \<Rightarrow> string \<Rightarrow> string list \<Rightarrow> string set \<Rightarrow> PathInfoEntry list \<times> string set" where
  "enumNames D dir [] seen = ([], seen)"
| "enumNames D dir (name # names) seen =
     (if name \<in> seen then enumNames D dir names seen
      else let fullPath = JoinPath [dir, name] in
        case StatPath D fullPath of
          None \<Rightarrow> enumNames D dir names seen
        | Some st \<Rightarrow>
            if \<not> runnable st then enumNames D dir names seen
            else let (out, seen') = enumNames D dir names (insert name seen)
              in (infoEntry name fullPath st # out, seen'))"

fun enumDirs :: "dirs \<Rightarrow> string list \<Rightarrow> string set \<Rightarrow> PathInfoEntry list" where
  "enumDirs D [] seen = []"
| "enumDirs D (dir # paths) seen =
     (if dir = [] then enumDirs D paths seen
      else case ReadDirNames D dir of
        None \<Rightarrow> enumDirs D paths seen
      | Some names \<Rightarrow>
          let (out, seen') = enumNames D dir names seen in out @ enumDirs D paths seen')"

definition EnumerateLocally :: "dirs \<Rightarrow> string list \<Rightarrow> PathInfoEntry list" where
  "EnumerateLocally D paths =
     enumDirs D (if length paths = 0 then splitPath (PathEnv D) else paths) {}"

section \<open>Filtering\<close>

fun compileRules :: "'re engine \<Rightarrow> string list \<Rightarrow> 're LocalCommandRule list" where
  "compileRules eng [] = []"
| "compileRules eng (raw # rest) =
     (case CompileLocalCommand eng raw of Inl _ \<Rightarrow> compileRules eng rest | Inr r \<Rightarrow> r # compileRules eng rest)"

definition FilterLocalCommands ::
  "'re engine \<Rightarrow> PathInfoEntry list \<Rightarrow> string list \<Rightarrow> string \<Rightarrow> PathInfoEntry list" where
  "FilterLocalCommands eng entries localCommands mountPath =
     (if length localCommands = 0 then entries
      else let rules = compileRules eng localCommands in
        if length rules = 0 then entries
        else filter (\<lambda>e. \<not> list_ex (\<lambda>r. ruleMatch eng r (mountPath @ ''/'' @ pi_Name e)) rules) entries)"

section \<open>The stub file system\<close>

record Entry =
  en_Name :: string
  en_RemotePath :: string
  en_Mode :: uint32
  en_Size :: int
  en_MTimeNanos :: int

record FileSystem =
  fsys_entries :: "(string, Entry) mapping"
  fsys_names :: "string list"

definition mkEntry :: "PathInfoEntry \<Rightarrow> Entry" where
  "mkEntry e = \<lparr>en_Name = pi_Name e, en_RemotePath = pi_RemotePath e, en_Mode = pi_Mode e, en_Size = pi_Size e,
     en_MTimeNanos = pi_MTimeNanos e\<rparr>"

fun newLoop :: "PathInfoEntry list \<Rightarrow> (string, Entry) mapping \<Rightarrow> string list \<Rightarrow> (string, Entry) mapping \<times> string list" where
  "newLoop [] entries names = (entries, names)"
| "newLoop (e # info) entries names =
     (if Mapping.lookup entries (pi_Name e) \<noteq> None then newLoop info entries names
      else newLoop info (Mapping.update (pi_Name e) (mkEntry e) entries) (names @ [pi_Name e]))"

definition NewFileSystem :: "PathInfoEntry list \<Rightarrow> FileSystem" where
  "NewFileSystem info =
     (let (entries, names) = newLoop info Mapping.empty []
      in \<lparr>fsys_entries = entries, fsys_names = sort names\<rparr>)"

definition Names :: "FileSystem \<Rightarrow> string list" where "Names f = fsys_names f"
definition Entries :: "FileSystem \<Rightarrow> (string, Entry) mapping" where "Entries f = fsys_entries f"
definition LookupEntry :: "FileSystem \<Rightarrow> string \<Rightarrow> Entry option" where
  "LookupEntry f name = Mapping.lookup (fsys_entries f) name"

definition toErrno :: "oserr \<Rightarrow> uint32" where
  "toErrno err = (if oe_NotExist err then ENOENT else if oe_Permission err then EACCES else EIO)"

text \<open>
  \<open>ReadFile\<close>: the opener gives a reader of the remote file; a read returns the bytes it got and
  possibly an error.
\<close>

definition ReadFile ::
  "(string \<Rightarrow> oserr + (nat \<Rightarrow> int \<Rightarrow> bytes \<times> oserr option)) \<Rightarrow> FileSystem \<Rightarrow> string \<Rightarrow> int \<Rightarrow> int \<Rightarrow> uint32 + bytes" where
  "ReadFile opener f name off len =
     (case Mapping.lookup (fsys_entries f) name of
        None \<Rightarrow> Inl ENOENT
      | Some e \<Rightarrow>
          if len \<le> 0 then Inr []
          else case opener (en_RemotePath e) of
            Inl err \<Rightarrow> Inl (toErrno err)
          | Inr readAt \<Rightarrow>
              (case readAt (nat len) off of
                 (data, None) \<Rightarrow> Inr data
               | (data, Some err) \<Rightarrow> if oe_EOF err then Inr data else Inl (toErrno err)))"

text \<open>
  The FUSE nodes. The attributes carry the fields the code sets; the clock and the errno
  \<open>fs.ENOATTR\<close> of the FUSE library are parameters.
\<close>

record stubAttr =
  sa_Mode :: uint32
  sa_Size :: uint64
  sa_Mtime :: uint64
  sa_Mtimensec :: uint32
  sa_Ctime :: uint64
  sa_Ctimensec :: uint32
  sa_Atime :: uint64
  sa_Atimensec :: uint32
  sa_Nlink :: uint32

abbreviation S_IFREG :: uint32 where "S_IFREG \<equiv> 0x8000"
abbreviation S_IFDIR :: uint32 where "S_IFDIR \<equiv> 0x4000"
abbreviation EROFS :: uint32 where "EROFS \<equiv> 30"
abbreviation ENOTTY :: uint32 where "ENOTTY \<equiv> 25"
abbreviation ENOTSUP :: uint32 where "ENOTSUP \<equiv> 95"

definition applyEntryAttr :: "int \<Rightarrow> Entry \<Rightarrow> stubAttr" where
  "applyEntryAttr now e =
     (let perm = en_Mode e AND 0x16D;
          perm = (if perm = 0 then 0x16D else perm);
          mtime = (if en_MTimeNanos e > 0 then word_of_int (en_MTimeNanos e div 1000000000) else word_of_int now);
          nsec = (if en_MTimeNanos e > 0 then word_of_int (en_MTimeNanos e mod 1000000000) else 0)
      in \<lparr>sa_Mode = S_IFREG OR perm, sa_Size = word_of_int (en_Size e),
          sa_Mtime = mtime, sa_Mtimensec = nsec, sa_Ctime = mtime, sa_Ctimensec = nsec,
          sa_Atime = mtime, sa_Atimensec = nsec, sa_Nlink = 1\<rparr>)"

definition dirAttr :: "int \<Rightarrow> stubAttr" where
  "dirAttr now = \<lparr>sa_Mode = S_IFDIR OR 0x16D, sa_Size = 0, sa_Mtime = word_of_int now, sa_Mtimensec = 0,
     sa_Ctime = word_of_int now, sa_Ctimensec = 0, sa_Atime = word_of_int now, sa_Atimensec = 0, sa_Nlink = 0\<rparr>"

definition stubAccess :: "uint32 \<Rightarrow> uint32" where
  "stubAccess acc = (if acc AND 2 \<noteq> 0 then EACCES else 0)"

text \<open>\<open>O_WRONLY | O_RDWR | O_TRUNC | O_APPEND | O_CREAT\<close> on Linux.\<close>

definition stubOpen :: "uint32 \<Rightarrow> uint32" where
  "stubOpen flags = (if flags AND (0x1 OR 0x2 OR 0x200 OR 0x400 OR 0x40) \<noteq> 0 then EROFS else 0)"

definition stubReaddir :: "FileSystem \<Rightarrow> (string \<times> uint32) list" where
  "stubReaddir f = [(''.'', S_IFDIR), (''..'', S_IFDIR)] @ map (\<lambda>name. (name, S_IFREG)) (Names f)"

text \<open>
  The requests of the two nodes, one constructor per method, with the arguments the answer depends
  on, and the answers: an errno (zero is success) with what was produced.
\<close>

datatype dirReq =
    DGetattr | DAccess uint32 | DLookup string | DReaddir
  | DCreate | DMkdir | DMknod | DSymlink | DLink | DUnlink | DRmdir | DRename
  | DFsync | DGetxattr | DListxattr | DSetxattr | DRemovexattr

datatype fileReq =
    FGetattr | FAccess uint32 | FOpen uint32 | FRead int int | FWrite | FSetattr | FFsync
  | FGetxattr | FListxattr | FSetxattr | FRemovexattr
  | FAllocate | FCopyFileRange | FGetlk | FSetlk | FSetlkw | FIoctl

datatype stubOut = ONothing | OAttr stubAttr | ONames "(string \<times> uint32) list" | OData bytes

fun dirNode :: "uint32 \<Rightarrow> int \<Rightarrow> FileSystem \<Rightarrow> dirReq \<Rightarrow> uint32 \<times> stubOut" where
  "dirNode enoattr now f DGetattr = (0, OAttr (dirAttr now))"
| "dirNode enoattr now f (DAccess acc) = (stubAccess acc, ONothing)"
| "dirNode enoattr now f (DLookup name) =
     (case LookupEntry f name of None \<Rightarrow> (ENOENT, ONothing) | Some e \<Rightarrow> (0, OAttr (applyEntryAttr now e)))"
| "dirNode enoattr now f DReaddir = (0, ONames (stubReaddir f))"
| "dirNode enoattr now f DCreate = (EROFS, ONothing)"
| "dirNode enoattr now f DMkdir = (EROFS, ONothing)"
| "dirNode enoattr now f DMknod = (EROFS, ONothing)"
| "dirNode enoattr now f DSymlink = (EROFS, ONothing)"
| "dirNode enoattr now f DLink = (EROFS, ONothing)"
| "dirNode enoattr now f DUnlink = (EROFS, ONothing)"
| "dirNode enoattr now f DRmdir = (EROFS, ONothing)"
| "dirNode enoattr now f DRename = (EROFS, ONothing)"
| "dirNode enoattr now f DFsync = (0, ONothing)"
| "dirNode enoattr now f DGetxattr = (enoattr, ONothing)"
| "dirNode enoattr now f DListxattr = (0, ONothing)"
| "dirNode enoattr now f DSetxattr = (enoattr, ONothing)"
| "dirNode enoattr now f DRemovexattr = (enoattr, ONothing)"

fun fileNode :: "uint32 \<Rightarrow> int \<Rightarrow> (string \<Rightarrow> oserr + (nat \<Rightarrow> int \<Rightarrow> bytes \<times> oserr option)) \<Rightarrow>
    FileSystem \<Rightarrow> string \<Rightarrow> fileReq \<Rightarrow> uint32 \<times> stubOut" where
  "fileNode enoattr now opener f name FGetattr =
     (case LookupEntry f name of None \<Rightarrow> (ENOENT, ONothing) | Some e \<Rightarrow> (0, OAttr (applyEntryAttr now e)))"
| "fileNode enoattr now opener f name (FAccess acc) = (stubAccess acc, ONothing)"
| "fileNode enoattr now opener f name (FOpen flags) = (stubOpen flags, ONothing)"
| "fileNode enoattr now opener f name (FRead off len) =
     (case ReadFile opener f name off len of Inl errno \<Rightarrow> (errno, ONothing) | Inr data \<Rightarrow> (0, OData data))"
| "fileNode enoattr now opener f name FWrite = (EROFS, ONothing)"
| "fileNode enoattr now opener f name FSetattr = (EROFS, ONothing)"
| "fileNode enoattr now opener f name FFsync = (0, ONothing)"
| "fileNode enoattr now opener f name FGetxattr = (enoattr, ONothing)"
| "fileNode enoattr now opener f name FListxattr = (0, ONothing)"
| "fileNode enoattr now opener f name FSetxattr = (enoattr, ONothing)"
| "fileNode enoattr now opener f name FRemovexattr = (enoattr, ONothing)"
| "fileNode enoattr now opener f name FAllocate = (EROFS, ONothing)"
| "fileNode enoattr now opener f name FCopyFileRange = (ENOTSUP, ONothing)"
| "fileNode enoattr now opener f name FGetlk = (ENOTSUP, ONothing)"
| "fileNode enoattr now opener f name FSetlk = (ENOTSUP, ONothing)"
| "fileNode enoattr now opener f name FSetlkw = (ENOTSUP, ONothing)"
| "fileNode enoattr now opener f name FIoctl = (ENOTTY, ONothing)"

section \<open>The path mapper\<close>

definition prefixPairs :: "Mount list \<Rightarrow> (string \<times> string) list" where
  "prefixPairs mounts =
     map (\<lambda>m. (ContainerPath m, RemotePath m)) (filter (\<lambda>m. ContainerPath m \<noteq> RemotePath m) mounts)"

text \<open>\<open>sort.SliceStable\<close>, longest first.\<close>

definition sortPairs :: "(string \<times> string) list \<Rightarrow> (string \<times> string) list" where
  "sortPairs ps = sort_key (\<lambda>p. - int (length (fst p))) ps"

fun mapPairs :: "(string \<times> string) list \<Rightarrow> string \<Rightarrow> string" where
  "mapPairs [] p = p"
| "mapPairs ((src, dst) # pairs) p =
     (case RewritePathPrefix p src dst of (mapped, True) \<Rightarrow> mapped | (_, False) \<Rightarrow> mapPairs pairs p)"

definition buildPathMapper ::
  "Mount list \<Rightarrow> string \<Rightarrow> (string, Entry) mapping \<Rightarrow> (string \<Rightarrow> string) option" where
  "buildPathMapper mounts stubPrefix stubMap =
     (let hasStubRewrite = \<not> Mapping.is_empty stubMap; pairs = sortPairs (prefixPairs mounts) in
      if \<not> hasStubRewrite \<and> length pairs = 0 then None
      else Some (\<lambda>p.
        case (if hasStubRewrite \<and> HasPrefix p (stubPrefix @ ''/'')
              then Mapping.lookup stubMap (drop (length stubPrefix + 1) p) else None) of
          Some e \<Rightarrow> en_RemotePath e
        | None \<Rightarrow> mapPairs pairs p))"

section \<open>Lemmas: enumeration and filtering\<close>

text \<open>
  The reference: PATH lookup of one name. The first non-empty, readable directory that lists the
  name as a runnable file wins.
\<close>

fun pathLookup :: "dirs \<Rightarrow> string list \<Rightarrow> string \<Rightarrow> PathInfoEntry option" where
  "pathLookup D [] name = None"
| "pathLookup D (dir # paths) name =
     (case (if dir \<noteq> [] \<and> (case ReadDirNames D dir of None \<Rightarrow> False | Some names \<Rightarrow> name \<in> set names)
            then StatPath D (JoinPath [dir, name]) else None) of
        None \<Rightarrow> pathLookup D paths name
      | Some st \<Rightarrow> if runnable st then Some (infoEntry name (JoinPath [dir, name]) st) else pathLookup D paths name)"

definition searchPath :: "dirs \<Rightarrow> string list \<Rightarrow> string list" where
  "searchPath D paths = (if paths = [] then splitPath (PathEnv D) else paths)"

definition byName :: "string \<Rightarrow> PathInfoEntry list \<Rightarrow> PathInfoEntry option" where
  "byName name out = find (\<lambda>e. pi_Name e = name) out"

lemma byName_Nil [simp]: "byName name [] = None"
  by (simp add: byName_def)

lemma byName_Cons [simp]: "byName name (e # out) = (if pi_Name e = name then Some e else byName name out)"
  by (simp add: byName_def)

lemma byName_append: "byName name (a @ b) = (case byName name a of None \<Rightarrow> byName name b | Some e \<Rightarrow> Some e)"
  by (induction a) simp_all

lemma byName_name: "byName name out = Some e \<Longrightarrow> pi_Name e = name"
  by (auto simp: byName_def find_Some_iff)

lemma byName_None: "byName name out = None \<longleftrightarrow> name \<notin> pi_Name ` set out"
  by (auto simp: byName_def find_None_iff)

lemma byName_filter: "byName name (filter (\<lambda>e. P (pi_Name e)) out) = (if P name then byName name out else None)"
  by (induction out) auto

lemma infoEntry_name [simp]: "pi_Name (infoEntry name p st) = name"
  by (simp add: infoEntry_def)

lemma enumNames_seen: "snd (enumNames D dir names seen) = seen \<union> pi_Name ` set (fst (enumNames D dir names seen))"
  by (induction D dir names seen rule: enumNames.induct) (auto simp: Let_def split: option.splits prod.splits)

lemma enumNames_fresh:
  "distinct (map pi_Name (fst (enumNames D dir names seen))) \<and>
   pi_Name ` set (fst (enumNames D dir names seen)) \<inter> seen = {}"
proof (induction names arbitrary: seen)
  case (Cons name names)
  obtain out s where "enumNames D dir names (insert name seen) = (out, s)" by fastforce
  with Cons [of seen] Cons [of "insert name seen"] show ?case
    by (auto simp: Let_def split: option.splits)
qed simp

lemma enumNames_byName:
  "byName name (fst (enumNames D dir names seen)) =
     (if name \<in> seen \<or> name \<notin> set names then None
      else case StatPath D (JoinPath [dir, name]) of
        None \<Rightarrow> None
      | Some st \<Rightarrow> if runnable st then Some (infoEntry name (JoinPath [dir, name]) st) else None)"
  by (induction D dir names seen rule: enumNames.induct) (auto simp: Let_def split: option.splits prod.splits)

lemma enumDirs_fresh:
  "distinct (map pi_Name (enumDirs D paths seen)) \<and> pi_Name ` set (enumDirs D paths seen) \<inter> seen = {}"
proof (induction D paths seen rule: enumDirs.induct)
  case (2 D dir paths seen)
  show ?case
  proof (cases "dir = [] \<or> ReadDirNames D dir = None")
    case False
    then obtain names where n: "dir \<noteq> []" "ReadDirNames D dir = Some names" by auto
    obtain out seen' where o: "enumNames D dir names seen = (out, seen')" by fastforce
    have "seen' = seen \<union> pi_Name ` set out" "distinct (map pi_Name out)" "pi_Name ` set out \<inter> seen = {}"
      using enumNames_seen [of D dir names seen] enumNames_fresh [of D dir names seen] o by simp_all
    with n o "2.IH"(3) [OF n o [symmetric]] show ?thesis by auto
  next
    case True
    then show ?thesis using "2.IH"(1,2) by (cases "dir = []") simp_all
  qed
qed simp

lemma enumDirs_byName:
  "byName name (enumDirs D paths seen) = (if name \<in> seen then None else pathLookup D paths name)"
proof (induction D paths seen rule: enumDirs.induct)
  case (2 D dir paths seen)
  show ?case
  proof (cases "dir = [] \<or> ReadDirNames D dir = None")
    case False
    then obtain names where n: "dir \<noteq> []" "ReadDirNames D dir = Some names" by auto
    obtain out seen' where o: "enumNames D dir names seen = (out, seen')" by fastforce
    have s: "seen' = seen \<union> pi_Name ` set out" using enumNames_seen [of D dir names seen] o by simp
    show ?thesis
    proof (cases "byName name out")
      case None
      then have "name \<in> seen' \<longleftrightarrow> name \<in> seen" using s by (auto simp: byName_None)
      then show ?thesis
        using None n o "2.IH"(3) [OF n o [symmetric]] enumNames_byName [of name D dir names seen]
        by (auto simp: byName_append split: if_splits option.splits)
    next
      case (Some e)
      then show ?thesis
        using n o enumNames_byName [of name D dir names seen]
        by (auto simp: byName_append split: if_splits option.splits)
    qed
  qed (use "2.IH"(1,2) in auto)
qed simp

lemma EnumerateLocally_byName: "byName name (EnumerateLocally D paths) = pathLookup D (searchPath D paths) name"
  by (simp add: EnumerateLocally_def searchPath_def enumDirs_byName)

text \<open>No local command rule matches the pathname.\<close>

definition notLocal :: "'re engine \<Rightarrow> string list \<Rightarrow> string \<Rightarrow> bool" where
  "notLocal eng localCommands p \<longleftrightarrow> \<not> list_ex (\<lambda>raw. MatchLocalCommand eng raw p) localCommands"

lemma compileRules_match:
  "list_ex (\<lambda>r. ruleMatch eng r p) (compileRules eng lc) \<longleftrightarrow> list_ex (\<lambda>raw. MatchLocalCommand eng raw p) lc"
  by (induction lc) (auto simp: MatchLocalCommand_def split: sum.splits)

lemma FilterLocalCommands_eq:
  "FilterLocalCommands eng entries lc mountPath =
     filter (\<lambda>e. notLocal eng lc (mountPath @ ''/'' @ pi_Name e)) entries"
proof -
  have "notLocal eng lc p" if "compileRules eng lc = []" for p
    using compileRules_match [of eng p lc] that by (simp add: notLocal_def)
  then show ?thesis
    by (auto simp: FilterLocalCommands_def Let_def compileRules_match notLocal_def)
qed

lemma newLoop_lookup:
  "Mapping.lookup (fst (newLoop info m names)) name =
     (case Mapping.lookup m name of Some e \<Rightarrow> Some e | None \<Rightarrow> map_option mkEntry (byName name info))"
  by (induction info m names rule: newLoop.induct) (auto simp: lookup_update' split: option.splits)

lemma newLoop_names:
  "set (snd (newLoop info m names)) = set names \<union> {n. n \<in> pi_Name ` set info \<and> Mapping.lookup m n = None}"
  by (induction info m names rule: newLoop.induct) (auto simp: lookup_update' split: if_splits)

lemma NewFileSystem_lookup:
  "Mapping.lookup (fsys_entries (NewFileSystem info)) name = map_option mkEntry (byName name info)"
  using newLoop_lookup [of info Mapping.empty "[]" name]
  by (simp add: NewFileSystem_def lookup_empty case_prod_beta Let_def)

lemma NewFileSystem_names: "set (fsys_names (NewFileSystem info)) = pi_Name ` set info"
  using newLoop_names [of info Mapping.empty "[]"]
  by (simp add: NewFileSystem_def lookup_empty case_prod_beta Let_def)

section \<open>Lemmas: the path mapper\<close>

lemma mapPairs_find:
  "mapPairs ps p =
     (case find (\<lambda>q. snd (RewritePathPrefix p (fst q) (snd q))) ps of
        None \<Rightarrow> p | Some q \<Rightarrow> fst (RewritePathPrefix p (fst q) (snd q)))"
  by (induction ps p rule: mapPairs.induct) (auto split: prod.splits bool.splits)

lemma find_sorted_first:
  assumes "sorted (map k ps)" "find P ps = Some q"
  shows "P q" and "q \<in> set ps" and "q' \<in> set ps \<Longrightarrow> P q' \<Longrightarrow> k q \<le> k q'"
proof -
  obtain i where i: "i < length ps" "P (ps ! i)" "q = ps ! i" "\<forall>j<i. \<not> P (ps ! j)"
    using assms(2) by (auto simp: find_Some_iff)
  then show "P q" "q \<in> set ps" by auto
  assume "q' \<in> set ps" "P q'"
  then obtain j where j: "j < length ps" "q' = ps ! j" by (auto simp: in_set_conv_nth)
  with i \<open>P q'\<close> have "i \<le> j" using not_le_imp_less by blast
  then show "k q \<le> k q'" using assms(1) i j by (auto simp: sorted_iff_nth_mono)
qed

lemma set_prefixPairs:
  "q \<in> set (sortPairs (prefixPairs mounts)) \<longleftrightarrow>
     (\<exists>m\<in>set mounts. ContainerPath m \<noteq> RemotePath m \<and> q = (ContainerPath m, RemotePath m))"
  by (auto simp: sortPairs_def prefixPairs_def)

lemma sortPairs_sorted: "sorted (map (\<lambda>p. - int (length (fst p))) (sortPairs ps))"
  by (simp add: sortPairs_def)

text \<open>The mount rewrites the path.\<close>

definition covers :: "Mount \<Rightarrow> string \<Rightarrow> bool" where
  "covers m p \<longleftrightarrow> ContainerPath m \<noteq> RemotePath m \<and> snd (RewritePathPrefix p (ContainerPath m) (RemotePath m))"

lemma mapPairs_longest:
  "(\<exists>m\<in>set mounts. covers m p \<and> mapPairs (sortPairs (prefixPairs mounts)) p =
        fst (RewritePathPrefix p (ContainerPath m) (RemotePath m)) \<and>
      (\<forall>m'\<in>set mounts. covers m' p \<longrightarrow> length (ContainerPath m') \<le> length (ContainerPath m))) \<or>
   (mapPairs (sortPairs (prefixPairs mounts)) p = p \<and> (\<forall>m\<in>set mounts. \<not> covers m p))"
proof -
  let ?P = "\<lambda>q. snd (RewritePathPrefix p (fst q) (snd q))" and ?ps = "sortPairs (prefixPairs mounts)"
  show ?thesis
  proof (cases "find ?P ?ps")
    case None
    then have "\<forall>m\<in>set mounts. \<not> covers m p"
      by (auto simp: find_None_iff set_prefixPairs covers_def)
    then show ?thesis using None by (simp add: mapPairs_find)
  next
    case (Some q)
    note q = find_sorted_first [OF sortPairs_sorted Some]
    obtain m where m: "m \<in> set mounts" "ContainerPath m \<noteq> RemotePath m" "q = (ContainerPath m, RemotePath m)"
      using q(2) by (auto simp: set_prefixPairs)
    have "length (ContainerPath m') \<le> length (ContainerPath m)" if "m' \<in> set mounts" "covers m' p" for m'
    proof -
      have "(ContainerPath m', RemotePath m') \<in> set ?ps" using that by (auto simp: set_prefixPairs covers_def)
      from q(3) [OF this] that m(3) show ?thesis by (simp add: covers_def)
    qed
    then show ?thesis using m q(1) Some by (auto simp: mapPairs_find covers_def)
  qed
qed

lemma stub_prefix: "HasPrefix (sp @ ''/'' @ name) (sp @ ''/'')" "drop (length sp + 1) (sp @ ''/'' @ name) = name"
  by (simp_all add: HasPrefix_def)

lemma lookup_is_empty: "Mapping.lookup m k = Some v \<Longrightarrow> \<not> Mapping.is_empty m"
  by (metis Mapping.is_empty_def keys_dom_lookup domI empty_iff)

lemma newLoop_distinct:
  "distinct names \<Longrightarrow> (\<forall>n\<in>set names. Mapping.lookup m n \<noteq> None) \<Longrightarrow> distinct (snd (newLoop info m names))"
proof (induction info m names rule: newLoop.induct)
  case (2 e info m names)
  show ?case
  proof (cases "Mapping.lookup m (pi_Name e) = None")
    case True
    then have "pi_Name e \<notin> set names" using "2.prems"(2) by blast
    then show ?thesis using "2.IH"(2) "2.prems" True by (simp add: lookup_update')
  next
    case False
    then show ?thesis using "2.IH"(1) "2.prems" by simp
  qed
qed simp

lemma NewFileSystem_ordered: "sorted (Names (NewFileSystem info)) \<and> distinct (Names (NewFileSystem info))"
  using newLoop_distinct [of "[]" Mapping.empty info]
  by (simp add: NewFileSystem_def Names_def case_prod_beta Let_def)

lemma buildPathMapper_stub:
  assumes "Mapping.lookup stubs name = Some e"
  shows "\<exists>f. buildPathMapper mounts sp stubs = Some f \<and> f (sp @ ''/'' @ name) = en_RemotePath e"
  using assms lookup_is_empty [OF assms]
  by (simp add: buildPathMapper_def Let_def stub_prefix [simplified])

lemma open_mode_bits: "(flags :: uint32) AND (0x1 OR 0x2 OR 0x200 OR 0x400 OR 0x40) = 0 \<Longrightarrow> flags AND 3 = 0"
proof -
  assume a: "flags AND (0x1 OR 0x2 OR 0x200 OR 0x400 OR 0x40) = 0"
  have "flags AND 3 = (flags AND (0x1 OR 0x2 OR 0x200 OR 0x400 OR 0x40)) AND 3" by (simp add: and.assoc)
  then show ?thesis using a by simp
qed

lemma applyEntryAttr_perm:
  "sa_Mode (applyEntryAttr now e) AND 0x92 = 0 \<and> sa_Mode (applyEntryAttr now e) AND 0x16D \<noteq> 0"
  by (auto simp: applyEntryAttr_def Let_def bit.conj_disj_distrib2 and.assoc)

section \<open>Properties\<close>

text \<open>The composition in the container start-up: enumerate, filter, serve.\<close>

definition stubFS :: "'re engine \<Rightarrow> dirs \<Rightarrow> string list \<Rightarrow> string list \<Rightarrow> string \<Rightarrow> FileSystem" where
  "stubFS eng D paths lc mp = NewFileSystem (FilterLocalCommands eng (EnumerateLocally D paths) lc mp)"


text \<open>
  A path that is no stub is rewritten by a mount whose container path is the longest of the
  mounts that rewrite it, and is left alone exactly when no mount rewrites it.
\<close>

theorem mapper_longest_mount:
  assumes "buildPathMapper mounts sp stubs = Some f" and "\<forall>name. p = sp @ ''/'' @ name \<longrightarrow> Mapping.lookup stubs name = None"
  shows "(\<exists>m\<in>set mounts. covers m p \<and> f p = fst (RewritePathPrefix p (ContainerPath m) (RemotePath m)) \<and>
        (\<forall>m'\<in>set mounts. covers m' p \<longrightarrow> length (ContainerPath m') \<le> length (ContainerPath m))) \<or>
    (f p = p \<and> (\<forall>m\<in>set mounts. \<not> covers m p))"
proof -
  have "f p = mapPairs (sortPairs (prefixPairs mounts)) p"
    using assms by (auto simp: buildPathMapper_def Let_def HasPrefix_iff split: if_splits)
  then show ?thesis using mapPairs_longest [of mounts p] by simp
qed

definition exampleMounts :: "Mount list" where
  "exampleMounts = [\<lparr>RemotePath = ''/r'', ContainerPath = ''/w''\<rparr>, \<lparr>RemotePath = ''/s'', ContainerPath = ''/w/sub''\<rparr>]"

theorem mapper_longest_mount_witness:
  "\<exists>f. buildPathMapper exampleMounts ''/stub'' Mapping.empty = Some f \<and> f ''/w/sub/a'' = ''/s/a''"
proof -
  obtain f where f: "buildPathMapper exampleMounts ''/stub'' Mapping.empty = Some f"
    by (simp add: buildPathMapper_def exampleMounts_def prefixPairs_def sortPairs_def Let_def is_empty_empty)
  have c: "covers \<lparr>RemotePath = ''/r'', ContainerPath = ''/w''\<rparr> ''/w/sub/a''"
    "covers \<lparr>RemotePath = ''/s'', ContainerPath = ''/w/sub''\<rparr> ''/w/sub/a''"
    by (simp_all add: covers_def RewritePathPrefix_def)
  have "f ''/w/sub/a'' = ''/s/a''"
    using mapper_longest_mount [OF f, of "''/w/sub/a''"] c
    by (auto simp: exampleMounts_def lookup_empty RewritePathPrefix_def)
  with f show ?thesis by blast
qed

text \<open>
  Nested identity mounts are lost. A workspace that exposes \<open>/w/sub\<close> of the remote at \<open>/w\<close>
  gets the automatic identity alias \<open>/w/sub:/w/sub\<close>; a path under the alias is nevertheless sent
  through the outer mount, to \<open>/w/sub/sub/...\<close> instead of itself, because identity mounts are
  dropped before the longest prefix is chosen.
\<close>

theorem mapper_drops_nested_identity:
  "\<exists>f. buildPathMapper
      [\<lparr>RemotePath = ''/w/sub'', ContainerPath = ''/w''\<rparr>, \<lparr>RemotePath = ''/w/sub'', ContainerPath = ''/w/sub''\<rparr>]
      sp Mapping.empty = Some f \<and>
    RewritePathPrefix ''/w/sub/a'' ''/w/sub'' ''/w/sub'' = (''/w/sub/a'', True) \<and> f ''/w/sub/a'' = ''/w/sub/sub/a''"
  by (simp add: buildPathMapper_def prefixPairs_def sortPairs_def Let_def is_empty_empty RewritePathPrefix_def)

text \<open>
  The stub directory is read-only: no request that would create, remove, rename or write
  succeeds, write access and every opening for writing are refused, and the attributes a stub
  reports carry no write bit and at least one of the read or execute bits.
\<close>

theorem stub_read_only:
  "(\<forall>r\<in>{DCreate, DMkdir, DMknod, DSymlink, DLink, DUnlink, DRmdir, DRename}. fst (dirNode ea now f r) = EROFS) \<and>
   (\<forall>r\<in>{FWrite, FSetattr, FAllocate}. fst (fileNode ea now opn f name r) = EROFS) \<and>
   (acc AND 2 \<noteq> 0 \<longrightarrow> fst (dirNode ea now f (DAccess acc)) = EACCES \<and> fst (fileNode ea now opn f name (FAccess acc)) = EACCES) \<and>
   (flags AND 3 \<noteq> 0 \<longrightarrow> fst (fileNode ea now opn f name (FOpen flags)) = EROFS) \<and>
   (snd (fileNode ea now opn f name FGetattr) = OAttr a \<longrightarrow> sa_Mode a AND 0x92 = 0 \<and> sa_Mode a AND 0x16D \<noteq> 0)"
proof -
  have "flags AND 3 \<noteq> 0 \<longrightarrow> fst (fileNode ea now opn f name (FOpen flags)) = EROFS"
    using open_mode_bits [of flags] by (auto simp: stubOpen_def)
  moreover have "snd (fileNode ea now opn f name FGetattr) = OAttr a \<longrightarrow> sa_Mode a AND 0x92 = 0 \<and> sa_Mode a AND 0x16D \<noteq> 0"
    using applyEntryAttr_perm by (auto split: option.splits)
  ultimately show ?thesis by (simp add: stubAccess_def)
qed

theorem stub_read_only_witness:
  "fst (dirNode 61 0 (NewFileSystem []) (DAccess 2)) = EACCES \<and>
   fst (fileNode 61 0 (\<lambda>_. Inl badFD) (NewFileSystem []) ''x'' (FOpen 1)) = EROFS"
  using stub_read_only [of 61 0 "NewFileSystem []" "\<lambda>_. Inl badFD" "''x''" 2 1 "dirAttr 0"] by simp

end
