(* ===== verification/Pump.thy ===== *)
theory Pump
  imports Prelude
begin

text \<open>
  The output path both the broker and the agent have: one goroutine per stream reads chunks of at
  most 32 KiB and sends them as frames; when all of them have ended and the command's result is
  known, an exit frame is sent. Other goroutines may send frames of their own in between. What
  \<open>Read\<close> returns is the environment's choice. The sends are serialised by the encoder's mutex, so
  each is one step. The locale \<open>bridge_frames\<close> states what a frame format must satisfy and shows
  that the exit frame comes after all the data, in every interleaving.
\<close>

section \<open>State and steps\<close>

record ('i, 'f) framing =
  mkData :: "'i \<Rightarrow> bytes \<Rightarrow> 'f"
  mkEOF :: "'i \<Rightarrow> 'f list"
  mkExit :: "int \<times> string \<Rightarrow> 'f"

text \<open>Where a stream's goroutine is; \<open>Sending d e\<close> remembers whether the read also gave an error.\<close>

datatype pump = Reading | Sending bytes bool | Finishing | Stopped

record ('i, 'f) bridge =
  br_pump :: "'i \<Rightarrow> pump"
  br_read :: "'i \<Rightarrow> bytes"
  br_wire :: "'f list"
  br_result :: "(int \<times> string) option"
  br_exited :: bool

definition bridgeInit :: "('i, 'f) bridge" where
  "bridgeInit = \<lparr>br_pump = (\<lambda>_. Reading), br_read = (\<lambda>_. []), br_wire = [], br_result = None, br_exited = False\<rparr>"

definition pumpRead :: "('i, 'f) bridge \<Rightarrow> 'i \<Rightarrow> bytes \<Rightarrow> bool \<Rightarrow> ('i, 'f) bridge" where
  "pumpRead s i d err =
     s\<lparr>br_pump := (br_pump s)(i := if d \<noteq> [] then Sending d err else if err then Finishing else Reading),
       br_read := (br_read s)(i := br_read s i @ d)\<rparr>"

definition pumpSend :: "('i, 'f) framing \<Rightarrow> ('i, 'f) bridge \<Rightarrow> 'i \<Rightarrow> bytes \<Rightarrow> bool \<Rightarrow> ('i, 'f) bridge" where
  "pumpSend F s i d err =
     s\<lparr>br_pump := (br_pump s)(i := if err then Finishing else Reading), br_wire := br_wire s @ [mkData F i d]\<rparr>"

definition pumpFinish :: "('i, 'f) framing \<Rightarrow> ('i, 'f) bridge \<Rightarrow> 'i \<Rightarrow> ('i, 'f) bridge" where
  "pumpFinish F s i = s\<lparr>br_pump := (br_pump s)(i := Stopped), br_wire := br_wire s @ mkEOF F i\<rparr>"

definition sendExit :: "('i, 'f) framing \<Rightarrow> ('i, 'f) bridge \<Rightarrow> int \<times> string \<Rightarrow> ('i, 'f) bridge" where
  "sendExit F s r = s\<lparr>br_wire := br_wire s @ [mkExit F r], br_exited := True\<rparr>"

inductive bridge_step ::
  "('i, 'f) framing \<Rightarrow> 'i set \<Rightarrow> ('f \<Rightarrow> bool) \<Rightarrow> int \<times> string \<Rightarrow> ('i, 'f) bridge \<Rightarrow> ('i, 'f) bridge \<Rightarrow> bool"
  for F I other res where
  step_read: "i \<in> I \<Longrightarrow> br_pump s i = Reading \<Longrightarrow> length d \<le> 32 * 1024 \<Longrightarrow> bridge_step F I other res s (pumpRead s i d err)"
| step_send: "i \<in> I \<Longrightarrow> br_pump s i = Sending d err \<Longrightarrow> bridge_step F I other res s (pumpSend F s i d err)"
| step_finish: "i \<in> I \<Longrightarrow> br_pump s i = Finishing \<Longrightarrow> bridge_step F I other res s (pumpFinish F s i)"
| step_result: "br_result s = None \<Longrightarrow> bridge_step F I other res s (s\<lparr>br_result := Some res\<rparr>)"
| step_exit: "br_result s = Some r \<Longrightarrow> \<forall>i\<in>I. br_pump s i = Stopped \<Longrightarrow> \<not> br_exited s \<Longrightarrow>
    bridge_step F I other res s (sendExit F s r)"
| step_other: "other f \<Longrightarrow> bridge_step F I other res s (s\<lparr>br_wire := br_wire s @ [f]\<rparr>)"

inductive bridged ::
  "('i, 'f) framing \<Rightarrow> 'i set \<Rightarrow> ('f \<Rightarrow> bool) \<Rightarrow> int \<times> string \<Rightarrow> ('i, 'f) bridge \<Rightarrow> bool" for F I other res where
  bridged_init: "bridged F I other res bridgeInit"
| bridged_step: "bridged F I other res s \<Longrightarrow> bridge_step F I other res s s' \<Longrightarrow> bridged F I other res s'"

section \<open>Frame formats\<close>

fun held :: "pump \<Rightarrow> bytes" where
  "held (Sending d e) = d"
| "held p = []"

locale bridge_frames =
  fixes F :: "('i, 'f) framing" and I :: "'i set" and other :: "'f \<Rightarrow> bool" and payload :: "'i \<Rightarrow> 'f \<Rightarrow> bytes" and isExit :: "'f \<Rightarrow> bool"
  assumes payload_data: "j \<in> I \<Longrightarrow> payload i (mkData F j d) = (if i = j then d else [])"
    and exit_data: "j \<in> I \<Longrightarrow> \<not> isExit (mkData F j d)"
    and eof: "j \<in> I \<Longrightarrow> f \<in> set (mkEOF F j) \<Longrightarrow> payload i f = [] \<and> \<not> isExit f"
    and exit_exit: "isExit (mkExit F r)"
    and others: "other f \<Longrightarrow> payload i f = [] \<and> \<not> isExit f"
begin

text \<open>The frames before the exit frame, and the data of one stream in them.\<close>

definition upToExit :: "'f list \<Rightarrow> 'f list" where
  "upToExit fs = takeWhile (\<lambda>f. \<not> isExit f) fs"

definition received :: "'i \<Rightarrow> 'f list \<Rightarrow> bytes" where
  "received i fs = concat (map (payload i) (upToExit fs))"

definition binv :: "int \<times> string \<Rightarrow> ('i, 'f) bridge \<Rightarrow> bool" where
  "binv res s \<longleftrightarrow>
     (\<forall>i. received i (br_wire s) @ held (br_pump s i) = br_read s i) \<and>
     (br_result s = None \<or> br_result s = Some res) \<and>
     (if br_exited s then (\<forall>i\<in>I. br_pump s i = Stopped) \<and> (\<exists>post. br_wire s = upToExit (br_wire s) @ mkExit F res # post)
      else \<forall>f\<in>set (br_wire s). \<not> isExit f)"

lemma upToExit_no_exit: "\<forall>f\<in>set fs. \<not> isExit f \<Longrightarrow> upToExit (fs @ gs) = fs @ upToExit gs"
  by (simp add: upToExit_def takeWhile_append2)

lemma upToExit_exit: "fs = upToExit fs @ mkExit F r # post \<Longrightarrow> upToExit (fs @ gs) = upToExit fs"
  by (metis append_eq_conv_conj exit_exit list.set_intros(1) takeWhile_append1 in_set_conv_decomp upToExit_def append.assoc)

lemma received_data:
  "j \<in> I \<Longrightarrow> \<forall>f\<in>set fs. \<not> isExit f \<Longrightarrow> received i (fs @ [mkData F j d]) = received i fs @ (if i = j then d else [])"
  using exit_data payload_data upToExit_no_exit [of fs "[]"]
  by (simp add: received_def upToExit_no_exit) (simp add: upToExit_def)

lemma received_silent:
  assumes "\<forall>f\<in>set fs. \<not> isExit f" and "\<And>g. g \<in> set gs \<Longrightarrow> payload i g = [] \<and> \<not> isExit g"
  shows "received i (fs @ gs) = received i fs"
proof -
  have "upToExit (fs @ gs) = fs @ gs" "upToExit fs = fs"
    using assms upToExit_no_exit [of "fs @ gs" "[]"] upToExit_no_exit [of fs "[]"] by (auto simp: upToExit_def)
  then show ?thesis using assms(2) by (simp add: received_def)
qed

lemma binv_step:
  assumes "binv res s" "bridge_step F I other res s s'"
  shows "binv res s'"
  using assms(2)
proof cases
  case (step_read i d err)
  then have ne: "\<not> br_exited s" using assms(1) by (auto simp: binv_def)
  have "received j (br_wire s) @ held (br_pump s j) = br_read s j" for j using assms(1) by (simp add: binv_def)
  from this [of i] this show ?thesis using assms(1) step_read ne by (auto simp: binv_def pumpRead_def)
next
  case (step_send i d err)
  then have ne: "\<not> br_exited s" "\<forall>f\<in>set (br_wire s). \<not> isExit f" using assms(1) by (auto simp: binv_def split: if_splits)
  have "received j (br_wire s) @ held (br_pump s j) = br_read s j" for j using assms(1) by (simp add: binv_def)
  from this [of i] this show ?thesis
    using assms(1) step_send ne received_data [OF step_send(2) ne(2)] exit_data [OF step_send(2)] by (auto simp: binv_def pumpSend_def)
next
  case (step_finish i)
  then have ne: "\<not> br_exited s" "\<forall>f\<in>set (br_wire s). \<not> isExit f" using assms(1) by (auto simp: binv_def split: if_splits)
  have "received j (br_wire s) @ held (br_pump s j) = br_read s j" for j using assms(1) by (simp add: binv_def)
  from this [of i] this show ?thesis
    using assms(1) step_finish ne received_silent [OF ne(2)] eof [OF step_finish(2)] by (auto simp: binv_def pumpFinish_def)
next
  case step_result
  then show ?thesis using assms(1) by (simp add: binv_def)
next
  case (step_exit r)
  then have ne: "\<forall>f\<in>set (br_wire s). \<not> isExit f" and r: "r = res" using assms(1) by (auto simp: binv_def)
  have "upToExit (br_wire s @ [mkExit F res]) = br_wire s" "upToExit (br_wire s) = br_wire s"
    using ne exit_exit upToExit_no_exit [of "br_wire s" "[mkExit F res]"] upToExit_no_exit [of "br_wire s" "[]"]
    by (auto simp: upToExit_def)
  then show ?thesis using assms(1) step_exit r by (simp add: binv_def sendExit_def received_def)
next
  case (step_other f)
  show ?thesis
  proof (cases "br_exited s")
    case True
    then obtain post where post: "br_wire s = upToExit (br_wire s) @ mkExit F res # post"
      using assms(1) by (auto simp: binv_def)
    from upToExit_exit [OF this] have u: "upToExit (br_wire s @ [f]) = upToExit (br_wire s)" .
    have "br_wire s @ [f] = upToExit (br_wire s) @ mkExit F res # (post @ [f])" using post by (metis append.assoc append_Cons)
    then have "\<exists>post'. br_wire s @ [f] = upToExit (br_wire s) @ mkExit F res # post'" by blast
    then show ?thesis using assms(1) step_other True u by (simp add: binv_def received_def)
  next
    case False
    then have ne: "\<forall>f\<in>set (br_wire s). \<not> isExit f" using assms(1) by (auto simp: binv_def)
    then show ?thesis
      using assms(1) step_other False received_silent [OF ne, of "[f]"] others by (auto simp: binv_def)
  qed
qed

lemma bridged_binv: "bridged F I other res s \<Longrightarrow> binv res s"
proof (induction rule: bridged.induct)
  case bridged_init
  show ?case by (simp add: binv_def bridgeInit_def received_def upToExit_def)
qed (rule binv_step)

lemma wire_frames:
  "bridged F I other res s \<Longrightarrow> f \<in> set (br_wire s) \<Longrightarrow>
     (\<exists>i\<in>I. \<exists>d. f = mkData F i d) \<or> (\<exists>i\<in>I. f \<in> set (mkEOF F i)) \<or> other f \<or> isExit f"
proof (induction rule: bridged.induct)
  case (bridged_step s s')
  from bridged_step(2) bridged_step(3-) show ?case
    by cases (auto simp: pumpRead_def pumpSend_def pumpFinish_def sendExit_def exit_exit)
qed (simp add: bridgeInit_def)

lemma delivered:
  assumes "bridged F I other res s" "br_exited s"
  shows "(\<exists>post. br_wire s = upToExit (br_wire s) @ mkExit F res # post) \<and> (\<forall>i\<in>I. received i (br_wire s) = br_read s i)"
proof -
  have *: "binv res s" using bridged_binv [OF assms(1)] .
  have "received i (br_wire s) = br_read s i" if "i \<in> I" for i
  proof -
    have "received i (br_wire s) @ held (br_pump s i) = br_read s i" using * by (simp add: binv_def)
    moreover have "br_pump s i = Stopped" using * that assms(2) by (simp add: binv_def)
    ultimately show ?thesis by simp
  qed
  moreover have "\<exists>post. br_wire s = upToExit (br_wire s) @ mkExit F res # post" using * assms(2) by (simp add: binv_def)
  ultimately show ?thesis by blast
qed

end

end
