(* ===== verification/SshRunner.thy ===== *)
theory SshRunner
  imports Prelude
begin

text \<open>
  \<open>pkg/remoteexec/runner.go\<close> and \<open>pkg/remoteexec/ssh_runner.go\<close>: the request that is run
  remotely and the runner that hands it to a login shell. The session of the backend is the
  record \<open>session\<close>. What the remote shell makes of the command line is the reference \<open>shWords\<close>,
  the quoting rules of the POSIX shell for the characters the command line is built from.
\<close>

section \<open>Requests and sessions\<close>

record Request =
  req_Path :: string
  req_Argv :: "string list"
  req_Env :: "string list"
  req_Cwd :: string
  req_ExtraFDs :: "uint32 list"

text \<open>The error a session reports when it ends: none, one that carries an exit code, or another.\<close>

datatype waitError = WaitOK | WaitExit int | WaitFailed string

record session =
  ses_New :: "string option"
  ses_StdinPipe :: "string option"
  ses_StdoutPipe :: "string option"
  ses_StderrPipe :: "string option"
  ses_Start :: "string \<Rightarrow> string option"
  ses_Wait :: waitError

section \<open>The command line\<close>

abbreviation quote :: char where "quote \<equiv> CHR 0x27"
abbreviation backslash :: char where "backslash \<equiv> CHR 0x5C"

text \<open>\<open>strings.ReplaceAll\<close> of a single byte.\<close>

definition ReplaceAllByte :: "string \<Rightarrow> char \<Rightarrow> string \<Rightarrow> string" where
  "ReplaceAllByte s old new = concat (map (\<lambda>c. if c = old then new else [c]) s)"

definition shellQuote :: "string \<Rightarrow> string" where
  "shellQuote s =
     (if s = [] then [quote, quote]
      else [quote] @ ReplaceAllByte s quote [quote, backslash, quote, quote] @ [quote])"

definition buildRemoteCommand :: "Request \<Rightarrow> string" where
  "buildRemoteCommand req =
     (let parts = [shellQuote (req_Path req)];
          parts = (if length (req_Argv req) > 1 then parts @ map shellQuote (drop 1 (req_Argv req)) else parts);
          cmd = Join parts '' ''
      in if req_Cwd req = [] then cmd
         else ''cd '' @ shellQuote (req_Cwd req) @ '' && '' @ cmd)"

section \<open>The SSH runner\<close>

fun setenvs :: "string list \<Rightarrow> (string \<times> string) list" where
  "setenvs [] = []"
| "setenvs (kv # env) =
     (case Cut kv (CHR ''='') of
        None \<Rightarrow> setenvs env
      | Some (k, v) \<Rightarrow> if k = [] then setenvs env else (k, v) # setenvs env)"

text \<open>
  \<open>SSHRunner.Run\<close>: the variables set and the command started, if that point is reached, and
  the exit code with the error. The receiver or its provider may be nil.
\<close>

record sshRun =
  sr_Setenv :: "(string \<times> string) list"
  sr_Started :: "string option"
  sr_Code :: int
  sr_Error :: "string option"

definition sshFail :: "(string \<times> string) list \<Rightarrow> string option \<Rightarrow> string \<Rightarrow> sshRun" where
  "sshFail envs started err = \<lparr>sr_Setenv = envs, sr_Started = started, sr_Code = 127, sr_Error = Some err\<rparr>"

definition SSHRunner_Run :: "session option \<Rightarrow> Request \<Rightarrow> sshRun" where
  "SSHRunner_Run provider req =
     (case provider of
        None \<Rightarrow> sshFail [] None ''ssh runner provider is nil''
      | Some S \<Rightarrow>
      case ses_New S of Some err \<Rightarrow> sshFail [] None err | None \<Rightarrow>
      let envs = setenvs (req_Env req); cmd = buildRemoteCommand req in
      case ses_StdinPipe S of Some err \<Rightarrow> sshFail envs None err | None \<Rightarrow>
      case ses_StdoutPipe S of Some err \<Rightarrow> sshFail envs None err | None \<Rightarrow>
      case ses_StderrPipe S of Some err \<Rightarrow> sshFail envs None err | None \<Rightarrow>
      case ses_Start S cmd of Some err \<Rightarrow> sshFail envs (Some cmd) err | None \<Rightarrow>
      case ses_Wait S of
        WaitOK \<Rightarrow> \<lparr>sr_Setenv = envs, sr_Started = Some cmd, sr_Code = 0, sr_Error = None\<rparr>
      | WaitExit c \<Rightarrow> \<lparr>sr_Setenv = envs, sr_Started = Some cmd, sr_Code = c, sr_Error = None\<rparr>
      | WaitFailed err \<Rightarrow> sshFail envs (Some cmd) err)"

section \<open>What the remote shell reads\<close>

text \<open>
  The reference: words are separated by blanks; between single quotes every character stands for
  itself; an unquoted backslash makes the next character literal; \<open>&&\<close> is an operator; any other
  unquoted character that is no letter is refused, so that a successful reading involves no
  expansion, redirection or further operator.
\<close>

datatype shToken = Word string | AndIf

definition isLetter :: "char \<Rightarrow> bool" where
  "isLetter c \<longleftrightarrow> 97 \<le> (of_char c :: nat) \<and> (of_char c :: nat) \<le> 122"

definition flush :: "string option \<Rightarrow> shToken list" where
  "flush cur = (case cur of None \<Rightarrow> [] | Some w \<Rightarrow> [Word w])"

definition soFar :: "string option \<Rightarrow> string" where
  "soFar cur = (case cur of None \<Rightarrow> [] | Some w \<Rightarrow> w)"

fun unquoted :: "string option \<Rightarrow> string \<Rightarrow> shToken list option"
  and quoted :: "string \<Rightarrow> string \<Rightarrow> shToken list option"
  and escaped :: "string option \<Rightarrow> string \<Rightarrow> shToken list option"
  and ampersand :: "string option \<Rightarrow> string \<Rightarrow> shToken list option" where
  "unquoted cur [] = Some (flush cur)"
| "unquoted cur (c # cs) =
     (if c = CHR '' '' then map_option ((@) (flush cur)) (unquoted None cs)
      else if c = quote then quoted (soFar cur) cs
      else if c = backslash then escaped cur cs
      else if c = CHR ''&'' then ampersand cur cs
      else if isLetter c then unquoted (Some (soFar cur @ [c])) cs
      else None)"
| "quoted w [] = None"
| "quoted w (c # cs) = (if c = quote then unquoted (Some w) cs else quoted (w @ [c]) cs)"
| "escaped cur [] = None"
| "escaped cur (c # cs) = (if c = CHR 0x0A then unquoted cur cs else unquoted (Some (soFar cur @ [c])) cs)"
| "ampersand cur [] = None"
| "ampersand cur (c # cs) =
     (if c = CHR ''&'' then map_option (\<lambda>ts. flush cur @ AndIf # ts) (unquoted None cs) else None)"

definition shWords :: "string \<Rightarrow> shToken list option" where
  "shWords s = unquoted None s"

section \<open>Lemmas\<close>

lemma quoted_body:
  "quoted w (ReplaceAllByte s quote [quote, backslash, quote, quote] @ quote # rest) = unquoted (Some (w @ s)) rest"
  by (induction s arbitrary: w) (simp_all add: ReplaceAllByte_def soFar_def)

lemma unquoted_shellQuote: "unquoted cur (shellQuote s @ rest) = unquoted (Some (soFar cur @ s)) rest"
  by (simp add: shellQuote_def quoted_body)

lemma unquoted_parts:
  "xs \<noteq> [] \<Longrightarrow> unquoted None (Join (map shellQuote xs) '' '') = Some (map Word xs)"
proof (induction xs)
  case (Cons x xs)
  show ?case
  proof (cases xs)
    case Nil
    then show ?thesis using unquoted_shellQuote [of None x "[]"] by (simp add: soFar_def flush_def)
  next
    case (Cons y ys)
    then show ?thesis
      using Cons.IH unquoted_shellQuote [of None x "'' '' @ Join (map shellQuote xs) '' ''"]
      by (simp add: Join_Cons soFar_def flush_def)
  qed
qed simp

lemma buildRemoteCommand_eq:
  "buildRemoteCommand req =
     (if req_Cwd req = [] then [] else ''cd '' @ shellQuote (req_Cwd req) @ '' && '') @
     Join (map shellQuote (req_Path req # drop 1 (req_Argv req))) '' ''"
proof -
  have "drop 1 (req_Argv req) = []" if "\<not> length (req_Argv req) > 1" using that by simp
  then show ?thesis by (auto simp: buildRemoteCommand_def Let_def)
qed

section \<open>Properties\<close>

text \<open>
  C39. No shell injection: whatever bytes the working directory, the program path and the
  arguments consist of, the remote shell reads the command line as the change of directory and
  one simple command with exactly these strings as its words; nothing of them is ever read as an
  operator, an expansion or a word boundary.
\<close>

theorem remote_command_words:
  "shWords (buildRemoteCommand req) =
     Some ((if req_Cwd req = [] then [] else [Word ''cd'', Word (req_Cwd req), AndIf]) @
       map Word (req_Path req # drop 1 (req_Argv req)))"
proof (cases "req_Cwd req = []")
  case True
  then show ?thesis
    using unquoted_parts [of "req_Path req # drop 1 (req_Argv req)"]
    by (simp add: shWords_def buildRemoteCommand_eq)
next
  case False
  let ?ws = "req_Path req # drop 1 (req_Argv req)"
  have "unquoted None (''cd '' @ shellQuote (req_Cwd req) @ '' && '' @ Join (map shellQuote ?ws) '' '') =
      map_option ((@) [Word ''cd'']) (unquoted None (shellQuote (req_Cwd req) @ '' && '' @ Join (map shellQuote ?ws) '' ''))"
    by (simp add: isLetter_def soFar_def flush_def)
  also have "\<dots> = Some ([Word ''cd'', Word (req_Cwd req), AndIf] @ map Word ?ws)"
    unfolding unquoted_shellQuote using unquoted_parts [of ?ws] by (simp add: soFar_def flush_def)
  finally show ?thesis using False by (simp add: shWords_def buildRemoteCommand_eq)
qed

end
