(* ===== verification/Broker.thy ===== *)
theory Broker
  imports Pump SshRunner
begin

text \<open>
  \<open>pkg/broker/protocol.go\<close> and \<open>pkg/broker/server.go\<close>: the frames between the shim and the
  broker, the translation of a request, the result of the remote command, and the streams in both
  directions. The output of a connection is the bridge of theory \<open>Pump\<close> over the broker's frames;
  the runner's outcome is a parameter.
\<close>

section \<open>Protocol\<close>

abbreviation StreamStdin :: string where "StreamStdin \<equiv> ''stdin''"
abbreviation StreamStdout :: string where "StreamStdout \<equiv> ''stdout''"
abbreviation StreamStderr :: string where "StreamStderr \<equiv> ''stderr''"
abbreviation StreamExit :: string where "StreamExit \<equiv> ''exit''"
abbreviation StreamSignal :: string where "StreamSignal \<equiv> ''signal''"
abbreviation StreamFDPrefix :: string where "StreamFDPrefix \<equiv> ''fd:''"

record BrokerFrame =
  bf_Stream :: string
  bf_Data :: bytes
  bf_Code :: int
  bf_Error :: string
  bf_Signal :: int

definition streamFrame :: "string \<Rightarrow> bytes \<Rightarrow> BrokerFrame" where
  "streamFrame stream d = \<lparr>bf_Stream = stream, bf_Data = d, bf_Code = 0, bf_Error = [], bf_Signal = 0\<rparr>"

definition signalFrame :: "int \<Rightarrow> BrokerFrame" where
  "signalFrame sig = \<lparr>bf_Stream = StreamSignal, bf_Data = [], bf_Code = 0, bf_Error = [], bf_Signal = sig\<rparr>"

definition exitFrame :: "int \<times> string \<Rightarrow> BrokerFrame" where
  "exitFrame r = \<lparr>bf_Stream = StreamExit, bf_Data = [], bf_Code = fst r, bf_Error = snd r, bf_Signal = 0\<rparr>"

text \<open>\<open>fmt.Sprintf("%s%d", StreamFDPrefix, fdNum)\<close>\<close>

definition fdStream :: "uint32 \<Rightarrow> string" where
  "fdStream fdNum = StreamFDPrefix @ showNat (unat fdNum)"

section \<open>A connection\<close>

text \<open>
  The dependencies. A nil filter or mapper is \<^const>\<open>None\<close>; a runner that supports signals gives
  \<open>dp_Control\<close>, another one \<open>dp_Run\<close>, and a nil runner neither. The outcome of a runner is its
  exit code and error.
\<close>

record Deps =
  dp_EnvFilter :: "(string list \<Rightarrow> string list) option"
  dp_PathMapper :: "(string \<Rightarrow> string) option"
  dp_Control :: "(Request \<Rightarrow> int \<times> string option) option"
  dp_Run :: "(Request \<Rightarrow> int \<times> string option) option"

definition prepareRequest :: "Deps \<Rightarrow> Request \<Rightarrow> Request" where
  "prepareRequest deps req =
     (let req = (case dp_EnvFilter deps of None \<Rightarrow> req | Some f \<Rightarrow> req\<lparr>req_Env := f (req_Env req)\<rparr>)
      in case dp_PathMapper deps of
           None \<Rightarrow> req
         | Some m \<Rightarrow> req\<lparr>req_Cwd := m (req_Cwd req), req_Path := m (req_Path req)\<rparr>)"

definition runRemote :: "Deps \<Rightarrow> Request \<Rightarrow> int \<times> string option" where
  "runRemote deps req =
     (case dp_Run deps of
        None \<Rightarrow> (127, Some ''io: read/write on closed pipe'')
      | Some run \<Rightarrow>
          (case run req of
             (code, Some err) \<Rightarrow> if code = 0 then (127, Some err) else (code, Some err)
           | (code, None) \<Rightarrow> (code, None)))"

text \<open>The exit code and the error text of the exit frame.\<close>

definition connResult :: "Deps \<Rightarrow> Request \<Rightarrow> int \<times> string" where
  "connResult deps req =
     (let (code, err) = (case dp_Control deps of
            Some run \<Rightarrow> run (prepareRequest deps req)
          | None \<Rightarrow> runRemote deps (prepareRequest deps req))
      in (code, case err of None \<Rightarrow> [] | Some e \<Rightarrow> e))"

definition brokerFraming :: "(string, BrokerFrame) framing" where
  "brokerFraming = \<lparr>mkData = streamFrame, mkEOF = (\<lambda>_. []), mkExit = exitFrame\<rparr>"

definition connStreams :: "Deps \<Rightarrow> Request \<Rightarrow> string set" where
  "connStreams deps req =
     {StreamStdout, StreamStderr} \<union> (if dp_Control deps = None then {} else fdStream ` set (req_ExtraFDs req))"

text \<open>
  What a connection may have sent, with the data read from the command's streams: an undecodable
  request is answered by one exit frame; otherwise the streams and the exit frame are bridged.
\<close>

definition serveConn :: "Deps \<Rightarrow> string + Request \<Rightarrow> (string, BrokerFrame) bridge \<Rightarrow> bool" where
  "serveConn deps decoded s =
     (case decoded of
        Inl err \<Rightarrow> s = bridgeInit\<lparr>br_wire := [exitFrame (127, err)], br_exited := True\<rparr>
      | Inr req \<Rightarrow> bridged brokerFraming (connStreams deps req) (\<lambda>_. False) (connResult deps req) s)"

section \<open>Frames from the shim\<close>

datatype brokerEffect = ToStdin bytes | ToSignals int | ToFD uint32 bytes

text \<open>
  \<open>fmt.Sscanf(s, "%d", &fdNum)\<close> for an unsigned 32-bit integer: leading white space without a line
  break is skipped, the digits that follow are read, what comes after them is ignored.
\<close>

definition Sscanf_u32 :: "string \<Rightarrow> uint32 option" where
  "Sscanf_u32 s =
     (let t = trimLeft spaceRunes s; skipped = take (length s - length t) s; ds = takeWhile isDigit t in
      if CHR 0x0A \<in> set skipped \<or> ds = [] then None else ParseUint32 ds)"

text \<open>
  \<open>readFrames\<close> until the decoder fails, which is the end of the list; \<open>ok n\<close> tells whether the
  \<open>n\<close>-th write to the command's standard input succeeds.
\<close>

fun readFrames :: "(nat \<Rightarrow> bool) \<Rightarrow> uint32 set \<Rightarrow> nat \<Rightarrow> BrokerFrame list \<Rightarrow> brokerEffect list" where
  "readFrames ok fds n [] = []"
| "readFrames ok fds n (f # fs) =
     (if bf_Stream f = StreamStdin then
        (if length (bf_Data f) > 0 then
           (if ok n then ToStdin (bf_Data f) # readFrames ok fds (n + 1) fs else [])
         else readFrames ok fds n fs)
      else if bf_Stream f = StreamSignal then ToSignals (bf_Signal f) # readFrames ok fds n fs
      else if HasPrefix (bf_Stream f) StreamFDPrefix then
        (case Sscanf_u32 (drop (length StreamFDPrefix) (bf_Stream f)) of
           None \<Rightarrow> readFrames ok fds n fs
         | Some fdNum \<Rightarrow>
             if fdNum \<in> fds \<and> length (bf_Data f) > 0 then ToFD fdNum (bf_Data f) # readFrames ok fds n fs
             else readFrames ok fds n fs)
      else readFrames ok fds n fs)"

fun readFramesBasic :: "(nat \<Rightarrow> bool) \<Rightarrow> nat \<Rightarrow> BrokerFrame list \<Rightarrow> brokerEffect list" where
  "readFramesBasic ok n [] = []"
| "readFramesBasic ok n (f # fs) =
     (if bf_Stream f \<noteq> StreamStdin then readFramesBasic ok n fs
      else if length (bf_Data f) = 0 then readFramesBasic ok n fs
      else if ok n then ToStdin (bf_Data f) # readFramesBasic ok (n + 1) fs
      else [])"

section \<open>Lemmas\<close>

definition brokerPayload :: "string \<Rightarrow> BrokerFrame \<Rightarrow> bytes" where
  "brokerPayload i f = (if bf_Stream f = i \<and> bf_Stream f \<noteq> StreamExit then bf_Data f else [])"

definition brokerExit :: "BrokerFrame \<Rightarrow> bool" where
  "brokerExit f \<longleftrightarrow> bf_Stream f = StreamExit"

lemma drop_fdStream [simp]: "drop (Suc (Suc (Suc 0))) (fdStream n) = showNat (unat n)"
  by (simp add: fdStream_def)

lemma ParseUint32_fd: "ParseUint32 (showNat (unat (n :: uint32))) = Some n"
  using ParseUint32_showNat [of "unat n"] unsigned_less [of n] by simp

lemma fdStream_inj [simp]: "fdStream n = fdStream m \<longleftrightarrow> n = m"
proof
  assume "fdStream n = fdStream m"
  then have "ParseUint32 (showNat (unat n)) = ParseUint32 (showNat (unat m))" by (simp add: fdStream_def)
  then show "n = m" by (simp add: ParseUint32_fd)
qed simp

lemma fdStream_names [simp]:
  "fdStream n \<noteq> StreamStdin" "fdStream n \<noteq> StreamStdout" "fdStream n \<noteq> StreamStderr" "fdStream n \<noteq> StreamExit"
  "fdStream n \<noteq> StreamSignal" "HasPrefix (fdStream n) StreamFDPrefix"
  by (auto simp: fdStream_def)

end
