(* ===== verification/Shim.thy ===== *)
theory Shim
  imports Broker
begin

text \<open>
  \<open>cmd/mproxy-shim\<close>: the program the tracer puts in place of an intercepted exec. It sends the
  request to the broker, its standard input, its signals and its inherited descriptors, and copies
  the frames it receives to its own outputs until the exit frame. What the operating system
  answers is a parameter.
\<close>

section \<open>The request\<close>

definition targetArgv :: "string list \<Rightarrow> string list" where
  "targetArgv args = (if length args > 2 then drop 2 args else [])"

record shimHost =
  sh_Sock :: string
  sh_Dial :: bool
  sh_Environ :: "string list"
  sh_Getwd :: "string option"
  sh_Encode :: bool
  sh_NewFile :: "uint32 \<Rightarrow> bool"

definition shimRequest :: "shimHost \<Rightarrow> string list \<Rightarrow> uint32 list \<Rightarrow> Request" where
  "shimRequest h args extraFDs =
     \<lparr>req_Path = args ! 1, req_Argv = targetArgv args, req_Env = sh_Environ h,
      req_Cwd = (case sh_Getwd h of None \<Rightarrow> [] | Some cwd \<Rightarrow> cwd), req_ExtraFDs = extraFDs\<rparr>"

text \<open>
  \<open>detectExtraFDs\<close> on Linux, after the directory has been read: the descriptor flags and link
  targets are parameters, \<^const>\<open>None\<close> an error.
\<close>

fun detectFDs :: "uint32 \<Rightarrow> uint32 \<Rightarrow> (uint32 \<Rightarrow> bool option) \<Rightarrow> (string \<Rightarrow> string option) \<Rightarrow> string list \<Rightarrow> uint32 list" where
  "detectFDs dirFD brokerFD cloexec readlink [] = []"
| "detectFDs dirFD brokerFD cloexec readlink (name # names) =
     (let rest = detectFDs dirFD brokerFD cloexec readlink names in
      case ParseUint32 name of
        None \<Rightarrow> rest
      | Some fd \<Rightarrow>
          if fd < 3 \<or> fd = dirFD \<or> fd = brokerFD then rest
          else if cloexec fd = None \<or> cloexec fd = Some True then rest
          else case readlink (''/proc/self/fd/'' @ name) of
            None \<Rightarrow> rest
          | Some target \<Rightarrow> if HasPrefix target ''anon_inode:'' then rest else fd # rest)"

section \<open>Frames from the broker\<close>

datatype shimEffect = OutStdout bytes | OutStderr bytes | OutFD uint32 bytes

text \<open>\<open>fdFileSet.Get\<close>: the set of descriptors that already have a wrapper.\<close>

definition fdGet :: "shimHost \<Rightarrow> uint32 set \<Rightarrow> uint32 \<Rightarrow> bool \<times> uint32 set" where
  "fdGet h files fd =
     (if fd \<in> files then (True, files) else if sh_NewFile h fd then (True, insert fd files) else (False, files))"

text \<open>The loop of \<open>Run\<close>; the end of the list is a decode error.\<close>

fun shimLoop :: "shimHost \<Rightarrow> uint32 set \<Rightarrow> BrokerFrame list \<Rightarrow> shimEffect list \<times> int" where
  "shimLoop h files [] = ([], 127)"
| "shimLoop h files (f # fs) =
     (if bf_Stream f = StreamStdout then
        (let (out, code) = shimLoop h files fs in (OutStdout (bf_Data f) # out, code))
      else if bf_Stream f = StreamStderr then
        (let (out, code) = shimLoop h files fs in (OutStderr (bf_Data f) # out, code))
      else if bf_Stream f = StreamExit then ([], bf_Code f)
      else if HasPrefix (bf_Stream f) StreamFDPrefix then
        (case ParseUint32 (drop (length StreamFDPrefix) (bf_Stream f)) of
           None \<Rightarrow> shimLoop h files fs
         | Some fd \<Rightarrow>
             (let (found, files') = fdGet h files fd; (out, code) = shimLoop h files' fs in
              if found \<and> length (bf_Data f) > 0 then (OutFD fd (bf_Data f) # out, code) else (out, code)))
      else shimLoop h files fs)"

text \<open>\<open>Run\<close>: the request that was sent, what was written, and the exit code.\<close>

definition shimRun :: "shimHost \<Rightarrow> string list \<Rightarrow> uint32 list \<Rightarrow> BrokerFrame list \<Rightarrow> Request option \<times> shimEffect list \<times> int" where
  "shimRun h args extraFDs frames =
     (if length args < 2 then (None, [], 127)
      else if sh_Sock h = [] then (None, [], 127)
      else if \<not> sh_Dial h then (None, [], 127)
      else let req = shimRequest h args extraFDs in
        if \<not> sh_Encode h then (None, [], 127)
        else (Some req, shimLoop h {} frames))"

section \<open>Frames to the broker\<close>

text \<open>The frames the shim's goroutines send: \<open>streamStdin\<close>, the signal loop and \<open>streamFD\<close>.\<close>

datatype shimSend = SendStdin bytes | SendSignal int | SendFD uint32 bytes

fun sendFrame :: "shimSend \<Rightarrow> BrokerFrame" where
  "sendFrame (SendStdin d) = streamFrame StreamStdin d"
| "sendFrame (SendSignal sig) = signalFrame sig"
| "sendFrame (SendFD fd d) = streamFrame (fdStream fd) d"

section \<open>Lemmas\<close>

lemma spaceRunes_digit: "\<forall>w\<in>set spaceRunes. w \<noteq> [] \<and> \<not> isDigit (hd w)"
  by (simp add: spaceRunes_def isDigit_def)

lemma digit_no_space:
  assumes "isDigit c"
  shows "trimLeft spaceRunes (c # s) = c # s"
proof -
  have "\<not> HasPrefix (c # s) w" if "w \<in> set spaceRunes" for w
    using spaceRunes_digit that assms by (cases w) auto
  then have "find (\<lambda>w. w \<noteq> [] \<and> HasPrefix (c # s) w) spaceRunes = None" by (auto simp: find_None_iff)
  then show ?thesis by (simp add: trimLeft.simps)
qed

lemma Sscanf_showNat: "Sscanf_u32 (showNat (unat n)) = Some n"
proof -
  have ok: "showNat (unat n) \<noteq> []" "list_all isDigit (showNat (unat n))" using showNat_ok by auto
  then obtain c s where "showNat (unat n) = c # s" "isDigit c" by (cases "showNat (unat n)") auto
  then have "trimLeft spaceRunes (showNat (unat n)) = showNat (unat n)" by (simp add: digit_no_space)
  moreover have "takeWhile isDigit (showNat (unat n)) = showNat (unat n)"
    using ok(2) by (simp add: takeWhile_eq_all_conv list_all_iff)
  ultimately show ?thesis using ok(1) unfolding Sscanf_u32_def by (simp only: Let_def) (simp add: ParseUint32_fd)
qed

fun stdoutOf :: "shimEffect \<Rightarrow> bytes" where
  "stdoutOf (OutStdout d) = d" | "stdoutOf e = []"

fun stderrOf :: "shimEffect \<Rightarrow> bytes" where
  "stderrOf (OutStderr d) = d" | "stderrOf e = []"

fun fdOf :: "uint32 \<Rightarrow> shimEffect \<Rightarrow> bytes" where
  "fdOf n (OutFD m d) = (if n = m then d else [])" | "fdOf n e = []"

lemma connStreams_names: "i \<in> connStreams deps req \<Longrightarrow> i \<noteq> StreamExit"
  by (auto simp: connStreams_def fdStream_def split: if_splits)

interpretation bf: bridge_frames brokerFraming "connStreams deps req" "\<lambda>_. False" brokerPayload brokerExit
  for deps req
  by unfold_locales
    (auto simp: brokerFraming_def brokerPayload_def brokerExit_def streamFrame_def exitFrame_def dest: connStreams_names)

abbreviation beforeExit :: "BrokerFrame list \<Rightarrow> BrokerFrame list" where
  "beforeExit fs \<equiv> takeWhile (\<lambda>f. \<not> brokerExit f) fs"

text \<open>Every frame of an extra descriptor has the name the broker prints.\<close>

definition fdNamed :: "BrokerFrame \<Rightarrow> bool" where
  "fdNamed f \<longleftrightarrow> (HasPrefix (bf_Stream f) StreamFDPrefix \<longrightarrow> (\<exists>n. bf_Stream f = fdStream n))"

lemma shimLoop_code: "snd (shimLoop h files (pre @ exitFrame r # post)) = fst r" if "\<forall>f\<in>set pre. \<not> brokerExit f"
  using that
proof (induction pre arbitrary: files)
  case (Cons f pre)
  then have "snd (shimLoop h fl (pre @ exitFrame r # post)) = fst r" "bf_Stream f \<noteq> StreamExit" for fl
    by (simp_all add: brokerExit_def)
  then show ?case by (auto simp: case_prod_beta Let_def split: option.split)
qed (simp add: exitFrame_def)

lemma shimLoop_stdout:
  "concat (map stdoutOf (fst (shimLoop h files fs))) = concat (map (brokerPayload StreamStdout) (beforeExit fs))"
  by (induction fs arbitrary: files)
    (auto simp: brokerPayload_def brokerExit_def case_prod_beta Let_def split: option.split)

lemma shimLoop_stderr:
  "concat (map stderrOf (fst (shimLoop h files fs))) = concat (map (brokerPayload StreamStderr) (beforeExit fs))"
  by (induction fs arbitrary: files)
    (auto simp: brokerPayload_def brokerExit_def case_prod_beta Let_def split: option.split)

lemma shimLoop_fd:
  "sh_NewFile h n \<Longrightarrow> \<forall>f\<in>set (beforeExit fs). fdNamed f \<Longrightarrow>
   concat (map (fdOf n) (fst (shimLoop h files fs))) = concat (map (brokerPayload (fdStream n)) (beforeExit fs))"
proof (induction fs arbitrary: files)
  case (Cons f fs)
  show ?case
  proof (cases "HasPrefix (bf_Stream f) StreamFDPrefix")
    case True
    then obtain m where m: "bf_Stream f = fdStream m" using Cons.prems(2) by (auto simp: fdNamed_def brokerExit_def)
    have "m = n \<Longrightarrow> fst (fdGet h files m)" using Cons.prems(1) by (simp add: fdGet_def)
    then show ?thesis
      using Cons m by (auto simp: brokerPayload_def brokerExit_def case_prod_beta Let_def ParseUint32_fd)
  next
    case False
    then have "bf_Stream f \<noteq> fdStream n" using fdStream_names(6) [of n] by auto
    then show ?thesis
      using Cons False by (auto simp: brokerPayload_def brokerExit_def case_prod_beta Let_def)
  qed
qed simp

section \<open>Properties\<close>

lemma conn_wire_named:
  assumes "serveConn deps (Inr req) s" "f \<in> set (beforeExit (br_wire s))"
  shows "fdNamed f"
proof -
  have "f \<in> set (br_wire s)" "\<not> brokerExit f" using assms(2) set_takeWhileD by metis+
  then obtain i d where "i \<in> connStreams deps req" "f = streamFrame i d"
    using bf.wire_frames [of deps req "connResult deps req" s f] assms(1)
    by (auto simp: serveConn_def brokerFraming_def)
  then show ?thesis by (auto simp: fdNamed_def connStreams_def streamFrame_def split: if_splits)
qed

text \<open>
  The caller sees exactly what the remote command produced: in every interleaving of the
  broker's stream goroutines, when the exit frame has been sent, the shim that reads the
  connection has written to its standard output, its standard error and each bridged descriptor
  exactly the bytes the broker read from the command's streams, in order, and it exits with the
  command's code. No byte is lost behind the exit frame.
\<close>

lemma shim_output:
  assumes "serveConn deps (Inr req) s" "br_exited s"
  shows "concat (map stdoutOf (fst (shimLoop h files (br_wire s)))) = br_read s StreamStdout \<and>
    concat (map stderrOf (fst (shimLoop h files (br_wire s)))) = br_read s StreamStderr \<and>
    (\<forall>n\<in>set (req_ExtraFDs req). dp_Control deps \<noteq> None \<longrightarrow> sh_NewFile h n \<longrightarrow>
      concat (map (fdOf n) (fst (shimLoop h files (br_wire s)))) = br_read s (fdStream n)) \<and>
    snd (shimLoop h files (br_wire s)) = fst (connResult deps req)"
proof -
  have b: "bridged brokerFraming (connStreams deps req) (\<lambda>_. False) (connResult deps req) s"
    using assms(1) by (simp add: serveConn_def)
  note d = bf.delivered [OF b assms(2)]
  obtain post where post: "br_wire s = beforeExit (br_wire s) @ exitFrame (connResult deps req) # post"
    using d by (auto simp: bf.upToExit_def brokerFraming_def)
  have "snd (shimLoop h files (br_wire s)) = fst (connResult deps req)"
    by (subst post, rule shimLoop_code) (auto dest: set_takeWhileD)
  moreover have "concat (map (brokerPayload i) (beforeExit (br_wire s))) = br_read s i" if "i \<in> connStreams deps req" for i
    using d that by (auto simp: bf.received_def bf.upToExit_def)
  moreover have "\<forall>f\<in>set (beforeExit (br_wire s)). fdNamed f" using conn_wire_named [OF assms(1)] by blast
  ultimately show ?thesis
    by (simp add: shimLoop_stdout shimLoop_stderr shimLoop_fd connStreams_def)
qed

definition exampleShim :: shimHost where
  "exampleShim = \<lparr>sh_Sock = ''/s'', sh_Dial = True, sh_Environ = [], sh_Getwd = Some ''/'', sh_Encode = True, sh_NewFile = (\<lambda>_. True)\<rparr>"

text \<open>
  The input direction: whatever the shim's goroutines send, in any order, the broker hands the
  command the same standard input bytes, the same signals and, for the descriptors of the
  request, the same descriptor data, in the order they were sent; nothing is taken for another
  stream.
\<close>

fun brokerSees :: "uint32 set \<Rightarrow> shimSend \<Rightarrow> brokerEffect list" where
  "brokerSees fds (SendStdin d) = (if d = [] then [] else [ToStdin d])"
| "brokerSees fds (SendSignal sig) = [ToSignals sig]"
| "brokerSees fds (SendFD fd d) = (if fd \<in> fds \<and> d \<noteq> [] then [ToFD fd d] else [])"

lemma readFrames_send:
  "readFrames (\<lambda>_. True) fds n (map sendFrame xs) = concat (map (brokerSees fds) xs)"
proof (induction xs arbitrary: n)
  case (Cons x xs)
  then show ?case by (cases x) (simp_all add: streamFrame_def signalFrame_def Sscanf_showNat)
qed simp

end
