(* ===== verification/ChildProc.thy ===== *)
theory ChildProc
  imports SshRunner
begin

text \<open>
  \<open>pkg/childproc\<close> on Unix: the command the agent starts. The environment of the agent and the
  system calls that create pipes and socket pairs are parameters. An out-of-range index, which is
  a run-time panic, is an error of its own.
\<close>

section \<open>Definitions\<close>

record Spec =
  sp_Path :: string
  sp_Argv :: "string list"
  sp_Env :: "string list"
  sp_Cwd :: string
  sp_ExtraFDs :: "uint32 list"
  sp_DropSudo :: bool

text \<open>\<open>exec.Cmd\<close>: an extra file is named by the descriptor number whose socket it is.\<close>

record Cmd =
  cmd_Path :: string
  cmd_Args :: "string list"
  cmd_Dir :: string
  cmd_Env :: "string list"
  cmd_Setpgid :: bool
  cmd_Credential :: "(uint32 \<times> uint32) option"
  cmd_ExtraFiles :: "uint32 option list"

datatype build_error =
    InvalidSudoUID string | InvalidSudoGID string | StdPipesFailed | SocketpairFailed uint32 | IndexPanic uint32

definition newCmd :: "Spec \<Rightarrow> Cmd" where
  "newCmd spec =
     \<lparr>cmd_Path = sp_Path spec,
      cmd_Args = (if length (sp_Argv spec) \<le> 1 then [sp_Path spec] else sp_Path spec # drop 1 (sp_Argv spec)),
      cmd_Dir = sp_Cwd spec, cmd_Env = sp_Env spec, cmd_Setpgid = False, cmd_Credential = None, cmd_ExtraFiles = []\<rparr>"

text \<open>The agent's own environment (an unset variable reads as empty) and what the system calls return.\<close>

record procHost =
  ph_Getenv :: "string \<Rightarrow> string"
  ph_StdPipes :: bool
  ph_Socketpair :: "uint32 \<Rightarrow> bool"

definition sudoCredential :: "procHost \<Rightarrow> (build_error, (uint32 \<times> uint32) option) result" where
  "sudoCredential h =
     (let sudoUID = ph_Getenv h ''SUDO_UID'' in
      if sudoUID = [] then Inr None
      else case ParseUint32 sudoUID of
        None \<Rightarrow> Inl (InvalidSudoUID sudoUID)
      | Some uid \<Rightarrow>
          (let sudoGID = ph_Getenv h ''SUDO_GID'' in
           if sudoGID = [] then Inr (Some (uid, uid))
           else case ParseUint32 sudoGID of
             None \<Rightarrow> Inl (InvalidSudoGID sudoGID)
           | Some g \<Rightarrow> Inr (Some (uid, g))))"

fun extraFiles :: "procHost \<Rightarrow> uint32 list \<Rightarrow> uint32 option list \<Rightarrow> (build_error, uint32 option list) result" where
  "extraFiles h [] files = Inr files"
| "extraFiles h (fdNum # fds) files =
     (if \<not> ph_Socketpair h fdNum then Inl (SocketpairFailed fdNum)
      else let idx = int (unat fdNum) - 3;
               files = files @ replicate (nat (idx + 1 - int (length files))) None
           in if idx < 0 then Inl (IndexPanic fdNum)
              else extraFiles h fds (files[nat idx := Some fdNum]))"

definition Build :: "procHost \<Rightarrow> Spec \<Rightarrow> (build_error, Cmd) result" where
  "Build h spec =
     bindR (if sp_DropSudo spec then sudoCredential h else Inr None) (\<lambda>cred.
     bindR (failIf (\<not> ph_StdPipes h) StdPipesFailed) (\<lambda>_.
     bindR (extraFiles h (sp_ExtraFDs spec) []) (\<lambda>files.
     Inr ((newCmd spec)\<lparr>cmd_Setpgid := True, cmd_Credential := cred, cmd_ExtraFiles := files\<rparr>))))"

section \<open>Lemmas\<close>

text \<open>Descriptor \<open>n\<close> of the child is the extra file at index \<open>n - 3\<close>.\<close>

definition childFD :: "uint32 option list \<Rightarrow> uint32 \<Rightarrow> uint32 option" where
  "childFD files n = (if 3 \<le> unat n \<and> unat n - 3 < length files then files ! (unat n - 3) else None)"

lemma childFD_update:
  assumes "3 \<le> unat m" and "files' = files @ replicate (nat (int (unat m) - 3 + 1 - int (length files))) None"
  shows "childFD (files'[unat m - 3 := Some m]) n = (if n = m then Some m else childFD files n)"
proof -
  have len: "length files' = max (length files) (unat m - 2)" using assms by (simp del: of_nat_unat)
  have nth: "files' ! i = (if i < length files then files ! i else None)" if "i < length files'" for i
    using that assms(2) by (auto simp: nth_append)
  show ?thesis
  proof (cases "n = m")
    case True
    have "unat m - 3 < length files'" using len assms(1) by simp
    then show ?thesis using True assms(1) by (simp add: childFD_def)
  next
    case False
    then have "unat n \<noteq> unat m" by (simp add: word_unat_eq_iff)
    then have "unat n - 3 \<noteq> unat m - 3" if "3 \<le> unat n" using that assms(1) by linarith
    then show ?thesis using False len nth [of "unat n - 3"] by (auto simp: childFD_def)
  qed
qed

lemma extraFiles_ok:
  "\<forall>n\<in>set fds. 3 \<le> unat n \<and> ph_Socketpair h n \<Longrightarrow>
     \<exists>out. extraFiles h fds files = Inr out \<and>
       (\<forall>n. childFD out n = (if n \<in> set fds then Some n else childFD files n))"
proof (induction fds arbitrary: files)
  case (Cons m fds)
  let ?f = "(files @ replicate (nat (int (unat m) - 3 + 1 - int (length files))) None)[unat m - 3 := Some m]"
  have m: "3 \<le> unat m" "ph_Socketpair h m" using Cons.prems by auto
  obtain out where out: "extraFiles h fds ?f = Inr out"
    "\<forall>n. childFD out n = (if n \<in> set fds then Some n else childFD ?f n)" using Cons by force
  have "nat (int (unat m) - 3) = unat m - 3" using m(1) by (simp del: of_nat_unat)
  then have "extraFiles h (m # fds) files = Inr out" using m out(1) by (simp add: Let_def del: of_nat_unat)
  then show ?case using out(2) childFD_update [OF m(1) refl] by auto
qed simp

lemma extraFiles_panic:
  "extraFiles h fds files = Inl (IndexPanic n) \<Longrightarrow> n \<in> set fds \<and> unat n < 3"
  by (induction h fds files rule: extraFiles.induct) 
    (auto simp: Let_def simp del: of_nat_unat split: if_splits)

end
