(* ===== verification/Agent.thy ===== *)
theory Agent
  imports Mux PathStub ChildProc EnvFilter Pump
begin

text \<open>
  \<open>cmd/mproxy-agent/main.go\<close> and \<open>pkg/remoteexec/agent_runner.go\<close>: the agent that runs on the
  remote host and the runner that starts it and reads its frames. The output of a command is the
  bridge of theory \<open>Pump\<close> over the protocol's frames. The optional session recording is not
  modelled.
\<close>

section \<open>The agent: initial frames\<close>

text \<open>What the agent does, decided by the first one or two frames; \<^const>\<open>None\<close> is a decode error.\<close>

datatype agentMode =
    AgentFail
  | Enumerate "string list"
  | ServeFiles "FileOpReq option"
  | RunExec ExecMsg

definition agentDecide :: "'re engine \<Rightarrow> Frame option \<Rightarrow> Frame option \<Rightarrow> agentMode" where
  "agentDecide eng first second =
     (case first of
        None \<Rightarrow> AgentFail
      | Some f1 \<Rightarrow>
      let agentCfg = (if fr_Type f1 = FrameConfig then fr_Config f1 else None) in
      case (if agentCfg = None then Some f1 else second) of
        None \<Rightarrow> AgentFail
      | Some f \<Rightarrow>
          if fr_Type f = FramePathQuery then Enumerate (case fr_Query f of None \<Rightarrow> [] | Some q \<Rightarrow> pq_Paths q)
          else if fr_Type f = FrameFileOp then ServeFiles (fr_FileOp f)
          else if fr_Type f \<noteq> FrameExec then AgentFail
          else case fr_Exec f of
            None \<Rightarrow> AgentFail
          | Some x \<Rightarrow>
              RunExec (case agentCfg of None \<Rightarrow> x
                | Some c \<Rightarrow> x\<lparr>em_Env := Filter eng (em_Env x) (ac_EnvKeep c) (ac_EnvRemove c)\<rparr>))"

definition agentSpec :: "ExecMsg \<Rightarrow> Spec" where
  "agentSpec x = \<lparr>sp_Path = em_Path x, sp_Argv = em_Argv x, sp_Env = em_Env x, sp_Cwd = em_Cwd x,
     sp_ExtraFDs = em_ExtraFDs x, sp_DropSudo = True\<rparr>"

text \<open>PATH enumeration: one frame.\<close>

definition pathInfoFrame :: "PathInfoEntry list \<Rightarrow> Frame" where
  "pathInfoFrame entries = emptyFrame\<lparr>fr_Type := FramePathInfo, fr_Info := Some \<lparr>pi_Entries = entries\<rparr>\<rparr>"

definition agentEnumerate :: "dirs \<Rightarrow> string list \<Rightarrow> Frame" where
  "agentEnumerate D paths = pathInfoFrame (EnumerateLocally D paths)"

text \<open>File service: the first request is answered at once, the rest by the read loop.\<close>

definition fileMux :: "('o, 'f) os \<Rightarrow> ('f FileOpServer \<times> 'o) Mux" where
  "fileMux OS = OnFileOp NewMux (\<lambda>(srv, s) req. let (resp, srv', s') = Handle OS srv s req in (Some resp, (srv', s')))"

definition agentServeFiles ::
  "('o, 'f) os \<Rightarrow> 'o \<Rightarrow> FileOpReq option \<Rightarrow> loopInput list \<Rightarrow> Frame list \<times> 'f FileOpServer \<times> 'o" where
  "agentServeFiles OS s first ins =
     (let (sent, srv, s) = (case first of
            None \<Rightarrow> ([], NewFileOpServer, s)
          | Some req \<Rightarrow> (let (resp, srv, s) = Handle OS NewFileOpServer s req
                        in ([respFrame (resp\<lparr>rs_ReqID := rq_ReqID req\<rparr>)], srv, s)));
          (evs, (srv, s), code, e) = ReadLoop (fileMux OS) (srv, s) ins
      in (sent @ List.map_filter (\<lambda>ev. case ev of SendFrame f \<Rightarrow> Some f | _ \<Rightarrow> None) evs, srv, s))"

section \<open>The agent: running a command\<close>

definition agentExitFrame :: "int \<times> string \<Rightarrow> Frame" where
  "agentExitFrame r = emptyFrame\<lparr>fr_Type := FrameExit, fr_Code := fst r, fr_Error := snd r\<rparr>"

definition agentFraming :: "(uint32, Frame) framing" where
  "agentFraming = \<lparr>mkData = dataFrame, mkEOF = (\<lambda>i. [eofFrame i]), mkExit = agentExitFrame\<rparr>"

text \<open>The log frames that the agent's other goroutines send in between.\<close>

definition isLogFrame :: "Frame \<Rightarrow> bool" where
  "isLogFrame f \<longleftrightarrow> fr_Type f = FrameLog"

definition agentStreams :: "ExecMsg \<Rightarrow> uint32 set" where
  "agentStreams x = {1, 2} \<union> set (em_ExtraFDs x)"

text \<open>
  What the agent may have sent for an exec message: a failed build or start gives one exit frame
  with code 127; otherwise the streams are bridged until the exit frame with the child's code.
\<close>

definition agentExec ::
  "procHost \<Rightarrow> (Cmd \<Rightarrow> string option) \<Rightarrow> ExecMsg \<Rightarrow> int \<Rightarrow> (uint32, Frame) bridge \<Rightarrow> bool" where
  "agentExec h start x code s =
     (case Build h (agentSpec x) of
        Inl err \<Rightarrow> \<exists>msg logs. list_all isLogFrame logs \<and>
          s = bridgeInit\<lparr>br_wire := logs @ [agentExitFrame (127, msg)], br_exited := True\<rparr>
      | Inr cmd \<Rightarrow>
          (case start cmd of
             Some msg \<Rightarrow> \<exists>logs. list_all isLogFrame logs \<and>
               s = bridgeInit\<lparr>br_wire := logs @ [agentExitFrame (127, msg)], br_exited := True\<rparr>
           | None \<Rightarrow> bridged agentFraming (agentStreams x) isLogFrame (code, []) s))"

text \<open>
  \<open>terminateChildGroup\<close>: the signals sent, given the code if the child ends within the grace
  period and the code it ends with at last.
\<close>

definition terminateChildGroup :: "int option \<Rightarrow> int \<Rightarrow> int list \<times> int" where
  "terminateChildGroup inGrace final =
     (case inGrace of Some code \<Rightarrow> ([15], code) | None \<Rightarrow> ([15, 9], final))"

section \<open>The runner\<close>

definition execMsg :: "Request \<Rightarrow> ExecMsg" where
  "execMsg req = \<lparr>em_Path = req_Path req, em_Argv = req_Argv req, em_Env = req_Env req, em_Cwd = req_Cwd req,
     em_ExtraFDs = req_ExtraFDs req\<rparr>"

definition configFrame :: "AgentConfigMsg \<Rightarrow> Frame" where
  "configFrame c = emptyFrame\<lparr>fr_Type := FrameConfig, fr_Config := Some c\<rparr>"

definition execFrame :: "ExecMsg \<Rightarrow> Frame" where
  "execFrame x = emptyFrame\<lparr>fr_Type := FrameExec, fr_Exec := Some x\<rparr>"

definition queryFrame :: "string list \<Rightarrow> Frame" where
  "queryFrame paths = emptyFrame\<lparr>fr_Type := FramePathQuery, fr_Query := Some \<lparr>pq_Paths = paths\<rparr>\<rparr>"

text \<open>
  The runner's surroundings: a nil provider or transferer is \<^const>\<open>None\<close>; \<open>ah_Send n\<close> is the error
  of the \<open>n\<close>-th frame sent, if any.
\<close>

record runnerHost =
  ah_Provider :: "session option"
  ah_Ensure :: "(string + string) option"
  ah_Config :: "AgentConfigMsg option"
  ah_Send :: "nat \<Rightarrow> string option"

text \<open>The common opening of both exchanges, up to the started agent; \<^const>\<open>Inl\<close> is the error.\<close>

definition openAgent :: "runnerHost \<Rightarrow> (string, unit) result" where
  "openAgent h =
     (case ah_Provider h of None \<Rightarrow> Inl ''agent runner provider is nil'' | Some S \<Rightarrow>
      case ah_Ensure h of None \<Rightarrow> Inl ''agent runner transferer is nil'' | Some r \<Rightarrow>
      case r of Inl err \<Rightarrow> Inl (''ensure agent binary: '' @ err) | Inr agentPath \<Rightarrow>
      case ses_New S of Some err \<Rightarrow> Inl err | None \<Rightarrow>
      case ses_StdinPipe S of Some err \<Rightarrow> Inl err | None \<Rightarrow>
      case ses_StdoutPipe S of Some err \<Rightarrow> Inl err | None \<Rightarrow>
      case ses_StderrPipe S of Some err \<Rightarrow> Inl err | None \<Rightarrow>
      case ses_Start S (shellQuote agentPath) of Some err \<Rightarrow> Inl (''start agent: '' @ err) | None \<Rightarrow> Inr ())"

text \<open>The configuration, when there is one, and then the request: the frames sent and the error.\<close>

definition sendRequest :: "runnerHost \<Rightarrow> string \<Rightarrow> Frame \<Rightarrow> Frame list \<times> string option" where
  "sendRequest h what f =
     (case ah_Config h of
        None \<Rightarrow> (case ah_Send h 0 of Some err \<Rightarrow> ([], Some (what @ err)) | None \<Rightarrow> ([f], None))
      | Some c \<Rightarrow>
          (case ah_Send h 0 of Some err \<Rightarrow> ([], Some (''send config frame: '' @ err))
           | None \<Rightarrow> (case ah_Send h 1 of Some err \<Rightarrow> ([configFrame c], Some (what @ err)) | None \<Rightarrow> ([configFrame c, f], None))))"

abbreviation sendExec :: string where "sendExec \<equiv> ''send exec frame: ''"
abbreviation sendQuery :: string where "sendQuery \<equiv> ''send path query: ''"

text \<open>The multiplexer of a command: the standard outputs and the extra descriptors, and agent logs.\<close>

definition runnerMux :: "uint32 list \<Rightarrow> unit Mux" where
  "runnerMux fds = foldl RegisterStream (OnLog NewMux) (1 # 2 # fds)"

text \<open>
  \<open>RunWithControl\<close>: the frames sent, what the read loop did with the input, and the result. The
  descriptors of the control are those of the request, as the broker builds them.
\<close>

definition RunWithControl ::
  "runnerHost \<Rightarrow> Request \<Rightarrow> loopInput list \<Rightarrow> Frame list \<times> muxEvent list \<times> int \<times> string option" where
  "RunWithControl h req ins =
     (case openAgent h of
        Inl err \<Rightarrow> ([], [], 127, Some err)
      | Inr _ \<Rightarrow>
          (case sendRequest h sendExec (execFrame (execMsg req)) of
             (sent, Some err) \<Rightarrow> (sent, [], 127, Some err)
           | (sent, None) \<Rightarrow>
               (let (evs, _, exitCode, e) = ReadLoop (runnerMux (req_ExtraFDs req)) () ins;
                    muxErr = (case e of ExitFrame \<Rightarrow> None | Cancelled \<Rightarrow> Some ''context canceled'' | _ \<Rightarrow> Some ''read error'')
                in if muxErr \<noteq> None \<and> exitCode < 0 then (sent, evs, 127, muxErr) else (sent, evs, exitCode, None))))"

text \<open>\<open>EnumeratePaths\<close>: the loop that waits for the result; the end of the list is a decode error.\<close>

fun enumLoop :: "loopInput list \<Rightarrow> string + PathInfoEntry list" where
  "enumLoop [] = Inl ''read path info''"
| "enumLoop (CtxDone # ins) = Inl ''context canceled''"
| "enumLoop (DecodeErr # ins) = Inl ''read path info''"
| "enumLoop (Got f # ins) =
     (if fr_Type f = FramePathInfo then Inr (case fr_Info f of None \<Rightarrow> [] | Some i \<Rightarrow> pi_Entries i)
      else if fr_Type f = FrameError then Inl (''agent error: '' @ fr_Error f)
      else enumLoop ins)"

definition EnumeratePaths :: "runnerHost \<Rightarrow> string list \<Rightarrow> loopInput list \<Rightarrow> Frame list \<times> (string + PathInfoEntry list)" where
  "EnumeratePaths h paths ins =
     (case openAgent h of
        Inl err \<Rightarrow> ([], Inl err)
      | Inr _ \<Rightarrow>
          (case sendRequest h sendQuery (queryFrame paths) of
             (sent, Some err) \<Rightarrow> (sent, Inl err) | (sent, None) \<Rightarrow> (sent, enumLoop ins)))"

section \<open>Lemmas\<close>

definition agentPayload :: "uint32 \<Rightarrow> Frame \<Rightarrow> bytes" where
  "agentPayload i f = (if fr_Type f = FrameData \<and> fr_Stream f = i then fr_Data f else [])"

definition agentExit :: "Frame \<Rightarrow> bool" where
  "agentExit f \<longleftrightarrow> fr_Type f = FrameExit"

interpretation af: bridge_frames agentFraming I isLogFrame agentPayload agentExit
  for I
  by unfold_locales
    (auto simp: agentFraming_def agentPayload_def agentExit_def isLogFrame_def dataFrame_def eofFrame_def
      agentExitFrame_def FrameType_defs)

text \<open>The data a read loop wrote to one stream.\<close>

fun writtenTo :: "uint32 \<Rightarrow> muxEvent \<Rightarrow> bytes" where
  "writtenTo i (StreamWrite j d) = (if i = j then d else [])"
| "writtenTo i e = []"

abbreviation streamData :: "uint32 \<Rightarrow> muxEvent list \<Rightarrow> bytes" where
  "streamData i evs \<equiv> concat (map (writtenTo i) evs)"

lemma dispatch_data: "i \<in> mx_streams m \<Longrightarrow> streamData i (fst (dispatch m h f)) = agentPayload i f"
  by (auto simp: dispatch_def Let_def agentPayload_def FrameType_defs split: option.splits prod.splits)

lemma ReadLoop_data:
  "i \<in> mx_streams m \<Longrightarrow> streamData i (fst (ReadLoop m h (map Got fs))) = af.received i fs"
proof (induction fs arbitrary: h)
  case (Cons f fs)
  obtain evs h' e where d: "dispatch m h f = (evs, h', e)" by (metis prod_cases3)
  obtain evs' h'' c en where rl: "ReadLoop m h' (map Got fs) = (evs', h'', c, en)" by (metis prod_cases4)
  have e: "e = (if agentExit f then Some (fr_Code f) else None)" using dispatch_exit [of m h f] d by (simp add: agentExit_def)
  have f: "streamData i evs = agentPayload i f" using dispatch_data [OF Cons.prems, of h f] d by simp
  have "agentExit f \<Longrightarrow> agentPayload i f = []" by (auto simp: agentExit_def agentPayload_def FrameType_defs)
  then show ?case
    using Cons.IH [OF Cons.prems, of h'] d rl e f by (auto simp: af.received_def af.upToExit_def)
qed (simp add: af.received_def af.upToExit_def)

lemma ReadLoop_code:
  assumes "fs = af.upToExit fs @ agentExitFrame r # post"
  shows "snd (snd (ReadLoop m h (map Got fs))) = (fst r, ExitFrame)"
proof -
  have "snd (snd (ReadLoop m h (map Got pre @ Got (agentExitFrame r) # rest))) = (fst r, ExitFrame)"
    if "\<forall>f\<in>set pre. fr_Type f \<noteq> FrameExit" for pre rest h
    using that
  proof (induction pre arbitrary: h)
    case Nil
    obtain evs h' e where "dispatch m h (agentExitFrame r) = (evs, h', e)" by (metis prod_cases3)
    then show ?case using dispatch_exit [of m h "agentExitFrame r"] by (simp add: agentExitFrame_def)
  next
    case (Cons f pre)
    obtain evs h' e where d: "dispatch m h f = (evs, h', e)" by (metis prod_cases3)
    then have "e = None" using dispatch_exit [of m h f] Cons.prems by simp
    moreover have "\<forall>f\<in>set pre. fr_Type f \<noteq> FrameExit" using Cons.prems by simp
    ultimately show ?case using d Cons.IH [of h'] by (auto simp: case_prod_beta)
  qed
  moreover have "\<forall>f\<in>set (af.upToExit fs). fr_Type f \<noteq> FrameExit"
    by (auto simp: af.upToExit_def agentExit_def dest: set_takeWhileD)
  ultimately have "snd (snd (ReadLoop m h (map Got (af.upToExit fs) @ Got (agentExitFrame r) # map Got post))) = (fst r, ExitFrame)"
    by blast
  then show ?thesis using assms by (metis list.simps(9) map_append)
qed

lemma streams_RegisterStream: "mx_streams (foldl RegisterStream m is) = mx_streams m \<union> set is"
  by (induction "is" arbitrary: m) (auto simp: RegisterStream_def)

lemma runnerMux_streams: "mx_streams (runnerMux fds) = {1, 2} \<union> set fds"
  by (auto simp: runnerMux_def RegisterStream_def OnLog_def NewMux_def streams_RegisterStream)

lemma bridged_ReadLoop:
  assumes "bridged agentFraming I isLogFrame r s" "br_exited s" "I \<subseteq> mx_streams m"
  shows "snd (snd (ReadLoop m h (map Got (br_wire s)))) = (fst r, ExitFrame) \<and>
    (\<forall>i\<in>I. streamData i (fst (ReadLoop m h (map Got (br_wire s)))) = br_read s i)"
proof -
  note d = af.delivered [OF assms(1,2)]
  obtain post where "br_wire s = af.upToExit (br_wire s) @ agentExitFrame r # post"
    using d by (auto simp: agentFraming_def)
  then have "snd (snd (ReadLoop m h (map Got (br_wire s)))) = (fst r, ExitFrame)" by (rule ReadLoop_code)
  moreover have "streamData i (fst (ReadLoop m h (map Got (br_wire s)))) = br_read s i" if "i \<in> I" for i
    using ReadLoop_data [of i m h "br_wire s"] assms(3) d that by auto
  ultimately show ?thesis by blast
qed

text \<open>The exit code an exec message ends with.\<close>

definition execCode :: "procHost \<Rightarrow> (Cmd \<Rightarrow> string option) \<Rightarrow> ExecMsg \<Rightarrow> int \<Rightarrow> int" where
  "execCode h start x code =
     (case Build h (agentSpec x) of Inl _ \<Rightarrow> 127 | Inr cmd \<Rightarrow> if start cmd = None then code else 127)"

lemma failed_ReadLoop:
  assumes "list_all isLogFrame logs"
  shows "snd (snd (ReadLoop m h (map Got (logs @ [agentExitFrame r])))) = (fst r, ExitFrame) \<and>
    (i \<in> mx_streams m \<longrightarrow> streamData i (fst (ReadLoop m h (map Got (logs @ [agentExitFrame r])))) = [])"
proof -
  have l: "\<forall>f\<in>set logs. \<not> agentExit f \<and> agentPayload i f = []"
    using assms by (auto simp: list_all_iff isLogFrame_def agentExit_def agentPayload_def FrameType_defs)
  then have u: "af.upToExit (logs @ [agentExitFrame r]) = logs"
    by (auto simp: af.upToExit_def takeWhile_append2 agentExit_def agentExitFrame_def)
  then have "snd (snd (ReadLoop m h (map Got (logs @ [agentExitFrame r])))) = (fst r, ExitFrame)"
    by (intro ReadLoop_code [where post = "[]"]) simp
  moreover have "i \<in> mx_streams m \<longrightarrow> streamData i (fst (ReadLoop m h (map Got (logs @ [agentExitFrame r])))) = []"
    using ReadLoop_data [of i m h "logs @ [agentExitFrame r]"] u l by (auto simp: af.received_def)
  ultimately show ?thesis by blast
qed

lemma agentExec_ReadLoop:
  assumes "agentExec h start x code s" "br_exited s" "agentStreams x \<subseteq> mx_streams m"
  shows "snd (snd (ReadLoop m st (map Got (br_wire s)))) = (execCode h start x code, ExitFrame) \<and>
    (\<forall>i\<in>agentStreams x. streamData i (fst (ReadLoop m st (map Got (br_wire s)))) = br_read s i)"
proof (cases "\<exists>cmd. Build h (agentSpec x) = Inr cmd \<and> start cmd = None")
  case True
  then have "bridged agentFraming (agentStreams x) isLogFrame (code, []) s" "execCode h start x code = code"
    using assms(1) by (auto simp: agentExec_def execCode_def)
  then show ?thesis using bridged_ReadLoop [of "agentStreams x" "(code, [])" s m st] assms(2,3) by auto
next
  case False
  then obtain logs msg where l: "list_all isLogFrame logs"
    "s = bridgeInit\<lparr>br_wire := logs @ [agentExitFrame (127, msg)], br_exited := True\<rparr>"
    using assms(1) by (auto simp: agentExec_def split: sum.splits option.splits)
  moreover have "execCode h start x code = 127" using False by (auto simp: execCode_def split: sum.splits)
  ultimately show ?thesis
    using failed_ReadLoop [OF l(1), of m st "(127, msg)"] assms(3) by (auto simp: bridgeInit_def)
qed

section \<open>Properties\<close>

text \<open>
  The runner reports what the remote command did: once the agent's frames have arrived up to
  its exit frame, in whatever order the agent's goroutines and its log interleaved, the runner
  returns without an error the child's exit code, or 127 when the command could not be built or
  started, and it has written to each output exactly the bytes the agent read from that stream
  of the child.
\<close>

lemma runner_reports_command:
  assumes "agentExec p start x code s" "br_exited s" "em_ExtraFDs x = req_ExtraFDs req"
    and "openAgent h = Inr ()" "sendRequest h sendExec (execFrame (execMsg req)) = (sent, None)"
  shows "\<exists>evs. RunWithControl h req (map Got (br_wire s)) = (sent, evs, execCode p start x code, None) \<and>
    (\<forall>i\<in>{1, 2} \<union> set (req_ExtraFDs req). streamData i evs = br_read s i)"
proof -
  let ?m = "runnerMux (req_ExtraFDs req)"
  obtain evs u c e where rl: "ReadLoop ?m () (map Got (br_wire s)) = (evs, u, c, e)" by (metis prod_cases4)
  have a: "agentStreams x = {1, 2} \<union> set (req_ExtraFDs req)" using assms(3) by (simp add: agentStreams_def)
  have "(c, e) = (execCode p start x code, ExitFrame) \<and> (\<forall>i\<in>agentStreams x. streamData i evs = br_read s i)"
    using agentExec_ReadLoop [OF assms(1,2), of ?m "()"] rl a by (auto simp: runnerMux_streams)
  then show ?thesis using rl a assms(4,5) by (simp add: RunWithControl_def)
qed

definition exampleSession :: session where
  "exampleSession = \<lparr>ses_New = None, ses_StdinPipe = None, ses_StdoutPipe = None, ses_StderrPipe = None,
     ses_Start = (\<lambda>_. None), ses_Wait = WaitOK\<rparr>"

definition exampleRunner :: runnerHost where
  "exampleRunner = \<lparr>ah_Provider = Some exampleSession, ah_Ensure = Some (Inr ''/agent''), ah_Config = None, ah_Send = (\<lambda>_. None)\<rparr>"

definition exampleProc :: procHost where
  "exampleProc = \<lparr>ph_Getenv = (\<lambda>_. []), ph_StdPipes = True, ph_Socketpair = (\<lambda>_. True)\<rparr>"

section \<open>Requests reach the agent\<close>

definition nthFrame :: "Frame list \<Rightarrow> nat \<Rightarrow> Frame option" where
  "nthFrame fs i = (if i < length fs then Some (fs ! i) else None)"

lemma sendRequest_sent:
  "sendRequest h what f = (sent, None) \<Longrightarrow> sent = (case ah_Config h of None \<Rightarrow> [f] | Some c \<Rightarrow> [configFrame c, f])"
  by (auto simp: sendRequest_def split: option.splits)

lemma exec_reaches_agent:
  "sendRequest h what (execFrame x) = (sent, None) \<Longrightarrow> agentDecide eng (nthFrame sent 0) (nthFrame sent 1) =
     RunExec (case ah_Config h of None \<Rightarrow> x | Some c \<Rightarrow> x\<lparr>em_Env := Filter eng (em_Env x) (ac_EnvKeep c) (ac_EnvRemove c)\<rparr>)"
  by (drule sendRequest_sent, cases "ah_Config h")
    (simp_all add: nthFrame_def agentDecide_def Let_def execFrame_def configFrame_def FrameType_defs)

lemma query_reaches_agent:
  "sendRequest h what (queryFrame paths) = (sent, None) \<Longrightarrow> agentDecide eng (nthFrame sent 0) (nthFrame sent 1) = Enumerate paths"
  by (drule sendRequest_sent, cases "ah_Config h")
    (simp_all add: nthFrame_def agentDecide_def Let_def queryFrame_def configFrame_def FrameType_defs)

lemma enumLoop_logs: "list_all isLogFrame logs \<Longrightarrow> enumLoop (map Got logs @ ins) = enumLoop ins"
  by (induction logs) (auto simp: isLogFrame_def FrameType_defs)

text \<open>
  C30. PATH enumeration, from the request to the stub table: the query that the runner sends makes
  the agent enumerate exactly the requested directories, and whatever log frames come first, the
  runner returns for every name what PATH lookup on the remote host finds.
\<close>

theorem enumeration_roundtrip:
  assumes "openAgent h = Inr ()" "sendRequest h sendQuery (queryFrame paths) = (sent, None)" "list_all isLogFrame logs"
  shows "agentDecide eng (nthFrame sent 0) (nthFrame sent 1) = Enumerate paths \<and>
    (\<exists>entries. EnumeratePaths h paths (map Got logs @ Got (agentEnumerate D paths) # ins) = (sent, Inr entries) \<and>
      distinct (map pi_Name entries) \<and> (\<forall>name. byName name entries = pathLookup D (searchPath D paths) name))"
proof -
  have "EnumeratePaths h paths (map Got logs @ Got (agentEnumerate D paths) # ins) = (sent, Inr (EnumerateLocally D paths))"
    using assms by (simp add: EnumeratePaths_def enumLoop_logs agentEnumerate_def pathInfoFrame_def)
  moreover have "distinct (map pi_Name (EnumerateLocally D paths))"
    using enumDirs_fresh by (simp add: EnumerateLocally_def)
  ultimately show ?thesis using query_reaches_agent [OF assms(2)] EnumerateLocally_byName by blast
qed

definition exampleDirs :: dirs where
  "exampleDirs = \<lparr>ReadDirNames = (\<lambda>_. None), StatPath = (\<lambda>_. None), PathEnv = ''/bin''\<rparr>"

theorem enumeration_roundtrip_witness:
  "EnumeratePaths exampleRunner [] [Got (agentEnumerate exampleDirs [])] = ([queryFrame []], Inr [])"
proof -
  have q: "sendRequest exampleRunner sendQuery (queryFrame []) = ([queryFrame []], None)" "openAgent exampleRunner = Inr ()"
    by (simp_all add: sendRequest_def openAgent_def exampleRunner_def exampleSession_def)
  obtain entries where e: "EnumeratePaths exampleRunner [] [Got (agentEnumerate exampleDirs [])] = ([queryFrame []], Inr entries)"
    "\<forall>name. byName name entries = pathLookup exampleDirs (searchPath exampleDirs []) name"
    using enumeration_roundtrip [OF q(2,1), of "[]" litEngine exampleDirs "[]"] by auto
  have "byName (pi_Name (hd entries)) entries = None"
    unfolding e(2) [rule_format] by (simp add: searchPath_def exampleDirs_def splitPath_def Split_no_occ)
  then have "entries = []" by (cases entries) simp_all
  with e(1) show ?thesis by simp
qed

section \<open>The file service\<close>

definition fileFrame :: "FileOpReq \<Rightarrow> Frame" where
  "fileFrame req = emptyFrame\<lparr>fr_Type := FrameFileOp, fr_FileOp := Some req\<rparr>"

definition answer :: "FileOpReq \<Rightarrow> FileOpResp \<Rightarrow> Frame" where
  "answer req resp = respFrame (resp\<lparr>rs_ReqID := rq_ReqID req\<rparr>)"

abbreviation framesSent :: "muxEvent list \<Rightarrow> Frame list" where
  "framesSent evs \<equiv> List.map_filter (\<lambda>ev. case ev of SendFrame f \<Rightarrow> Some f | _ \<Rightarrow> None) evs"

lemma dispatch_file:
  "dispatch (fileMux OS) (srv, s) (fileFrame req) =
     (let (resp, srv', s') = Handle OS srv s req in ([SendFrame (answer req resp)], (srv', s'), None))"
  by (simp add: dispatch_def fileMux_def OnFileOp_def fileFrame_def answer_def FrameType_defs split: prod.split)

lemma ReadLoop_files:
  "HandleAll OS srv s reqs = (resps, srv', s') \<Longrightarrow>
   \<exists>evs. ReadLoop (fileMux OS) (srv, s) (map (\<lambda>r. Got (fileFrame r)) reqs @ [DecodeErr]) = (evs, (srv', s'), -1, Failed) \<and>
     framesSent evs = map2 answer reqs resps"
proof (induction reqs arbitrary: srv s resps)
  case (Cons req reqs)
  obtain resp srv1 s1 where h: "Handle OS srv s req = (resp, srv1, s1)" by (metis prod_cases3)
  obtain resps' where r: "HandleAll OS srv1 s1 reqs = (resps', srv', s')" "resps = resp # resps'"
    using Cons.prems h by (auto split: prod.splits)
  from Cons.IH [OF r(1)] obtain evs where
    "ReadLoop (fileMux OS) (srv1, s1) (map (\<lambda>r. Got (fileFrame r)) reqs @ [DecodeErr]) = (evs, (srv', s'), -1, Failed)"
    "framesSent evs = map2 answer reqs resps'" by blast
  then show ?case using h r(2) by (simp add: dispatch_file map_filter_simps)
qed (simp add: map_filter_simps)

text \<open>
  C29. The agent's file service refines the file-operation server: a client that sends requests one
  after the other until it closes the connection gets back exactly the responses of the server
  run on that sequence, one frame per request, in order, each with the request's own id; and the
  server ends in the state of that run.
\<close>

theorem file_service_refines:
  assumes "HandleAll OS NewFileOpServer s (req # reqs) = (resps, srv', s')"
  shows "agentServeFiles OS s (Some req) (map (\<lambda>r. Got (fileFrame r)) reqs @ [DecodeErr]) = (map2 answer (req # reqs) resps, srv', s')"
proof -
  obtain resp srv1 s1 where h: "Handle OS NewFileOpServer s req = (resp, srv1, s1)" by (metis prod_cases3)
  obtain resps' where r: "HandleAll OS srv1 s1 reqs = (resps', srv', s')" "resps = resp # resps'"
    using assms h by (auto split: prod.splits)
  obtain evs where "ReadLoop (fileMux OS) (srv1, s1) (map (\<lambda>r. Got (fileFrame r)) reqs @ [DecodeErr]) = (evs, (srv', s'), -1, Failed)"
    "framesSent evs = map2 answer reqs resps'" using ReadLoop_files [OF r(1)] by blast
  then show ?thesis using h r(2) by (simp add: agentServeFiles_def answer_def)
qed

theorem file_service_refines_witness:
  "\<exists>srv'. agentServeFiles exampleOS () (Some (exampleReq (FileOpUnknown 99) 0)) [DecodeErr] =
     ([answer (exampleReq (FileOpUnknown 99) 0) (emptyResp\<lparr>rs_Errno := ENOSYS, rs_ErrMsg := ''unknown file op''\<rparr>)], srv', ())"
proof -
  have "HandleAll exampleOS NewFileOpServer () [exampleReq (FileOpUnknown 99) 0] =
      ([emptyResp\<lparr>rs_Errno := ENOSYS, rs_ErrMsg := ''unknown file op''\<rparr>], NewFileOpServer, ())"
    by (simp add: Handle_def exampleReq_def)
  from file_service_refines [OF this] show ?thesis by simp
qed

end
