(* ===== verification/Reaper.thy ===== *)
theory Reaper
  imports WaitStatus
begin

text \<open>
  \<open>pkg/subreaper/reap_unix.go\<close>: the agent's single waiter. The reaper goroutine, the callers of
  \<open>WaitFor\<close>, the children and the signal delivery of the runtime interleave; every system call,
  lock region and channel operation is one step. A child is named by its process id, which the
  kernel keeps until the child is reaped; ids are not reused within a run. A \<open>WaitFor\<close> is called
  once per child.
\<close>

section \<open>State and steps\<close>

text \<open>The reaper: before \<open>Run\<close>, in \<open>reapAll\<close> (the flag tells the final drain), delivering, waiting, returned.\<close>

datatype rloop = NotRunning | Draining bool | Delivering int uint32 bool | Selecting | Returned

datatype waiter = NotCalled | Blocked | Result uint32

record reaper =
  rp_exited :: "int \<rightharpoonup> uint32"
  rp_zombies :: "int set"
  rp_signal :: bool
  rp_sigch :: nat
  rp_loop :: rloop
  rp_watched :: "int set"
  rp_chan :: "int \<rightharpoonup> uint32"
  rp_pending :: "int \<rightharpoonup> uint32"
  rp_wait :: "int \<Rightarrow> waiter"

definition NewReaper :: reaper where
  "NewReaper = \<lparr>rp_exited = Map.empty, rp_zombies = {}, rp_signal = False, rp_sigch = 0, rp_loop = NotRunning,
     rp_watched = {}, rp_chan = Map.empty, rp_pending = Map.empty, rp_wait = (\<lambda>_. NotCalled)\<rparr>"

text \<open>A child exits: it becomes a zombie and \<open>SIGCHLD\<close> is raised.\<close>

definition childExits :: "reaper \<Rightarrow> int \<Rightarrow> uint32 \<Rightarrow> reaper" where
  "childExits s pid ws =
     s\<lparr>rp_exited := (rp_exited s)(pid \<mapsto> ws), rp_zombies := insert pid (rp_zombies s), rp_signal := True\<rparr>"

text \<open>
  The runtime passes the signal on: to the channel of capacity 8 once \<open>Notify\<close> has been called,
  dropping it when the channel is full; before that it is lost.
\<close>

definition notifySignal :: "reaper \<Rightarrow> reaper" where
  "notifySignal s = s\<lparr>rp_signal := False,
     rp_sigch := (if rp_loop s = NotRunning \<or> rp_sigch s = 8 then rp_sigch s else rp_sigch s + 1)\<rparr>"

definition startRun :: "reaper \<Rightarrow> reaper" where
  "startRun s = s\<lparr>rp_loop := Draining False\<rparr>"

text \<open>\<open>Wait4\<close> gives a zombie, or none; an interrupted call is repeated and changes nothing.\<close>

definition wait4 :: "reaper \<Rightarrow> int \<Rightarrow> bool \<Rightarrow> reaper" where
  "wait4 s pid final =
     (case rp_exited s pid of
        None \<Rightarrow> s
      | Some ws \<Rightarrow> s\<lparr>rp_zombies := rp_zombies s - {pid}, rp_loop := Delivering pid ws final\<rparr>)"

definition drained :: "reaper \<Rightarrow> bool \<Rightarrow> reaper" where
  "drained s final = s\<lparr>rp_loop := if final then Returned else Selecting\<rparr>"

definition deliver :: "reaper \<Rightarrow> int \<Rightarrow> uint32 \<Rightarrow> bool \<Rightarrow> reaper" where
  "deliver s pid ws final =
     (let s' = s\<lparr>rp_loop := Draining final\<rparr> in
      if pid \<in> rp_watched s then s'\<lparr>rp_watched := rp_watched s - {pid}, rp_chan := (rp_chan s)(pid \<mapsto> ws)\<rparr>
      else s'\<lparr>rp_pending := (rp_pending s)(pid \<mapsto> ws)\<rparr>)"

definition takeSignal :: "reaper \<Rightarrow> reaper" where
  "takeSignal s = s\<lparr>rp_sigch := rp_sigch s - 1, rp_loop := Draining False\<rparr>"

definition WaitFor :: "reaper \<Rightarrow> int \<Rightarrow> reaper" where
  "WaitFor s pid =
     (case rp_pending s pid of
        Some ws \<Rightarrow> s\<lparr>rp_pending := (rp_pending s)(pid := None), rp_wait := (rp_wait s)(pid := Result ws)\<rparr>
      | None \<Rightarrow> s\<lparr>rp_watched := insert pid (rp_watched s), rp_wait := (rp_wait s)(pid := Blocked)\<rparr>)"

definition receiveStatus :: "reaper \<Rightarrow> int \<Rightarrow> uint32 \<Rightarrow> reaper" where
  "receiveStatus s pid ws = s\<lparr>rp_chan := (rp_chan s)(pid := None), rp_wait := (rp_wait s)(pid := Result ws)\<rparr>"

inductive reap_step :: "reaper \<Rightarrow> reaper \<Rightarrow> bool" where
  st_exit: "rp_exited s pid = None \<Longrightarrow> reap_step s (childExits s pid ws)"
| st_notify: "rp_signal s \<Longrightarrow> reap_step s (notifySignal s)"
| st_start: "rp_loop s = NotRunning \<Longrightarrow> reap_step s (startRun s)"
| st_wait4: "rp_loop s = Draining fin \<Longrightarrow> pid \<in> rp_zombies s \<Longrightarrow> reap_step s (wait4 s pid fin)"
| st_drained: "rp_loop s = Draining fin \<Longrightarrow> rp_zombies s = {} \<Longrightarrow> reap_step s (drained s fin)"
| st_deliver: "rp_loop s = Delivering pid ws fin \<Longrightarrow> reap_step s (deliver s pid ws fin)"
| st_signal: "rp_loop s = Selecting \<Longrightarrow> rp_sigch s > 0 \<Longrightarrow> reap_step s (takeSignal s)"
| st_cancel: "rp_loop s = Selecting \<Longrightarrow> reap_step s (s\<lparr>rp_loop := Draining True\<rparr>)"
| st_wait: "rp_wait s pid = NotCalled \<Longrightarrow> reap_step s (WaitFor s pid)"
| st_receive: "rp_wait s pid = Blocked \<Longrightarrow> rp_chan s pid = Some ws \<Longrightarrow> reap_step s (receiveStatus s pid ws)"

inductive reap_reach :: "reaper \<Rightarrow> bool" where
  rr_init: "reap_reach NewReaper"
| rr_step: "reap_reach s \<Longrightarrow> reap_step s s' \<Longrightarrow> reap_reach s'"

lemmas reap_defs = childExits_def notifySignal_def startRun_def wait4_def drained_def deliver_def
  takeSignal_def WaitFor_def receiveStatus_def

section \<open>Where a status is\<close>

fun inHand :: "rloop \<Rightarrow> int \<Rightarrow> uint32 option" where
  "inHand (Delivering pid ws fin) p = (if p = pid then Some ws else None)"
| "inHand l p = None"

text \<open>
  One child: its status, once it has exited, is in exactly one place, and it is the status the
  child exited with.
\<close>

definition childOK :: "uint32 option \<Rightarrow> bool \<Rightarrow> uint32 option \<Rightarrow> bool \<Rightarrow> uint32 option \<Rightarrow> uint32 option \<Rightarrow> waiter \<Rightarrow> bool" where
  "childOK ex z hand wat ch pend w \<longleftrightarrow>
     (\<forall>x. hand = Some x \<or> ch = Some x \<or> pend = Some x \<or> w = Result x \<longrightarrow> ex = Some x) \<and>
     (z \<longrightarrow> ex \<noteq> None \<and> hand = None \<and> ch = None \<and> pend = None \<and> (\<forall>x. w \<noteq> Result x)) \<and>
     (hand \<noteq> None \<longrightarrow> ch = None \<and> pend = None \<and> (\<forall>x. w \<noteq> Result x)) \<and>
     (ch \<noteq> None \<longrightarrow> \<not> wat \<and> pend = None \<and> w = Blocked) \<and>
     (pend \<noteq> None \<longrightarrow> \<not> wat \<and> w = NotCalled) \<and>
     (wat \<longrightarrow> w = Blocked) \<and>
     (w = Blocked \<longrightarrow> wat \<or> ch \<noteq> None) \<and>
     (ex \<noteq> None \<longrightarrow> z \<or> hand \<noteq> None \<or> ch \<noteq> None \<or> pend \<noteq> None \<or> (\<exists>x. w = Result x))"

definition reapInv :: "reaper \<Rightarrow> bool" where
  "reapInv s \<longleftrightarrow> (\<forall>p. childOK (rp_exited s p) (p \<in> rp_zombies s) (inHand (rp_loop s) p) (p \<in> rp_watched s)
     (rp_chan s p) (rp_pending s p) (rp_wait s p))"

text \<open>No wake-up is lost: the reaper never waits for a signal while there is a zombie nobody announced.\<close>

definition wakeInv :: "reaper \<Rightarrow> bool" where
  "wakeInv s \<longleftrightarrow> (rp_loop s = Selecting \<and> rp_zombies s \<noteq> {} \<longrightarrow> rp_signal s \<or> rp_sigch s > 0)"

lemma reapInv_child: "reapInv s \<Longrightarrow> childOK (rp_exited s p) (p \<in> rp_zombies s) (inHand (rp_loop s) p)
    (p \<in> rp_watched s) (rp_chan s p) (rp_pending s p) (rp_wait s p)"
  by (simp add: reapInv_def)

lemma reapInv_step:
  assumes inv: "reapInv s" and step: "reap_step s s'"
  shows "reapInv s'"
  unfolding reapInv_def
proof
  fix p
  note ok = reapInv_child [OF inv, of p]
  from step show "childOK (rp_exited s' p) (p \<in> rp_zombies s') (inHand (rp_loop s') p) (p \<in> rp_watched s')
    (rp_chan s' p) (rp_pending s' p) (rp_wait s' p)"
  proof cases
    case (st_exit pid ws)
    then show ?thesis using ok by (cases "p = pid") (auto simp: childExits_def childOK_def)
  next
    case (st_wait4 fin pid)
    then have "rp_exited s pid \<noteq> None" using reapInv_child [OF inv, of pid] by (auto simp: childOK_def)
    then obtain ws where "rp_exited s pid = Some ws" by blast
    then show ?thesis using ok st_wait4 by (cases "p = pid") (auto simp: wait4_def childOK_def)
  next
    case (st_deliver pid ws fin)
    then show ?thesis using ok by (cases "p = pid"; cases "rp_wait s pid") (auto simp: deliver_def Let_def childOK_def)
  next
    case (st_wait pid)
    then show ?thesis using ok by (cases "p = pid") (auto simp: WaitFor_def childOK_def split: option.split)
  next
    case (st_receive pid ws)
    then show ?thesis using ok by (cases "p = pid") (auto simp: receiveStatus_def childOK_def)
  qed (use ok in \<open>auto simp: notifySignal_def startRun_def drained_def takeSignal_def\<close>)
qed

lemma wakeInv_step: "wakeInv s \<Longrightarrow> reap_step s s' \<Longrightarrow> wakeInv s'"
  by (erule reap_step.cases) (auto simp: wakeInv_def reap_defs Let_def split: option.splits if_splits)

lemma reach_inv: "reap_reach s \<Longrightarrow> reapInv s \<and> wakeInv s"
proof (induction rule: reap_reach.induct)
  case rr_init
  show ?case by (simp add: reapInv_def wakeInv_def childOK_def NewReaper_def)
qed (use reapInv_step wakeInv_step in blast)

section \<open>A blocked caller can return\<close>

lemma chan_returns:
  assumes "rp_wait s pid = Blocked" "rp_chan s pid = Some ws"
  shows "\<exists>s'. reap_step\<^sup>*\<^sup>* s s' \<and> rp_wait s' pid = Result ws"
  using r_into_rtranclp [of reap_step, OF st_receive [OF assms]] by (auto simp: receiveStatus_def)

lemma hand_returns:
  assumes "reapInv s" "rp_wait s pid = Blocked" "rp_loop s = Delivering pid ws fin"
  shows "\<exists>s'. reap_step\<^sup>*\<^sup>* s s' \<and> rp_wait s' pid = Result ws"
proof -
  have "pid \<in> rp_watched s" using reapInv_child [OF assms(1), of pid] assms(2,3) by (auto simp: childOK_def)
  then have "rp_wait (deliver s pid ws fin) pid = Blocked" "rp_chan (deliver s pid ws fin) pid = Some ws"
    using assms(2) by (simp_all add: deliver_def Let_def)
  from chan_returns [OF this] st_deliver [OF assms(3)] show ?thesis by (meson converse_rtranclp_into_rtranclp)
qed

lemma drain_returns:
  assumes "reapInv s" "rp_wait s pid = Blocked" "rp_loop s = Draining fin" "pid \<in> rp_zombies s" "rp_exited s pid = Some ws"
  shows "\<exists>s'. reap_step\<^sup>*\<^sup>* s s' \<and> rp_wait s' pid = Result ws"
proof -
  have st: "reap_step s (wait4 s pid fin)" by (rule st_wait4 [OF assms(3,4)])
  have "reapInv (wait4 s pid fin)" by (rule reapInv_step [OF assms(1) st])
  moreover have "rp_wait (wait4 s pid fin) pid = Blocked" "rp_loop (wait4 s pid fin) = Delivering pid ws fin"
    using assms(2,5) by (simp_all add: wait4_def)
  ultimately show ?thesis using hand_returns st by (meson converse_rtranclp_into_rtranclp)
qed

lemma select_returns:
  assumes "reapInv s" "rp_wait s pid = Blocked" "rp_loop s = Selecting" "rp_sigch s > 0" "pid \<in> rp_zombies s" "rp_exited s pid = Some ws"
  shows "\<exists>s'. reap_step\<^sup>*\<^sup>* s s' \<and> rp_wait s' pid = Result ws"
proof -
  have st: "reap_step s (takeSignal s)" by (rule st_signal [OF assms(3,4)])
  then have "reapInv (takeSignal s)" by (rule reapInv_step [OF assms(1)])
  then have "\<exists>s'. reap_step\<^sup>*\<^sup>* (takeSignal s) s' \<and> rp_wait s' pid = Result ws"
    by (rule drain_returns [where fin = False]) (use assms in \<open>simp_all add: takeSignal_def\<close>)
  then show ?thesis using st by (meson converse_rtranclp_into_rtranclp)
qed

section \<open>Properties\<close>

text \<open>
  C14. \<open>WaitFor\<close> reports the child's own status: whatever the order of the child's exit, the reaping
  and the registration, the status returned for a child is the one it exited with, and the exit
  code lies between 0 and 255.
\<close>

theorem WaitFor_status:
  assumes "reap_reach s" "rp_wait s pid = Result ws"
  shows "rp_exited s pid = Some ws \<and>
    (wsExited ws \<or> wsSignaled ws \<longrightarrow> 0 \<le> ExitCodeFromWaitStatus ws \<and> ExitCodeFromWaitStatus ws \<le> 255)"
  using reapInv_child [of s pid] reach_inv [OF assms(1)] assms(2) ExitCode_bounds [of ws] by (auto simp: childOK_def)

text \<open>A waiter whose child is a zombie gets its status, wherever the loop of the reaper is.\<close>

lemma zombie_returns:
  assumes "reapInv s" "wakeInv s" "rp_wait s pid = Blocked" "rp_exited s pid = Some ws" "rp_loop s \<noteq> Returned"
    and zombie: "pid \<in> rp_zombies s"
  shows "\<exists>s'. reap_step\<^sup>*\<^sup>* s s' \<and> rp_wait s' pid = Result ws"
proof (cases "rp_loop s")
  case NotRunning
  have st: "reap_step s (startRun s)" by (rule st_start [OF NotRunning])
  then have "\<exists>s'. reap_step\<^sup>*\<^sup>* (startRun s) s' \<and> rp_wait s' pid = Result ws"
    by (intro drain_returns [OF reapInv_step [OF assms(1)], where fin = False]) (use assms zombie in \<open>simp_all add: startRun_def\<close>)
  then show ?thesis using st by (meson converse_rtranclp_into_rtranclp)
next
  case (Draining f)
  then show ?thesis using drain_returns assms zombie by blast
next
  case (Delivering q x f)
  have st: "reap_step s (deliver s q x f)" by (rule st_deliver [OF Delivering])
  then have "\<exists>s'. reap_step\<^sup>*\<^sup>* (deliver s q x f) s' \<and> rp_wait s' pid = Result ws"
    by (intro drain_returns [OF reapInv_step [OF assms(1)], where fin = f]) (use assms zombie in \<open>simp_all add: deliver_def Let_def\<close>)
  then show ?thesis using st by (meson converse_rtranclp_into_rtranclp)
next
  case Selecting
  show ?thesis
  proof (cases "rp_sigch s > 0")
    case True
    then show ?thesis using select_returns assms zombie Selecting by blast
  next
    case False
    then have st: "reap_step s (notifySignal s)" using assms(2) Selecting zombie by (intro st_notify) (auto simp: wakeInv_def)
    then have "\<exists>s'. reap_step\<^sup>*\<^sup>* (notifySignal s) s' \<and> rp_wait s' pid = Result ws"
      by (intro select_returns [OF reapInv_step [OF assms(1)]])
        (use assms zombie Selecting False in \<open>simp_all add: notifySignal_def\<close>)
    then show ?thesis using st by (meson converse_rtranclp_into_rtranclp)
  qed
qed (use assms in simp)


text \<open>A run in which the caller registers first: the child exits with code 3 while the reaper waits.\<close>

definition reap0 :: reaper where "reap0 = drained (startRun NewReaper) False"
definition reap1 :: reaper where "reap1 = childExits (WaitFor reap0 7) 7 0x300"
definition reap2 :: reaper where "reap2 = wait4 (takeSignal (notifySignal reap1)) 7 False"
definition reap3 :: reaper where "reap3 = receiveStatus (deliver reap2 7 0x300 False) 7 0x300"

lemma reap1_reach: "reap_reach reap1" "rp_wait reap1 7 = Blocked" "rp_exited reap1 7 = Some 0x300" "rp_loop reap1 = Selecting"
proof -
  have "reap_reach (startRun NewReaper)" by (rule rr_step [OF rr_init st_start]) (simp add: NewReaper_def)
  then have "reap_reach reap0" unfolding reap0_def
    by (rule rr_step [OF _ st_drained]) (simp_all add: startRun_def NewReaper_def)
  then have "reap_reach (WaitFor reap0 7)"
    by (rule rr_step [OF _ st_wait]) (simp add: reap0_def reap_defs NewReaper_def)
  then show "reap_reach reap1" unfolding reap1_def
    by (rule rr_step [OF _ st_exit]) (simp add: reap0_def reap_defs NewReaper_def)
qed (simp_all add: reap1_def reap0_def reap_defs NewReaper_def)

lemma reap3_reach: "reap_reach reap3" "rp_wait reap3 7 = Result 0x300"
proof -
  have "reap_reach (notifySignal reap1)"
    by (rule rr_step [OF reap1_reach(1) st_notify]) (simp add: reap1_def childExits_def)
  then have "reap_reach (takeSignal (notifySignal reap1))"
    by (rule rr_step [OF _ st_signal]) (simp_all add: reap1_def reap0_def reap_defs NewReaper_def)
  then have "reap_reach reap2" unfolding reap2_def
    by (rule rr_step [OF _ st_wait4]) (simp_all add: reap1_def reap0_def reap_defs NewReaper_def)
  then have "reap_reach (deliver reap2 7 0x300 False)"
    by (rule rr_step [OF _ st_deliver]) (simp add: reap2_def reap1_def reap0_def reap_defs NewReaper_def)
  then show "reap_reach reap3" unfolding reap3_def
    by (rule rr_step [OF _ st_receive]) (simp_all add: reap2_def reap1_def reap0_def reap_defs NewReaper_def)
qed (simp add: reap3_def receiveStatus_def)

theorem WaitFor_status_witness: "rp_exited reap3 7 = Some 0x300 \<and> ExitCodeFromWaitStatus 0x300 = 3"
  using WaitFor_status [OF reap3_reach] by (simp add: ExitCodeFromWaitStatus_def wsSignaled_def wsExitStatus_def wsExited_def)


end
