(* ===== verification/WsView.thy ===== *)
theory WsView
  imports FileOpServer GoPath
begin

text \<open>
  \<open>pkg/workspacefs\<close>, the local view of remote files: the translation of user and group ids, of
  file modes and attributes, the access check and the translation of paths. The file information
  of a backend is the record \<open>wsInfo\<close>; times are nanoseconds.
\<close>

unbundle bit_operations_syntax

section \<open>File information\<close>

text \<open>
  What \<open>FileInfo.Sys()\<close> holds: the agent's record, the system's record, the four attributes of an
  SFTP server (user, group, access and modification time in seconds), or something else.
\<close>

datatype sysInfo = SysAgent FileStat | SysOS Stat_t | SysSftp uint32 uint32 uint32 uint32 | SysNone

record wsInfo =
  wi_Name :: string
  wi_Size :: int
  wi_Mode :: uint32
  wi_ModTime :: int
  wi_IsDir :: bool
  wi_Sys :: sysInfo

definition isDirMode :: "uint32 \<Rightarrow> bool" where
  "isDirMode m \<longleftrightarrow> m AND ModeDir \<noteq> 0"

definition currentUID :: "sysInfo \<Rightarrow> uint32" where
  "currentUID sys = (case sys of SysAgent s \<Rightarrow> st_UID s | SysOS st \<Rightarrow> sys_Uid st | SysSftp u g a m \<Rightarrow> u | SysNone \<Rightarrow> 0)"

definition currentGID :: "sysInfo \<Rightarrow> uint32" where
  "currentGID sys = (case sys of SysAgent s \<Rightarrow> st_GID s | SysOS st \<Rightarrow> sys_Gid st | SysSftp u g a m \<Rightarrow> g | SysNone \<Rightarrow> 0)"

definition currentATime :: "wsInfo \<Rightarrow> int" where
  "currentATime st =
     (case wi_Sys st of
        SysAgent s \<Rightarrow> if st_ATimeNanos s \<noteq> 0 then st_ATimeNanos s else wi_ModTime st
      | SysOS s \<Rightarrow> sys_Atim s
      | SysSftp u g a m \<Rightarrow> if a \<noteq> 0 then uint a * 1000000000 else wi_ModTime st
      | SysNone \<Rightarrow> wi_ModTime st)"

section \<open>User and group ids\<close>

abbreviation IDModeTransparent :: string where "IDModeTransparent \<equiv> ''transparent''"
abbreviation IDModeOverride :: string where "IDModeOverride \<equiv> ''override''"

record IDRange =
  im_RemoteID :: uint32
  im_LocalID :: uint32
  im_Count :: uint32

record wsOptions =
  wo_UIDMode :: string
  wo_GIDMode :: string
  wo_UIDMap :: "IDRange list"
  wo_GIDMap :: "IDRange list"
  wo_LocalUID :: uint32
  wo_LocalGID :: uint32

record wsFS =
  ws_root :: string
  ws_uidMode :: string
  ws_gidMode :: string
  ws_uidMap :: "IDRange list"
  ws_gidMap :: "IDRange list"
  ws_localUID :: uint32
  ws_localGID :: uint32

definition NewWorkspaceFS :: "string \<Rightarrow> wsOptions option \<Rightarrow> wsFS" where
  "NewWorkspaceFS root opts =
     (let cleanRoot = Clean root;
          cleanRoot = (if cleanRoot = ''.'' then ''/'' else cleanRoot);
          fs = \<lparr>ws_root = cleanRoot, ws_uidMode = IDModeOverride, ws_gidMode = IDModeOverride, ws_uidMap = [],
                ws_gidMap = [], ws_localUID = 0, ws_localGID = 0\<rparr>
      in case opts of
           None \<Rightarrow> fs
         | Some p \<Rightarrow> fs\<lparr>ws_uidMode := (if wo_UIDMode p \<noteq> [] then wo_UIDMode p else ws_uidMode fs),
               ws_gidMode := (if wo_GIDMode p \<noteq> [] then wo_GIDMode p else ws_gidMode fs),
               ws_uidMap := wo_UIDMap p, ws_gidMap := wo_GIDMap p, ws_localUID := wo_LocalUID p,
               ws_localGID := wo_LocalGID p\<rparr>)"

fun mapToLocal :: "IDRange list \<Rightarrow> uint32 \<Rightarrow> uint32 option" where
  "mapToLocal [] remote = None"
| "mapToLocal (e # entries) remote =
     (if im_Count e = 0 then mapToLocal entries remote
      else if remote \<ge> im_RemoteID e \<and> remote - im_RemoteID e < im_Count e
      then Some (im_LocalID e + (remote - im_RemoteID e))
      else mapToLocal entries remote)"

fun mapToRemote :: "IDRange list \<Rightarrow> uint32 \<Rightarrow> uint32 option" where
  "mapToRemote [] local = None"
| "mapToRemote (e # entries) local =
     (if im_Count e = 0 then mapToRemote entries local
      else if local \<ge> im_LocalID e \<and> local - im_LocalID e < im_Count e
      then Some (im_RemoteID e + (local - im_LocalID e))
      else mapToRemote entries local)"

text \<open>The id a user sees: by the map, else by the mode.\<close>

definition viewID :: "IDRange list \<Rightarrow> string \<Rightarrow> uint32 \<Rightarrow> uint32 \<Rightarrow> uint32" where
  "viewID es mode localID remote =
     (case mapToLocal es remote of Some l \<Rightarrow> l | None \<Rightarrow> if mode = IDModeOverride then localID else remote)"

definition viewUID :: "wsFS \<Rightarrow> sysInfo \<Rightarrow> uint32" where
  "viewUID f sys = viewID (ws_uidMap f) (ws_uidMode f) (ws_localUID f) (currentUID sys)"

definition viewGID :: "wsFS \<Rightarrow> sysInfo \<Rightarrow> uint32" where
  "viewGID f sys = viewID (ws_gidMap f) (ws_gidMode f) (ws_localGID f) (currentGID sys)"

text \<open>\<open>resolveChownUID\<close> and \<open>resolveChownGID\<close>; \<^const>\<open>None\<close> is the decision \<open>chownNoop\<close>.\<close>

definition resolveChown :: "IDRange list \<Rightarrow> string \<Rightarrow> uint32 \<Rightarrow> uint32 option" where
  "resolveChown es mode i =
     (case mapToRemote es i of Some r \<Rightarrow> Some r | None \<Rightarrow> if mode = IDModeOverride then None else Some i)"

section \<open>Modes and attributes\<close>

definition posixFileMode :: "uint32 \<Rightarrow> uint32" where
  "posixFileMode mode =
     (let out = mode AND 0x1FF;
          out = (if mode AND 0x800 \<noteq> 0 then out OR ModeSetuid else out);
          out = (if mode AND 0x400 \<noteq> 0 then out OR ModeSetgid else out)
      in if mode AND 0x200 \<noteq> 0 then out OR ModeSticky else out)"

definition modeToDirEntryMode :: "uint32 \<Rightarrow> uint32" where
  "modeToDirEntryMode mode =
     (if isDirMode mode then 0x4000
      else if mode AND ModeSymlink \<noteq> 0 then 0xA000
      else if mode AND ModeNamedPipe \<noteq> 0 then 0x1000
      else if mode AND ModeSocket \<noteq> 0 then 0xC000
      else if mode AND ModeDevice \<noteq> 0 then (if mode AND ModeCharDevice \<noteq> 0 then 0x2000 else 0x6000)
      else 0x8000)"

definition fuseModeFromFileMode :: "uint32 \<Rightarrow> uint32" where
  "fuseModeFromFileMode mode =
     (let out = modeToDirEntryMode mode OR (mode AND 0x1FF);
          out = (if mode AND ModeSetuid \<noteq> 0 then out OR 0x800 else out);
          out = (if mode AND ModeSetgid \<noteq> 0 then out OR 0x400 else out)
      in if mode AND ModeSticky \<noteq> 0 then out OR 0x200 else out)"

definition modeToStable :: "uint32 \<Rightarrow> uint32" where
  "modeToStable mode = (if isDirMode mode then 0x4000 else if mode AND ModeSymlink \<noteq> 0 then 0xA000 else 0x8000)"

record fuseAttr =
  fa_Ino :: uint64
  fa_Size :: uint64
  fa_Blocks :: uint64
  fa_Atime :: uint64
  fa_Mtime :: uint64
  fa_Ctime :: uint64
  fa_Atimensec :: uint32
  fa_Mtimensec :: uint32
  fa_Ctimensec :: uint32
  fa_Mode :: uint32
  fa_Nlink :: uint32
  fa_Uid :: uint32
  fa_Gid :: uint32
  fa_Rdev :: uint32
  fa_Blksize :: uint32

text \<open>\<open>setFuseTime\<close> with \<open>time.Unix(0, ns)\<close>: seconds and nanoseconds.\<close>

definition secsOf :: "int \<Rightarrow> uint64" where "secsOf ns = word_of_int (ns div 1000000000)"
definition nsecOf :: "int \<Rightarrow> uint32" where "nsecOf ns = word_of_int (ns mod 1000000000)"

definition applyAgentStat :: "fuseAttr \<Rightarrow> FileStat \<Rightarrow> fuseAttr" where
  "applyAgentStat out st =
     (let out = (if st_ATimeNanos st \<noteq> 0
            then out\<lparr>fa_Atime := secsOf (st_ATimeNanos st), fa_Atimensec := nsecOf (st_ATimeNanos st)\<rparr> else out);
          out = (if st_MTimeNanos st \<noteq> 0
            then out\<lparr>fa_Mtime := secsOf (st_MTimeNanos st), fa_Mtimensec := nsecOf (st_MTimeNanos st)\<rparr> else out);
          out = (if st_CTimeNanos st \<noteq> 0
            then out\<lparr>fa_Ctime := secsOf (st_CTimeNanos st), fa_Ctimensec := nsecOf (st_CTimeNanos st)\<rparr> else out);
          out = out\<lparr>fa_Uid := st_UID st, fa_Gid := st_GID st\<rparr>;
          out = (if st_Nlink st \<noteq> 0 then out\<lparr>fa_Nlink := st_Nlink st\<rparr> else out);
          out = out\<lparr>fa_Rdev := st_Rdev st\<rparr>;
          out = (if st_Blocks st \<noteq> 0 then out\<lparr>fa_Blocks := st_Blocks st\<rparr> else out);
          out = (if st_Blksize st \<noteq> 0 then out\<lparr>fa_Blksize := st_Blksize st\<rparr> else out)
      in if st_Ino st \<noteq> 0 then out\<lparr>fa_Ino := st_Ino st\<rparr> else out)"

definition applySyscallStat :: "fuseAttr \<Rightarrow> Stat_t \<Rightarrow> fuseAttr" where
  "applySyscallStat out st = out\<lparr>fa_Uid := sys_Uid st, fa_Gid := sys_Gid st, fa_Nlink := ucast (sys_Nlink st),
     fa_Rdev := ucast (sys_Rdev st), fa_Blocks := sys_Blocks st, fa_Blksize := ucast (sys_Blksize st),
     fa_Ino := sys_Ino st, fa_Atime := secsOf (sys_Atim st), fa_Atimensec := nsecOf (sys_Atim st),
     fa_Mtime := secsOf (sys_Mtim st), fa_Mtimensec := nsecOf (sys_Mtim st),
     fa_Ctime := secsOf (sys_Ctim st), fa_Ctimensec := nsecOf (sys_Ctim st)\<rparr>"

definition applySFTPStat :: "fuseAttr \<Rightarrow> uint32 \<Rightarrow> uint32 \<Rightarrow> uint32 \<Rightarrow> uint32 \<Rightarrow> fuseAttr" where
  "applySFTPStat out uid gid atime mtime =
     (let out = out\<lparr>fa_Uid := uid, fa_Gid := gid\<rparr>;
          out = (if atime \<noteq> 0 then out\<lparr>fa_Atime := ucast atime, fa_Atimensec := 0\<rparr> else out)
      in if mtime \<noteq> 0 then out\<lparr>fa_Mtime := ucast mtime, fa_Mtimensec := 0\<rparr> else out)"

definition applyStatDetails :: "fuseAttr \<Rightarrow> sysInfo \<Rightarrow> fuseAttr" where
  "applyStatDetails out sys =
     (case sys of SysAgent st \<Rightarrow> applyAgentStat out st | SysOS st \<Rightarrow> applySyscallStat out st
      | SysSftp u g a m \<Rightarrow> applySFTPStat out u g a m | SysNone \<Rightarrow> out)"

definition applyFileInfo :: "wsInfo \<Rightarrow> fuseAttr" where
  "applyFileInfo st =
     (let size = word_of_int (wi_Size st) :: uint64; t = secsOf (wi_ModTime st); n = nsecOf (wi_ModTime st) in
      applyStatDetails \<lparr>fa_Ino = 0, fa_Size = size, fa_Blocks = (size + 511) div 512, fa_Atime = t, fa_Mtime = t,
          fa_Ctime = t, fa_Atimensec = n, fa_Mtimensec = n, fa_Ctimensec = n,
          fa_Mode = fuseModeFromFileMode (wi_Mode st), fa_Nlink = 1, fa_Uid = 0, fa_Gid = 0, fa_Rdev = 0,
          fa_Blksize = 4096\<rparr>
        (wi_Sys st))"

definition applyAttr :: "wsFS \<Rightarrow> wsInfo \<Rightarrow> fuseAttr" where
  "applyAttr f st =
     (let out = applyFileInfo st in
      out\<lparr>fa_Uid := viewID (ws_uidMap f) (ws_uidMode f) (ws_localUID f) (fa_Uid out),
          fa_Gid := viewID (ws_gidMap f) (ws_gidMode f) (ws_localGID f) (fa_Gid out)\<rparr>)"

section \<open>Access\<close>

text \<open>The caller is the user and group of the FUSE request, when there is one.\<close>

definition wsAccess :: "wsFS \<Rightarrow> (uint32 \<times> uint32) option \<Rightarrow> wsInfo \<Rightarrow> uint32 \<Rightarrow> uint32" where
  "wsAccess f caller st acc =
     (let perm = wi_Mode st AND 0x1FF in
      if acc = 0 then 0
      else if (case caller of Some (u, g) \<Rightarrow> u = 0 | None \<Rightarrow> False) then
        (if acc AND 1 \<noteq> 0 \<and> perm AND 0x49 = 0 then EACCES else 0)
      else let uid = viewUID f (wi_Sys st); gid = viewGID f (wi_Sys st);
               shift = (case caller of None \<Rightarrow> 0 | Some (u, g) \<Rightarrow> if u = uid then 6 else if g = gid then 3 else 0);
               allowed = drop_bit shift perm AND 7
           in if acc AND 4 \<noteq> 0 \<and> allowed AND 4 = 0 then EACCES
              else if acc AND 2 \<noteq> 0 \<and> allowed AND 2 = 0 then EACCES
              else if acc AND 1 \<noteq> 0 \<and> allowed AND 1 = 0 then EACCES
              else 0)"

section \<open>Paths\<close>

definition TrimPrefix :: "string \<Rightarrow> string \<Rightarrow> string" where
  "TrimPrefix s p = (if HasPrefix s p then drop (length p) s else s)"

definition absPath :: "wsFS \<Rightarrow> string \<Rightarrow> string" where
  "absPath f rel =
     (let clean = Clean (''/'' @ rel) in
      if clean = ''/'' then ws_root f else JoinPath [ws_root f, TrimPrefix clean ''/''])"

definition wsToErrno :: "oserr \<Rightarrow> uint32" where
  "wsToErrno err =
     (case oe_errno err of
        Some errno \<Rightarrow> errno
      | None \<Rightarrow>
          if oe_NotExist err then ENOENT else if oe_Permission err then EACCES else if oe_Exist err then EEXIST
          else if oe_Invalid err then EINVAL else EIO)"

section \<open>Lemmas: paths\<close>

lemma Join_append2: "xs \<noteq> [] \<Longrightarrow> ys \<noteq> [] \<Longrightarrow> Join (xs @ ys) sep = Join xs sep @ sep @ Join ys sep"
proof (induction xs)
  case (Cons x xs)
  then show ?case by (cases "xs = []") (simp_all add: Join_Cons)
qed simp

lemma wfStack_rooted: "wfStack True st \<Longrightarrow> c \<in> set st \<Longrightarrow> c \<noteq> ''..'' \<and> c \<noteq> [] \<and> c \<noteq> ''.''"
  by (induction st) auto

lemma wfStack_append: "wfStack True st \<Longrightarrow> wfStack r st' \<Longrightarrow> wfStack r (st @ st')"
  by (induction st) auto

lemma Clean_rooted:
  obtains st where "wfStack True st" "Clean (''/'' @ rel) = ''/'' @ Join (rev st) ''/''"
proof (rule Clean_shape [of "''/'' @ rel"])
  fix st
  assume "wfStack (IsAbs (''/'' @ rel)) st" "Clean (''/'' @ rel) =
    (if IsAbs (''/'' @ rel) then ''/'' @ Join (rev st) ''/'' else if st = [] then ''.'' else Join (rev st) ''/'')"
  then show thesis using that [of st] by (simp add: IsAbs_def)
qed

lemma Clean_double_slash: "Clean (CHR ''/'' # CHR ''/'' # s) = Clean (CHR ''/'' # s)"
  by (simp add: Clean_def IsAbs_def)

lemma Clean_below:
  assumes "wfStack True st" "st \<noteq> []" "root = Clean r0" "root \<noteq> ''.''"
  shows "Clean (root @ ''/'' @ Join (rev st) ''/'') = (if root = ''/'' then [] else root) @ ''/'' @ Join (rev st) ''/''"
proof (rule Clean_shape [of r0])
  fix s1
  assume wf: "wfStack (IsAbs r0) s1"
    and sh: "Clean r0 = (if IsAbs r0 then ''/'' @ Join (rev s1) ''/'' else if s1 = [] then ''.'' else Join (rev s1) ''/'')"
  have wf2: "wfStack (IsAbs r0) (st @ s1)" by (rule wfStack_append [OF assms(1) wf])
  show ?thesis
  proof (cases "s1 = []")
    case True
    then have "root = ''/''" using sh assms(3,4) by (auto split: if_splits)
    then show ?thesis using Clean_Join(1) [OF assms(1)] Clean_double_slash by simp
  next
    case False
    then have j: "Join (rev (st @ s1)) ''/'' = Join (rev s1) ''/'' @ ''/'' @ Join (rev st) ''/''"
      using assms(2) Join_append2 [of "rev s1" "rev st" "''/''"] by simp
    show ?thesis
    proof (cases "IsAbs r0")
      case True
      then have "root = ''/'' @ Join (rev s1) ''/''" using sh assms(3) by simp
      moreover have "Join (rev s1) ''/'' \<noteq> []" using Join_wfStack(2) [OF wf False] .
      ultimately show ?thesis using Clean_Join(1) [OF wf2 True] j by simp
    next
      case rel: False
      then have "root = Join (rev s1) ''/''" "\<not> IsAbs (Join (rev s1) ''/'')" using sh assms(3) False Join_wfStack(3) [OF wf False] by simp_all
      then show ?thesis using Clean_Join(2) [OF wf2 rel] j False by (auto simp: IsAbs_def)
    qed
  qed
qed

lemma ws_root_clean: "\<exists>r0. ws_root (NewWorkspaceFS root opts) = Clean r0 \<and> Clean r0 \<noteq> ''.'' \<and> Clean r0 \<noteq> []"
proof (cases "Clean root = ''.''")
  case True
  then have "ws_root (NewWorkspaceFS root opts) = Clean ''/''"
    by (simp add: NewWorkspaceFS_def Let_def Clean_def IsAbs_def split: option.split)
  then show ?thesis by (intro exI [of _ "''/''"]) (simp add: Clean_def IsAbs_def)
next
  case False
  have "Clean root \<noteq> []"
  proof (rule Clean_shape [of root])
    fix st
    assume wf: "wfStack (IsAbs root) st" and sh: "Clean root =
      (if IsAbs root then ''/'' @ Join (rev st) ''/'' else if st = [] then ''.'' else Join (rev st) ''/'')"
    show ?thesis using Join_wfStack(2) [OF wf] by (cases "st = []") (simp_all add: sh)
  qed
  then show ?thesis using False
    by (intro exI [of _ root]) (simp add: NewWorkspaceFS_def Let_def split: option.split)
qed

section \<open>Lemmas: ids\<close>

definition inLocal :: "IDRange \<Rightarrow> uint32 \<Rightarrow> bool" where
  "inLocal e l \<longleftrightarrow> im_Count e \<noteq> 0 \<and> l \<ge> im_LocalID e \<and> l - im_LocalID e < im_Count e"

text \<open>The local ranges do not wrap and do not overlap.\<close>

fun localRanges :: "IDRange list \<Rightarrow> bool" where
  "localRanges [] = True"
| "localRanges (e # es) =
     (unat (im_LocalID e) + unat (im_Count e) \<le> 2 ^ 32 \<and>
      (\<forall>e'\<in>set es. unat (im_LocalID e) + unat (im_Count e) \<le> unat (im_LocalID e') \<or>
        unat (im_LocalID e') + unat (im_Count e') \<le> unat (im_LocalID e)) \<and> localRanges es)"

definition swapRange :: "IDRange \<Rightarrow> IDRange" where
  "swapRange e = \<lparr>im_RemoteID = im_LocalID e, im_LocalID = im_RemoteID e, im_Count = im_Count e\<rparr>"

lemma mapToRemote_swap: "mapToRemote es i = mapToLocal (map swapRange es) i"
  by (induction es i rule: mapToRemote.induct) (auto simp: swapRange_def)

lemma swap_swap: "map swapRange (map swapRange es) = es"
  by (induction es) (simp_all add: swapRange_def)

lemma mapToLocal_swap: "mapToLocal es i = mapToRemote (map swapRange es) i"
  using mapToRemote_swap [of "map swapRange es" i] swap_swap [of es] by simp

lemma inLocal_unat:
  "inLocal e l \<Longrightarrow> unat (im_LocalID e) \<le> unat l \<and> unat l < unat (im_LocalID e) + unat (im_Count e)"
  using unat_sub [of "im_LocalID e" l] by (auto simp: inLocal_def word_le_nat_alt word_less_nat_alt)

lemma offset_local:
  assumes "unat (im_LocalID e) + unat (im_Count e) \<le> 2 ^ 32" "d < im_Count e" "im_Count e \<noteq> 0"
  shows "inLocal e (im_LocalID e + d) \<and> im_LocalID e + d - im_LocalID e = d"
proof -
  have "unat (im_LocalID e) + unat d < 2 ^ 32" using assms by (simp add: word_less_nat_alt)
  then have "unat (im_LocalID e + d) = unat (im_LocalID e) + unat d" by (simp add: unat_word_ariths)
  then show ?thesis using assms by (simp add: inLocal_def word_le_nat_alt)
qed

lemma mapToLocal_range:
  "localRanges es \<Longrightarrow> mapToLocal es r = Some l \<Longrightarrow> \<exists>e\<in>set es. inLocal e l"
proof (induction es)
  case (Cons e es)
  show ?case
  proof (cases "im_Count e \<noteq> 0 \<and> r \<ge> im_RemoteID e \<and> r - im_RemoteID e < im_Count e")
    case True
    then show ?thesis using offset_local [of e "r - im_RemoteID e"] Cons.prems by simp
  next
    case False
    then have "mapToLocal es r = Some l" using Cons.prems by (auto split: if_splits)
    then show ?thesis using Cons by simp
  qed
qed simp

lemma idmap_roundtrip:
  "localRanges es \<Longrightarrow> mapToLocal es r = Some l \<Longrightarrow> mapToRemote es l = Some r"
proof (induction es)
  case (Cons e es)
  show ?case
  proof (cases "im_Count e \<noteq> 0 \<and> r \<ge> im_RemoteID e \<and> r - im_RemoteID e < im_Count e")
    case True
    then have l: "l = im_LocalID e + (r - im_RemoteID e)" using Cons.prems by simp
    have "inLocal e l \<and> l - im_LocalID e = r - im_RemoteID e"
      using offset_local [of e "r - im_RemoteID e"] Cons.prems(1) True l by simp
    then show ?thesis using True by (simp add: inLocal_def)
  next
    case False
    then have m: "mapToLocal es r = Some l" using Cons.prems by (auto split: if_splits)
    then obtain e' where e': "e' \<in> set es" "inLocal e' l" using mapToLocal_range [of es r l] Cons.prems(1) by auto
    have "\<not> inLocal e l" using inLocal_unat [of e l] inLocal_unat [OF e'(2)] Cons.prems(1) e'(1) by fastforce
    then show ?thesis using Cons.IH Cons.prems(1) m by (auto simp: inLocal_def)
  qed
qed simp


section \<open>Lemmas: modes\<close>

lemma and_power_bit: "(m :: uint32) AND 2 ^ n = (if bit m n then 2 ^ n else 0)"
  by (rule bit_word_eqI) (auto simp: bit_simps)

lemma and_one_bit:
  "(m :: uint32) AND 0x800 = (if m AND 0x800 \<noteq> 0 then 0x800 else 0)"
  "m AND 0x400 = (if m AND 0x400 \<noteq> 0 then 0x400 else 0)"
  "m AND 0x200 = (if m AND 0x200 \<noteq> 0 then 0x200 else 0)"
  using and_power_bit [of m 11] and_power_bit [of m 10] and_power_bit [of m 9] by (simp_all split: if_splits)

lemma posixFileMode_eq:
  "posixFileMode m = (m AND 0x1FF) OR special (m AND 0x800 \<noteq> 0) (m AND 0x400 \<noteq> 0) (m AND 0x200 \<noteq> 0)"
  by (simp add: posixFileMode_def Let_def special_def or.assoc)

definition posixSpecial :: "bool \<Rightarrow> bool \<Rightarrow> bool \<Rightarrow> uint32" where
  "posixSpecial u g s = (if u then 0x800 else 0) OR (if g then 0x400 else 0) OR (if s then 0x200 else 0)"

lemma posixSpecial_bits:
  "(m AND 0x1FF) OR posixSpecial (m AND 0x800 \<noteq> 0) (m AND 0x400 \<noteq> 0) (m AND 0x200 \<noteq> 0) = m AND 0xFFF"
proof -
  have "m AND 0xFFF = m AND (0x1FF OR (0x800 OR (0x400 OR 0x200)))" by simp
  also have "\<dots> = (m AND 0x1FF) OR (m AND 0x800) OR (m AND 0x400) OR (m AND 0x200)"
    by (simp only: bit.conj_disj_distrib or.assoc)
  also have "\<dots> = (m AND 0x1FF) OR posixSpecial (m AND 0x800 \<noteq> 0) (m AND 0x400 \<noteq> 0) (m AND 0x200 \<noteq> 0)"
    using and_one_bit [of m] by (simp add: posixSpecial_def or.assoc split: if_splits)
  finally show ?thesis by simp
qed

text \<open>The permissions and special bits of a mode in Go's notation, whatever its type bits.\<close>

lemma perm_special_masks:
  assumes "t AND 0x1FF = 0" "t AND ModeSetuid = 0" "t AND ModeSetgid = 0" "t AND ModeSticky = 0"
  shows "((m AND 0x1FF) OR special u g s OR t) AND 0x1FF = m AND 0x1FF"
    "((m AND 0x1FF) OR special u g s OR t) AND ModeSetuid \<noteq> 0 \<longleftrightarrow> u"
    "((m AND 0x1FF) OR special u g s OR t) AND ModeSetgid \<noteq> 0 \<longleftrightarrow> g"
    "((m AND 0x1FF) OR special u g s OR t) AND ModeSticky \<noteq> 0 \<longleftrightarrow> s"
proof -
  have c: "(0x1FF AND ModeSetuid) = 0" "(0x1FF AND ModeSetgid) = 0" "(0x1FF AND ModeSticky) = 0"
    "(0x1FF AND 0x1FF) = (0x1FF :: uint32)"
    by (simp_all add: Mode_defs)
  show "((m AND 0x1FF) OR special u g s OR t) AND 0x1FF = m AND 0x1FF"
    "((m AND 0x1FF) OR special u g s OR t) AND ModeSetuid \<noteq> 0 \<longleftrightarrow> u"
    "((m AND 0x1FF) OR special u g s OR t) AND ModeSetgid \<noteq> 0 \<longleftrightarrow> g"
    "((m AND 0x1FF) OR special u g s OR t) AND ModeSticky \<noteq> 0 \<longleftrightarrow> s"
    unfolding and_const_disj bit.conj_disj_distrib2 c assms and.assoc
    using special_masks [of u g s] by simp_all
qed

lemma fuseModeFromFileMode_eq:
  "fuseModeFromFileMode x = modeToDirEntryMode x OR (x AND 0x1FF) OR
     posixSpecial (x AND ModeSetuid \<noteq> 0) (x AND ModeSetgid \<noteq> 0) (x AND ModeSticky \<noteq> 0)"
  by (simp add: fuseModeFromFileMode_def Let_def posixSpecial_def or.assoc)

lemma special_type_masks:
  "((m AND 0x1FF) OR special u g s OR t) AND ModeDir = t AND ModeDir"
  "((m AND 0x1FF) OR special u g s OR t) AND ModeSymlink = t AND ModeSymlink"
  "((m AND 0x1FF) OR special u g s OR t) AND ModeNamedPipe = t AND ModeNamedPipe"
  "((m AND 0x1FF) OR special u g s OR t) AND ModeSocket = t AND ModeSocket"
  "((m AND 0x1FF) OR special u g s OR t) AND ModeDevice = t AND ModeDevice"
  "((m AND 0x1FF) OR special u g s OR t) AND ModeCharDevice = t AND ModeCharDevice"
proof -
  have c: "(0x1FF AND ModeDir) = 0" "(0x1FF AND ModeSymlink) = 0" "(0x1FF AND ModeNamedPipe) = 0"
    "(0x1FF AND ModeSocket) = 0" "(0x1FF AND ModeDevice) = 0" "(0x1FF AND ModeCharDevice) = 0"
    by (simp_all add: Mode_defs)
  have s: "special u g s AND ModeDir = 0" "special u g s AND ModeSymlink = 0" "special u g s AND ModeNamedPipe = 0"
    "special u g s AND ModeSocket = 0" "special u g s AND ModeDevice = 0" "special u g s AND ModeCharDevice = 0"
    by (cases u; cases g; cases s; simp add: special_def Mode_defs)+
  show "((m AND 0x1FF) OR special u g s OR t) AND ModeDir = t AND ModeDir"
    "((m AND 0x1FF) OR special u g s OR t) AND ModeSymlink = t AND ModeSymlink"
    "((m AND 0x1FF) OR special u g s OR t) AND ModeNamedPipe = t AND ModeNamedPipe"
    "((m AND 0x1FF) OR special u g s OR t) AND ModeSocket = t AND ModeSocket"
    "((m AND 0x1FF) OR special u g s OR t) AND ModeDevice = t AND ModeDevice"
    "((m AND 0x1FF) OR special u g s OR t) AND ModeCharDevice = t AND ModeCharDevice"
    by (simp_all only: bit.conj_disj_distrib2 and.assoc c s bit.conj_zero_right or.left_neutral)
qed

text \<open>The seven Unix file types with their Go type bits.\<close>

definition unixTypes :: "(uint32 \<times> uint32) list" where
  "unixTypes = [(0x4000, ModeDir), (0xA000, ModeSymlink), (0x1000, ModeNamedPipe), (0xC000, ModeSocket),
     (0x6000, ModeDevice), (0x2000, ModeDevice OR ModeCharDevice), (0x8000, 0)]"

lemma unixTypesE:
  assumes "p \<in> set unixTypes"
  obtains "p = (0x4000, ModeDir)" | "p = (0xA000, ModeSymlink)" | "p = (0x1000, ModeNamedPipe)" | "p = (0xC000, ModeSocket)"
    | "p = (0x6000, ModeDevice)" | "p = (0x2000, ModeDevice OR ModeCharDevice)" | "p = (0x8000, 0)"
  using assms unfolding unixTypes_def by (simp only: list.set insert_iff empty_iff) blast

lemma modeToDirEntryMode_type:
  assumes "(ft, t) \<in> set unixTypes"
  shows "modeToDirEntryMode ((m AND 0x1FF) OR special u g s OR t) = ft"
proof -
  have "modeToDirEntryMode t = ft" if "(ft, t) = p" "p \<in> set unixTypes" for p
    using that by (elim unixTypesE) (simp_all add: modeToDirEntryMode_def isDirMode_def Mode_defs)
  then show ?thesis using assms unfolding modeToDirEntryMode_def isDirMode_def special_type_masks by blast
qed

lemma fuse_mode_of_type:
  assumes "(ft, t) \<in> set unixTypes"
  shows "fuseModeFromFileMode ((m AND 0x1FF) OR special (m AND 0x800 \<noteq> 0) (m AND 0x400 \<noteq> 0) (m AND 0x200 \<noteq> 0) OR t)
    = ft OR (m AND 0xFFF)"
proof -
  have t: "t AND 0x1FF = 0" "t AND ModeSetuid = 0" "t AND ModeSetgid = 0" "t AND ModeSticky = 0"
    using assms by (auto simp: unixTypes_def Mode_defs)
  show ?thesis
    unfolding fuseModeFromFileMode_eq modeToDirEntryMode_type [OF assms] perm_special_masks [OF t] or.assoc
      posixSpecial_bits ..
qed

lemma modeFromUnix_eq:
  assumes "m < 0x10000" "m AND unixSIFMT = ft" "(ft, t) \<in> set unixTypes"
  shows "modeFromUnix m = (m AND 0x1FF) OR special (m AND 0x800 \<noteq> 0) (m AND 0x400 \<noteq> 0) (m AND 0x200 \<noteq> 0) OR t"
proof -
  have "m AND 0xFFFF = m" using less_mask_eq [of m 16] assms(1) by (simp add: mask_eq_exp_minus_1)
  then have z: "m AND x = 0" if "0xFFFF AND x = 0" for x
    using that by (metis and.assoc bit.conj_zero_right)
  have s: "m AND ModeSetuid = 0" "m AND ModeSetgid = 0" "m AND ModeSticky = 0" by (rule z; simp add: Mode_defs)+
  have p: "fileModeFromPOSIX m = (m AND 0x1FF) OR special (m AND 0x800 \<noteq> 0) (m AND 0x400 \<noteq> 0) (m AND 0x200 \<noteq> 0)"
    unfolding fileModeFromPOSIX_eq s by simp
  show ?thesis unfolding modeFromUnix_def Let_def assms(2) p using assms(3) by (auto simp: unixTypes_def or.assoc)
qed

section \<open>The access rule\<close>

text \<open>
  The POSIX rule on the attributes that the mount reports: the first class of the caller (owner,
  group, others) decides, and every requested bit must be granted to that class. The superuser
  may read and write anything, and execute what some class may execute.
\<close>

definition posixClass :: "uint32 \<Rightarrow> uint32 \<Rightarrow> uint32 \<Rightarrow> uint32 \<Rightarrow> nat" where
  "posixClass uid gid u g = (if u = uid then 2 else if g = gid then 1 else 0)"

definition posixAllows :: "fuseAttr \<Rightarrow> uint32 \<Rightarrow> uint32 \<Rightarrow> uint32 \<Rightarrow> bool" where
  "posixAllows a u g acc =
     (if u = 0 then bit acc 0 \<longrightarrow> bit (fa_Mode a) 0 \<or> bit (fa_Mode a) 3 \<or> bit (fa_Mode a) 6
      else let c = posixClass (fa_Uid a) (fa_Gid a) u g
           in (bit acc 0 \<longrightarrow> bit (fa_Mode a) (3 * c)) \<and> (bit acc 1 \<longrightarrow> bit (fa_Mode a) (3 * c + 1)) \<and>
              (bit acc 2 \<longrightarrow> bit (fa_Mode a) (3 * c + 2)))"

lemma and_bit_iff:
  "(x :: uint32) AND 1 \<noteq> 0 \<longleftrightarrow> bit x 0" "x AND 2 \<noteq> 0 \<longleftrightarrow> bit x 1" "x AND 4 \<noteq> 0 \<longleftrightarrow> bit x 2"
  using and_power_bit [of x 0] and_power_bit [of x 1] and_power_bit [of x 2] by (simp_all split: if_splits)

lemma shifted_perm_bit: "k \<le> 6 \<Longrightarrow> i < 3 \<Longrightarrow> bit (drop_bit k (m AND 0x1FF) AND 7 :: uint32) i = bit m (k + i)"
proof -
  assume k: "k \<le> 6" "i < 3"
  have "bit (7 :: uint32) i" using k(2) by (auto simp: less_Suc_eq numeral_eq_Suc bit_1_iff)
  moreover have "bit (0x1FF :: uint32) (k + i)"
    using bit_mask_iff [of 9 "k + i", where 'a = "32 word"] k by (simp add: mask_eq_exp_minus_1)
  ultimately show ?thesis by (simp add: bit_simps)
qed

lemma perm_any_x: "(m AND 0x1FF) AND 0x49 = 0 \<longleftrightarrow> \<not> (bit (m :: uint32) 0 \<or> bit m 3 \<or> bit m 6)"
proof -
  have "(m AND 0x1FF) AND 0x49 = (m AND 2 ^ 0) OR (m AND 2 ^ 3) OR (m AND 2 ^ 6)"
    by (simp add: and.assoc flip: bit.conj_disj_distrib)
  then show ?thesis unfolding and_power_bit by simp
qed

lemma fuse_perm: "fuseModeFromFileMode x AND 0x1FF = x AND 0x1FF"
proof -
  have "modeToDirEntryMode x AND 0x1FF = 0" by (simp add: modeToDirEntryMode_def)
  moreover have "posixSpecial u g s AND 0x1FF = 0" for u g s by (cases u; cases g; cases s) (simp_all add: posixSpecial_def)
  ultimately show ?thesis unfolding fuseModeFromFileMode_eq bit.conj_disj_distrib2 by (simp add: and.assoc)
qed

lemma fuse_perm_bit: "i < 9 \<Longrightarrow> bit (fuseModeFromFileMode x) i = bit x i"
proof -
  assume i: "i < 9"
  have "bit (0x1FF :: uint32) i" using bit_mask_iff [of 9 i, where 'a = "32 word"] i by (simp add: mask_eq_exp_minus_1)
  then show ?thesis using fuse_perm [of x] by (metis bit_and_iff)
qed

lemma applyStatDetails_fields [simp]:
  "fa_Mode (applyStatDetails a sys) = fa_Mode a"
  "fa_Uid (applyStatDetails a sys) = (if sys = SysNone then fa_Uid a else currentUID sys)"
  "fa_Gid (applyStatDetails a sys) = (if sys = SysNone then fa_Gid a else currentGID sys)"
  by (cases sys; simp add: applyStatDetails_def applyAgentStat_def applySyscallStat_def applySFTPStat_def Let_def
      currentUID_def currentGID_def)+

lemma applyAttr_view:
  "fa_Uid (applyAttr f st) = viewUID f (wi_Sys st)" "fa_Gid (applyAttr f st) = viewGID f (wi_Sys st)"
  "fa_Mode (applyAttr f st) = fuseModeFromFileMode (wi_Mode st)"
  by (auto simp: applyAttr_def applyFileInfo_def Let_def viewUID_def viewGID_def currentUID_def currentGID_def)

section \<open>Properties\<close>

text \<open>
  C36. No path leaves the workspace: whatever relative path a request names, with any number of
  \<open>..\<close>, \<open>.\<close> and empty components, the remote path is the root of the file system or the root
  followed by one or more proper components, none of them empty, \<open>.\<close> or \<open>..\<close>.
\<close>

theorem absPath_confined:
  "let f = NewWorkspaceFS root opts; p = absPath f rel in
   p = ws_root f \<or>
   (\<exists>cs. cs \<noteq> [] \<and> list_all (\<lambda>c. c \<noteq> [] \<and> c \<noteq> ''.'' \<and> c \<noteq> ''..'' \<and> CHR ''/'' \<notin> set c) cs \<and>
      p = (if ws_root f = ''/'' then [] else ws_root f) @ ''/'' @ Join cs ''/'')"
proof -
  let ?f = "NewWorkspaceFS root opts"
  obtain r0 where r: "ws_root ?f = Clean r0" "Clean r0 \<noteq> ''.''" "Clean r0 \<noteq> []" using ws_root_clean by blast
  obtain st where st: "wfStack True st" "Clean (''/'' @ rel) = ''/'' @ Join (rev st) ''/''" by (rule Clean_rooted)
  show ?thesis
  proof (cases "st = []")
    case True
    then show ?thesis using st(2) by (simp add: absPath_def Let_def)
  next
    case False
    have j: "Join (rev st) ''/'' \<noteq> []" using Join_wfStack(2) [OF st(1) False] .
    have "absPath ?f rel = Clean (Clean r0 @ ''/'' @ Join (rev st) ''/'')"
      using st(2) j r(1,3) by (simp add: absPath_def Let_def TrimPrefix_def HasPrefix_def JoinPath_def)
    also have "\<dots> = (if Clean r0 = ''/'' then [] else Clean r0) @ ''/'' @ Join (rev st) ''/''"
      by (rule Clean_below [OF st(1) False refl r(2)])
    finally have "absPath ?f rel = (if ws_root ?f = ''/'' then [] else ws_root ?f) @ ''/'' @ Join (rev st) ''/''"
      using r(1) by simp
    moreover have "list_all (\<lambda>c. c \<noteq> [] \<and> c \<noteq> ''.'' \<and> c \<noteq> ''..'' \<and> CHR ''/'' \<notin> set c) (rev st)"
      using wfStack_rooted [OF st(1)] wfStack_elem [OF st(1)] by (auto simp: list_all_iff)
    ultimately show ?thesis using False by (auto simp: Let_def intro: exI [of _ "rev st"])
  qed
qed

text \<open>
  The two directions of an id map are inverse to each other: when neither the local nor the
  remote ranges of the map overlap or wrap, a remote id is shown as a local id exactly when that
  local id is sent back as the remote id.
\<close>

theorem id_map_roundtrip:
  assumes "localRanges es" "localRanges (map swapRange es)"
  shows "mapToLocal es r = Some l \<longleftrightarrow> mapToRemote es l = Some r"
  using idmap_roundtrip [OF assms(1), of r l] idmap_roundtrip [OF assms(2), of l r]
    mapToRemote_swap [of es l] mapToLocal_swap [of es r] by metis

definition exampleIDMap :: "IDRange list" where
  "exampleIDMap = [\<lparr>im_RemoteID = 0, im_LocalID = 1000, im_Count = 1\<rparr>,
     \<lparr>im_RemoteID = 100000, im_LocalID = 4294901760, im_Count = 65536\<rparr>]"

theorem id_map_roundtrip_witness:
  "mapToLocal exampleIDMap 165535 = Some 4294967295 \<and> mapToRemote exampleIDMap 4294967295 = Some 165535 \<and>
   mapToLocal exampleIDMap 165536 = None"
proof -
  have "mapToLocal exampleIDMap 165535 = Some 4294967295" "mapToLocal exampleIDMap 165536 = None"
    by (simp_all add: exampleIDMap_def)
  moreover have "localRanges exampleIDMap" "localRanges (map swapRange exampleIDMap)"
    by (simp_all add: exampleIDMap_def swapRange_def)
  ultimately show ?thesis using id_map_roundtrip [of exampleIDMap 165535 4294967295] by simp
qed

text \<open>
  The access check agrees with the attributes that the mount reports: for every caller, file
  and mapping, access is granted exactly when the POSIX rule on the reported owner, group and
  mode grants it, and every refusal is EACCES.
\<close>

theorem access_agrees_with_attributes:
  "wsAccess f (Some (u, g)) st acc = (if posixAllows (applyAttr f st) u g acc then 0 else EACCES)"
proof (cases "u = 0")
  case True
  have "wsAccess f (Some (u, g)) st acc = (if bit acc 0 \<and> (wi_Mode st AND 0x1FF) AND 0x49 = 0 then EACCES else 0)"
    unfolding wsAccess_def Let_def and_bit_iff using True by auto
  then show ?thesis using True unfolding perm_any_x
    by (auto simp: posixAllows_def applyAttr_view fuse_perm_bit)
next
  case False
  define k where "k = 3 * posixClass (viewUID f (wi_Sys st)) (viewGID f (wi_Sys st)) u g"
  let ?al = "drop_bit k (wi_Mode st AND 0x1FF) AND 7"
  have k: "k \<le> 6" by (simp add: k_def posixClass_def)
  have b: "bit ?al 0 = bit (fa_Mode (applyAttr f st)) k" "bit ?al 1 = bit (fa_Mode (applyAttr f st)) (k + 1)"
    "bit ?al 2 = bit (fa_Mode (applyAttr f st)) (k + 2)"
    using k shifted_perm_bit [OF k, of 0] shifted_perm_bit [OF k, of 1] shifted_perm_bit [OF k, of 2]
    by (simp_all add: applyAttr_view fuse_perm_bit)
  have "wsAccess f (Some (u, g)) st acc =
    (if (bit acc 2 \<longrightarrow> bit ?al 2) \<and> (bit acc 1 \<longrightarrow> bit ?al 1) \<and> (bit acc 0 \<longrightarrow> bit ?al 0) then 0 else EACCES)"
  proof -
    have "(case Some (u, g) of None \<Rightarrow> 0 | Some (a, b) \<Rightarrow>
        if a = viewUID f (wi_Sys st) then 6 else if b = viewGID f (wi_Sys st) then 3 else 0) = k"
      by (simp add: k_def posixClass_def)
    then show ?thesis unfolding wsAccess_def Let_def using False and_bit_iff [of acc] and_bit_iff [of ?al]
      by (auto split del: if_split split: if_splits)
  qed
  then show ?thesis unfolding b using False
    by (auto simp: posixAllows_def Let_def applyAttr_view(1,2) k_def)
qed

text \<open>
  A mode survives the two translations: for each of the seven Unix file types, a mode word of
  the remote system turned into Go's notation and then into the mode of a FUSE reply is the same
  word, with its type, set-user, set-group, sticky and permission bits.
\<close>

theorem unix_mode_roundtrip:
  assumes "m < 0x10000" "(m AND unixSIFMT, t) \<in> set unixTypes"
  shows "fuseModeFromFileMode (modeFromUnix m) = m"
proof -
  have "fuseModeFromFileMode (modeFromUnix m) = (m AND unixSIFMT) OR (m AND 0xFFF)"
    unfolding modeFromUnix_eq [OF assms(1) refl assms(2)] by (rule fuse_mode_of_type [OF assms(2)])
  also have "\<dots> = m AND 0xFFFF" by (simp flip: bit.conj_disj_distrib)
  also have "\<dots> = m" using less_mask_eq [of m 16] assms(1) by (simp add: mask_eq_exp_minus_1)
  finally show ?thesis .
qed

theorem unix_mode_roundtrip_witness: "fuseModeFromFileMode (modeFromUnix 0x89ED) = 0x89ED"
  using unix_mode_roundtrip [of "0x89ED" 0] by (simp add: unixTypes_def)

end
