(* ===== verification/FileClient.thy ===== *)
theory FileClient
  imports WsView
begin

text \<open>
  The interface \<open>FileClient\<close> of \<open>pkg/remote/backend.go\<close> and its implementation by the Docker
  backend, \<open>pkg/remote/docker/fileclient.go\<close>: every operation is a request to the agent's file
  operation server. The call \<open>mux.FileOp\<close> is the parameter \<open>call\<close>. A client has a state, read
  handles \<open>'r\<close> and write handles \<open>'w\<close>. The bytes that \<open>ReadAt\<close> puts into its buffer are a result.
\<close>

unbundle bit_operations_syntax

section \<open>The interface\<close>

record ('s, 'r, 'w) FileClient =
  fc_Open :: "'s \<Rightarrow> string \<Rightarrow> (oserr + 'r) \<times> 's"
  fc_Create :: "'s \<Rightarrow> string \<Rightarrow> (oserr + 'w) \<times> 's"
  fc_OpenFile :: "'s \<Rightarrow> string \<Rightarrow> int \<Rightarrow> uint32 \<Rightarrow> (oserr + 'w) \<times> 's"
  fc_Stat :: "'s \<Rightarrow> string \<Rightarrow> (oserr + wsInfo) \<times> 's"
  fc_Lstat :: "'s \<Rightarrow> string \<Rightarrow> (oserr + wsInfo) \<times> 's"
  fc_ReadDir :: "'s \<Rightarrow> string \<Rightarrow> (oserr + wsInfo list) \<times> 's"
  fc_Readlink :: "'s \<Rightarrow> string \<Rightarrow> (oserr + string) \<times> 's"
  fc_Mkdir :: "'s \<Rightarrow> string \<Rightarrow> uint32 \<Rightarrow> oserr option \<times> 's"
  fc_MkdirAll :: "'s \<Rightarrow> string \<Rightarrow> uint32 \<Rightarrow> oserr option \<times> 's"
  fc_Remove :: "'s \<Rightarrow> string \<Rightarrow> oserr option \<times> 's"
  fc_Rename :: "'s \<Rightarrow> string \<Rightarrow> string \<Rightarrow> oserr option \<times> 's"
  fc_Symlink :: "'s \<Rightarrow> string \<Rightarrow> string \<Rightarrow> oserr option \<times> 's"
  fc_Link :: "'s \<Rightarrow> string \<Rightarrow> string \<Rightarrow> oserr option \<times> 's"
  fc_Chmod :: "'s \<Rightarrow> string \<Rightarrow> uint32 \<Rightarrow> oserr option \<times> 's"
  fc_Chown :: "'s \<Rightarrow> string \<Rightarrow> uint32 \<Rightarrow> uint32 \<Rightarrow> oserr option \<times> 's"
  fc_Chtimes :: "'s \<Rightarrow> string \<Rightarrow> int \<Rightarrow> int \<Rightarrow> oserr option \<times> 's"
  fc_Truncate :: "'s \<Rightarrow> string \<Rightarrow> int \<Rightarrow> oserr option \<times> 's"
  fc_Statfs :: "'s \<Rightarrow> string \<Rightarrow> (oserr + FileStatfs) \<times> 's"
  fc_Getwd :: "'s \<Rightarrow> (oserr + string) \<times> 's"
  rf_Read :: "'s \<Rightarrow> 'r \<Rightarrow> nat \<Rightarrow> (bytes \<times> oserr option) \<times> 'r \<times> 's"
  rf_ReadAt :: "'s \<Rightarrow> 'r \<Rightarrow> nat \<Rightarrow> int \<Rightarrow> (bytes \<times> oserr option) \<times> 's"
  rf_Sync :: "'s \<Rightarrow> 'r \<Rightarrow> oserr option \<times> 's"
  rf_Close :: "'s \<Rightarrow> 'r \<Rightarrow> oserr option \<times> 's"
  wf_Write :: "'s \<Rightarrow> 'w \<Rightarrow> bytes \<Rightarrow> (int \<times> oserr option) \<times> 'w \<times> 's"
  wf_ReadAt :: "'s \<Rightarrow> 'w \<Rightarrow> nat \<Rightarrow> int \<Rightarrow> (bytes \<times> oserr option) \<times> 's"
  wf_WriteAt :: "'s \<Rightarrow> 'w \<Rightarrow> bytes \<Rightarrow> int \<Rightarrow> (int \<times> oserr option) \<times> 's"
  wf_Stat :: "'s \<Rightarrow> 'w \<Rightarrow> (oserr + wsInfo) \<times> 's"
  wf_Truncate :: "'s \<Rightarrow> 'w \<Rightarrow> int \<Rightarrow> oserr option \<times> 's"
  wf_Sync :: "'s \<Rightarrow> 'w \<Rightarrow> oserr option \<times> 's"
  wf_Close :: "'s \<Rightarrow> 'w \<Rightarrow> oserr option \<times> 's"

section \<open>Errors\<close>

definition plainErr :: "string \<Rightarrow> oserr" where
  "plainErr msg = \<lparr>oe_errno = None, oe_NotExist = False, oe_Permission = False, oe_Exist = False, oe_Invalid = False,
     oe_EOF = False, oe_Msg = msg\<rparr>"

abbreviation EPERM :: uint32 where "EPERM \<equiv> 1"
abbreviation ENOTEMPTY :: uint32 where "ENOTEMPTY \<equiv> 39"

text \<open>A value of type \<open>syscall.Errno\<close> with its \<open>Is\<close> method; its text is left out.\<close>

definition errnoErr :: "uint32 \<Rightarrow> oserr" where
  "errnoErr e = \<lparr>oe_errno = Some e, oe_NotExist = (e = ENOENT), oe_Permission = (e = EACCES \<or> e = EPERM),
     oe_Exist = (e = EEXIST \<or> e = ENOTEMPTY), oe_Invalid = False, oe_EOF = False, oe_Msg = []\<rparr>"

definition eofErr :: oserr where "eofErr = (plainErr ''EOF'')\<lparr>oe_EOF := True\<rparr>"

definition errnoToErr :: "FileOpResp \<Rightarrow> oserr" where
  "errnoToErr resp =
     (if rs_Errno resp = ENOENT then (plainErr ''file does not exist'')\<lparr>oe_NotExist := True\<rparr>
      else if rs_Errno resp = EACCES then (plainErr ''permission denied'')\<lparr>oe_Permission := True\<rparr>
      else if rs_Errno resp = EEXIST then (plainErr ''file already exists'')\<lparr>oe_Exist := True\<rparr>
      else if rs_Errno resp = EINVAL then (plainErr ''invalid argument'')\<lparr>oe_Invalid := True\<rparr>
      else if rs_Errno resp \<noteq> 0 then errnoErr (rs_Errno resp)
      else if rs_ErrMsg resp \<noteq> [] then plainErr (rs_ErrMsg resp)
      else plainErr ''errno 0'')"

section \<open>Requests\<close>

definition opReq :: "FileOp \<Rightarrow> string \<Rightarrow> FileOpReq" where
  "opReq op p = \<lparr>rq_ReqID = 0, rq_Op = op, rq_Path = p, rq_NewPath = [], rq_Flags = 0, rq_Mode = 0,
     rq_UID = 0, rq_GID = 0, rq_Handle = 0, rq_Offset = 0, rq_Size = 0, rq_AtimeNanos = 0, rq_MTimeNanos = 0,
     rq_Data = []\<rparr>"

definition handleReq :: "FileOp \<Rightarrow> uint32 \<Rightarrow> FileOpReq" where
  "handleReq op h = (opReq op [])\<lparr>rq_Handle := h\<rparr>"

type_synonym 's fileCall = "'s \<Rightarrow> FileOpReq \<Rightarrow> (oserr + FileOpResp option) \<times> 's"

text \<open>\<open>agentFileClient.do\<close>: a response may come together with an error.\<close>

definition docker_do :: "'s fileCall \<Rightarrow> 's \<Rightarrow> FileOpReq \<Rightarrow> (FileOpResp option \<times> oserr option) \<times> 's" where
  "docker_do call s req =
     (case call s req of
        (Inl err, s') \<Rightarrow> ((None, Some err), s')
      | (Inr None, s') \<Rightarrow> ((None, Some (plainErr ''nil file-op response'')), s')
      | (Inr (Some resp), s') \<Rightarrow>
          if rs_Errno resp \<noteq> 0 \<or> rs_ErrMsg resp \<noteq> [] then ((Some resp, Some (errnoToErr resp)), s')
          else ((Some resp, None), s'))"

text \<open>An operation that keeps only the error, and one that goes on with the response.\<close>

definition docker_plain :: "'s fileCall \<Rightarrow> 's \<Rightarrow> FileOpReq \<Rightarrow> oserr option \<times> 's" where
  "docker_plain call s req = (let ((_, err), s') = docker_do call s req in (err, s'))"

definition docker_with :: "'s fileCall \<Rightarrow> 's \<Rightarrow> FileOpReq \<Rightarrow> (FileOpResp \<Rightarrow> oserr + 'a) \<Rightarrow> (oserr + 'a) \<times> 's" where
  "docker_with call s req k =
     (case docker_do call s req of
        ((_, Some err), s') \<Rightarrow> (Inl err, s')
      | ((Some resp, None), s') \<Rightarrow> (k resp, s')
      | ((None, None), s') \<Rightarrow> (Inl (plainErr []), s'))"

definition fileModeToPOSIX :: "uint32 \<Rightarrow> uint32" where
  "fileModeToPOSIX mode =
     (let out = mode AND 0x1FF;
          out = (if mode AND ModeSetuid \<noteq> 0 then out OR 0x800 else out);
          out = (if mode AND ModeSetgid \<noteq> 0 then out OR 0x400 else out)
      in if mode AND ModeSticky \<noteq> 0 then out OR 0x200 else out)"

definition int32 :: "int \<Rightarrow> int" where "int32 i = sint (word_of_int i :: 32 word)"

definition statInfo :: "FileStat \<Rightarrow> wsInfo" where
  "statInfo s = \<lparr>wi_Name = st_Name s, wi_Size = st_Size s, wi_Mode = st_Mode s, wi_ModTime = st_MTimeNanos s,
     wi_IsDir = st_IsDir s, wi_Sys = SysAgent s\<rparr>"

section \<open>Path operations\<close>

record remoteFile =
  rd_handle :: uint32
  rd_pos :: int

record remoteWriteFile =
  rw_handle :: uint32
  rw_flags :: int
  rw_pos :: int

definition docker_Open :: "'s fileCall \<Rightarrow> 's \<Rightarrow> string \<Rightarrow> (oserr + remoteFile) \<times> 's" where
  "docker_Open call s p = docker_with call s (opReq FileOpOpen p) (\<lambda>resp. Inr \<lparr>rd_handle = rs_Handle resp, rd_pos = 0\<rparr>)"

definition docker_Create :: "'s fileCall \<Rightarrow> 's \<Rightarrow> string \<Rightarrow> (oserr + remoteWriteFile) \<times> 's" where
  "docker_Create call s p =
     docker_with call s (opReq FileOpCreate p) (\<lambda>resp. Inr \<lparr>rw_handle = rs_Handle resp, rw_flags = 0, rw_pos = 0\<rparr>)"

definition docker_OpenFile :: "'s fileCall \<Rightarrow> 's \<Rightarrow> string \<Rightarrow> int \<Rightarrow> uint32 \<Rightarrow> (oserr + remoteWriteFile) \<times> 's" where
  "docker_OpenFile call s p flags mode =
     docker_with call s ((opReq FileOpOpenFile p)\<lparr>rq_Flags := int32 flags, rq_Mode := fileModeToPOSIX mode\<rparr>)
       (\<lambda>resp. Inr \<lparr>rw_handle = rs_Handle resp, rw_flags = flags, rw_pos = 0\<rparr>)"

definition docker_stat :: "string \<Rightarrow> FileOpResp \<Rightarrow> oserr + wsInfo" where
  "docker_stat what resp =
     (case rs_Stat resp of None \<Rightarrow> Inl (plainErr (what @ '': empty result'')) | Some st \<Rightarrow> Inr (statInfo st))"

definition docker_Stat :: "'s fileCall \<Rightarrow> 's \<Rightarrow> string \<Rightarrow> (oserr + wsInfo) \<times> 's" where
  "docker_Stat call s p = docker_with call s (opReq FileOpStat p) (docker_stat ''stat'')"

definition docker_Lstat :: "'s fileCall \<Rightarrow> 's \<Rightarrow> string \<Rightarrow> (oserr + wsInfo) \<times> 's" where
  "docker_Lstat call s p = docker_with call s (opReq FileOpLstat p) (docker_stat ''lstat'')"

definition docker_ReadDir :: "'s fileCall \<Rightarrow> 's \<Rightarrow> string \<Rightarrow> (oserr + wsInfo list) \<times> 's" where
  "docker_ReadDir call s p = docker_with call s (opReq FileOpReadDir p) (\<lambda>resp. Inr (map statInfo (rs_Entries resp)))"

definition docker_Readlink :: "'s fileCall \<Rightarrow> 's \<Rightarrow> string \<Rightarrow> (oserr + string) \<times> 's" where
  "docker_Readlink call s p = docker_with call s (opReq FileOpReadlink p) (\<lambda>resp. Inr (rs_Path resp))"

definition docker_Mkdir :: "'s fileCall \<Rightarrow> 's \<Rightarrow> string \<Rightarrow> uint32 \<Rightarrow> oserr option \<times> 's" where
  "docker_Mkdir call s p mode = docker_plain call s ((opReq FileOpMkdir p)\<lparr>rq_Mode := fileModeToPOSIX mode\<rparr>)"

definition docker_MkdirAll :: "'s fileCall \<Rightarrow> 's \<Rightarrow> string \<Rightarrow> uint32 \<Rightarrow> oserr option \<times> 's" where
  "docker_MkdirAll call s p mode = docker_plain call s ((opReq FileOpMkdirAll p)\<lparr>rq_Mode := fileModeToPOSIX mode\<rparr>)"

definition docker_Remove :: "'s fileCall \<Rightarrow> 's \<Rightarrow> string \<Rightarrow> oserr option \<times> 's" where
  "docker_Remove call s p = docker_plain call s (opReq FileOpRemove p)"

definition docker_Rename :: "'s fileCall \<Rightarrow> 's \<Rightarrow> string \<Rightarrow> string \<Rightarrow> oserr option \<times> 's" where
  "docker_Rename call s old new = docker_plain call s ((opReq FileOpRename old)\<lparr>rq_NewPath := new\<rparr>)"

definition docker_Symlink :: "'s fileCall \<Rightarrow> 's \<Rightarrow> string \<Rightarrow> string \<Rightarrow> oserr option \<times> 's" where
  "docker_Symlink call s target link = docker_plain call s ((opReq FileOpSymlink target)\<lparr>rq_NewPath := link\<rparr>)"

definition docker_Link :: "'s fileCall \<Rightarrow> 's \<Rightarrow> string \<Rightarrow> string \<Rightarrow> oserr option \<times> 's" where
  "docker_Link call s old new = docker_plain call s ((opReq FileOpLink old)\<lparr>rq_NewPath := new\<rparr>)"

definition docker_Chmod :: "'s fileCall \<Rightarrow> 's \<Rightarrow> string \<Rightarrow> uint32 \<Rightarrow> oserr option \<times> 's" where
  "docker_Chmod call s p mode = docker_plain call s ((opReq FileOpChmod p)\<lparr>rq_Mode := fileModeToPOSIX mode\<rparr>)"

definition docker_Chown :: "'s fileCall \<Rightarrow> 's \<Rightarrow> string \<Rightarrow> uint32 \<Rightarrow> uint32 \<Rightarrow> oserr option \<times> 's" where
  "docker_Chown call s p uid gid = docker_plain call s ((opReq FileOpChown p)\<lparr>rq_UID := uid, rq_GID := gid\<rparr>)"

definition docker_Chtimes :: "'s fileCall \<Rightarrow> 's \<Rightarrow> string \<Rightarrow> int \<Rightarrow> int \<Rightarrow> oserr option \<times> 's" where
  "docker_Chtimes call s p atime mtime =
     docker_plain call s ((opReq FileOpChtimes p)\<lparr>rq_AtimeNanos := atime, rq_MTimeNanos := mtime\<rparr>)"

definition docker_Truncate :: "'s fileCall \<Rightarrow> 's \<Rightarrow> string \<Rightarrow> int \<Rightarrow> oserr option \<times> 's" where
  "docker_Truncate call s p sz = docker_plain call s ((opReq FileOpTruncate p)\<lparr>rq_Size := sz\<rparr>)"

definition docker_Statfs :: "'s fileCall \<Rightarrow> 's \<Rightarrow> string \<Rightarrow> (oserr + FileStatfs) \<times> 's" where
  "docker_Statfs call s p = docker_with call s (opReq FileOpStatfs p)
     (\<lambda>resp. case rs_Statfs resp of None \<Rightarrow> Inl (plainErr ''statfs: empty result'') | Some st \<Rightarrow> Inr st)"

definition docker_Getwd :: "'s fileCall \<Rightarrow> 's \<Rightarrow> (oserr + string) \<times> 's" where
  "docker_Getwd call s = docker_with call s (opReq FileOpGetwd []) (\<lambda>resp. Inr (rs_Path resp))"

section \<open>Open files\<close>

definition readAtReq :: "uint32 \<Rightarrow> nat \<Rightarrow> int \<Rightarrow> FileOpReq" where
  "readAtReq h n off = (handleReq FileOpReadAt h)\<lparr>rq_Offset := off, rq_Size := int n\<rparr>"

text \<open>A successful read of at most \<open>n\<close> bytes.\<close>

definition docker_readOK :: "nat \<Rightarrow> FileOpResp \<Rightarrow> bytes \<times> oserr option" where
  "docker_readOK n resp = (take n (rs_Data resp), if rs_EOF resp then Some eofErr else None)"

definition docker_rdReadAt :: "'s fileCall \<Rightarrow> 's \<Rightarrow> remoteFile \<Rightarrow> nat \<Rightarrow> int \<Rightarrow> (bytes \<times> oserr option) \<times> 's" where
  "docker_rdReadAt call s f n off =
     (case docker_do call s (readAtReq (rd_handle f) n off) of
        ((_, Some err), s') \<Rightarrow> (([], Some err), s')
      | ((Some resp, None), s') \<Rightarrow> (docker_readOK n resp, s')
      | ((None, None), s') \<Rightarrow> (([], Some (plainErr [])), s'))"

definition docker_rdRead :: "'s fileCall \<Rightarrow> 's \<Rightarrow> remoteFile \<Rightarrow> nat \<Rightarrow> (bytes \<times> oserr option) \<times> remoteFile \<times> 's" where
  "docker_rdRead call s f n =
     (let ((d, err), s') = docker_rdReadAt call s f n (rd_pos f)
      in ((d, err), f\<lparr>rd_pos := rd_pos f + int (length d)\<rparr>, s'))"

definition docker_rdSync :: "'s fileCall \<Rightarrow> 's \<Rightarrow> remoteFile \<Rightarrow> oserr option \<times> 's" where
  "docker_rdSync call s f = docker_plain call s (handleReq FileOpFsync (rd_handle f))"

definition docker_rdClose :: "'s fileCall \<Rightarrow> 's \<Rightarrow> remoteFile \<Rightarrow> oserr option \<times> 's" where
  "docker_rdClose call s f = docker_plain call s (handleReq FileOpClose (rd_handle f))"

definition respN :: "FileOpResp option \<Rightarrow> int" where
  "respN resp = (case resp of None \<Rightarrow> 0 | Some r \<Rightarrow> rs_N r)"

definition docker_wrReadAt :: "'s fileCall \<Rightarrow> 's \<Rightarrow> remoteWriteFile \<Rightarrow> nat \<Rightarrow> int \<Rightarrow> (bytes \<times> oserr option) \<times> 's" where
  "docker_wrReadAt call s f n off =
     (case docker_do call s (readAtReq (rw_handle f) n off) of
        ((resp, Some err), s') \<Rightarrow> ((take (nat (respN resp)) (replicate n (CHR 0x00)), Some err), s')
      | ((Some resp, None), s') \<Rightarrow> (docker_readOK n resp, s')
      | ((None, None), s') \<Rightarrow> (([], Some (plainErr [])), s'))"

definition docker_writeAt :: "'s fileCall \<Rightarrow> 's \<Rightarrow> remoteWriteFile \<Rightarrow> bytes \<Rightarrow> int \<Rightarrow> (int \<times> oserr option) \<times> 's" where
  "docker_writeAt call s f p off =
     (let ((resp, err), s') = docker_do call s ((handleReq FileOpWriteAt (rw_handle f))\<lparr>rq_Offset := off, rq_Data := p\<rparr>)
      in ((respN resp, err), s'))"

abbreviation O_APPEND :: int where "O_APPEND \<equiv> 0x400"

definition docker_wrWrite :: "'s fileCall \<Rightarrow> 's \<Rightarrow> remoteWriteFile \<Rightarrow> bytes \<Rightarrow> (int \<times> oserr option) \<times> remoteWriteFile \<times> 's" where
  "docker_wrWrite call s f p =
     (if rw_flags f AND O_APPEND \<noteq> 0 then (let (r, s') = docker_writeAt call s f p (- 1) in (r, f, s'))
      else let ((n, err), s') = docker_writeAt call s f p (rw_pos f)
           in ((n, err), f\<lparr>rw_pos := rw_pos f + n\<rparr>, s'))"

definition docker_wrWriteAt :: "'s fileCall \<Rightarrow> 's \<Rightarrow> remoteWriteFile \<Rightarrow> bytes \<Rightarrow> int \<Rightarrow> (int \<times> oserr option) \<times> 's" where
  "docker_wrWriteAt call s f p off =
     (if rw_flags f AND O_APPEND \<noteq> 0 then docker_writeAt call s f p (- 1) else docker_writeAt call s f p off)"

definition docker_wrStat :: "'s fileCall \<Rightarrow> 's \<Rightarrow> remoteWriteFile \<Rightarrow> (oserr + wsInfo) \<times> 's" where
  "docker_wrStat call s f = docker_with call s (handleReq FileOpFstat (rw_handle f)) (docker_stat ''fstat'')"

definition docker_wrTruncate :: "'s fileCall \<Rightarrow> 's \<Rightarrow> remoteWriteFile \<Rightarrow> int \<Rightarrow> oserr option \<times> 's" where
  "docker_wrTruncate call s f sz = docker_plain call s ((handleReq FileOpFtruncate (rw_handle f))\<lparr>rq_Size := sz\<rparr>)"

definition docker_wrSync :: "'s fileCall \<Rightarrow> 's \<Rightarrow> remoteWriteFile \<Rightarrow> oserr option \<times> 's" where
  "docker_wrSync call s f = docker_plain call s (handleReq FileOpFsync (rw_handle f))"

definition docker_wrClose :: "'s fileCall \<Rightarrow> 's \<Rightarrow> remoteWriteFile \<Rightarrow> oserr option \<times> 's" where
  "docker_wrClose call s f = docker_plain call s (handleReq FileOpClose (rw_handle f))"

definition dockerClient :: "'s fileCall \<Rightarrow> ('s, remoteFile, remoteWriteFile) FileClient" where
  "dockerClient call = \<lparr>fc_Open = docker_Open call, fc_Create = docker_Create call, fc_OpenFile = docker_OpenFile call,
     fc_Stat = docker_Stat call, fc_Lstat = docker_Lstat call, fc_ReadDir = docker_ReadDir call,
     fc_Readlink = docker_Readlink call, fc_Mkdir = docker_Mkdir call, fc_MkdirAll = docker_MkdirAll call,
     fc_Remove = docker_Remove call, fc_Rename = docker_Rename call, fc_Symlink = docker_Symlink call,
     fc_Link = docker_Link call, fc_Chmod = docker_Chmod call, fc_Chown = docker_Chown call,
     fc_Chtimes = docker_Chtimes call, fc_Truncate = docker_Truncate call, fc_Statfs = docker_Statfs call,
     fc_Getwd = docker_Getwd call, rf_Read = docker_rdRead call, rf_ReadAt = docker_rdReadAt call,
     rf_Sync = docker_rdSync call, rf_Close = docker_rdClose call, wf_Write = docker_wrWrite call,
     wf_ReadAt = docker_wrReadAt call, wf_WriteAt = docker_wrWriteAt call, wf_Stat = docker_wrStat call,
     wf_Truncate = docker_wrTruncate call, wf_Sync = docker_wrSync call, wf_Close = docker_wrClose call\<rparr>"

end
