(* ===== verification/WorkspaceFS.thy ===== *)
theory WorkspaceFS
  imports FileClient
begin

text \<open>
  \<open>pkg/workspacefs\<close>: the operations of the file system (\<open>filesystem.go\<close>) and of its directory and
  file nodes (\<open>node_dir.go\<close>, \<open>node_file.go\<close>) over any file client. A result is an errno or a value;
  an error of a client never wraps errno zero, so a nil value with an errno is the left summand.
\<close>

unbundle bit_operations_syntax

section \<open>File system operations\<close>

abbreviation EISDIR :: uint32 where "EISDIR \<equiv> 21"
abbreviation ENOTDIR :: uint32 where "ENOTDIR \<equiv> 20"
abbreviation ENOTTY :: uint32 where "ENOTTY \<equiv> 25"
abbreviation ENOATTR :: uint32 where "ENOATTR \<equiv> 61"
abbreviation ENOTSUP :: uint32 where "ENOTSUP \<equiv> 95"

abbreviation O_WRONLY :: int where "O_WRONLY \<equiv> 1"
abbreviation O_CREATE :: int where "O_CREATE \<equiv> 0x40"

definition errnoOf :: "oserr option \<Rightarrow> uint32" where
  "errnoOf e = (case e of None \<Rightarrow> 0 | Some err \<Rightarrow> wsToErrno err)"

text \<open>An operation whose only result is its errno, and one with a value.\<close>

definition wsPlain :: "oserr option \<times> 's \<Rightarrow> uint32 \<times> 's" where
  "wsPlain r = (errnoOf (fst r), snd r)"

definition wsValue :: "(oserr + 'a) \<times> 's \<Rightarrow> (uint32 + 'a) \<times> 's" where
  "wsValue r = (case fst r of Inl err \<Rightarrow> Inl (wsToErrno err) | Inr v \<Rightarrow> Inr v, snd r)"

definition wsReadFile :: "('s, 'r, 'w) FileClient \<Rightarrow> wsFS \<Rightarrow> 's \<Rightarrow> string \<Rightarrow> int \<Rightarrow> int \<Rightarrow> (uint32 + bytes) \<times> 's" where
  "wsReadFile C f s rel off sz =
     (case fc_Open C s (absPath f rel) of
        (Inl err, s) \<Rightarrow> (Inl (wsToErrno err), s)
      | (Inr fh, s) \<Rightarrow>
          if sz \<le> 0 then (Inr [], snd (rf_Close C s fh))
          else (case rf_ReadAt C s fh (nat sz) off of
            ((d, err), s) \<Rightarrow>
              (let s' = snd (rf_Close C s fh) in
               case err of
                 Some e \<Rightarrow> if \<not> oe_EOF e then (Inl (wsToErrno e), s') else (Inr d, s')
               | None \<Rightarrow> (Inr d, s'))))"

definition wsStat :: "('s, 'r, 'w) FileClient \<Rightarrow> wsFS \<Rightarrow> 's \<Rightarrow> string \<Rightarrow> (uint32 + wsInfo) \<times> 's" where
  "wsStat C f s rel = wsValue (fc_Lstat C s (absPath f rel))"

definition wsReadDir :: "('s, 'r, 'w) FileClient \<Rightarrow> wsFS \<Rightarrow> 's \<Rightarrow> string \<Rightarrow> (uint32 + wsInfo list) \<times> 's" where
  "wsReadDir C f s rel = wsValue (fc_ReadDir C s (absPath f rel))"

definition wsReadlink :: "('s, 'r, 'w) FileClient \<Rightarrow> wsFS \<Rightarrow> 's \<Rightarrow> string \<Rightarrow> (uint32 + string) \<times> 's" where
  "wsReadlink C f s rel = wsValue (fc_Readlink C s (absPath f rel))"

definition wsWriteFile ::
  "('s, 'r, 'w) FileClient \<Rightarrow> wsFS \<Rightarrow> 's \<Rightarrow> string \<Rightarrow> bytes \<Rightarrow> int \<Rightarrow> (uint32 \<times> uint32) \<times> 's" where
  "wsWriteFile C f s rel d off =
     (case fc_OpenFile C s (absPath f rel) O_WRONLY 0 of
        (Inl err, s) \<Rightarrow> ((0, wsToErrno err), s)
      | (Inr fh, s) \<Rightarrow>
          (case wf_WriteAt C s fh d off of
             ((n, Some err), s) \<Rightarrow> ((word_of_int n, wsToErrno err), snd (wf_Close C s fh))
           | ((n, None), s) \<Rightarrow>
               (let (cerr, s') = wf_Close C s fh in ((word_of_int n, errnoOf cerr), s'))))"

definition wsCreateFile :: "('s, 'r, 'w) FileClient \<Rightarrow> wsFS \<Rightarrow> 's \<Rightarrow> string \<Rightarrow> uint32 \<Rightarrow> uint32 \<Rightarrow> uint32 \<times> 's" where
  "wsCreateFile C f s rel flags mode =
     (case fc_OpenFile C s (absPath f rel) (uint flags OR O_CREATE) (posixFileMode mode) of
        (Inl err, s) \<Rightarrow> (wsToErrno err, s)
      | (Inr fh, s) \<Rightarrow> wsPlain (wf_Close C s fh))"

definition wsMkDir :: "('s, 'r, 'w) FileClient \<Rightarrow> wsFS \<Rightarrow> 's \<Rightarrow> string \<Rightarrow> uint32 \<Rightarrow> uint32 \<times> 's" where
  "wsMkDir C f s rel mode = wsPlain (fc_Mkdir C s (absPath f rel) (posixFileMode mode))"

definition wsUnlink :: "('s, 'r, 'w) FileClient \<Rightarrow> wsFS \<Rightarrow> 's \<Rightarrow> string \<Rightarrow> uint32 \<times> 's" where
  "wsUnlink C f s rel =
     (case wsStat C f s rel of
        (Inl errno, s) \<Rightarrow> (errno, s)
      | (Inr st, s) \<Rightarrow> if wi_IsDir st then (EISDIR, s) else wsPlain (fc_Remove C s (absPath f rel)))"

definition wsRmdir :: "('s, 'r, 'w) FileClient \<Rightarrow> wsFS \<Rightarrow> 's \<Rightarrow> string \<Rightarrow> uint32 \<times> 's" where
  "wsRmdir C f s rel =
     (case wsStat C f s rel of
        (Inl errno, s) \<Rightarrow> (errno, s)
      | (Inr st, s) \<Rightarrow> if \<not> wi_IsDir st then (ENOTDIR, s) else wsPlain (fc_Remove C s (absPath f rel)))"

definition wsRename :: "('s, 'r, 'w) FileClient \<Rightarrow> wsFS \<Rightarrow> 's \<Rightarrow> string \<Rightarrow> string \<Rightarrow> uint32 \<times> 's" where
  "wsRename C f s old new = wsPlain (fc_Rename C s (absPath f old) (absPath f new))"

definition wsSymlink :: "('s, 'r, 'w) FileClient \<Rightarrow> wsFS \<Rightarrow> 's \<Rightarrow> string \<Rightarrow> string \<Rightarrow> uint32 \<times> 's" where
  "wsSymlink C f s target linkRel = wsPlain (fc_Symlink C s target (absPath f linkRel))"

definition wsLink :: "('s, 'r, 'w) FileClient \<Rightarrow> wsFS \<Rightarrow> 's \<Rightarrow> string \<Rightarrow> string \<Rightarrow> uint32 \<times> 's" where
  "wsLink C f s old new = wsPlain (fc_Link C s (absPath f old) (absPath f new))"

definition wsChmod :: "('s, 'r, 'w) FileClient \<Rightarrow> wsFS \<Rightarrow> 's \<Rightarrow> string \<Rightarrow> uint32 \<Rightarrow> uint32 \<times> 's" where
  "wsChmod C f s rel mode = wsPlain (fc_Chmod C s (absPath f rel) mode)"

definition wsChown :: "('s, 'r, 'w) FileClient \<Rightarrow> wsFS \<Rightarrow> 's \<Rightarrow> string \<Rightarrow> uint32 \<Rightarrow> uint32 \<Rightarrow> uint32 \<times> 's" where
  "wsChown C f s rel uid gid =
     (let finalUID = resolveChown (ws_uidMap f) (ws_uidMode f) uid;
          finalGID = resolveChown (ws_gidMap f) (ws_gidMode f) gid
      in case (finalUID, finalGID) of
           (None, None) \<Rightarrow> (0, s)
         | (Some u, Some g) \<Rightarrow> wsPlain (fc_Chown C s (absPath f rel) u g)
         | _ \<Rightarrow>
             (case wsStat C f s rel of
                (Inl errno, s) \<Rightarrow> (errno, s)
              | (Inr st, s) \<Rightarrow>
                  wsPlain (fc_Chown C s (absPath f rel)
                    (case finalUID of Some u \<Rightarrow> u | None \<Rightarrow> currentUID (wi_Sys st))
                    (case finalGID of Some g \<Rightarrow> g | None \<Rightarrow> currentGID (wi_Sys st)))))"

definition wsChtimes :: "('s, 'r, 'w) FileClient \<Rightarrow> wsFS \<Rightarrow> 's \<Rightarrow> string \<Rightarrow> int \<Rightarrow> int \<Rightarrow> uint32 \<times> 's" where
  "wsChtimes C f s rel atime mtime = wsPlain (fc_Chtimes C s (absPath f rel) atime mtime)"

definition wsTruncate :: "('s, 'r, 'w) FileClient \<Rightarrow> wsFS \<Rightarrow> 's \<Rightarrow> string \<Rightarrow> int \<Rightarrow> uint32 \<times> 's" where
  "wsTruncate C f s rel sz = wsPlain (fc_Truncate C s (absPath f rel) sz)"

definition wsStatfs :: "('s, 'r, 'w) FileClient \<Rightarrow> wsFS \<Rightarrow> 's \<Rightarrow> string \<Rightarrow> (uint32 + FileStatfs) \<times> 's" where
  "wsStatfs C f s rel = wsValue (fc_Statfs C s (absPath f rel))"

definition wsFsync :: "('s, 'r, 'w) FileClient \<Rightarrow> wsFS \<Rightarrow> 's \<Rightarrow> string \<Rightarrow> uint32 \<times> 's" where
  "wsFsync C f s rel =
     (case fc_Open C s (absPath f rel) of
        (Inl err, s) \<Rightarrow> (wsToErrno err, s)
      | (Inr fh, s) \<Rightarrow>
          (case rf_Sync C s fh of
             (Some err, s) \<Rightarrow> (wsToErrno err, snd (rf_Close C s fh))
           | (None, s) \<Rightarrow> wsPlain (rf_Close C s fh)))"

section \<open>File nodes\<close>

record ('r, 'w) fileHandle =
  fh_read :: "'r option"
  fh_write :: "'w option"
  fh_flags :: uint32

text \<open>The handle of a request; \<^const>\<open>None\<close> when there is none of our own.\<close>

definition handleWrite :: "('r, 'w) fileHandle option \<Rightarrow> 'w option" where
  "handleWrite fh = (case fh of None \<Rightarrow> None | Some h \<Rightarrow> fh_write h)"

definition handleRead :: "('r, 'w) fileHandle option \<Rightarrow> 'r option" where
  "handleRead fh = (case fh of None \<Rightarrow> None | Some h \<Rightarrow> fh_read h)"

abbreviation S_IFMT :: uint32 where "S_IFMT \<equiv> 0xF000"
abbreviation S_IFDIR :: uint32 where "S_IFDIR \<equiv> 0x4000"
abbreviation S_IFREG :: uint32 where "S_IFREG \<equiv> 0x8000"
abbreviation S_IFLNK :: uint32 where "S_IFLNK \<equiv> 0xA000"

definition withType :: "uint32 \<Rightarrow> fuseAttr \<Rightarrow> fuseAttr" where
  "withType ft a = (if fa_Mode a AND S_IFMT = 0 then a\<lparr>fa_Mode := (fa_Mode a AND NOT S_IFMT) OR ft\<rparr> else a)"

definition wnGetattr ::
  "('s, 'r, 'w) FileClient \<Rightarrow> wsFS \<Rightarrow> 's \<Rightarrow> string \<Rightarrow> ('r, 'w) fileHandle option \<Rightarrow> (uint32 + fuseAttr) \<times> 's" where
  "wnGetattr C f s rel fh =
     (case handleWrite fh of
        Some w \<Rightarrow>
          (case wf_Stat C s w of
             (Inl err, s) \<Rightarrow> (Inl (wsToErrno err), s)
           | (Inr st, s) \<Rightarrow> (Inr (applyAttr f st), s))
      | None \<Rightarrow>
          (case wsStat C f s rel of
             (Inl errno, s) \<Rightarrow> (Inl errno, s)
           | (Inr st, s) \<Rightarrow> (Inr (withType S_IFREG (applyAttr f st)), s)))"

definition wnOpen ::
  "('s, 'r, 'w) FileClient \<Rightarrow> wsFS \<Rightarrow> 's \<Rightarrow> string \<Rightarrow> uint32 \<Rightarrow> (uint32 + ('r, 'w) fileHandle) \<times> 's" where
  "wnOpen C f s rel flags =
     (if flags AND 3 = 0 then
        (case fc_Open C s (absPath f rel) of
           (Inl err, s) \<Rightarrow> (Inl (wsToErrno err), s)
         | (Inr fh, s) \<Rightarrow> (Inr \<lparr>fh_read = Some fh, fh_write = None, fh_flags = flags\<rparr>, s))
      else
        (case fc_OpenFile C s (absPath f rel) (uint flags) 0 of
           (Inl err, s) \<Rightarrow> (Inl (wsToErrno err), s)
         | (Inr fh, s) \<Rightarrow> (Inr \<lparr>fh_read = None, fh_write = Some fh, fh_flags = flags\<rparr>, s)))"

definition wnReadlink :: "('s, 'r, 'w) FileClient \<Rightarrow> wsFS \<Rightarrow> 's \<Rightarrow> string \<Rightarrow> (uint32 + string) \<times> 's" where
  "wnReadlink C f s rel =
     (case wsStat C f s rel of
        (Inl errno, s) \<Rightarrow> (Inl errno, s)
      | (Inr st, s) \<Rightarrow> if wi_Mode st AND ModeSymlink = 0 then (Inl EINVAL, s) else wsReadlink C f s rel)"

text \<open>The bytes read through a handle, or the error.\<close>

definition readResult :: "(bytes \<times> oserr option) \<times> 's \<Rightarrow> (uint32 + bytes) \<times> 's" where
  "readResult r =
     (case fst r of
        (d, Some e) \<Rightarrow> if \<not> oe_EOF e then (Inl (wsToErrno e), snd r) else (Inr d, snd r)
      | (d, None) \<Rightarrow> (Inr d, snd r))"

definition wnRead ::
  "('s, 'r, 'w) FileClient \<Rightarrow> wsFS \<Rightarrow> 's \<Rightarrow> string \<Rightarrow> ('r, 'w) fileHandle option \<Rightarrow> nat \<Rightarrow> int \<Rightarrow>
     (uint32 + bytes) \<times> 's" where
  "wnRead C f s rel fh n off =
     (case (handleWrite fh, handleRead fh) of
        (Some w, _) \<Rightarrow> if n = 0 then (Inr [], s) else readResult (wf_ReadAt C s w n off)
      | (None, Some r) \<Rightarrow> if n = 0 then (Inr [], s) else readResult (rf_ReadAt C s r n off)
      | (None, None) \<Rightarrow> wsReadFile C f s rel off (int n))"

text \<open>A sequential write changes the handle.\<close>

definition wnWrite ::
  "('s, 'r, 'w) FileClient \<Rightarrow> wsFS \<Rightarrow> 's \<Rightarrow> string \<Rightarrow> ('r, 'w) fileHandle option \<Rightarrow> bytes \<Rightarrow> int \<Rightarrow>
     (uint32 \<times> uint32) \<times> ('r, 'w) fileHandle option \<times> 's" where
  "wnWrite C f s rel fh d off =
     (case fh of
        Some h \<Rightarrow>
          (case fh_write h of
             Some w \<Rightarrow>
               if fh_flags h AND 0x400 \<noteq> 0 then
                 (let ((n, err), w', s') = wf_Write C s w d
                  in ((word_of_int n, errnoOf err), Some (h\<lparr>fh_write := Some w'\<rparr>), s'))
               else (let ((n, err), s') = wf_WriteAt C s w d off in ((word_of_int n, errnoOf err), fh, s'))
           | None \<Rightarrow> (let (r, s') = wsWriteFile C f s rel d off in (r, fh, s')))
      | None \<Rightarrow> (let (r, s') = wsWriteFile C f s rel d off in (r, fh, s')))"

definition wnFsync ::
  "('s, 'r, 'w) FileClient \<Rightarrow> wsFS \<Rightarrow> 's \<Rightarrow> string \<Rightarrow> ('r, 'w) fileHandle option \<Rightarrow> uint32 \<times> 's" where
  "wnFsync C f s rel fh =
     (case (handleWrite fh, handleRead fh) of
        (Some w, _) \<Rightarrow> wsPlain (wf_Sync C s w)
      | (None, Some r) \<Rightarrow> wsPlain (rf_Sync C s r)
      | (None, None) \<Rightarrow> wsFsync C f s rel)"

definition wnRelease :: "('s, 'r, 'w) FileClient \<Rightarrow> 's \<Rightarrow> ('r, 'w) fileHandle \<Rightarrow> uint32 \<times> 's" where
  "wnRelease C s h =
     (let (errno, s) = (case fh_read h of None \<Rightarrow> (0, s) | Some r \<Rightarrow> wsPlain (rf_Close C s r))
      in case fh_write h of
           None \<Rightarrow> (errno, s)
         | Some w \<Rightarrow> (let (err, s) = wf_Close C s w in (if err \<noteq> None \<and> errno = 0 then errnoOf err else errno, s)))"

section \<open>Setting attributes\<close>

text \<open>
  The FUSE request: the mask of valid fields and what its accessors return (\<^const>\<open>None\<close> for a field
  that is not set); times are nanoseconds.
\<close>

record setAttrIn =
  sa_Valid :: uint32
  sa_UID :: "uint32 option"
  sa_GID :: "uint32 option"
  sa_Mode :: "uint32 option"
  sa_ATime :: "int option"
  sa_MTime :: "int option"
  sa_Size :: "uint64 option"

text \<open>The supported bits of the FUSE protocol: all of the first twelve but the change time.\<close>

abbreviation supportedAttrs :: uint32 where "supportedAttrs \<equiv> 0xBFF"

text \<open>Go on with the next step when there was no error.\<close>

definition andThen :: "uint32 \<times> 's \<Rightarrow> ('s \<Rightarrow> uint32 \<times> 's) \<Rightarrow> uint32 \<times> 's" where
  "andThen r k = (if fst r \<noteq> 0 then r else k (snd r))"

definition setattrOwner :: "('s, 'r, 'w) FileClient \<Rightarrow> wsFS \<Rightarrow> string \<Rightarrow> setAttrIn \<Rightarrow> 's \<Rightarrow> uint32 \<times> 's" where
  "setattrOwner C f rel i s =
     (case (sa_UID i, sa_GID i) of
        (Some uid, Some gid) \<Rightarrow> wsChown C f s rel uid gid
      | (Some uid, None) \<Rightarrow>
          (case wsStat C f s rel of
             (Inl errno, s) \<Rightarrow> (errno, s)
           | (Inr st, s) \<Rightarrow> wsChown C f s rel uid (currentGID (wi_Sys st)))
      | (None, Some gid) \<Rightarrow>
          (case wsStat C f s rel of
             (Inl errno, s) \<Rightarrow> (errno, s)
           | (Inr st, s) \<Rightarrow> wsChown C f s rel (currentUID (wi_Sys st)) gid)
      | (None, None) \<Rightarrow> (0, s))"

definition setattrMode :: "('s, 'r, 'w) FileClient \<Rightarrow> wsFS \<Rightarrow> string \<Rightarrow> setAttrIn \<Rightarrow> 's \<Rightarrow> uint32 \<times> 's" where
  "setattrMode C f rel i s = (case sa_Mode i of None \<Rightarrow> (0, s) | Some mode \<Rightarrow> wsChmod C f s rel (posixFileMode mode))"

definition setattrTimes :: "('s, 'r, 'w) FileClient \<Rightarrow> wsFS \<Rightarrow> string \<Rightarrow> setAttrIn \<Rightarrow> 's \<Rightarrow> uint32 \<times> 's" where
  "setattrTimes C f rel i s =
     (case (sa_ATime i, sa_MTime i) of
        (Some atime, Some mtime) \<Rightarrow> wsChtimes C f s rel atime mtime
      | (Some atime, None) \<Rightarrow>
          (case wsStat C f s rel of
             (Inl errno, s) \<Rightarrow> (errno, s)
           | (Inr st, s) \<Rightarrow> wsChtimes C f s rel atime (wi_ModTime st))
      | (None, Some mtime) \<Rightarrow>
          (case wsStat C f s rel of
             (Inl errno, s) \<Rightarrow> (errno, s)
           | (Inr st, s) \<Rightarrow> wsChtimes C f s rel (currentATime st) mtime)
      | (None, None) \<Rightarrow> (0, s))"

definition setattrSize ::
  "('s, 'r, 'w) FileClient \<Rightarrow> wsFS \<Rightarrow> string \<Rightarrow> ('r, 'w) fileHandle option \<Rightarrow> setAttrIn \<Rightarrow> 's \<Rightarrow> uint32 \<times> 's" where
  "setattrSize C f rel fh i s =
     (case sa_Size i of
        None \<Rightarrow> (0, s)
      | Some sz \<Rightarrow>
          (case handleWrite fh of
             Some w \<Rightarrow> wsPlain (wf_Truncate C s w (sint sz))
           | None \<Rightarrow> wsTruncate C f s rel (sint sz)))"

definition wnSetattr ::
  "('s, 'r, 'w) FileClient \<Rightarrow> wsFS \<Rightarrow> 's \<Rightarrow> string \<Rightarrow> ('r, 'w) fileHandle option \<Rightarrow> setAttrIn \<Rightarrow>
     (uint32 + fuseAttr) \<times> 's" where
  "wnSetattr C f s rel fh i =
     (if sa_Valid i AND NOT supportedAttrs \<noteq> 0 then (Inl ENOTSUP, s)
      else case andThen (andThen (andThen (setattrOwner C f rel i s) (setattrMode C f rel i)) (setattrTimes C f rel i))
                  (setattrSize C f rel fh i) of
             (errno, s) \<Rightarrow> if errno \<noteq> 0 then (Inl errno, s) else wnGetattr C f s rel fh)"

text \<open>\<open>Access\<close> of both kinds of node.\<close>

definition wsNodeAccess ::
  "('s, 'r, 'w) FileClient \<Rightarrow> wsFS \<Rightarrow> 's \<Rightarrow> string \<Rightarrow> (uint32 \<times> uint32) option \<Rightarrow> uint32 \<Rightarrow> uint32 \<times> 's" where
  "wsNodeAccess C f s rel caller acc =
     (case wsStat C f s rel of (Inl errno, s) \<Rightarrow> (errno, s) | (Inr st, s) \<Rightarrow> (wsAccess f caller st acc, s))"

text \<open>The requests that are refused, or answered by nothing, without a call to the client.\<close>

datatype refusedReq =
    RGetxattr | RListxattr | RSetxattr | RRemovexattr | RAllocate | RCopyFileRange | RGetlk | RSetlk | RSetlkw
  | RIoctl | RMknod | RFsyncdir

fun refused :: "refusedReq \<Rightarrow> uint32" where
  "refused RGetxattr = ENOATTR"
| "refused RListxattr = 0"
| "refused RSetxattr = ENOATTR"
| "refused RRemovexattr = ENOATTR"
| "refused RAllocate = ENOTSUP"
| "refused RCopyFileRange = ENOTSUP"
| "refused RGetlk = ENOTSUP"
| "refused RSetlk = ENOTSUP"
| "refused RSetlkw = ENOTSUP"
| "refused RIoctl = ENOTTY"
| "refused RMknod = ENOTSUP"
| "refused RFsyncdir = 0"

section \<open>Directory nodes\<close>

datatype wsNode = WsDir string | WsFile string

text \<open>A new node, the type of its stable attributes and its attributes.\<close>

record nodeOut =
  no_Node :: wsNode
  no_Stable :: uint32
  no_Attr :: fuseAttr

definition wdGetattr :: "('s, 'r, 'w) FileClient \<Rightarrow> wsFS \<Rightarrow> 's \<Rightarrow> string \<Rightarrow> (uint32 + fuseAttr) \<times> 's" where
  "wdGetattr C f s rel =
     (case wsStat C f s rel of
        (Inl errno, s) \<Rightarrow> (Inl errno, s)
      | (Inr st, s) \<Rightarrow> (Inr (withType S_IFDIR (applyAttr f st)), s))"

definition wdLookup :: "('s, 'r, 'w) FileClient \<Rightarrow> wsFS \<Rightarrow> 's \<Rightarrow> string \<Rightarrow> string \<Rightarrow> (uint32 + nodeOut) \<times> 's" where
  "wdLookup C f s relPath name =
     (let rel = JoinPath [relPath, name] in
      case wsStat C f s rel of
        (Inl errno, s) \<Rightarrow> (Inl errno, s)
      | (Inr st, s) \<Rightarrow>
          (Inr \<lparr>no_Node = (if wi_IsDir st then WsDir rel else WsFile rel), no_Stable = modeToStable (wi_Mode st),
                no_Attr = applyAttr f st\<rparr>, s))"

definition wdCreate ::
  "('s, 'r, 'w) FileClient \<Rightarrow> wsFS \<Rightarrow> 's \<Rightarrow> string \<Rightarrow> string \<Rightarrow> uint32 \<Rightarrow> uint32 \<Rightarrow>
     (uint32 + nodeOut \<times> ('r, 'w) fileHandle) \<times> 's" where
  "wdCreate C f s relPath name flags mode =
     (let rel = JoinPath [relPath, name] in
      case fc_OpenFile C s (absPath f rel) (uint flags OR O_CREATE) (posixFileMode mode) of
        (Inl err, s) \<Rightarrow> (Inl (wsToErrno err), s)
      | (Inr fh, s) \<Rightarrow>
          (let h = \<lparr>fh_read = None, fh_write = Some fh, fh_flags = flags\<rparr> in
           case wsStat C f s rel of
             (Inl errno, s) \<Rightarrow> (Inl errno, snd (wnRelease C s h))
           | (Inr st, s) \<Rightarrow>
               (Inr (\<lparr>no_Node = WsFile rel, no_Stable = S_IFREG, no_Attr = applyAttr f st\<rparr>, h), s)))"

text \<open>An operation that makes a node at \<open>rel\<close>, followed by its stat.\<close>

definition makeNode ::
  "('s, 'r, 'w) FileClient \<Rightarrow> wsFS \<Rightarrow> string \<Rightarrow> wsNode \<Rightarrow> (wsInfo \<Rightarrow> uint32) \<Rightarrow> uint32 \<times> 's \<Rightarrow> (uint32 + nodeOut) \<times> 's" where
  "makeNode C f rel node stab r =
     (if fst r \<noteq> 0 then (Inl (fst r), snd r)
      else case wsStat C f (snd r) rel of
        (Inl errno, s) \<Rightarrow> (Inl errno, s)
      | (Inr st, s) \<Rightarrow> (Inr \<lparr>no_Node = node, no_Stable = stab st, no_Attr = applyAttr f st\<rparr>, s))"

definition wdMkdir ::
  "('s, 'r, 'w) FileClient \<Rightarrow> wsFS \<Rightarrow> 's \<Rightarrow> string \<Rightarrow> string \<Rightarrow> uint32 \<Rightarrow> (uint32 + nodeOut) \<times> 's" where
  "wdMkdir C f s relPath name mode =
     (let rel = JoinPath [relPath, name]
      in makeNode C f rel (WsDir rel) (\<lambda>_. S_IFDIR) (wsMkDir C f s rel mode))"

definition wdSymlink ::
  "('s, 'r, 'w) FileClient \<Rightarrow> wsFS \<Rightarrow> 's \<Rightarrow> string \<Rightarrow> string \<Rightarrow> string \<Rightarrow> (uint32 + nodeOut) \<times> 's" where
  "wdSymlink C f s relPath target name =
     (let rel = JoinPath [relPath, name]
      in makeNode C f rel (WsFile rel) (\<lambda>_. S_IFLNK) (wsSymlink C f s target rel))"

definition wdLink ::
  "('s, 'r, 'w) FileClient \<Rightarrow> wsFS \<Rightarrow> 's \<Rightarrow> string \<Rightarrow> wsNode \<Rightarrow> string \<Rightarrow> (uint32 + nodeOut) \<times> 's" where
  "wdLink C f s relPath target name =
     (case target of
        WsDir _ \<Rightarrow> (Inl EPERM, s)
      | WsFile old \<Rightarrow>
          (let rel = JoinPath [relPath, name]
           in makeNode C f rel (WsFile rel) (\<lambda>st. modeToStable (wi_Mode st)) (wsLink C f s old rel)))"

definition wdUnlink :: "('s, 'r, 'w) FileClient \<Rightarrow> wsFS \<Rightarrow> 's \<Rightarrow> string \<Rightarrow> string \<Rightarrow> uint32 \<times> 's" where
  "wdUnlink C f s relPath name = wsUnlink C f s (JoinPath [relPath, name])"

definition wdRmdir :: "('s, 'r, 'w) FileClient \<Rightarrow> wsFS \<Rightarrow> 's \<Rightarrow> string \<Rightarrow> string \<Rightarrow> uint32 \<times> 's" where
  "wdRmdir C f s relPath name = wsRmdir C f s (JoinPath [relPath, name])"

definition wdRename ::
  "('s, 'r, 'w) FileClient \<Rightarrow> wsFS \<Rightarrow> 's \<Rightarrow> string \<Rightarrow> string \<Rightarrow> wsNode \<Rightarrow> string \<Rightarrow> uint32 \<Rightarrow> uint32 \<times> 's" where
  "wdRename C f s relPath name newParent newName flags =
     (if flags \<noteq> 0 then (ENOTSUP, s)
      else case newParent of
        WsFile _ \<Rightarrow> (EINVAL, s)
      | WsDir newDir \<Rightarrow> wsRename C f s (JoinPath [relPath, name]) (JoinPath [newDir, newName]))"

definition wdOpendir :: "('s, 'r, 'w) FileClient \<Rightarrow> wsFS \<Rightarrow> 's \<Rightarrow> string \<Rightarrow> uint32 \<times> 's" where
  "wdOpendir C f s rel = (case wsStat C f s rel of (Inl errno, s) \<Rightarrow> (errno, s) | (Inr _, s) \<Rightarrow> (0, s))"

definition wdReaddir :: "('s, 'r, 'w) FileClient \<Rightarrow> wsFS \<Rightarrow> 's \<Rightarrow> string \<Rightarrow> (uint32 + (string \<times> uint32) list) \<times> 's" where
  "wdReaddir C f s rel =
     (case wsReadDir C f s rel of
        (Inl errno, s) \<Rightarrow> (Inl errno, s)
      | (Inr entries, s) \<Rightarrow>
          (Inr ([(''.'', S_IFDIR), (''..'', S_IFDIR)] @ map (\<lambda>e. (wi_Name e, modeToDirEntryMode (wi_Mode e))) entries), s))"

end
