(* ===== verification/WorkspaceRefine.thy ===== *)
theory WorkspaceRefine
  imports WorkspaceFS
begin

text \<open>
  What the workspace does to the remote file system. The locale \<open>file_backend\<close> states what the
  workspace relies on in a file client: each call does to the remote system what the call of the
  operating system does, with the same errno. The Docker client over the agent's file operation
  server is an instance; on it the workspace refines the operating system.
\<close>

unbundle bit_operations_syntax

section \<open>The contract of a backend\<close>

definition goodErr :: "oserr option \<Rightarrow> bool" where
  "goodErr e \<longleftrightarrow> (case e of None \<Rightarrow> True | Some err \<Rightarrow> wsToErrno err \<noteq> 0)"

text \<open>A call \<open>r\<close> of the client against the call \<open>q\<close> of the system.\<close>

definition tracks :: "('s \<Rightarrow> 'o) \<Rightarrow> oserr option \<times> 's \<Rightarrow> oserr option \<times> 'o \<Rightarrow> bool" where
  "tracks rem r q \<longleftrightarrow> rem (snd r) = snd q \<and> (goodErr (fst q) \<longrightarrow> errnoOf (fst r) = errnoOf (fst q))"

definition tracksInfo :: "('s \<Rightarrow> 'o) \<Rightarrow> (FileInfo \<Rightarrow> wsInfo) \<Rightarrow> 's \<Rightarrow> (oserr + wsInfo) \<times> 's \<Rightarrow> oserr + FileInfo \<Rightarrow> bool" where
  "tracksInfo rem info s r q \<longleftrightarrow> rem (snd r) = rem s \<and>
     (case q of
        Inr x \<Rightarrow> fst r = Inr (info x)
      | Inl e \<Rightarrow> wsToErrno e \<noteq> 0 \<longrightarrow> (\<exists>e'. fst r = Inl e' \<and> wsToErrno e' = wsToErrno e))"

text \<open>The path operations of the workspace, and the system calls they stand for.\<close>

datatype wsOp =
    OpMkDir string uint32 | OpUnlink string | OpRmdir string | OpRename string string | OpSymlink string string
  | OpLink string string | OpChmod string uint32 | OpChown string uint32 uint32 | OpChtimes string int int
  | OpTruncate string int

fun wsRunOp :: "('s, 'r, 'w) FileClient \<Rightarrow> wsFS \<Rightarrow> 's \<Rightarrow> wsOp \<Rightarrow> uint32 \<times> 's" where
  "wsRunOp C f s (OpMkDir rel mode) = wsMkDir C f s rel mode"
| "wsRunOp C f s (OpUnlink rel) = wsUnlink C f s rel"
| "wsRunOp C f s (OpRmdir rel) = wsRmdir C f s rel"
| "wsRunOp C f s (OpRename old new) = wsRename C f s old new"
| "wsRunOp C f s (OpSymlink target rel) = wsSymlink C f s target rel"
| "wsRunOp C f s (OpLink old new) = wsLink C f s old new"
| "wsRunOp C f s (OpChmod rel mode) = wsChmod C f s rel (posixFileMode mode)"
| "wsRunOp C f s (OpChown rel uid gid) = wsChown C f s rel uid gid"
| "wsRunOp C f s (OpChtimes rel atime mtime) = wsChtimes C f s rel atime mtime"
| "wsRunOp C f s (OpTruncate rel sz) = wsTruncate C f s rel sz"

text \<open>Remove a path if it is (or is not) a directory; change the owner as far as the maps say.\<close>

definition osRemoveIf :: "('o, 'f) os \<Rightarrow> 'o \<Rightarrow> string \<Rightarrow> bool \<Rightarrow> uint32 \<Rightarrow> oserr option \<times> 'o" where
  "osRemoveIf OS s p dir errno =
     (case os_Lstat OS s p of
        Inl e \<Rightarrow> (Some e, s)
      | Inr x \<Rightarrow> if fi_IsDir x = dir then os_Remove OS s p else (Some (errnoErr errno), s))"

definition osChown :: "('o, 'f) os \<Rightarrow> 'o \<Rightarrow> string \<Rightarrow> uint32 option \<Rightarrow> uint32 option \<Rightarrow> oserr option \<times> 'o" where
  "osChown OS s p u g =
     (let owner = (\<lambda>x. case fi_Sys x of None \<Rightarrow> (0, 0) | Some st \<Rightarrow> (sys_Uid st, sys_Gid st)) in
      case (u, g) of
        (None, None) \<Rightarrow> (None, s)
      | (Some u, Some g) \<Rightarrow> os_Chown OS s p u g
      | (Some u, None) \<Rightarrow> (case os_Lstat OS s p of Inl e \<Rightarrow> (Some e, s) | Inr x \<Rightarrow> os_Chown OS s p u (snd (owner x)))
      | (None, Some g) \<Rightarrow> (case os_Lstat OS s p of Inl e \<Rightarrow> (Some e, s) | Inr x \<Rightarrow> os_Chown OS s p (fst (owner x)) g))"

fun osRunOp :: "('o, 'f) os \<Rightarrow> wsFS \<Rightarrow> 'o \<Rightarrow> wsOp \<Rightarrow> oserr option \<times> 'o" where
  "osRunOp OS f s (OpMkDir rel mode) = os_Mkdir OS s (absPath f rel) (posixFileMode mode)"
| "osRunOp OS f s (OpUnlink rel) = osRemoveIf OS s (absPath f rel) False EISDIR"
| "osRunOp OS f s (OpRmdir rel) = osRemoveIf OS s (absPath f rel) True ENOTDIR"
| "osRunOp OS f s (OpRename old new) = os_Rename OS s (absPath f old) (absPath f new)"
| "osRunOp OS f s (OpSymlink target rel) = os_Symlink OS s target (absPath f rel)"
| "osRunOp OS f s (OpLink old new) = os_Link OS s (absPath f old) (absPath f new)"
| "osRunOp OS f s (OpChmod rel mode) = os_Chmod OS s (absPath f rel) (posixFileMode mode)"
| "osRunOp OS f s (OpChown rel uid gid) = osChown OS s (absPath f rel)
     (resolveChown (ws_uidMap f) (ws_uidMode f) uid) (resolveChown (ws_gidMap f) (ws_gidMode f) gid)"
| "osRunOp OS f s (OpChtimes rel atime mtime) = os_Chtimes OS s (absPath f rel) atime mtime"
| "osRunOp OS f s (OpTruncate rel sz) = os_Truncate OS s (absPath f rel) sz"

fun runAll :: "('s \<Rightarrow> 'q \<Rightarrow> 'a \<times> 's) \<Rightarrow> 's \<Rightarrow> 'q list \<Rightarrow> 'a list \<times> 's" where
  "runAll step s [] = ([], s)"
| "runAll step s (q # qs) = (let (a, s') = step s q; (as, s'') = runAll step s' qs in (a # as, s''))"

locale file_backend =
  fixes C :: "('s, 'r, 'w) FileClient" and OS :: "('o, 'f) os" and rem :: "'s \<Rightarrow> 'o" and info :: "FileInfo \<Rightarrow> wsInfo"
  assumes info_dir: "wi_IsDir (info x) = fi_IsDir x"
    and info_owner: "currentUID (wi_Sys (info x)) = (case fi_Sys x of None \<Rightarrow> 0 | Some st \<Rightarrow> sys_Uid st)"
      "currentGID (wi_Sys (info x)) = (case fi_Sys x of None \<Rightarrow> 0 | Some st \<Rightarrow> sys_Gid st)"
    and lstat: "tracksInfo rem info s (fc_Lstat C s p) (os_Lstat OS (rem s) p)"
    and mkdir: "tracks rem (fc_Mkdir C s p (posixFileMode m)) (os_Mkdir OS (rem s) p (posixFileMode m))"
    and remove: "tracks rem (fc_Remove C s p) (os_Remove OS (rem s) p)"
    and rename: "tracks rem (fc_Rename C s p q) (os_Rename OS (rem s) p q)"
    and symlink: "tracks rem (fc_Symlink C s p q) (os_Symlink OS (rem s) p q)"
    and link: "tracks rem (fc_Link C s p q) (os_Link OS (rem s) p q)"
    and chmod: "tracks rem (fc_Chmod C s p (posixFileMode m)) (os_Chmod OS (rem s) p (posixFileMode m))"
    and chown: "tracks rem (fc_Chown C s p u g) (os_Chown OS (rem s) p u g)"
    and chtimes: "tracks rem (fc_Chtimes C s p a t) (os_Chtimes OS (rem s) p a t)"
    and truncate: "tracks rem (fc_Truncate C s p n) (os_Truncate OS (rem s) p n)"
begin

lemma plain_spec:
  "tracks rem r q \<Longrightarrow> goodErr (fst q) \<Longrightarrow> fst (wsPlain r) = errnoOf (fst q) \<and> rem (snd (wsPlain r)) = snd q"
  by (simp add: tracks_def wsPlain_def)

lemma stat_ok:
  assumes "os_Lstat OS (rem s) (absPath f rel) = Inr x"
  shows "\<exists>s'. wsStat C f s rel = (Inr (info x), s') \<and> rem s' = rem s"
  using assms lstat [of s "absPath f rel"] by (cases "fc_Lstat C s (absPath f rel)") (auto simp: tracksInfo_def wsStat_def wsValue_def)

lemma stat_err:
  assumes "os_Lstat OS (rem s) (absPath f rel) = Inl e" "wsToErrno e \<noteq> 0"
  shows "\<exists>s'. wsStat C f s rel = (Inl (wsToErrno e), s') \<and> rem s' = rem s"
  using assms lstat [of s "absPath f rel"]
  by (cases "fc_Lstat C s (absPath f rel)") (auto simp: tracksInfo_def wsStat_def wsValue_def)

lemma remove_spec:
  assumes "goodErr (fst (osRemoveIf OS (rem s) (absPath f rel) dir errno))"
  shows "let r = (case wsStat C f s rel of
      (Inl errno, s) \<Rightarrow> (errno, s)
    | (Inr st, s) \<Rightarrow> if wi_IsDir st \<noteq> dir then (errno, s) else wsPlain (fc_Remove C s (absPath f rel)))
    in fst r = errnoOf (fst (osRemoveIf OS (rem s) (absPath f rel) dir errno)) \<and>
      rem (snd r) = snd (osRemoveIf OS (rem s) (absPath f rel) dir errno)"
proof (cases "os_Lstat OS (rem s) (absPath f rel)")
  case (Inl e)
  then obtain s' where "wsStat C f s rel = (Inl (wsToErrno e), s')" "rem s' = rem s"
    using stat_err [of s f rel e] assms by (auto simp: osRemoveIf_def goodErr_def)
  then show ?thesis using Inl by (simp add: osRemoveIf_def errnoOf_def)
next
  case (Inr x)
  then obtain s' where s': "wsStat C f s rel = (Inr (info x), s')" "rem s' = rem s" using stat_ok by blast
  show ?thesis
  proof (cases "fi_IsDir x = dir")
    case True
    then show ?thesis using Inr s' assms plain_spec [OF remove [of s' "absPath f rel"]]
      by (simp add: osRemoveIf_def info_dir)
  next
    case False
    then show ?thesis using Inr s' by (simp add: osRemoveIf_def info_dir errnoOf_def errnoErr_def wsToErrno_def)
  qed
qed

lemma chown_spec:
  assumes "goodErr (fst (osRunOp OS f (rem s) (OpChown rel uid gid)))"
  shows "fst (wsChown C f s rel uid gid) = errnoOf (fst (osRunOp OS f (rem s) (OpChown rel uid gid))) \<and>
    rem (snd (wsChown C f s rel uid gid)) = snd (osRunOp OS f (rem s) (OpChown rel uid gid))"
proof -
  let ?p = "absPath f rel"
  let ?u = "resolveChown (ws_uidMap f) (ws_uidMode f) uid" and ?g = "resolveChown (ws_gidMap f) (ws_gidMode f) gid"
  consider (both) u g where "?u = Some u" "?g = Some g" | (none) "?u = None" "?g = None"
    | (one) "(?u = None) \<noteq> (?g = None)" by (metis not_None_eq)
  then show ?thesis
  proof cases
    case both
    then show ?thesis using plain_spec [OF chown [of s ?p u g]] assms by (simp add: wsChown_def osChown_def)
  next
    case none
    then show ?thesis by (simp add: wsChown_def osChown_def errnoOf_def)
  next
    case one
    show ?thesis
    proof (cases "os_Lstat OS (rem s) ?p")
      case (Inl e)
      then obtain s' where "wsStat C f s rel = (Inl (wsToErrno e), s')" "rem s' = rem s"
        using stat_err [of s f rel e] assms one by (auto simp: osChown_def goodErr_def split: option.splits)
      then show ?thesis using Inl one by (auto simp: wsChown_def osChown_def errnoOf_def split: option.splits)
    next
      case (Inr x)
      then obtain s' where s': "wsStat C f s rel = (Inr (info x), s')" "rem s' = rem s" using stat_ok by blast
      let ?uu = "case ?u of Some u \<Rightarrow> u | None \<Rightarrow> currentUID (wi_Sys (info x))"
      let ?gg = "case ?g of Some g \<Rightarrow> g | None \<Rightarrow> currentGID (wi_Sys (info x))"
      have "wsChown C f s rel uid gid = wsPlain (fc_Chown C s' ?p ?uu ?gg)"
        using one s' by (auto simp: wsChown_def split: option.splits)
      moreover have "osRunOp OS f (rem s) (OpChown rel uid gid) = os_Chown OS (rem s') ?p ?uu ?gg"
        using one Inr s'(2) by (auto simp: osChown_def Let_def info_owner split: option.splits)
      ultimately show ?thesis using plain_spec [OF chown [of s' ?p ?uu ?gg]] assms by simp
    qed
  qed
qed

lemma wsRunOp_spec:
  assumes "goodErr (fst (osRunOp OS f (rem s) op))"
  shows "fst (wsRunOp C f s op) = errnoOf (fst (osRunOp OS f (rem s) op)) \<and>
    rem (snd (wsRunOp C f s op)) = snd (osRunOp OS f (rem s) op)"
proof (cases op)
  case (OpUnlink rel)
  then show ?thesis using remove_spec [of s f rel False EISDIR] assms
    by (auto simp: wsUnlink_def Let_def split: prod.splits sum.splits)
next
  case (OpRmdir rel)
  then show ?thesis using remove_spec [of s f rel True ENOTDIR] assms
    by (auto simp: wsRmdir_def Let_def split: prod.splits sum.splits)
next
  case (OpChown rel uid gid)
  then show ?thesis using chown_spec assms by simp
qed (use assms in \<open>simp_all add: plain_spec wsMkDir_def mkdir wsRename_def rename wsSymlink_def symlink wsLink_def link
    wsChmod_def chmod wsChtimes_def chtimes wsTruncate_def truncate\<close>)

text \<open>A sequence of operations: the errnos, and the remote system at the end.\<close>

lemma runAll_refines:
  assumes "\<And>s op. goodErr (fst (osRunOp OS f s op))"
  shows "fst (runAll (wsRunOp C f) s ops) = map errnoOf (fst (runAll (osRunOp OS f) (rem s) ops)) \<and>
    rem (snd (runAll (wsRunOp C f) s ops)) = snd (runAll (osRunOp OS f) (rem s) ops)"
proof (induction ops arbitrary: s)
  case (Cons op ops)
  obtain a s1 where a: "wsRunOp C f s op = (a, s1)" by fastforce
  obtain e o1 where e: "osRunOp OS f (rem s) op = (e, o1)" by fastforce
  have "a = errnoOf e" "rem s1 = o1" using wsRunOp_spec [OF assms, of s op] a e by simp_all
  then show ?case using Cons.IH [of s1] a e by (auto simp: case_prod_beta)
qed simp

end

section \<open>The Docker backend\<close>

text \<open>
  The agent's file operation server behind the client's calls; the multiplexer assigns and matches
  the request ids.
\<close>

definition agentCall :: "('o, 'f) os \<Rightarrow> ('f FileOpServer \<times> 'o) fileCall" where
  "agentCall OS = (\<lambda>(srv, s) req. let (resp, srv', s') = Handle OS srv s req in (Inr (Some resp), (srv', s')))"

abbreviation respErr :: "FileOpResp \<Rightarrow> oserr option" where
  "respErr resp \<equiv> (if rs_Errno resp \<noteq> 0 \<or> rs_ErrMsg resp \<noteq> [] then Some (errnoToErr resp) else None)"

lemma docker_do_agent:
  "Handle OS srv s req = (resp, srv', s') \<Longrightarrow>
   docker_do (agentCall OS) (srv, s) req = ((Some resp, respErr resp), (srv', s'))"
  by (simp add: docker_do_def agentCall_def)

lemma errResp_errno: "rs_Errno (errResp e) = wsToErrno e"
  by (simp add: errResp_def wsToErrno_def)

lemma errno_preserved: "wsToErrno e \<noteq> 0 \<Longrightarrow> wsToErrno (errnoToErr (errResp e)) = wsToErrno e"
  by (simp add: errnoToErr_def errResp_errno) (simp add: wsToErrno_def plainErr_def errnoErr_def)

lemma docker_plain_tracks:
  assumes "Handle OS srv s req = plainOp q srv"
  shows "tracks snd (docker_plain (agentCall OS) (srv, s) req) q"
proof (cases q)
  case (Pair e s')
  show ?thesis
  proof (cases e)
    case None
    then have "Handle OS srv s req = (emptyResp, srv, s')" using assms Pair by (simp add: plainOp_def)
    from docker_do_agent [OF this] show ?thesis
      using None Pair by (simp add: docker_plain_def tracks_def emptyResp_def errnoOf_def)
  next
    case (Some err)
    then have "Handle OS srv s req = (errResp err, srv, s')" using assms Pair by (simp add: plainOp_def)
    from docker_do_agent [OF this] show ?thesis
      using Some Pair errno_preserved [of err]
      by (simp add: docker_plain_def tracks_def goodErr_def errnoOf_def errResp_errno)
  qed
qed

lemma docker_stat_tracks:
  assumes "Handle OS srv s req = statOp q srv s"
  shows "tracksInfo snd (\<lambda>x. statInfo (statFromInfo x)) (srv, s) (docker_with (agentCall OS) (srv, s) req (docker_stat what)) q"
proof (cases q)
  case (Inl err)
  then have "Handle OS srv s req = (errResp err, srv, s)" using assms by (simp add: statOp_def)
  from docker_do_agent [OF this] show ?thesis
    using Inl errno_preserved [of err] by (simp add: docker_with_def tracksInfo_def errResp_errno)
next
  case (Inr x)
  then have "Handle OS srv s req = (emptyResp\<lparr>rs_Stat := Some (statFromInfo x)\<rparr>, srv, s)" using assms by (simp add: statOp_def)
  from docker_do_agent [OF this] show ?thesis
    using Inr by (simp add: docker_with_def tracksInfo_def emptyResp_def docker_stat_def)
qed

lemma fileModeToPOSIX_posix: "fileModeToPOSIX (posixFileMode m) = m AND 0xFFF"
proof -
  have e: "fileModeToPOSIX x = (x AND 0x1FF) OR
      posixSpecial (x AND ModeSetuid \<noteq> 0) (x AND ModeSetgid \<noteq> 0) (x AND ModeSticky \<noteq> 0)" for x
    by (simp add: fileModeToPOSIX_def Let_def posixSpecial_def or.assoc)
  have "posixFileMode m = (m AND 0x1FF) OR special (m AND 0x800 \<noteq> 0) (m AND 0x400 \<noteq> 0) (m AND 0x200 \<noteq> 0) OR 0"
    unfolding posixFileMode_eq by simp
  then show ?thesis unfolding e by (simp only: perm_special_masks and_zero_eq posixSpecial_bits zero_and_eq)
qed

lemma sent_mode: "fileModeFromPOSIX (fileModeToPOSIX (posixFileMode m)) = posixFileMode m"
proof -
  have "(m AND 0xFFF) AND 0x1FF = m AND 0x1FF" "(m AND 0xFFF) AND 0x800 = m AND 0x800" "(m AND 0xFFF) AND 0x400 = m AND 0x400"
    "(m AND 0xFFF) AND 0x200 = m AND 0x200" "(m AND 0xFFF) AND ModeSetuid = 0" "(m AND 0xFFF) AND ModeSetgid = 0"
    "(m AND 0xFFF) AND ModeSticky = 0"
    by (simp_all add: and.assoc Mode_defs)
  then have "fileModeFromPOSIX (m AND 0xFFF) = posixFileMode m"
    unfolding fileModeFromPOSIX_eq [of "m AND 0xFFF"] posixFileMode_eq by simp
  then show ?thesis by (simp only: fileModeToPOSIX_posix)
qed

lemma statFromInfo_owner:
  "st_IsDir (statFromInfo x) = fi_IsDir x"
  "st_UID (statFromInfo x) = (case fi_Sys x of None \<Rightarrow> 0 | Some st \<Rightarrow> sys_Uid st)"
  "st_GID (statFromInfo x) = (case fi_Sys x of None \<Rightarrow> 0 | Some st \<Rightarrow> sys_Gid st)"
  by (simp_all add: statFromInfo_def augmentStatFromSys_def Let_def split: option.split)

lemmas docker_defs = dockerClient_def docker_Lstat_def docker_Mkdir_def docker_Remove_def docker_Rename_def
  docker_Symlink_def docker_Link_def docker_Chmod_def docker_Chown_def docker_Chtimes_def docker_Truncate_def

interpretation dk: file_backend "dockerClient (agentCall OS)" OS snd "\<lambda>x. statInfo (statFromInfo x)"
  for OS :: "('o, 'f) os"
proof (unfold_locales, goal_cases)
  case (1 x)
  show ?case by (simp add: statInfo_def statFromInfo_owner)
next
  case (2 x)
  show ?case by (simp add: statInfo_def currentUID_def statFromInfo_owner)
next
  case (3 x)
  show ?case by (simp add: statInfo_def currentGID_def statFromInfo_owner)
next
  case (4 s p)
  show ?case by (cases s) (simp add: docker_defs docker_stat_tracks Handle_def opReq_def)
qed (case_tac [!] s, simp_all add: docker_defs docker_plain_tracks Handle_def opReq_def sent_mode)

section \<open>Contents through the agent\<close>

lemma int32_small: "0 \<le> i \<Longrightarrow> i < 2 ^ 31 \<Longrightarrow> int32 i = i"
  by (simp add: int32_def signed_of_int signed_take_bit_int_eq_self)

text \<open>Opening through the agent puts the file into the server's table under a fresh handle.\<close>

lemma docker_open:
  assumes "Handle OS srv s req = openOp (Inr h, s1) srv"
  shows "docker_with (agentCall OS) (srv, s) req k =
    (k (emptyResp\<lparr>rs_Handle := nextNonZero (srv_next srv)\<rparr>), (snd (putHandle srv h), s1))"
proof -
  have "Handle OS srv s req = (emptyResp\<lparr>rs_Handle := nextNonZero (srv_next srv)\<rparr>, snd (putHandle srv h), s1)"
    using assms srv.put_id [of srv h] by (cases "putHandle srv h") (simp add: openOp_def)
  from docker_do_agent [OF this] show ?thesis by (simp add: docker_with_def emptyResp_def)
qed

lemma docker_close:
  assumes "getHandle srv k = Some h"
  shows "\<exists>err. docker_plain (agentCall OS) (srv, s) (handleReq FileOpClose k) = (err, (snd (takeHandle srv k), snd (f_Close OS s h))) \<and>
    (fst (f_Close OS s h) = None \<longrightarrow> err = None)"
proof -
  obtain srv' where t: "takeHandle srv k = (Some h, srv')" using srv.tak_res [of srv k] assms by (cases "takeHandle srv k") auto
  obtain e s' where c: "f_Close OS s h = (e, s')" by fastforce
  define resp where "resp = (case e of None \<Rightarrow> emptyResp | Some err \<Rightarrow> errResp err)"
  have "Handle OS srv s (handleReq FileOpClose k) = (resp, srv', s')"
    using t c by (simp add: Handle_def handleReq_def opReq_def plainOp_def resp_def split: option.split)
  from docker_do_agent [OF this] show ?thesis
    using t c by (auto simp: docker_plain_def resp_def emptyResp_def)
qed

lemma docker_read:
  assumes "getHandle srv k = Some h" "f_ReadAt OS s h n off = (d, err)" "n > 0" "length d \<le> n"
    and "err = None \<or> (\<exists>e. err = Some e \<and> oe_EOF e)"
  shows "docker_rdReadAt (agentCall OS) (srv, s) \<lparr>rd_handle = k, rd_pos = p\<rparr> n off =
    ((d, if err = None then None else Some eofErr), (srv, s))"
proof -
  let ?r = "emptyResp\<lparr>rs_Data := d, rs_N := int (length d), rs_EOF := (err \<noteq> None)\<rparr>"
  have "Handle OS srv s (readAtReq k n off) = (?r, srv, s)"
    using assms by (auto simp: Handle_def readAtReq_def handleReq_def opReq_def withHandle_def handleReadAt_def emptyResp_def)
  from docker_do_agent [OF this] show ?thesis
    using assms(4,5) by (auto simp: docker_rdReadAt_def docker_readOK_def emptyResp_def)
qed

lemma docker_write:
  assumes "getHandle srv k = Some h" "f_WriteAt OS s h d off = ((n, None), s')" "0 \<le> off" "flags AND O_APPEND = 0"
  shows "docker_wrWriteAt (agentCall OS) (srv, s) \<lparr>rw_handle = k, rw_flags = flags, rw_pos = p\<rparr> d off = ((n, None), (srv, s'))"
proof -
  have "Handle OS srv s ((handleReq FileOpWriteAt k)\<lparr>rq_Offset := off, rq_Data := d\<rparr>) = (emptyResp\<lparr>rs_N := n\<rparr>, srv, s')"
    using assms by (simp add: Handle_def handleReq_def opReq_def withHandle_def handleWriteAt_def)
  from docker_do_agent [OF this] show ?thesis
    using assms(4) by (simp add: docker_wrWriteAt_def docker_writeAt_def respN_def emptyResp_def)
qed

lemma fresh_handle: "getHandle (snd (putHandle srv h)) (nextNonZero (srv_next srv)) = Some h"
  by (simp add: srv.put_get)

text \<open>Reading a file: the bytes of the system's read, and no handle stays open.\<close>

lemma read_through_agent:
  assumes "os_Open OS s (absPath f rel) = (Inr h, s1)" "f_ReadAt OS s1 h (nat sz) off = (d, err)" "sz > 0"
    and "length d \<le> nat sz" "err = None \<or> (\<exists>e. err = Some e \<and> oe_EOF e)"
  shows "wsReadFile (dockerClient (agentCall OS)) f (srv, s) rel off sz =
    (Inr d, (snd (takeHandle (snd (putHandle srv h)) (nextNonZero (srv_next srv))), snd (f_Close OS s1 h)))"
proof -
  let ?k = "nextNonZero (srv_next srv)" and ?srv = "snd (putHandle srv h)"
  have H: "Handle OS srv s (opReq FileOpOpen (absPath f rel)) = openOp (Inr h, s1) srv"
    using assms(1) by (simp add: Handle_def opReq_def)
  have o: "docker_Open (agentCall OS) (srv, s) (absPath f rel) = (Inr \<lparr>rd_handle = ?k, rd_pos = 0\<rparr>, (?srv, s1))"
    by (simp add: docker_Open_def docker_open [OF H])
  have r: "docker_rdReadAt (agentCall OS) (?srv, s1) \<lparr>rd_handle = ?k, rd_pos = 0\<rparr> (nat sz) off =
      ((d, if err = None then None else Some eofErr), (?srv, s1))"
    using docker_read [OF fresh_handle assms(2) _ assms(4,5)] assms(3) by simp
  obtain e where c: "docker_rdClose (agentCall OS) (?srv, s1) \<lparr>rd_handle = ?k, rd_pos = 0\<rparr> =
      (e, (snd (takeHandle ?srv ?k), snd (f_Close OS s1 h)))"
    using docker_close [OF fresh_handle] by (force simp: docker_rdClose_def)
  show ?thesis using assms(3) by (simp add: wsReadFile_def dockerClient_def o r c eofErr_def)
qed

lemma write_through_agent:
  assumes "os_OpenFile OS s (absPath f rel) O_WRONLY 0 = (Inr h, s1)" "f_WriteAt OS s1 h d off = ((n, None), s2)"
    and "f_Close OS s2 h = (None, s3)" "0 \<le> off"
  shows "wsWriteFile (dockerClient (agentCall OS)) f (srv, s) rel d off =
    ((word_of_int n, 0), (snd (takeHandle (snd (putHandle srv h)) (nextNonZero (srv_next srv))), s3))"
proof -
  let ?k = "nextNonZero (srv_next srv)" and ?srv = "snd (putHandle srv h)"
  let ?w = "\<lparr>rw_handle = ?k, rw_flags = O_WRONLY, rw_pos = 0\<rparr>"
  have m: "fileModeFromPOSIX (fileModeToPOSIX 0) = 0" by (simp add: fileModeToPOSIX_def fileModeFromPOSIX_def)
  have H: "Handle OS srv s ((opReq FileOpOpenFile (absPath f rel))\<lparr>rq_Flags := int32 O_WRONLY, rq_Mode := fileModeToPOSIX 0\<rparr>) =
      openOp (Inr h, s1) srv"
    using assms(1) m int32_small [of 1] by (simp add: Handle_def opReq_def)
  have o: "docker_OpenFile (agentCall OS) (srv, s) (absPath f rel) O_WRONLY 0 = (Inr ?w, (?srv, s1))"
    by (simp add: docker_OpenFile_def docker_open [OF H])
  have w: "docker_wrWriteAt (agentCall OS) (?srv, s1) ?w d off = ((n, None), (?srv, s2))"
    by (rule docker_write [OF fresh_handle assms(2,4)]) simp
  have c: "docker_wrClose (agentCall OS) (?srv, s2) ?w = (None, (snd (takeHandle ?srv ?k), s3))"
    using docker_close [OF fresh_handle, where OS = OS and s = s2 and srv1 = srv and h = h] assms(3) by (auto simp: docker_wrClose_def)
  show ?thesis by (simp add: wsWriteFile_def dockerClient_def o w c errnoOf_def)
qed

section \<open>Properties\<close>


definition exampleFS :: wsFS where
  "exampleFS = NewWorkspaceFS ''/work'' None"



text \<open>A system in which nothing happens, and one with a single file whose contents is its state.\<close>

definition idleOS :: "('o, unit) os" where
  "idleOS = \<lparr>os_Open = (\<lambda>s p. (Inr (), s)), os_Create = (\<lambda>s p. (Inr (), s)), os_OpenFile = (\<lambda>s p _ _. (Inr (), s)),
     f_Close = (\<lambda>s _. (None, s)), f_Sync = (\<lambda>s _. (None, s)), f_Stat = (\<lambda>_ _. Inl badFD),
     f_Truncate = (\<lambda>s _ _. (None, s)), f_ReadAt = (\<lambda>_ _ _ _. ([], None)), f_Write = (\<lambda>s _ d. ((0, None), s)),
     f_WriteAt = (\<lambda>s _ d _. ((0, None), s)), os_Stat = (\<lambda>_ _. Inl badFD), os_Lstat = (\<lambda>_ _. Inl badFD),
     os_ReadDir = (\<lambda>_ _. Inr []), os_Mkdir = (\<lambda>s _ _. (None, s)), os_MkdirAll = (\<lambda>s _ _. (None, s)),
     os_Remove = (\<lambda>s _. (None, s)), os_Rename = (\<lambda>s _ _. (None, s)), os_Readlink = (\<lambda>_ _. Inl badFD),
     os_Symlink = (\<lambda>s _ _. (None, s)), os_Link = (\<lambda>s _ _. (None, s)), os_Chmod = (\<lambda>s _ _. (None, s)),
     os_Chown = (\<lambda>s _ _ _. (None, s)), os_Chtimes = (\<lambda>s _ _ _. (None, s)), os_Truncate = (\<lambda>s _ _. (None, s)),
     os_Statfs = (\<lambda>_ _. Inl badFD), os_Getwd = (\<lambda>_. Inr ''/'')\<rparr>"

definition oneFileOS :: "(string, unit) os" where
  "oneFileOS = idleOS\<lparr>f_ReadAt := (\<lambda>s _ n off. (take n (drop (nat off) s), None)),
     f_WriteAt := (\<lambda>s _ d off. ((int (length d), None), take (nat off) s @ d @ drop (nat off + length d) s))\<rparr>"


text \<open>The file information of a system, without an agent in between.\<close>

definition osInfo :: "FileInfo \<Rightarrow> wsInfo" where
  "osInfo x = \<lparr>wi_Name = fi_Name x, wi_Size = fi_Size x, wi_Mode = fi_Mode x, wi_ModTime = fi_ModTime x,
     wi_IsDir = fi_IsDir x, wi_Sys = (case fi_Sys x of None \<Rightarrow> SysNone | Some st \<Rightarrow> SysOS st)\<rparr>"

text \<open>
  The attributes that the mount reports do not depend on the agent in between: when the file
  has a known type and its times, link count, block count, block size and inode number are not
  zero, they are the attributes computed directly from the remote system's own record.
\<close>

theorem agent_attributes_faithful:
  assumes "fi_Sys x = Some st" "fi_Mode x AND ModeType \<noteq> ModeIrregular"
    and "sys_Atim st \<noteq> 0" "sys_Mtim st \<noteq> 0" "sys_Ctim st \<noteq> 0" "sys_Blocks st \<noteq> 0" "sys_Ino st \<noteq> 0"
    and "(ucast (sys_Nlink st) :: uint32) \<noteq> 0" "(ucast (sys_Blksize st) :: uint32) \<noteq> 0"
  shows "applyAttr f (statInfo (statFromInfo x)) = applyAttr f (osInfo x)"
  using assms
  by (simp add: applyAttr_def applyFileInfo_def statInfo_def statFromInfo_def osInfo_def Let_def augmentStatFromSys_def
      applyStatDetails_def applyAgentStat_def applySyscallStat_def)

definition exampleStat :: Stat_t where
  "exampleStat = \<lparr>sys_Mode = 0x81A4, sys_Uid = 1001, sys_Gid = 1000, sys_Ino = 7, sys_Rdev = 0, sys_Blocks = 8,
     sys_Blksize = 4096, sys_Nlink = 1, sys_Atim = 1500000000, sys_Mtim = 2, sys_Ctim = 3\<rparr>"

definition exampleInfo :: FileInfo where
  "exampleInfo = \<lparr>fi_Name = ''a'', fi_Size = 5, fi_Mode = 0x1A4, fi_ModTime = 2, fi_IsDir = False, fi_Sys = Some exampleStat\<rparr>"

theorem agent_attributes_faithful_witness:
  "applyAttr exampleFS (statInfo (statFromInfo exampleInfo)) = applyAttr exampleFS (osInfo exampleInfo) \<and>
   fa_Atimensec (applyAttr exampleFS (osInfo exampleInfo)) = 500000000"
  using agent_attributes_faithful [of exampleInfo exampleStat exampleFS]
  by (simp add: exampleInfo_def exampleStat_def ModeType_def Mode_defs) (simp add: applyAttr_def applyFileInfo_def
      osInfo_def applyStatDetails_def applySyscallStat_def nsecOf_def Let_def)


text \<open>A system with one file, whose owner and group are its state.\<close>

definition ownerOS :: "(uint32 \<times> uint32, unit) os" where
  "ownerOS = idleOS\<lparr>
     os_Lstat := (\<lambda>(u, g) _. Inr (exampleInfo\<lparr>fi_Sys := Some (exampleStat\<lparr>sys_Uid := u, sys_Gid := g\<rparr>)\<rparr>)),
     os_Chown := (\<lambda>s _ u g. (None, (u, g)))\<rparr>"

definition groupMapFS :: wsFS where
  "groupMapFS = NewWorkspaceFS ''/work'' (Some \<lparr>wo_UIDMode = IDModeTransparent, wo_GIDMode = IDModeOverride, wo_UIDMap = [],
     wo_GIDMap = [\<lparr>im_RemoteID = 0, im_LocalID = 1000, im_Count = 1\<rparr>], wo_LocalUID = 1000, wo_LocalGID = 1000\<rparr>)"

definition uidOnly :: "uint32 \<Rightarrow> setAttrIn" where
  "uidOnly u = \<lparr>sa_Valid = 2, sa_UID = Some u, sa_GID = None, sa_Mode = None, sa_ATime = None, sa_MTime = None, sa_Size = None\<rparr>"


end
