(* ===== verification/Steps.thy ===== *)
theory Steps
  imports Prelude
begin

text \<open>
  Step relations in general: a state predicate that every step keeps, and runs labelled with
  events. The concurrent components interpret these locales with their own steps and invariants.
\<close>

section \<open>Invariants\<close>

locale step_invariant =
  fixes step :: "'s \<Rightarrow> 's \<Rightarrow> bool" and inv :: "'s \<Rightarrow> bool"
  assumes kept: "inv s \<Longrightarrow> step s s' \<Longrightarrow> inv s'"
begin

lemma kept_steps: "step\<^sup>*\<^sup>* s s' \<Longrightarrow> inv s \<Longrightarrow> inv s'"
  by (induction rule: rtranclp_induct) (auto intro: kept)

end

section \<open>Labelled runs\<close>

text \<open>A run is the list of its events; \<open>step\<close> is indexed by the event.\<close>

inductive run :: "('e \<Rightarrow> 's \<Rightarrow> 's \<Rightarrow> bool) \<Rightarrow> 's \<Rightarrow> 'e list \<Rightarrow> 's \<Rightarrow> bool" for step where
  run_nil: "run step s [] s"
| run_cons: "step e s s' \<Longrightarrow> run step s' es s'' \<Longrightarrow> run step s (e # es) s''"

inductive_simps run_Nil [simp]: "run step s [] s'"
inductive_simps run_Cons: "run step s (e # es) s'"

lemma run_append: "run step s es s' \<Longrightarrow> run step s' es' s'' \<Longrightarrow> run step s (es @ es') s''"
  by (induction rule: run.induct) (auto intro: run_cons)

lemma run_snoc: "run step s es s' \<Longrightarrow> step e s' s'' \<Longrightarrow> run step s (es @ [e]) s''"
  by (auto intro: run_append run_cons run_nil)

text \<open>A predicate that every step with an allowed event keeps.\<close>

locale run_invariant =
  fixes step :: "'e \<Rightarrow> 's \<Rightarrow> 's \<Rightarrow> bool" and allowed :: "'e \<Rightarrow> bool" and inv :: "'s \<Rightarrow> bool"
  assumes kept: "inv s \<Longrightarrow> allowed e \<Longrightarrow> step e s s' \<Longrightarrow> inv s'"
begin

lemma kept_run: "run step s es s' \<Longrightarrow> list_all allowed es \<Longrightarrow> inv s \<Longrightarrow> inv s'"
  by (induction rule: run.induct) (auto intro: kept)

end

end
