(* ===== verification/ConnManager.thy ===== *)
theory ConnManager
  imports Steps
begin

text \<open>
  \<open>pkg/sshconn/manager.go\<close>: the SSH connection that is kept up. One goroutine dials, watches and
  closes, and other goroutines may close the connection at any time; every lock region and every
  call to the network is one step. Connections are numbered in the order in which they are dialled,
  and \<open>mg_open\<close> is the set of those that are open.
\<close>

section \<open>State and steps\<close>

text \<open>
  Where the goroutine is: dialling, opening the SFTP client of a new connection, at the top of the
  loop, in the select, after a failed keepalive, shutting down. A reconnect returns to the loop
  (from \<open>Start\<close> and from a tick) or to the select.
\<close>

datatype afterReconnect = ToLoop | ToSelect

datatype managerPC =
    Idle | Dialing afterReconnect | OpeningSFTP nat afterReconnect | LoopTop | InSelect | KeepAliveFailed | Shutdown | Ended

record manager =
  mg_conn :: "nat option"
  mg_sftp :: "nat option"
  mg_started :: bool
  mg_lastErr :: "string option"
  mg_open :: "nat set"
  mg_next :: nat
  mg_pc :: managerPC

definition NewManager :: manager where
  "NewManager = \<lparr>mg_conn = None, mg_sftp = None, mg_started = False, mg_lastErr = None, mg_open = {}, mg_next = 0,
     mg_pc = Idle\<rparr>"

definition IsConnected :: "manager \<Rightarrow> bool" where
  "IsConnected m \<longleftrightarrow> mg_conn m \<noteq> None"

definition closeLocked :: "manager \<Rightarrow> manager" where
  "closeLocked m = m\<lparr>mg_sftp := None, mg_open := mg_open m - set_option (mg_conn m), mg_conn := None\<rparr>"

definition startManager :: "manager \<Rightarrow> manager" where
  "startManager m = (if mg_started m then m else m\<lparr>mg_started := True, mg_pc := Dialing ToLoop\<rparr>)"

primrec returnTo :: "afterReconnect \<Rightarrow> managerPC" where
  "returnTo ToLoop = LoopTop"
| "returnTo ToSelect = InSelect"

text \<open>\<open>reconnect\<close>: the outcome of the dial, then of opening the SFTP client.\<close>

definition dialFailed :: "manager \<Rightarrow> afterReconnect \<Rightarrow> string \<Rightarrow> manager" where
  "dialFailed m k err = m\<lparr>mg_lastErr := Some err, mg_pc := returnTo k\<rparr>"

definition dialled :: "manager \<Rightarrow> afterReconnect \<Rightarrow> manager" where
  "dialled m k = m\<lparr>mg_open := insert (mg_next m) (mg_open m), mg_next := mg_next m + 1, mg_pc := OpeningSFTP (mg_next m) k\<rparr>"

definition sftpFailed :: "manager \<Rightarrow> nat \<Rightarrow> afterReconnect \<Rightarrow> string \<Rightarrow> manager" where
  "sftpFailed m c k err = m\<lparr>mg_open := mg_open m - {c}, mg_lastErr := Some err, mg_pc := returnTo k\<rparr>"

definition connected :: "manager \<Rightarrow> nat \<Rightarrow> afterReconnect \<Rightarrow> manager" where
  "connected m c k = (closeLocked m)\<lparr>mg_conn := Some c, mg_sftp := Some c, mg_lastErr := None, mg_pc := returnTo k\<rparr>"

text \<open>\<open>run\<close>\<close>

definition loopCheck :: "manager \<Rightarrow> manager" where
  "loopCheck m = m\<lparr>mg_pc := (if IsConnected m then InSelect else Dialing ToSelect)\<rparr>"

definition reconnectTick :: "manager \<Rightarrow> manager" where
  "reconnectTick m = m\<lparr>mg_pc := (if IsConnected m then LoopTop else Dialing ToLoop)\<rparr>"

text \<open>The keepalive: nothing is sent without a connection; \<open>ok\<close> is the outcome of sending.\<close>

definition keepAliveTick :: "manager \<Rightarrow> bool \<Rightarrow> manager" where
  "keepAliveTick m ok = m\<lparr>mg_pc := (if IsConnected m \<and> \<not> ok then KeepAliveFailed else LoopTop)\<rparr>"

inductive manager_step :: "manager \<Rightarrow> manager \<Rightarrow> bool" where
  m_start: "manager_step m (startManager m)"
| m_dial_fail: "mg_pc m = Dialing k \<Longrightarrow> manager_step m (dialFailed m k err)"
| m_dial_ok: "mg_pc m = Dialing k \<Longrightarrow> manager_step m (dialled m k)"
| m_sftp_fail: "mg_pc m = OpeningSFTP c k \<Longrightarrow> manager_step m (sftpFailed m c k err)"
| m_sftp_ok: "mg_pc m = OpeningSFTP c k \<Longrightarrow> manager_step m (connected m c k)"
| m_loop: "mg_pc m = LoopTop \<Longrightarrow> manager_step m (loopCheck m)"
| m_tick: "mg_pc m = InSelect \<Longrightarrow> manager_step m (reconnectTick m)"
| m_keep: "mg_pc m = InSelect \<Longrightarrow> manager_step m (keepAliveTick m ok)"
| m_keep_close: "mg_pc m = KeepAliveFailed \<Longrightarrow> manager_step m ((closeLocked m)\<lparr>mg_pc := LoopTop\<rparr>)"
| m_done: "mg_pc m = InSelect \<Longrightarrow> manager_step m (m\<lparr>mg_pc := Shutdown\<rparr>)"
| m_shutdown: "mg_pc m = Shutdown \<Longrightarrow> manager_step m ((closeLocked m)\<lparr>mg_pc := Ended\<rparr>)"
| m_close: "manager_step m (closeLocked m)"

inductive manager_reach :: "manager \<Rightarrow> bool" where
  reach_init: "manager_reach NewManager"
| reach_step: "manager_reach m \<Longrightarrow> manager_step m m' \<Longrightarrow> manager_reach m'"

text \<open>\<open>NewSession\<close> and \<open>Files\<close> use the connection that is current when they are called.\<close>

definition NewSessionConn :: "manager \<Rightarrow> string + nat" where
  "NewSessionConn m = (case mg_conn m of None \<Rightarrow> Inl ''ssh connection is not ready'' | Some c \<Rightarrow> Inr c)"

definition FilesConn :: "manager \<Rightarrow> string + nat" where
  "FilesConn m = (case mg_sftp m of None \<Rightarrow> Inl ''ssh backend: sftp client is not ready'' | Some c \<Rightarrow> Inr c)"

section \<open>Lemmas\<close>

primrec inHand :: "managerPC \<Rightarrow> nat set" where
  "inHand Idle = {}"
| "inHand (Dialing k) = {}"
| "inHand (OpeningSFTP c k) = {c}"
| "inHand LoopTop = {}"
| "inHand InSelect = {}"
| "inHand KeepAliveFailed = {}"
| "inHand Shutdown = {}"
| "inHand Ended = {}"

primrec unconnected :: "managerPC \<Rightarrow> bool" where
  "unconnected Idle = True"
| "unconnected (Dialing k) = True"
| "unconnected (OpeningSFTP c k) = True"
| "unconnected LoopTop = False"
| "unconnected InSelect = False"
| "unconnected KeepAliveFailed = False"
| "unconnected Shutdown = False"
| "unconnected Ended = True"

definition managerInv :: "manager \<Rightarrow> bool" where
  "managerInv m \<longleftrightarrow> mg_open m = set_option (mg_conn m) \<union> inHand (mg_pc m) \<and> mg_sftp m = mg_conn m \<and>
     (unconnected (mg_pc m) \<longrightarrow> mg_conn m = None) \<and> (mg_conn m \<noteq> None \<longrightarrow> mg_lastErr m = None) \<and>
     (\<forall>c\<in>mg_open m. c < mg_next m) \<and> (mg_started m \<longleftrightarrow> mg_pc m \<noteq> Idle)"

lemma returnTo_simps [simp]: "inHand (returnTo k) = {}" "\<not> unconnected (returnTo k)" "returnTo k \<noteq> Idle"
  by (cases k; simp)+

lemma inHand_unconnected: "c \<in> inHand pc \<Longrightarrow> unconnected pc"
  by (cases pc) auto

lemma managerInv_step: "manager_step m m' \<Longrightarrow> managerInv m \<Longrightarrow> managerInv m'"
proof (induction rule: manager_step.induct)
  case (m_start m)
  then show ?case by (auto simp: managerInv_def startManager_def)
next
  case (m_close m)
  then show ?case by (auto simp: managerInv_def closeLocked_def dest: inHand_unconnected)
qed (auto simp: managerInv_def dialFailed_def dialled_def sftpFailed_def connected_def closeLocked_def loopCheck_def
    reconnectTick_def keepAliveTick_def IsConnected_def)

lemma managerInv_reach: "manager_reach m \<Longrightarrow> managerInv m"
  by (induction rule: manager_reach.induct) (auto simp: managerInv_step, simp add: managerInv_def NewManager_def)

interpretation manager_inv: step_invariant manager_step managerInv
  by unfold_locales (rule managerInv_step)

section \<open>Properties\<close>

text \<open>
  C32. The manager never leaks a connection: in every interleaving with other goroutines that close
  it, the open connections are exactly the current one and the one a reconnect has in hand, so
  at most one is open at any time; the SFTP client belongs to the current connection; while one is
  current no error is reported; and when the goroutine has ended, everything is closed.
\<close>

theorem manager_connections:
  assumes "manager_reach m"
  shows "mg_open m = set_option (mg_conn m) \<union> inHand (mg_pc m) \<and> card (mg_open m) \<le> 1 \<and> mg_sftp m = mg_conn m \<and>
    (IsConnected m \<longrightarrow> mg_lastErr m = None) \<and> (mg_pc m = Ended \<longrightarrow> mg_open m = {})"
proof -
  have i: "managerInv m" using managerInv_reach assms .
  have "card (mg_open m) \<le> 1"
  proof (cases "mg_conn m")
    case None
    then show ?thesis using i by (cases "mg_pc m") (auto simp: managerInv_def)
  next
    case (Some c)
    then have "inHand (mg_pc m) = {}" using i inHand_unconnected by (auto simp: managerInv_def)
    then show ?thesis using i Some by (simp add: managerInv_def)
  qed
  then show ?thesis using i by (auto simp: managerInv_def IsConnected_def)
qed

definition exampleManager :: manager where
  "exampleManager = connected (dialled (startManager NewManager) ToLoop) 0 ToLoop"

lemma exampleManager_reach: "manager_reach exampleManager"
proof -
  have 1: "manager_reach (startManager NewManager)" by (rule reach_step [OF reach_init m_start])
  have p: "mg_pc (startManager NewManager) = Dialing ToLoop" by (simp add: startManager_def NewManager_def)
  have 2: "manager_reach (dialled (startManager NewManager) ToLoop)" by (rule reach_step [OF 1 m_dial_ok [OF p]])
  have "mg_pc (dialled (startManager NewManager) ToLoop) = OpeningSFTP 0 ToLoop"
    by (simp add: dialled_def startManager_def NewManager_def)
  then show ?thesis unfolding exampleManager_def using reach_step [OF 2 m_sftp_ok] by blast
qed

theorem manager_connections_witness: "mg_open exampleManager = {0} \<and> mg_sftp exampleManager = Some 0"
  using manager_connections [OF exampleManager_reach]
  by (simp add: exampleManager_def connected_def closeLocked_def dialled_def startManager_def NewManager_def)

text \<open>
  A lost connection comes back: from every state after the start in which the goroutine has not
  been told to stop, some further steps, in which the next dial and the SFTP client succeed, lead
  to a state with a connection.
\<close>

theorem manager_recovers:
  assumes "manager_reach m" "mg_started m" "mg_pc m \<noteq> Shutdown" "mg_pc m \<noteq> Ended"
  shows "\<exists>m'. manager_step\<^sup>*\<^sup>* m m' \<and> IsConnected m'"
proof -
  have sftp: "\<exists>m'. manager_step\<^sup>*\<^sup>* m m' \<and> IsConnected m'" if "mg_pc m = OpeningSFTP c k" for m c k
    using m_sftp_ok [OF that] by (intro exI [of _ "connected m c k"]) (auto simp: connected_def IsConnected_def)
  have dial: "\<exists>m'. manager_step\<^sup>*\<^sup>* m m' \<and> IsConnected m'" if "mg_pc m = Dialing k" for m k
    using m_dial_ok [OF that] sftp [of "dialled m k" "mg_next m" k]
    by (simp add: dialled_def) (meson converse_rtranclp_into_rtranclp)
  have loop: "\<exists>m'. manager_step\<^sup>*\<^sup>* m m' \<and> IsConnected m'" if "mg_pc m = LoopTop" for m
  proof (cases "IsConnected m")
    case False
    then show ?thesis using m_loop [OF that] dial [of "loopCheck m" ToSelect]
      by (simp add: loopCheck_def) (meson converse_rtranclp_into_rtranclp)
  qed blast
  have sel: "\<exists>m'. manager_step\<^sup>*\<^sup>* m m' \<and> IsConnected m'" if "mg_pc m = InSelect" for m
  proof (cases "IsConnected m")
    case False
    then show ?thesis using m_tick [OF that] dial [of "reconnectTick m" ToLoop]
      by (simp add: reconnectTick_def) (meson converse_rtranclp_into_rtranclp)
  qed blast
  have "mg_pc m \<noteq> Idle" using managerInv_reach [OF assms(1)] assms(2) by (simp add: managerInv_def)
  then show ?thesis
  proof (cases "mg_pc m")
    case KeepAliveFailed
    then show ?thesis using m_keep_close [OF KeepAliveFailed] loop [of "(closeLocked m)\<lparr>mg_pc := LoopTop\<rparr>"]
      by (simp) (meson converse_rtranclp_into_rtranclp)
  qed (use assms(3,4) sftp dial loop sel in auto)
qed

theorem manager_recovers_witness: "\<exists>m'. manager_step\<^sup>*\<^sup>* (startManager NewManager) m' \<and> IsConnected m'"
  using manager_recovers [OF reach_step [OF reach_init m_start]] by (simp add: startManager_def NewManager_def)



end
