(* ===== verification/Launch.thy ===== *)
theory Launch
  imports EnvFilter
begin

text \<open>
  Launching the first program: the environment of the container (\<open>pkg/ns/env.go\<close>), the command
  line of the sandbox (\<open>pkg/ns/runner_linux.go\<close>), the start sequence (\<open>pkg/supervisor\<close>) and the
  resolution of the first program with the commands it needs (\<open>pkg/initcmd\<close>).
\<close>

section \<open>Environment and sandbox\<close>

record Bind =
  bd_Src :: string
  bd_Dst :: string

record PathInjection =
  pj_Dir :: string
  pj_Position :: string

abbreviation defaultPath :: string where
  "defaultPath \<equiv> ''/usr/local/sbin:/usr/local/bin:/usr/sbin:/usr/bin:/sbin:/bin''"

abbreviation pathPrefix :: string where "pathPrefix \<equiv> ''PATH=''"

definition containsPathSegment :: "string \<Rightarrow> string \<Rightarrow> bool" where
  "containsPathSegment p dir \<longleftrightarrow> p \<noteq> [] \<and> dir \<in> set (Split p (CHR '':''))"

text \<open>The entry that replaces an existing PATH entry with the given value.\<close>

definition pathEntry :: "string \<Rightarrow> string \<Rightarrow> string \<Rightarrow> string" where
  "pathEntry dir position current =
     pathPrefix @ (if containsPathSegment current dir then current
        else if current = [] then dir
        else if position \<noteq> ''append'' then dir @ '':'' @ current
        else current @ '':'' @ dir)"

fun injectLoop :: "string \<Rightarrow> string \<Rightarrow> string list \<Rightarrow> string list option" where
  "injectLoop dir position [] = None"
| "injectLoop dir position (entry # env) =
     (if HasPrefix entry pathPrefix then Some (pathEntry dir position (drop (length pathPrefix) entry) # env)
      else map_option (Cons entry) (injectLoop dir position env))"

definition injectPath :: "string list \<Rightarrow> string \<Rightarrow> string \<Rightarrow> string list" where
  "injectPath env dir position =
     (case injectLoop dir position env of
        Some env' \<Rightarrow> env'
      | None \<Rightarrow>
          if position \<noteq> ''append'' then env @ [pathPrefix @ dir @ '':'' @ defaultPath]
          else env @ [pathPrefix @ defaultPath @ '':'' @ dir])"

definition FormatEnv :: "string list \<Rightarrow> string \<Rightarrow> string \<Rightarrow> PathInjection \<Rightarrow> string list" where
  "FormatEnv base brokerSock shimPath pathInj =
     (let env = (if pj_Dir pathInj \<noteq> [] then injectPath base (pj_Dir pathInj) (pj_Position pathInj) else base)
      in env @ [''MPROXY_BROKER_SOCK='' @ brokerSock, ''MPROXY_SHIM_PATH='' @ shimPath])"

definition buildBwrapArgs :: "string \<Rightarrow> string list \<Rightarrow> Bind list \<Rightarrow> string list" where
  "buildBwrapArgs workingDir cmdline binds =
     [''--dev-bind'', ''/'', ''/''] @ concat (map (\<lambda>b. [''--bind'', bd_Src b, bd_Dst b]) binds) @
     [''--chdir'', workingDir, ''--die-with-parent''] @ cmdline"

section \<open>The start sequence\<close>

text \<open>A step changes the state and may fail; a nil \<open>PathStubs\<close> is \<^const>\<open>None\<close>.\<close>

type_synonym 's startStep = "'s \<Rightarrow> string option \<times> 's"

record 's supDeps =
  sd_Backend :: "'s startStep"
  sd_NS :: "'s startStep"
  sd_FS :: "'s startStep"
  sd_PathStubs :: "'s startStep option"
  sd_Broker :: "'s startStep"
  sd_Launcher :: "string list \<Rightarrow> 's startStep"

definition thenStep :: "string option \<times> 's \<Rightarrow> 's startStep \<Rightarrow> string option \<times> 's" where
  "thenStep r k = (case fst r of Some err \<Rightarrow> r | None \<Rightarrow> k (snd r))"

definition SupervisorRun :: "'s supDeps \<Rightarrow> string list \<Rightarrow> 's startStep" where
  "SupervisorRun d cmd s =
     (let r = thenStep (thenStep (sd_Backend d s) (sd_NS d)) (sd_FS d);
          r = (case sd_PathStubs d of None \<Rightarrow> r | Some k \<Rightarrow> thenStep r k)
      in thenStep (thenStep r (sd_Broker d)) (sd_Launcher d cmd))"

section \<open>The first program\<close>

datatype look_error = LookNotFound | LookStat string | LookPermission | LookAbs string

text \<open>\<open>checkExec\<close>: the mode of a path, or the error of \<open>os.Stat\<close>.\<close>

definition checkExec :: "(string \<Rightarrow> string + (bool \<times> bool)) \<Rightarrow> string \<Rightarrow> look_error option" where
  "checkExec stat p =
     (case stat p of
        Inl err \<Rightarrow> Some (LookStat err)
      | Inr (isDir, anyExec) \<Rightarrow> if isDir then Some LookPermission else if \<not> anyExec then Some LookPermission else None)"

fun lookDirs :: "(string \<Rightarrow> string + (bool \<times> bool)) \<Rightarrow> string set \<Rightarrow> string \<Rightarrow> string list \<Rightarrow> look_error + string" where
  "lookDirs stat skip name [] = Inl LookNotFound"
| "lookDirs stat skip name (dir # dirs) =
     (if dir = [] then lookDirs stat skip name dirs
      else if Clean dir \<in> skip then lookDirs stat skip name dirs
      else case checkExec stat (JoinPath [dir, name]) of
        Some err \<Rightarrow> lookDirs stat skip name dirs
      | None \<Rightarrow> Inr (JoinPath [dir, name]))"

text \<open>The working directory of the process is \<^const>\<open>None\<close> when it cannot be read.\<close>

definition LookPath ::
  "(string \<Rightarrow> string + (bool \<times> bool)) \<Rightarrow> string option \<Rightarrow> string \<Rightarrow> string \<Rightarrow> string list \<Rightarrow> look_error + string" where
  "LookPath stat cwd name pathEnv skipDirs =
     (if name = [] then Inl LookNotFound
      else if CHR ''/'' \<in> set name then
        (case checkExec stat name of
           Some err \<Rightarrow> Inl err
         | None \<Rightarrow> if IsAbs name then Inr (Clean name)
             else (case cwd of None \<Rightarrow> Inl (LookAbs ''getwd'') | Some d \<Rightarrow> Inr (AbsPath d name)))
      else lookDirs stat (Clean ` {d \<in> set skipDirs. d \<noteq> []}) name (Split pathEnv (CHR '':'')))"

section \<open>Scripts\<close>

abbreviation isBlank :: "char \<Rightarrow> bool" where "isBlank c \<equiv> c = CHR '' '' \<or> c = CHR 0x09"
abbreviation isEOL :: "char \<Rightarrow> bool" where "isEOL c \<equiv> c = CHR 0x0D \<or> c = CHR 0x0A"

text \<open>\<open>readShebang\<close> on the contents of the file: the interpreter and its argument, if it is a script.\<close>

definition readShebang :: "bytes \<Rightarrow> (string \<times> string) option" where
  "readShebang content =
     (if length content < 2 then None
      else if take 2 content \<noteq> ''#!'' then None
      else let line = takeWhile (\<lambda>c. c \<noteq> CHR 0x0A) (drop 2 content);
               line = rev (dropWhile isEOL (rev line));
               line = dropWhile isBlank line
           in if line = [] then None
              else Some (takeWhile (\<lambda>c. \<not> isBlank c) line, dropWhile isBlank (dropWhile (\<lambda>c. \<not> isBlank c) line)))"

text \<open>\<open>strings.Fields\<close>\<close>

definition atSpace :: "string \<Rightarrow> bool" where
  "atSpace s \<longleftrightarrow> list_ex (HasPrefix s) spaceRunes"

fun takeField :: "string \<Rightarrow> string \<times> string" where
  "takeField [] = ([], [])"
| "takeField (c # s) = (if atSpace (c # s) then ([], c # s) else let (w, r) = takeField s in (c # w, r))"

lemma takeField_length: "length (snd (takeField s)) \<le> length s"
  by (induction s) (auto simp: case_prod_beta Let_def)

lemma trimLeft_length: "length (trimLeft ws s) \<le> length s"
proof (induction ws s rule: trimLeft.induct)
  case (1 ws s)
  then show ?case by (subst trimLeft.simps) (force split: option.splits)
qed

function Fields :: "string \<Rightarrow> string list" where
  "Fields s =
     (let t = trimLeft spaceRunes s in
      if t = [] then [] else let (w, r) = takeField t in if w = [] then [t] else w # Fields r)"
  by pat_completeness auto

termination
proof (relation "measure length", goal_cases)
  case (2 s t p w r)
  then have "length t = length w + length r"
  proof -
    have "length x = length (fst (takeField x)) + length (snd (takeField x))" for x
      by (induction x) (auto simp: case_prod_beta Let_def)
    then show ?thesis using 2 by (metis fst_conv snd_conv)
  qed
  then show ?case using 2 trimLeft_length [of spaceRunes s] by (cases w) auto
qed simp

fun envLoop :: "bool \<Rightarrow> string list \<Rightarrow> string" where
  "envLoop skipNext [] = []"
| "envLoop skipNext (f # fs) =
     (if skipNext then envLoop False fs
      else if f = [] then envLoop False fs
      else if \<not> HasPrefix f ''-'' then f
      else envLoop (f \<in> {''-u'', ''--unset'', ''-C'', ''--chdir''}) fs)"

definition envTarget :: "string \<Rightarrow> string" where
  "envTarget arg = (if arg = [] then [] else envLoop False (Fields arg))"

text \<open>\<open>DeriveLocalCommands\<close>; a file that cannot be read is \<^const>\<open>None\<close>.\<close>

definition DeriveLocalCommands :: "string \<Rightarrow> bytes option \<Rightarrow> string list" where
  "DeriveLocalCommands absPath content =
     (case content of
        None \<Rightarrow> [absPath]
      | Some bs \<Rightarrow>
          (case readShebang bs of
             None \<Rightarrow> [absPath]
           | Some (interp, arg) \<Rightarrow>
               [absPath] @ (if interp \<noteq> [] then [interp] else []) @
               (if Base interp = ''env'' \<and> envTarget arg \<noteq> [] then [envTarget arg] else [])))"

section \<open>Lemmas\<close>

lemma stripLoop_append: "stripLoop dir (xs @ ys) = stripLoop dir xs @ stripLoop dir ys"
  by (induction xs) (auto simp: Let_def)

lemma stripLoop_pathEntry:
  assumes "dir \<noteq> []" "CHR '':'' \<notin> set dir" "cur \<noteq> []" "dir \<notin> set (Split cur (CHR '':''))"
  shows "stripLoop dir [pathEntry dir position cur] = [pathPrefix @ cur]"
proof -
  have f: "filter (\<lambda>s. s \<noteq> dir) (Split cur (CHR '':'')) = Split cur (CHR '':'')" using assms(4) by (auto simp: filter_id_conv)
  have nc: "\<not> containsPathSegment cur dir" using assms(4) by (simp add: containsPathSegment_def)
  show ?thesis
  proof (cases "position \<noteq> ''append''")
    case True
    have "Split (dir @ CHR '':'' # cur) (CHR '':'') = dir # Split cur (CHR '':'')" using assms(2) by (rule Split_append)
    then show ?thesis using True nc assms(3) f by (simp add: pathEntry_def Join_Split)
  next
    case False
    then show ?thesis using nc assms(3) f Split_snoc [OF assms(2), of cur] by (simp add: pathEntry_def Join_Split)
  qed
qed

lemma injectLoop_split:
  "injectLoop dir position env = Some env' \<Longrightarrow>
   \<exists>pre cur post. env = pre @ (pathPrefix @ cur) # post \<and> env' = pre @ pathEntry dir position cur # post"
proof (induction env arbitrary: env')
  case (Cons e env)
  show ?case
  proof (cases "HasPrefix e pathPrefix")
    case True
    then obtain cur where "e = pathPrefix @ cur" by (auto simp: HasPrefix_iff)
    then show ?thesis using Cons.prems by (intro exI [of _ "[]"] exI [of _ cur] exI [of _ env]) auto
  next
    case False
    then obtain e1 where "injectLoop dir position env = Some e1" "env' = e # e1" using Cons.prems by auto
    then show ?thesis using Cons.IH [of e1] by (metis append_Cons)
  qed
qed simp

lemma injectLoop_None: "injectLoop dir position env = None \<longleftrightarrow> (\<forall>e\<in>set env. \<not> HasPrefix e pathPrefix)"
  by (induction env) auto

lemma lookDirs_find:
  "lookDirs stat skip name dirs =
     (case find (\<lambda>d. d \<noteq> [] \<and> Clean d \<notin> skip \<and> checkExec stat (JoinPath [d, name]) = None) dirs of
        None \<Rightarrow> Inl LookNotFound | Some d \<Rightarrow> Inr (JoinPath [d, name]))"
  by (induction dirs) (auto split: option.split)

lemma takeWhile_stop: "\<forall>c\<in>set l. P c \<Longrightarrow> rest = [] \<or> \<not> P (hd rest) \<Longrightarrow> takeWhile P (l @ rest) = l"
  by (induction l) (cases rest, auto)

lemma dropWhile_stop: "\<forall>c\<in>set l. P c \<Longrightarrow> r \<noteq> [] \<Longrightarrow> \<not> P (hd r) \<Longrightarrow> dropWhile P (l @ r) = r"
  by (induction l) (cases r, auto)

lemma trimEnd_stop: "xs \<noteq> [] \<Longrightarrow> \<not> P (last xs) \<Longrightarrow> rev (dropWhile P (rev xs)) = xs"
  by (cases xs rule: rev_cases) auto

lemma readShebang_line:
  assumes "CHR 0x0A \<notin> set line" "line \<noteq> []" "\<not> isBlank (hd line)" "\<not> isEOL (last line)" "list_all isBlank sp"
    and "rest = [] \<or> hd rest = CHR 0x0A"
  shows "readShebang (''#!'' @ sp @ line @ rest) =
    Some (takeWhile (\<lambda>c. \<not> isBlank c) line, dropWhile isBlank (dropWhile (\<lambda>c. \<not> isBlank c) line))"
proof -
  have sp: "\<forall>c\<in>set sp. isBlank c" using assms(5) by (simp add: list_all_iff)
  have "\<forall>c\<in>set (sp @ line). c \<noteq> CHR 0x0A" using assms(1) sp by fastforce
  then have 1: "takeWhile (\<lambda>c. c \<noteq> CHR 0x0A) (sp @ line @ rest) = sp @ line"
    using takeWhile_stop [of "sp @ line" "\<lambda>c. c \<noteq> CHR 0x0A" rest] assms(6) by simp
  have 2: "rev (dropWhile isEOL (rev (sp @ line))) = sp @ line"
    by (rule trimEnd_stop) (use assms(2,4) in simp_all)
  have 3: "dropWhile isBlank (sp @ line) = line" by (rule dropWhile_stop [OF sp assms(2,3)])
  have "take 2 (''#!'' @ sp @ line @ rest) = ''#!''" "drop 2 (''#!'' @ sp @ line @ rest) = sp @ line @ rest"
    "\<not> length (''#!'' @ sp @ line @ rest) < 2" by simp_all
  then show ?thesis unfolding readShebang_def Let_def using 1 2 3 assms(2) by (simp only: if_False if_True simp_thms)
qed

section \<open>Properties\<close>

text \<open>
  The stub directory that the launcher puts into PATH is taken out again before a command goes
  to the remote host: when the environment has a PATH with some value that does not list the
  directory already, stripping the formatted environment gives back exactly the environment it
  was made from, followed by the two variables of the shim, for either position of the directory.
\<close>

theorem stub_path_roundtrip:
  assumes "pj_Dir pj \<noteq> []" "CHR '':'' \<notin> set (pj_Dir pj)"
    and "\<exists>e\<in>set base. HasPrefix e pathPrefix"
    and "\<forall>v. (pathPrefix @ v) \<in> set base \<longrightarrow> v \<noteq> [] \<and> pj_Dir pj \<notin> set (Split v (CHR '':''))"
  shows "StripPathSegment (FormatEnv base sock shim pj) (pj_Dir pj) =
    base @ [''MPROXY_BROKER_SOCK='' @ sock, ''MPROXY_SHIM_PATH='' @ shim]"
proof -
  let ?d = "pj_Dir pj" and ?tail = "[''MPROXY_BROKER_SOCK='' @ sock, ''MPROXY_SHIM_PATH='' @ shim]"
  obtain env where env: "injectLoop ?d (pj_Position pj) base = Some env" using assms(3) injectLoop_None by fastforce
  then obtain pre cur post where s: "base = pre @ (pathPrefix @ cur) # post" "env = pre @ pathEntry ?d (pj_Position pj) cur # post"
    using injectLoop_split by blast
  have id: "stripLoop ?d pre = pre" "stripLoop ?d post = post"
    using assms(4) s(1) by (auto intro!: stripLoop_id)
  have "(pathPrefix @ cur) \<in> set base" using s(1) by simp
  then have "stripLoop ?d [pathEntry ?d (pj_Position pj) cur] = [pathPrefix @ cur]"
    using assms(1,2,4) by (intro stripLoop_pathEntry) blast+
  then have "stripLoop ?d (pre @ [pathEntry ?d (pj_Position pj) cur] @ post @ ?tail) = base @ ?tail"
    using id s(1) by (simp only: stripLoop_append) simp
  then show ?thesis using assms(1) env s(2) by (simp add: StripPathSegment_def FormatEnv_def injectPath_def Let_def)
qed

theorem stub_path_roundtrip_witness:
  "StripPathSegment (FormatEnv [''A=1'', ''PATH=/bin:/usr/bin''] ''/s'' ''/shim'' \<lparr>pj_Dir = ''/stub'', pj_Position = ''append''\<rparr>) ''/stub'' =
     [''A=1'', ''PATH=/bin:/usr/bin'', ''MPROXY_BROKER_SOCK=/s'', ''MPROXY_SHIM_PATH=/shim'']"
  using stub_path_roundtrip [of "\<lparr>pj_Dir = ''/stub'', pj_Position = ''append''\<rparr>" "[''A=1'', ''PATH=/bin:/usr/bin'']" "''/s''" "''/shim''"]
  by simp

text \<open>
  The first program is found where a PATH search without the skipped directories finds it: the
  first directory of PATH that is not empty, is not (up to lexical normalisation) one of the
  skipped ones and holds an executable file of that name; so the stub directory is never searched.
\<close>

theorem LookPath_search:
  assumes "name \<noteq> []" "CHR ''/'' \<notin> set name"
  shows "LookPath stat cwd name pathEnv skipDirs =
    (case find (\<lambda>d. d \<noteq> [] \<and> Clean d \<notin> Clean ` {k \<in> set skipDirs. k \<noteq> []} \<and> checkExec stat (JoinPath [d, name]) = None)
        (Split pathEnv (CHR '':'')) of
      None \<Rightarrow> Inl LookNotFound | Some d \<Rightarrow> Inr (JoinPath [d, name]))"
  using assms by (simp add: LookPath_def lookDirs_find)

theorem LookPath_search_witness:
  "LookPath (\<lambda>p. if p = ''/stub/x'' \<or> p = ''/bin/x'' then Inr (False, True) else Inl ''ENOENT'') None ''x'' ''/stub/:/sbin:/bin'' [''/stub''] =
     Inr ''/bin/x''"
  using LookPath_search [of "''x''" "\<lambda>p. if p = ''/stub/x'' \<or> p = ''/bin/x'' then Inr (False, True) else Inl ''ENOENT''" None
      "''/stub/:/sbin:/bin''" "[''/stub'']"]
  by (simp add: Clean_def IsAbs_def JoinPath_def checkExec_def)

text \<open>
  A script brings its interpreter along: for a first line \<open>#!interpreter argument\<close>, with any
  blanks after the mark, the derived local commands are the script, the interpreter, and for an
  interpreter named \<open>env\<close> the program that its argument names.
\<close>

theorem script_commands:
  assumes "interp \<noteq> []" "list_all (\<lambda>c. \<not> isBlank c \<and> \<not> isEOL c) interp" "list_all isBlank sp"
    and "arg \<noteq> []" "\<not> isBlank (hd arg)" "list_all (\<lambda>c. \<not> isEOL c) arg"
  shows "DeriveLocalCommands p (Some (''#!'' @ sp @ interp @ '' '' @ arg @ CHR 0x0A # rest)) =
    [p, interp] @ (if Base interp = ''env'' \<and> envTarget arg \<noteq> [] then [envTarget arg] else [])"
proof -
  let ?line = "interp @ '' '' @ arg"
  have nl: "CHR 0x0A \<notin> set ?line" using assms(2,6) by (auto simp: list_all_iff)
  have hd: "\<not> isBlank (hd ?line)" using assms(1,2) by (cases interp) auto
  have "last arg \<in> set arg" using assms(4) by simp
  then have la: "\<not> isEOL (last ?line)" using assms(4,6) by (auto simp: list_all_iff)
  have "readShebang (''#!'' @ sp @ ?line @ CHR 0x0A # rest) =
      Some (takeWhile (\<lambda>c. \<not> isBlank c) ?line, dropWhile isBlank (dropWhile (\<lambda>c. \<not> isBlank c) ?line))"
    by (rule readShebang_line [OF nl _ hd la assms(3)]) (use assms(1) in simp_all)
  moreover have "takeWhile (\<lambda>c. \<not> isBlank c) ?line = interp" "dropWhile (\<lambda>c. \<not> isBlank c) ?line = '' '' @ arg"
    using assms(2) by (auto simp: takeWhile_append2 dropWhile_append2 list_all_iff)
  moreover have "dropWhile isBlank ('' '' @ arg) = arg" using assms(4,5) by (cases arg) auto
  ultimately have "readShebang (''#!'' @ sp @ interp @ '' '' @ arg @ CHR 0x0A # rest) = Some (interp, arg)" by simp
  then show ?thesis using assms(1) by (simp add: DeriveLocalCommands_def)
qed

lemma envTarget_example: "envTarget ''-S node --x'' = ''node''"
  by code_simp

theorem script_commands_witness:
  "DeriveLocalCommands ''/s'' (Some (''#! /usr/bin/env -S node --x'' @ [CHR 0x0A])) = [''/s'', ''/usr/bin/env'', ''node'']"
  using script_commands [of "''/usr/bin/env''" "'' ''" "''-S node --x''" "''/s''" "[]"]
  by (simp add: envTarget_example Base_def)

end
