(* ===== verification/Runtime.thy ===== *)
theory Runtime
  imports Tracer Config PathStub Launch Broker WsView
begin

text \<open>
  \<open>cmd/machineproxy/runtime.go\<close> and the command line of \<open>cmd/mproxy-tracer\<close>: how the configuration
  becomes the tracer's arguments, the workspace options, the mounts, the path stubs, the broker's
  dependencies and the environment of the first program. The backend and the operating system are
  parameters; the variant is the one for Linux.
\<close>

section \<open>The command line of the tracer\<close>

abbreviation optShim :: string where "optShim \<equiv> ''--shim-path''"
abbreviation optSock :: string where "optSock \<equiv> ''--broker-sock''"
abbreviation optLevel :: string where "optLevel \<equiv> ''--log-level''"
abbreviation optWhitelist :: string where "optWhitelist \<equiv> ''--whitelist''"
abbreviation optCwdFrom :: string where "optCwdFrom \<equiv> ''--cwd-from''"
abbreviation optCwdTo :: string where "optCwdTo \<equiv> ''--cwd-to''"
abbreviation endOpts :: string where "endOpts \<equiv> ''--''"

text \<open>\<open>buildChildInvocation\<close>; the pair is the working directory rewrite.\<close>

definition buildChildInvocation ::
  "host \<Rightarrow> Config \<Rightarrow> string \<Rightarrow> string \<times> string \<Rightarrow> string \<Rightarrow> string list \<Rightarrow> (path_error, string list) result" where
  "buildChildInvocation h cfg sock cwd shimBin cmdline =
     bindR (ResolveTracerPath h (TracerPath (Components cfg))) (\<lambda>tracerBin.
     Inr ([tracerBin, optShim, shimBin, optSock, sock, optLevel, log_Level (Logging cfg)] @
       (if LocalCommands (Container cfg) \<noteq> [] then [optWhitelist, Join (LocalCommands (Container cfg)) '':''] else []) @
       (if snd cwd \<noteq> [] then [optCwdFrom, fst cwd, optCwdTo, snd cwd] else []) @ [endOpts] @ cmdline))"

definition emptyTracerConfig :: TracerConfig where
  "emptyTracerConfig = \<lparr>tc_ShimPath = [], tc_Whitelist = [], tc_BrokerSock = [], tc_CwdFrom = [], tc_CwdTo = []\<rparr>"

text \<open>\<open>parseArgs\<close>: the configuration with the child's command, if any, and the log level.\<close>

function parseArgs :: "TracerConfig \<Rightarrow> string \<Rightarrow> string list \<Rightarrow> (TracerConfig \<times> string list) option \<times> string" where
  "parseArgs cfg level [] = (None, level)"
| "parseArgs cfg level (a # args) =
     (if a = endOpts then (Some (cfg, args), level)
      else if a \<in> {optShim, optSock, optWhitelist, optCwdFrom, optCwdTo, optLevel} then
        (case args of
           [] \<Rightarrow> (None, level)
         | v # args' \<Rightarrow>
             if a = optShim then parseArgs (cfg\<lparr>tc_ShimPath := v\<rparr>) level args'
             else if a = optSock then parseArgs (cfg\<lparr>tc_BrokerSock := v\<rparr>) level args'
             else if a = optWhitelist then parseArgs (cfg\<lparr>tc_Whitelist := Split v (CHR '':'')\<rparr>) level args'
             else if a = optCwdFrom then parseArgs (cfg\<lparr>tc_CwdFrom := v\<rparr>) level args'
             else if a = optCwdTo then parseArgs (cfg\<lparr>tc_CwdTo := v\<rparr>) level args'
             else parseArgs cfg v args')
      else (Some (cfg, a # args), level))"
  by pat_completeness auto

termination by (relation "measure (\<lambda>(cfg, level, args). length args)") auto

section \<open>Working directory and platform\<close>

abbreviation CwdModeRemote :: string where "CwdModeRemote \<equiv> ''remote''"
abbreviation CwdModeExplicit :: string where "CwdModeExplicit \<equiv> ''explicit''"
abbreviation CwdRemapRemote :: string where "CwdRemapRemote \<equiv> ''remote''"

datatype cwd_error = CwdMissing | CwdNotDir string

text \<open>\<open>resolveWorkingDir\<close>: the local test for a directory and the first mount are arguments.\<close>

definition resolveWorkingDir :: "(string \<Rightarrow> bool) \<Rightarrow> Config \<Rightarrow> Mount \<Rightarrow> (cwd_error, string) result" where
  "resolveWorkingDir isDir cfg workspace =
     (let mode = CwdMode (Container cfg); wd = WorkingDir (Container cfg) in
      if mode = CwdModeExplicit then
        (if wd = [] then Inl CwdMissing else if \<not> isDir wd then Inl (CwdNotDir wd) else Inr wd)
      else if wd \<noteq> [] then Inr wd
      else if mode = CwdModeRemote then Inr (RemotePath workspace)
      else Inr (ContainerPath workspace))"

definition resolveCwdRemap :: "Config \<Rightarrow> Mount \<Rightarrow> string \<times> string" where
  "resolveCwdRemap cfg workspace =
     (if CwdRemap (Container cfg) \<noteq> CwdRemapRemote then ([], [])
      else if ContainerPath workspace = RemotePath workspace then ([], [])
      else (ContainerPath workspace, RemotePath workspace))"

text \<open>\<open>resolveRemotePlatform\<close>: what the backend detected (empty fields when it failed) and the local platform.\<close>

definition resolveRemotePlatform :: "string \<times> string \<Rightarrow> string \<times> string \<Rightarrow> Config \<Rightarrow> Config" where
  "resolveRemotePlatform detected local cfg =
     (let r = Remote cfg;
          r = (if rem_OS r = [] then r\<lparr>rem_OS := if fst detected \<noteq> [] then fst detected else fst local\<rparr> else r);
          r = (if rem_Arch r = [] then r\<lparr>rem_Arch := if snd detected \<noteq> [] then snd detected else snd local\<rparr> else r)
      in cfg\<lparr>Remote := r\<rparr>)"

section \<open>Workspace options\<close>

fun compileIDMap :: "string list \<Rightarrow> (string \<Rightarrow> uint32 option) option \<Rightarrow> (idmap_error, IDRange list) result" where
  "compileIDMap [] lookup = Inr []"
| "compileIDMap (raw # entries) lookup =
     bindR (CompileIDMapEntry raw lookup) (\<lambda>e.
     bindR (compileIDMap entries lookup) (\<lambda>out.
     Inr (\<lparr>im_RemoteID = RemoteID e, im_LocalID = LocalID e, im_Count = Count e\<rparr> # out)))"

datatype options_error = OptUIDMap idmap_error | OptGIDMap idmap_error | OptNegativeID int int

definition workspacefsOptions :: "host \<Rightarrow> int \<Rightarrow> int \<Rightarrow> Config \<Rightarrow> (options_error, wsOptions) result" where
  "workspacefsOptions h uid gid cfg =
     bindR (mapErr OptUIDMap (compileIDMap (UIDMap (Container cfg)) (Some (LookupUID h)))) (\<lambda>uidMap.
     bindR (mapErr OptGIDMap (compileIDMap (GIDMap (Container cfg)) (Some (LookupGroupGID h)))) (\<lambda>gidMap.
     bindR (failIf (uid < 0 \<or> gid < 0) (OptNegativeID uid gid)) (\<lambda>_.
     Inr \<lparr>wo_UIDMode = UIDMode (Container cfg), wo_GIDMode = GIDMode (Container cfg), wo_UIDMap = uidMap,
          wo_GIDMap = gidMap, wo_LocalUID = word_of_int uid, wo_LocalGID = word_of_int gid\<rparr>)))"

section \<open>The broker and the first program\<close>

text \<open>The dependencies that \<open>StartBroker\<close> gives to the broker, with the runner as an argument.\<close>

definition brokerDeps ::
  "'re engine \<Rightarrow> Config \<Rightarrow> Mount list \<Rightarrow> (string, Entry) mapping \<Rightarrow> (Request \<Rightarrow> int \<times> string option) \<Rightarrow> Deps" where
  "brokerDeps eng cfg mounts stubMap run =
     (let stubPrefix = PathStubDir (Container cfg);
          stripStub = (if Mapping.is_empty stubMap then [] else stubPrefix)
      in \<lparr>dp_EnvFilter = Some (\<lambda>env.
            StripPathSegment (Filter eng env (ag_EnvKeep (Agent cfg)) (ag_EnvRemove (Agent cfg))) stripStub),
          dp_PathMapper = buildPathMapper mounts stubPrefix stubMap, dp_Control = Some run, dp_Run = None\<rparr>)"

text \<open>The environment and the binds of \<open>RunChild\<close>; \<open>stubDir\<close> is the stub mount directory, empty when there is none.\<close>

definition childEnv :: "'re engine \<Rightarrow> Config \<Rightarrow> string list \<Rightarrow> string \<Rightarrow> string \<Rightarrow> string \<Rightarrow> string list" where
  "childEnv eng cfg environ sock shimBin stubDir =
     FormatEnv (Remove eng environ (EnvRemove (Container cfg))) sock shimBin
       (if stubDir \<noteq> [] then \<lparr>pj_Dir = PathStubDir (Container cfg), pj_Position = PathProxy (Container cfg)\<rparr>
        else \<lparr>pj_Dir = [], pj_Position = []\<rparr>)"

section \<open>Mounts\<close>

text \<open>One realised mount: whether it owns the FUSE server of its directory.\<close>

record mountInstance =
  mi_mount :: Mount
  mi_fuseDir :: string
  mi_server :: bool

text \<open>
  What the system answers: whether FUSE is usable, the remote home (or no file client), whether a
  remote path is a directory, the temporary directories it makes, whether a FUSE mount and an
  unmount succeed.
\<close>

record mountHost =
  mh_Preflight :: bool
  mh_Home :: "string option"
  mh_Stat :: "string \<Rightarrow> string + bool"
  mh_Temp :: "nat \<Rightarrow> string option"
  mh_FuseMount :: "string \<Rightarrow> bool"
  mh_Unmount :: "string \<Rightarrow> bool"

datatype mount_fail =
    FailPreflight | FailHome | FailOptions options_error
  | FailParse mount_error | FailExpand path_error | FailStat string | FailNotDir string | FailTemp | FailFuse string | FailNone

text \<open>
  The variables of \<open>MountWorkspace\<close>, with the temporary directories and the FUSE servers (directory
  and remote path) that exist, and the remote paths on whose live mount \<open>os.RemoveAll\<close> was run.
\<close>

record mountLoop =
  ml_mounts :: "mountInstance list"
  ml_fuse :: "(string, string) mapping"
  ml_seen :: "string list"
  ml_next :: nat
  ml_dirs :: "string list"
  ml_servers :: "(string \<times> string) list"
  ml_erased :: "string list"

definition mountInit :: mountLoop where
  "mountInit = \<lparr>ml_mounts = [], ml_fuse = Mapping.empty, ml_seen = [], ml_next = 0, ml_dirs = [], ml_servers = [], ml_erased = []\<rparr>"

definition addMount :: "mountLoop \<Rightarrow> Mount \<Rightarrow> string \<Rightarrow> bool \<Rightarrow> mountLoop" where
  "addMount st mount dir fresh =
     (if List.member (ml_seen st) (ContainerPath mount) then st
      else st\<lparr>ml_seen := ContainerPath mount # ml_seen st,
             ml_mounts := ml_mounts st @ [\<lparr>mi_mount = mount, mi_fuseDir = dir, mi_server = fresh\<rparr>]\<rparr>)"

definition mountOne :: "host \<Rightarrow> mountHost \<Rightarrow> string \<Rightarrow> string \<Rightarrow> mountLoop \<Rightarrow> mount_fail option \<times> mountLoop" where
  "mountOne h H home raw st =
     (case ParseMount h raw of
        Inl e \<Rightarrow> (Some (FailParse e), st)
      | Inr mount \<Rightarrow>
      case ExpandRemoteHome (RemotePath mount) home of
        Inl e \<Rightarrow> (Some (FailExpand e), st)
      | Inr remote \<Rightarrow>
          (let mount = mount\<lparr>RemotePath := remote\<rparr> in
           case Mapping.lookup (ml_fuse st) remote of
             Some dir \<Rightarrow> (None, addMount st mount dir False)
           | None \<Rightarrow>
           case mh_Stat H remote of
             Inl err \<Rightarrow> (Some (FailStat remote), st)
           | Inr isDir \<Rightarrow>
               if \<not> isDir then (Some (FailNotDir remote), st)
               else case mh_Temp H (ml_next st) of
                 None \<Rightarrow> (Some FailTemp, st)
               | Some dir \<Rightarrow>
                   (let st = st\<lparr>ml_next := ml_next st + 1, ml_dirs := dir # ml_dirs st\<rparr> in
                    if \<not> mh_FuseMount H dir then (Some (FailFuse dir), st)
                    else (None, addMount (st\<lparr>ml_servers := (dir, remote) # ml_servers st,
                        ml_fuse := Mapping.update remote dir (ml_fuse st)\<rparr>) mount dir True))))"

text \<open>
  The cleanup of the failure path and of \<open>Close\<close>: unmount every server that an instance owns, then
  remove the directory of every instance, whether or not its server is gone.
\<close>

definition closeMounts :: "mountHost \<Rightarrow> mountLoop \<Rightarrow> mountLoop" where
  "closeMounts H st =
     (let unmounted = map mi_fuseDir (filter (\<lambda>i. mi_server i \<and> mh_Unmount H (mi_fuseDir i)) (ml_mounts st));
          removed = filter (\<lambda>d. d \<noteq> []) (map mi_fuseDir (ml_mounts st));
          servers = filter (\<lambda>(d, r). \<not> List.member unmounted d) (ml_servers st)
      in st\<lparr>ml_mounts := [], ml_servers := servers,
            ml_dirs := filter (\<lambda>d. \<not> List.member removed d \<or> List.member (map fst servers) d) (ml_dirs st),
            ml_erased := map snd (filter (\<lambda>(d, r). List.member removed d) servers) @ ml_erased st\<rparr>)"

fun mountAll :: "host \<Rightarrow> mountHost \<Rightarrow> string \<Rightarrow> string list \<Rightarrow> mountLoop \<Rightarrow> mount_fail option \<times> mountLoop" where
  "mountAll h H home [] st = (if ml_mounts st = [] then (Some FailNone, st) else (None, st))"
| "mountAll h H home (raw # raws) st =
     (case mountOne h H home raw st of (Some e, st') \<Rightarrow> (Some e, st') | (None, st') \<Rightarrow> mountAll h H home raws st')"

definition MountWorkspace :: "host \<Rightarrow> mountHost \<Rightarrow> int \<Rightarrow> int \<Rightarrow> Config \<Rightarrow> mount_fail option \<times> mountLoop" where
  "MountWorkspace h H uid gid cfg =
     (if \<not> mh_Preflight H then (Some FailPreflight, mountInit)
      else case mh_Home H of
        None \<Rightarrow> (Some FailHome, mountInit)
      | Some home \<Rightarrow>
      case workspacefsOptions h uid gid cfg of
        Inl e \<Rightarrow> (Some (FailOptions e), mountInit)
      | Inr opts \<Rightarrow>
      case mountAll h H home (Mounts (Container cfg)) mountInit of
        (Some e, st) \<Rightarrow> (Some e, closeMounts H st)
      | (None, st) \<Rightarrow> (None, st))"

text \<open>The binds of the sandbox: every realised mount, and the stub directory when there is one.\<close>

definition childBinds :: "Config \<Rightarrow> mountInstance list \<Rightarrow> string \<Rightarrow> Bind list" where
  "childBinds cfg mounts stubDir =
     map (\<lambda>i. \<lparr>bd_Src = mi_fuseDir i, bd_Dst = ContainerPath (mi_mount i)\<rparr>) mounts @
     (if stubDir \<noteq> [] then [\<lparr>bd_Src = stubDir, bd_Dst = PathStubDir (Container cfg)\<rparr>] else [])"

section \<open>Path stubs and the child\<close>

text \<open>The fields of the runtime that \<open>BuildPathStubs\<close> fills.\<close>

record stubState =
  ss_dir :: string
  ss_server :: bool
  ss_entries :: "(string, Entry) mapping"

datatype stub_fail = StubAgent path_error | StubEnumerate string | StubTemp | StubFiles string | StubMount string

text \<open>
  \<open>BuildPathStubs\<close>, with what the enumeration returned, the temporary directory, and the errors of
  the file client and of the mount. A failure after the directory was made removes it again.
\<close>

definition BuildPathStubs ::
  "'re engine \<Rightarrow> host \<Rightarrow> Config \<Rightarrow> string + PathInfoEntry list \<Rightarrow> string option \<Rightarrow> string option \<Rightarrow> string option \<Rightarrow>
     stubState \<Rightarrow> stub_fail option \<times> stubState" where
  "BuildPathStubs eng h cfg enumerated temp filesErr mountErr s =
     (if PathProxy (Container cfg) = ''disabled'' then (None, s)
      else case ResolveAgentBinaryPath h (AgentLocalPath (Components cfg)) (rem_OS (Remote cfg)) (rem_Arch (Remote cfg)) of
        Inl e \<Rightarrow> (Some (StubAgent e), s)
      | Inr _ \<Rightarrow>
      case enumerated of
        Inl e \<Rightarrow> (Some (StubEnumerate e), s)
      | Inr entries \<Rightarrow>
      let filtered = FilterLocalCommands eng entries (LocalCommands (Container cfg)) (PathStubDir (Container cfg)) in
      if filtered = [] then (None, s)
      else case temp of
        None \<Rightarrow> (Some StubTemp, s)
      | Some dir \<Rightarrow>
      case filesErr of
        Some e \<Rightarrow> (Some (StubFiles e), s\<lparr>ss_dir := [], ss_server := False\<rparr>)
      | None \<Rightarrow>
      case mountErr of
        Some e \<Rightarrow> (Some (StubMount e), s\<lparr>ss_dir := [], ss_server := False\<rparr>)
      | None \<Rightarrow> (None, \<lparr>ss_dir = dir, ss_server = True, ss_entries = Entries (NewFileSystem filtered)\<rparr>))"

datatype run_error = RunNoCommand | RunShim path_error | RunCwd cwd_error | RunTracer path_error

text \<open>\<open>RunChild\<close>: the arguments and the environment of bubblewrap; the first mount is the workspace.\<close>

definition RunChild ::
  "'re engine \<Rightarrow> host \<Rightarrow> (string \<Rightarrow> bool) \<Rightarrow> string list \<Rightarrow> Config \<Rightarrow> mountInstance list \<Rightarrow> string \<Rightarrow> string \<Rightarrow> string list \<Rightarrow>
     (run_error, string list \<times> string list) result" where
  "RunChild eng h isDir environ cfg mounts stubDir sock cmdline =
     bindR (failIf (cmdline = []) RunNoCommand) (\<lambda>_.
     bindR (mapErr RunShim (ResolveShimPath h (ShimPath (Components cfg)))) (\<lambda>shimBin.
     let workspace = mi_mount (hd mounts) in
     bindR (mapErr RunCwd (resolveWorkingDir isDir cfg workspace)) (\<lambda>workingDir.
     bindR (mapErr RunTracer (buildChildInvocation h cfg sock (resolveCwdRemap cfg workspace) shimBin cmdline)) (\<lambda>childArgv.
     Inr (buildBwrapArgs workingDir childArgv (childBinds cfg mounts stubDir),
          childEnv eng cfg environ sock shimBin stubDir)))))"

section \<open>Lemmas: tracer arguments\<close>

lemma parseArgs_option:
  "parseArgs cfg level (optShim # v # args) = parseArgs (cfg\<lparr>tc_ShimPath := v\<rparr>) level args"
  "parseArgs cfg level (optSock # v # args) = parseArgs (cfg\<lparr>tc_BrokerSock := v\<rparr>) level args"
  "parseArgs cfg level (optWhitelist # v # args) = parseArgs (cfg\<lparr>tc_Whitelist := Split v (CHR '':'')\<rparr>) level args"
  "parseArgs cfg level (optCwdFrom # v # args) = parseArgs (cfg\<lparr>tc_CwdFrom := v\<rparr>) level args"
  "parseArgs cfg level (optCwdTo # v # args) = parseArgs (cfg\<lparr>tc_CwdTo := v\<rparr>) level args"
  "parseArgs cfg level (optLevel # v # args) = parseArgs cfg v args"
  "parseArgs cfg level (endOpts # args) = (Some (cfg, args), level)"
  by simp_all

text \<open>What the tracer makes of the command line that machineproxy built, whatever the rules contain.\<close>

lemma child_args:
  assumes "buildChildInvocation h cfg sock cwd shimBin cmdline = Inr argv"
  shows "parseArgs emptyTracerConfig ''info'' (tl argv) =
    (Some (\<lparr>tc_ShimPath = shimBin,
        tc_Whitelist = (if LocalCommands (Container cfg) = [] then [] else Split (Join (LocalCommands (Container cfg)) '':'') (CHR '':'')),
        tc_BrokerSock = sock, tc_CwdFrom = (if snd cwd = [] then [] else fst cwd), tc_CwdTo = snd cwd\<rparr>, cmdline),
     log_Level (Logging cfg))"
proof -
  let ?lc = "LocalCommands (Container cfg)"
  obtain tracerBin where "argv = [tracerBin, optShim, shimBin, optSock, sock, optLevel, log_Level (Logging cfg)] @
      (if ?lc \<noteq> [] then [optWhitelist, Join ?lc '':''] else []) @
      (if snd cwd \<noteq> [] then [optCwdFrom, fst cwd, optCwdTo, snd cwd] else []) @ [endOpts] @ cmdline"
    using assms by (auto simp: buildChildInvocation_def bindR_eq_Inr)
  then show ?thesis
    by (cases "?lc = []"; cases "snd cwd = []") (simp_all del: parseArgs.simps add: parseArgs_option emptyTracerConfig_def)
qed

section \<open>Lemmas: mounts\<close>

definition ownedDirs :: "mountLoop \<Rightarrow> string set" where
  "ownedDirs st = mi_fuseDir ` {i \<in> set (ml_mounts st). mi_server i}"

text \<open>Everything that was made is owned by a realised mount, and every shared directory too.\<close>

definition mountInv :: "mountLoop \<Rightarrow> bool" where
  "mountInv st \<longleftrightarrow> fst ` set (ml_servers st) \<subseteq> ownedDirs st \<and> set (ml_dirs st) \<subseteq> ownedDirs st \<and>
     (\<forall>r d. Mapping.lookup (ml_fuse st) r = Some d \<longrightarrow> d \<in> ownedDirs st) \<and> [] \<notin> ownedDirs st \<and> ml_erased st = []"

lemma addMount_owned:
  assumes "ContainerPath m \<notin> set (ml_seen st)"
  shows "ownedDirs (addMount st m dir fresh) = (if fresh then insert dir (ownedDirs st) else ownedDirs st)"
proof -
  have "ml_mounts (addMount st m dir fresh) = ml_mounts st @ [\<lparr>mi_mount = m, mi_fuseDir = dir, mi_server = fresh\<rparr>]"
    using assms by (simp add: addMount_def List.member_iff)
  then show ?thesis by (cases fresh) (force simp: ownedDirs_def)+
qed

lemma addMount_fields [simp]:
  "ml_servers (addMount st m dir fresh) = ml_servers st" "ml_dirs (addMount st m dir fresh) = ml_dirs st"
  "ml_fuse (addMount st m dir fresh) = ml_fuse st" "ml_erased (addMount st m dir fresh) = ml_erased st"
  "ml_seen (addMount st m dir fresh) = (if ContainerPath m \<in> set (ml_seen st) then ml_seen st else ContainerPath m # ml_seen st)"
  by (simp_all add: addMount_def List.member_iff)

text \<open>The container path that a mount entry claims.\<close>

definition containerOf :: "host \<Rightarrow> string \<Rightarrow> string option" where
  "containerOf h raw = (case ParseMount h raw of Inl e \<Rightarrow> None | Inr m \<Rightarrow> Some (ContainerPath m))"

lemma mountOne_inv:
  assumes "mountInv st" "\<forall>d. mh_FuseMount H d" "\<forall>n. mh_Temp H n \<noteq> Some []"
    "\<forall>c\<in>set (ml_seen st). containerOf h raw \<noteq> Some c"
    "mountOne h H home raw st = (e, st')"
  shows "mountInv st' \<and> (e = None \<longrightarrow> set (ml_seen st') = set_option (containerOf h raw) \<union> set (ml_seen st))"
proof (cases "ParseMount h raw")
  case (Inl err) then show ?thesis using assms(1,5) by (auto simp: mountOne_def)
next
  case P: (Inr m)
  show ?thesis
  proof (cases "ExpandRemoteHome (RemotePath m) home")
    case (Inl err) then show ?thesis using assms(1,5) P by (auto simp: mountOne_def)
  next
    case X: (Inr remote)
    have new: "ContainerPath m \<notin> set (ml_seen st)" using assms(4) P by (auto simp: containerOf_def)
    have c: "containerOf h raw = Some (ContainerPath m)" using P by (simp add: containerOf_def)
    show ?thesis
    proof (cases "Mapping.lookup (ml_fuse st) remote")
      case (Some dir)
      have eq: "e = None" "st' = addMount st (m\<lparr>RemotePath := remote\<rparr>) dir False"
        using assms(5) P X Some by (simp_all add: mountOne_def Let_def)
      have "ownedDirs st' = ownedDirs st" unfolding eq using new by (simp add: addMount_owned)
      then show ?thesis using assms(1) new c by (simp add: mountInv_def eq)
    next
      case N: None
      consider (gone) err where "mh_Stat H remote = Inl err" | (plain) "mh_Stat H remote = Inr False"
        | (full) "mh_Stat H remote = Inr True" "mh_Temp H (ml_next st) = None"
        | (ok) dir where "mh_Stat H remote = Inr True" "mh_Temp H (ml_next st) = Some dir"
        by (cases "mh_Stat H remote"; cases "mh_Temp H (ml_next st)") auto
      then show ?thesis
      proof cases
        case ok
        let ?mid = "st\<lparr>ml_next := ml_next st + 1, ml_dirs := dir # ml_dirs st, ml_servers := (dir, remote) # ml_servers st,
                    ml_fuse := Mapping.update remote dir (ml_fuse st)\<rparr>"
        have eq: "e = None" "st' = addMount ?mid (m\<lparr>RemotePath := remote\<rparr>) dir True"
          using assms(2,5) P X N ok by (simp_all add: mountOne_def Let_def)
        have own: "ownedDirs st' = insert dir (ownedDirs st)"
          unfolding eq using new by (subst addMount_owned) (simp_all add: ownedDirs_def)
        have "dir \<noteq> []" using ok assms(3) by auto
        then have "mountInv st'"
          using assms(1) unfolding mountInv_def own by (auto simp: eq lookup_update' split: if_splits)
        then show ?thesis using new c by (simp add: eq)
      qed (use assms(1,5) P X N in \<open>auto simp: mountOne_def Let_def\<close>)
    qed
  qed
qed

lemma mountAll_inv:
  assumes "\<forall>d. mh_FuseMount H d" "\<forall>n. mh_Temp H n \<noteq> Some []"
  shows "mountInv st \<Longrightarrow> distinct (List.map_filter (containerOf h) raws) \<Longrightarrow>
    set (List.map_filter (containerOf h) raws) \<inter> set (ml_seen st) = {} \<Longrightarrow>
    mountInv (snd (mountAll h H home raws st))"
proof (induction raws arbitrary: st)
  case (Cons raw raws)
  obtain e st' where one: "mountOne h H home raw st = (e, st')" by fastforce
  have "\<forall>c\<in>set (ml_seen st). containerOf h raw \<noteq> Some c"
    using Cons.prems(3) by (auto simp: List.map_filter_simps)
  note inv = mountOne_inv [OF Cons.prems(1) assms this one]
  show ?case
  proof (cases e)
    case None
    have seen: "set (ml_seen st') = set_option (containerOf h raw) \<union> set (ml_seen st)" using inv None by simp
    have d: "distinct (List.map_filter (containerOf h) raws)"
      using Cons.prems(2) by (cases "containerOf h raw") (simp_all add: List.map_filter_simps)
    have "set (List.map_filter (containerOf h) raws) \<inter> set (ml_seen st') = {}"
      using Cons.prems(2,3) by (cases "containerOf h raw") (auto simp: List.map_filter_simps seen)
    with Cons.IH [of st'] inv d show ?thesis by (simp add: one None)
  qed (use inv in \<open>simp add: one\<close>)
qed simp

lemma closeMounts_clean:
  assumes "mountInv st" "\<forall>d. mh_Unmount H d"
  shows "ml_servers (closeMounts H st) = [] \<and> ml_dirs (closeMounts H st) = [] \<and> ml_erased (closeMounts H st) = []"
proof -
  define un where "un = map mi_fuseDir (filter (\<lambda>i. mi_server i \<and> mh_Unmount H (mi_fuseDir i)) (ml_mounts st))"
  define rm where "rm = filter (\<lambda>d. d \<noteq> []) (map mi_fuseDir (ml_mounts st))"
  have un: "set un = ownedDirs st"
    using assms(2) by (auto simp: ownedDirs_def un_def)
  have rm: "ownedDirs st \<subseteq> set rm"
  proof
    fix d assume d: "d \<in> ownedDirs st"
    moreover have "d \<noteq> []" using d assms(1) unfolding mountInv_def by blast
    ultimately show "d \<in> set rm" by (auto simp: ownedDirs_def rm_def)
  qed
  have "\<forall>x\<in>set (ml_servers st). fst x \<in> ownedDirs st" "\<forall>d\<in>set (ml_dirs st). d \<in> set rm"
    using assms(1) rm unfolding mountInv_def by blast+
  then have none: "filter (\<lambda>(d, r). \<not> List.member un d) (ml_servers st) = []"
    "filter (\<lambda>d. \<not> List.member rm d) (ml_dirs st) = []"
    by (simp_all add: filter_empty_conv List.member_iff un case_prod_beta)
  have "ml_erased st = []" using assms(1) by (simp add: mountInv_def)
  then show ?thesis
    unfolding closeMounts_def Let_def un_def [symmetric] rm_def [symmetric] none(1)
    using none(2) by (simp add: List.member_iff)
qed

lemma mountInit_inv [simp]: "mountInv mountInit"
  by (simp add: mountInv_def mountInit_def ownedDirs_def Mapping.lookup_empty)

lemma closeMounts_idle: "ml_mounts st = [] \<Longrightarrow> closeMounts H st = st"
  by (simp add: closeMounts_def List.member_iff)

section \<open>Properties\<close>



text \<open>
  A rule with a colon does not: the rules are joined and split at colons, so a regular
  expression rule such as one with a non-capturing group, which configuration validation and the
  stub directory accept and match as an expression, is seen by the tracer as two fragments, and
  every program that the expression would keep local is sent to the remote host.
\<close>

theorem colon_rule_lost:
  assumes "buildChildInvocation h cfg sock cwd shimBin cmdline = Inr argv"
    and "LocalCommands (Container cfg) = [''/'' @ a @ '':'' @ b @ ''/'']" "CHR '':'' \<notin> set a" "CHR '':'' \<notin> set b"
    and "a \<noteq> []" "last a \<noteq> CHR ''/''" "b \<noteq> []" "hd b \<noteq> CHR ''/''"
    and "regexp_Compile eng (a @ '':'' @ b) = Some re"
  shows "\<exists>tc level. parseArgs emptyTracerConfig ''info'' (tl argv) = (Some (tc, cmdline), level) \<and>
    (\<forall>path. shouldAllow eng tc path \<longleftrightarrow> path = [] \<or> path = shimBin \<or> path = ''/'' @ a) \<and>
    (\<forall>path. MatchLocalCommand eng (''/'' @ a @ '':'' @ b @ ''/'') path \<longleftrightarrow> regexp_MatchString eng re path)"
proof -
  let ?rule = "''/'' @ a @ '':'' @ b @ ''/''"
  have sp: "Split ?rule (CHR '':'') = [''/'' @ a, b @ ''/'']"
    using Split_Join [of "[''/'' @ a, b @ ''/'']" "CHR '':''"] assms(3,4) by simp
  have "\<nexists>p. ''/'' @ a = ''/'' @ p @ ''/''" using assms(6) by auto
  then have one: "MatchLocalCommand eng (''/'' @ a) path \<longleftrightarrow> path = ''/'' @ a" for path
    by (simp add: MatchLocalCommand_def CompileLocalCommand_path ruleMatch_def del: append.simps)
  have "\<not> HasPrefix (b @ ''/'') ''/''" using assms(7,8) by (cases b) (simp_all add: go_simps)
  then have two: "\<not> MatchLocalCommand eng (b @ ''/'') path" for path
    by (simp add: MatchLocalCommand_def CompileLocalCommand_name)
  have "MatchLocalCommand eng ?rule path \<longleftrightarrow> regexp_MatchString eng re path" for path
    using CompileLocalCommand_regex [of eng "a @ '':'' @ b"] assms(9)
    by (simp add: MatchLocalCommand_def ruleMatch_def)
  then show ?thesis unfolding child_args [OF assms(1)] using sp assms(2) one two
    by (simp add: shouldAllow_def)
qed

text \<open>
  Mounts are cleaned up: when the container paths are different and FUSE mounts and unmounts
  work, then after a failed \<open>MountWorkspace\<close>, or after a successful one and \<open>Close\<close>, no FUSE server
  is left, no temporary directory is left, and no directory was removed through a live mount.
\<close>

theorem mounts_cleaned_up:
  assumes "MountWorkspace h H uid gid cfg = (result, st)"
    and "distinct (List.map_filter (containerOf h) (Mounts (Container cfg)))"
    and "\<forall>d. mh_FuseMount H d \<and> mh_Unmount H d" "\<forall>n. mh_Temp H n \<noteq> Some []"
  shows "ml_servers (closeMounts H st) = [] \<and> ml_dirs (closeMounts H st) = [] \<and> ml_erased (closeMounts H st) = [] \<and>
    (result \<noteq> None \<longrightarrow> closeMounts H st = st)"
proof -
  have U: "\<forall>d. mh_Unmount H d" using assms(3) by simp
  have idle: "ml_mounts (closeMounts H s) = []" for s by (simp add: closeMounts_def Let_def)
  have init: "ml_mounts mountInit = []" by (simp add: mountInit_def)
  show ?thesis
  proof (cases "mh_Preflight H \<and> mh_Home H \<noteq> None \<and> (\<exists>opts. workspacefsOptions h uid gid cfg = Inr opts)")
    case False
    then have "st = mountInit" using assms(1)
      by (cases "workspacefsOptions h uid gid cfg") (auto simp: MountWorkspace_def split: if_splits option.splits)
    then show ?thesis using closeMounts_clean [OF mountInit_inv U] closeMounts_idle [OF init] by simp
  next
    case True
    then obtain home opts where H: "mh_Preflight H" "mh_Home H = Some home" "workspacefsOptions h uid gid cfg = Inr opts" by auto
    obtain e s where all: "mountAll h H home (Mounts (Container cfg)) mountInit = (e, s)" by fastforce
    have "mountInv s"
      using mountAll_inv [of H mountInit h "Mounts (Container cfg)" home] assms(2-4) all by (simp add: mountInit_def [THEN arg_cong [of _ _ ml_seen]])
    note clean = closeMounts_clean [OF this U]
    show ?thesis using assms(1) H all clean closeMounts_idle [OF idle [of s]]
      by (cases e) (auto simp: MountWorkspace_def)
  qed
qed

text \<open>
  C11. They are not when a container path is repeated: the FUSE server of the ignored entry belongs
  to no instance, so nothing unmounts it. If a third entry (an identity alias, for example) shares
  its remote path, \<open>Close\<close> removes the shared directory while that server still serves it, which
  deletes the remote files.
\<close>

theorem repeated_mount_erases_remote:
  assumes "ParseMount h raw1 = Inr m1" "ParseMount h raw2 = Inr m2" "ParseMount h raw3 = Inr m3"
    and "ExpandRemoteHome (RemotePath m1) home = Inr r1" "ExpandRemoteHome (RemotePath m2) home = Inr r2"
    and "ExpandRemoteHome (RemotePath m3) home = Inr r2" "r1 \<noteq> r2"
    and "ContainerPath m1 = ContainerPath m2" "ContainerPath m3 \<noteq> ContainerPath m1"
    and "mh_Preflight H" "mh_Home H = Some home" "mh_Stat H r1 = Inr True" "mh_Stat H r2 = Inr True"
    and "mh_Temp H 0 = Some d1" "mh_Temp H 1 = Some d2" "d1 \<noteq> d2" "d2 \<noteq> []" "\<forall>d. mh_FuseMount H d"
    and "workspacefsOptions h uid gid cfg = Inr opts" "Mounts (Container cfg) = [raw1, raw2, raw3]"
  shows "\<exists>st. MountWorkspace h H uid gid cfg = (None, st) \<and> (d2, r2) \<in> set (ml_servers (closeMounts H st)) \<and>
    r2 \<in> set (ml_erased (closeMounts H st))"
proof -
  obtain st where st: "MountWorkspace h H uid gid cfg = (None, st)"
    and m: "ml_mounts st = [\<lparr>mi_mount = m1\<lparr>RemotePath := r1\<rparr>, mi_fuseDir = d1, mi_server = True\<rparr>,
        \<lparr>mi_mount = m3\<lparr>RemotePath := r2\<rparr>, mi_fuseDir = d2, mi_server = False\<rparr>]"
    and s: "ml_servers st = [(d2, r2), (d1, r1)]"
    using assms by (simp add: MountWorkspace_def mountOne_def Let_def mountInit_def addMount_def Mapping.lookup_empty
        lookup_update' List.member_iff del: One_nat_def)
  have "(d2, r2) \<in> set (ml_servers (closeMounts H st))" "r2 \<in> set (ml_erased (closeMounts H st))"
    using assms(16,17) by (cases "mh_Unmount H d1"; cases "d1 = []"; simp add: closeMounts_def m s List.member_iff)+
  with st show ?thesis by blast
qed

definition exampleMountHost :: mountHost where
  "exampleMountHost = \<lparr>mh_Preflight = True, mh_Home = Some ''/root'', mh_Stat = (\<lambda>_. Inr True),
     mh_Temp = (\<lambda>n. Some (CHR ''t'' # replicate n (CHR ''x''))), mh_FuseMount = (\<lambda>_. True), mh_Unmount = (\<lambda>_. True)\<rparr>"

abbreviation exampleMounts :: "string list \<Rightarrow> Config" where
  "exampleMounts ms \<equiv> updContainer (\<lambda>c. c\<lparr>Mounts := ms\<rparr>) exampleConfig"

theorem repeated_mount_erases_remote_witness:
  "\<exists>st. MountWorkspace exampleHost exampleMountHost 1000 1000 (exampleMounts [''/w:/a'', ''/w:/b'', ''/b:/b'']) = (None, st) \<and>
     ''/b'' \<in> set (ml_erased (closeMounts exampleMountHost st))"
proof -
  note T = repeated_mount_erases_remote [where h = exampleHost and H = exampleMountHost and home = "''/root''"
      and ?raw1.0 = "''/w:/a''" and ?raw2.0 = "''/w:/b''" and ?raw3.0 = "''/b:/b''" and ?r1.0 = "''/a''" and ?r2.0 = "''/b''"
      and ?m1.0 = "\<lparr>RemotePath = ''/a'', ContainerPath = ''/w''\<rparr>" and ?m2.0 = "\<lparr>RemotePath = ''/b'', ContainerPath = ''/w''\<rparr>"
      and ?m3.0 = "\<lparr>RemotePath = ''/b'', ContainerPath = ''/b''\<rparr>" and ?d1.0 = "''t''" and ?d2.0 = "''tx''" and uid = 1000 and gid = 1000
      and cfg = "exampleMounts [''/w:/a'', ''/w:/b'', ''/b:/b'']"]
  have "ParseMount exampleHost ''/w:/a'' = Inr \<lparr>RemotePath = ''/a'', ContainerPath = ''/w''\<rparr>"
    "ParseMount exampleHost ''/w:/b'' = Inr \<lparr>RemotePath = ''/b'', ContainerPath = ''/w''\<rparr>"
    "ParseMount exampleHost ''/b:/b'' = Inr \<lparr>RemotePath = ''/b'', ContainerPath = ''/b''\<rparr>"
    "ExpandRemoteHome ''/a'' ''/root'' = Inr ''/a''" "ExpandRemoteHome ''/b'' ''/root'' = Inr ''/b''"
    by code_simp+
  moreover have "Mounts (Container (exampleMounts [''/w:/a'', ''/w:/b'', ''/b:/b''])) = [''/w:/a'', ''/w:/b'', ''/b:/b'']"
    "\<exists>opts. workspacefsOptions exampleHost 1000 1000 (exampleMounts [''/w:/a'', ''/w:/b'', ''/b:/b'']) = Inr opts"
    by (simp_all add: exampleConfig_def workspacefsOptions_def mapErr_def failIf_def)
  ultimately show ?thesis using T by (auto simp: exampleMountHost_def)
qed

theorem mounts_cleaned_up_witness:
  "ml_servers (closeMounts exampleMountHost
     (snd (MountWorkspace exampleHost exampleMountHost 1000 1000 (exampleMounts [''/w:/a'', ''/b:/b''])))) = []"
proof -
  obtain r st where W: "MountWorkspace exampleHost exampleMountHost 1000 1000 (exampleMounts [''/w:/a'', ''/b:/b'']) = (r, st)"
    by fastforce
  have "distinct (List.map_filter (containerOf exampleHost) [''/w:/a'', ''/b:/b''])" by code_simp
  then show ?thesis using mounts_cleaned_up [OF W] W by (simp add: exampleMountHost_def)
qed

text \<open>An engine for which the expression \<open>^/(?:usr/)?bin/ls$\<close> means what it means in Go.\<close>

definition lsEngine :: "string engine" where
  "lsEngine = \<lparr>regexp_Compile = Some, regexp_MatchString = (\<lambda>re s. s = ''/bin/ls'' \<or> s = ''/usr/bin/ls''), filepath_Match = (=)\<rparr>"

theorem colon_rule_lost_witness:
  "\<exists>argv tc level.
     buildChildInvocation exampleHost (updContainer (\<lambda>c. c\<lparr>LocalCommands := [''/^/(?:usr/)?bin/ls$/'']\<rparr>) exampleConfig)
       ''/s'' ([], []) ''/shim'' [''ls''] = Inr argv \<and>
     parseArgs emptyTracerConfig ''info'' (tl argv) = (Some (tc, [''ls'']), level) \<and>
     \<not> shouldAllow lsEngine tc ''/bin/ls'' \<and> MatchLocalCommand lsEngine ''/^/(?:usr/)?bin/ls$/'' ''/bin/ls''"
proof -
  let ?c = "updContainer (\<lambda>c. c\<lparr>LocalCommands := [''/^/(?:usr/)?bin/ls$/'']\<rparr>) exampleConfig"
  obtain argv where B: "buildChildInvocation exampleHost ?c ''/s'' ([], []) ''/shim'' [''ls''] = Inr argv"
    by (simp add: buildChildInvocation_def ResolveTracerPath_def resolveBinary_def exampleConfig_def exampleHost_def)
  have R: "LocalCommands (Container ?c) = [''/'' @ ''^/(?'' @ '':'' @ ''usr/)?bin/ls$'' @ ''/'']" by simp
  have E: "regexp_Compile lsEngine (''^/(?'' @ '':'' @ ''usr/)?bin/ls$'') = Some ''^/(?:usr/)?bin/ls$''"
    "regexp_MatchString lsEngine ''^/(?:usr/)?bin/ls$'' ''/bin/ls''" by (simp_all add: lsEngine_def)
  note T = colon_rule_lost [OF B R _ _ _ _ _ _ E(1)]
  from T obtain tc level where "parseArgs emptyTracerConfig ''info'' (tl argv) = (Some (tc, [''ls'']), level)"
    "\<not> shouldAllow lsEngine tc ''/bin/ls''" "MatchLocalCommand lsEngine (''/'' @ ''^/(?'' @ '':'' @ ''usr/)?bin/ls$'' @ ''/'') ''/bin/ls''"
    using E(2) by fastforce
  with B show ?thesis by (simp only: append.simps) blast
qed

end
