(* ===== verification/Cli.thy ===== *)
theory Cli
  imports Config Destination Launch
begin

text \<open>
  \<open>cmd/machineproxy/main.go\<close>: parsing the command line with Go's \<open>flag\<close> package, applying the flags
  to the configuration and resolving the first program.
\<close>

section \<open>Integers of the flag package\<close>

text \<open>\<open>strconv.ParseInt(s, 0, 64)\<close>: base prefixes, and underscores between digits.\<close>

definition lowerCh :: "char \<Rightarrow> char" where
  "lowerCh c = (if 65 \<le> (of_char c :: nat) \<and> (of_char c :: nat) \<le> 90 then char_of ((of_char c :: nat) + 32) else c)"

definition digitOf :: "char \<Rightarrow> nat option" where
  "digitOf c =
     (if isDigit c then Some (digitVal c)
      else let n = (of_char (lowerCh c) :: nat) in if 97 \<le> n \<and> n \<le> 122 then Some (n - 97 + 10) else None)"

definition baseOf :: "string \<Rightarrow> nat \<times> string" where
  "baseOf s =
     (if \<not> HasPrefix s ''0'' then (10, s)
      else if length s \<ge> 3 \<and> lowerCh (s ! 1) = CHR ''b'' then (2, drop 2 s)
      else if length s \<ge> 3 \<and> lowerCh (s ! 1) = CHR ''o'' then (8, drop 2 s)
      else if length s \<ge> 3 \<and> lowerCh (s ! 1) = CHR ''x'' then (16, drop 2 s)
      else (8, tl s))"

fun digitsIn :: "nat \<Rightarrow> string \<Rightarrow> nat \<Rightarrow> nat option" where
  "digitsIn b [] n = Some n"
| "digitsIn b (c # s) n =
     (if c = CHR ''_'' then digitsIn b s n
      else case digitOf c of None \<Rightarrow> None | Some d \<Rightarrow> if d \<ge> b then None else digitsIn b s (n * b + d))"

datatype sawKind = SawStart | SawDigit | SawUnderscore | SawOther

fun underscoreLoop :: "bool \<Rightarrow> sawKind \<Rightarrow> string \<Rightarrow> bool" where
  "underscoreLoop hex saw [] = (saw \<noteq> SawUnderscore)"
| "underscoreLoop hex saw (c # s) =
     (if isDigit c \<or> hex \<and> 97 \<le> (of_char (lowerCh c) :: nat) \<and> (of_char (lowerCh c) :: nat) \<le> 102 then underscoreLoop hex SawDigit s
      else if c = CHR ''_'' then saw = SawDigit \<and> underscoreLoop hex SawUnderscore s
      else saw \<noteq> SawUnderscore \<and> underscoreLoop hex SawOther s)"

definition underscoreOK :: "string \<Rightarrow> bool" where
  "underscoreOK s =
     (if length s \<ge> 2 \<and> hd s = CHR ''0'' \<and> lowerCh (s ! 1) \<in> {CHR ''b'', CHR ''o'', CHR ''x''}
      then underscoreLoop (lowerCh (s ! 1) = CHR ''x'') SawDigit (drop 2 s)
      else underscoreLoop False SawStart s)"

definition ParseUint0 :: "string \<Rightarrow> nat option" where
  "ParseUint0 s =
     (if s = [] then None
      else case baseOf s of (b, ds) \<Rightarrow>
        (case digitsIn b ds 0 of
           None \<Rightarrow> None
         | Some n \<Rightarrow> if n \<ge> 2 ^ 64 then None else if CHR ''_'' \<in> set ds \<and> \<not> underscoreOK s then None else Some n))"

definition ParseInt0 :: "string \<Rightarrow> int option" where
  "ParseInt0 s =
     (let neg = HasPrefix s ''-''; digits = (if HasPrefix s ''-'' \<or> HasPrefix s ''+'' then tl s else s) in
      case ParseUint0 digits of
        None \<Rightarrow> None
      | Some n \<Rightarrow> if neg then (if n \<le> 2 ^ 63 then Some (- int n) else None)
                  else (if n < 2 ^ 63 then Some (int n) else None))"

text \<open>\<open>strconv.ParseBool\<close>\<close>

definition ParseBool :: "string \<Rightarrow> bool option" where
  "ParseBool s =
     (if s \<in> {''1'', ''t'', ''T'', ''TRUE'', ''true'', ''True''} then Some True
      else if s \<in> {''0'', ''f'', ''F'', ''FALSE'', ''false'', ''False''} then Some False
      else None)"

section \<open>Flags\<close>

record cliArgs =
  cli_cfgPath :: string
  cli_showVersion :: bool
  cli_backend :: string
  cli_destination :: string
  cli_port :: int
  cli_user :: string
  cli_os :: string
  cli_arch :: string
  cli_mounts :: "string list"
  cli_workdir :: string
  cli_cmd :: "string list"

definition defaultCLI :: cliArgs where
  "defaultCLI = \<lparr>cli_cfgPath = ''/etc/machineproxy/machineproxy.toml'', cli_showVersion = False, cli_backend = [],
     cli_destination = [], cli_port = 0, cli_user = [], cli_os = [], cli_arch = [], cli_mounts = [], cli_workdir = [],
     cli_cmd = []\<rparr>"

text \<open>A flag that takes a value stores it, or refuses it; \<open>version\<close> is the only boolean flag.\<close>

datatype cliFlag = BoolFlag "bool \<Rightarrow> cliArgs \<Rightarrow> cliArgs" | ValueFlag "string \<Rightarrow> cliArgs \<Rightarrow> cliArgs option"

definition lookupFlag :: "string \<Rightarrow> cliFlag option" where
  "lookupFlag name =
     (if name = ''config'' then Some (ValueFlag (\<lambda>v a. Some (a\<lparr>cli_cfgPath := v\<rparr>)))
      else if name = ''version'' then Some (BoolFlag (\<lambda>v a. a\<lparr>cli_showVersion := v\<rparr>))
      else if name = ''backend'' then Some (ValueFlag (\<lambda>v a. Some (a\<lparr>cli_backend := v\<rparr>)))
      else if name \<in> {''p'', ''port''} then Some (ValueFlag (\<lambda>v a. map_option (\<lambda>n. a\<lparr>cli_port := n\<rparr>) (ParseInt0 v)))
      else if name \<in> {''l'', ''login''} then Some (ValueFlag (\<lambda>v a. Some (a\<lparr>cli_user := v\<rparr>)))
      else if name = ''os'' then Some (ValueFlag (\<lambda>v a. Some (a\<lparr>cli_os := v\<rparr>)))
      else if name = ''arch'' then Some (ValueFlag (\<lambda>v a. Some (a\<lparr>cli_arch := v\<rparr>)))
      else if name \<in> {''v'', ''mount''} then Some (ValueFlag (\<lambda>v a. Some (a\<lparr>cli_mounts := cli_mounts a @ [v]\<rparr>)))
      else if name \<in> {''w'', ''workdir''} then Some (ValueFlag (\<lambda>v a. Some (a\<lparr>cli_workdir := v\<rparr>)))
      else None)"

datatype flag_error = FlagSyntax string | FlagHelp | FlagUndefined string | FlagBadValue string string | FlagNeedsValue string
  | ExtraArguments "string list"

text \<open>One flag of \<open>FlagSet.Parse\<close>: its name, and its value when it has an equals sign.\<close>

definition splitFlag :: "string \<Rightarrow> string \<times> string option" where
  "splitFlag body =
     (case Cut (tl body) (CHR ''='') of
        None \<Rightarrow> (body, None)
      | Some (before, after) \<Rightarrow> (hd body # before, Some after))"

fun parseFlags :: "cliArgs \<Rightarrow> string list \<Rightarrow> (flag_error, cliArgs \<times> string list) result" where
  "parseFlags a [] = Inr (a, [])"
| "parseFlags a (s # args) =
     (if length s < 2 \<or> hd s \<noteq> CHR ''-'' then Inr (a, s # args)
      else if s = ''--'' then Inr (a, args)
      else let body = (if HasPrefix s ''--'' then drop 2 s else tl s) in
        if body = [] \<or> hd body = CHR ''-'' \<or> hd body = CHR ''='' then Inl (FlagSyntax s)
        else case splitFlag body of (name, val) \<Rightarrow>
          (case lookupFlag name of
             None \<Rightarrow> if name = ''help'' \<or> name = ''h'' then Inl FlagHelp else Inl (FlagUndefined name)
           | Some (BoolFlag put) \<Rightarrow>
               (case val of
                  None \<Rightarrow> parseFlags (put True a) args
                | Some v \<Rightarrow> (case ParseBool v of None \<Rightarrow> Inl (FlagBadValue name v) | Some b \<Rightarrow> parseFlags (put b a) args))
           | Some (ValueFlag put) \<Rightarrow>
               (case val of
                  Some v \<Rightarrow> (case put v a of None \<Rightarrow> Inl (FlagBadValue name v) | Some a' \<Rightarrow> parseFlags a' args)
                | None \<Rightarrow>
                    (case args of
                       [] \<Rightarrow> Inl (FlagNeedsValue name)
                     | v # args' \<Rightarrow>
                         (case put v a of None \<Rightarrow> Inl (FlagBadValue name v) | Some a' \<Rightarrow> parseFlags a' args')))))"

definition parseCLIArgs :: "string list \<Rightarrow> (flag_error, cliArgs) result" where
  "parseCLIArgs args =
     (let flagPart = takeWhile (\<lambda>s. s \<noteq> ''--'') args; sepPresent = List.member args ''--'';
          afterSep = tl (dropWhile (\<lambda>s. s \<noteq> ''--'') args)
      in bindR (parseFlags defaultCLI flagPart) (\<lambda>(out, positional).
         if sepPresent then
           bindR (failIf (length positional > 1) (ExtraArguments (tl positional))) (\<lambda>_.
           Inr (out\<lparr>cli_destination := (if length positional = 1 then hd positional else cli_destination out), cli_cmd := afterSep\<rparr>))
         else if positional \<noteq> [] then Inr (out\<lparr>cli_destination := hd positional, cli_cmd := tl positional\<rparr>)
         else Inr out))"

section \<open>Configuration overrides\<close>

datatype cli_error = CliDest | CliConflict string string | CliPort string | CliUser string | CliGetwd | CliFinal

definition applyDestination :: "cliArgs \<Rightarrow> Config \<Rightarrow> (cli_error, Config) result" where
  "applyDestination a cfg =
     (if cli_destination a = [] then Inr cfg
      else case ParseDestination (cli_destination a) (if rem_Type (Remote cfg) \<noteq> [] then rem_Type (Remote cfg) else TypeSSH) of
        Inl e \<Rightarrow> Inl CliDest
      | Inr dst \<Rightarrow>
          if cli_backend a \<noteq> [] \<and> cli_backend a \<noteq> dst_Type dst then Inl (CliConflict (cli_backend a) (dst_Type dst))
          else let r = (Remote cfg)\<lparr>rem_Type := dst_Type dst\<rparr> in
            Inr (cfg\<lparr>Remote :=
              (if dst_Type dst = TypeSSH then
                 r\<lparr>rem_SSH := (let s = (rem_SSH r)\<lparr>ssh_Host := dst_Host dst\<rparr>;
                     s = (if dst_User dst \<noteq> [] then s\<lparr>ssh_User := dst_User dst\<rparr> else s)
                   in if dst_Port dst \<noteq> 0 then s\<lparr>ssh_Port := dst_Port dst\<rparr> else s)\<rparr>
               else if dst_Type dst = TypeDocker then r\<lparr>rem_Docker := (rem_Docker r)\<lparr>docker_Container := dst_Host dst\<rparr>\<rparr>
               else if dst_Type dst = TypeCompose then
                 r\<lparr>rem_Compose := (rem_Compose r)\<lparr>compose_Project := dst_Host dst, compose_Service := dst_Service dst,
                     compose_Sequence := dst_Sequence dst\<rparr>\<rparr>
               else r)\<rparr>))"

text \<open>The overrides of \<open>run\<close>, up to \<open>Finalize\<close>; the last argument is the working directory.\<close>

definition applyCLI :: "cliArgs \<Rightarrow> string option \<Rightarrow> Config \<Rightarrow> (cli_error, Config) result" where
  "applyCLI a cwd cfg =
     bindR (applyDestination a (if cli_backend a \<noteq> [] then updRemote (\<lambda>r. r\<lparr>rem_Type := cli_backend a\<rparr>) cfg else cfg)) (\<lambda>cfg.
     bindR (failIf (cli_port a \<noteq> 0 \<and> rem_Type (Remote cfg) \<noteq> TypeSSH) (CliPort (rem_Type (Remote cfg)))) (\<lambda>_.
     let cfg = (if cli_port a \<noteq> 0 then updRemote (\<lambda>r. r\<lparr>rem_SSH := (rem_SSH r)\<lparr>ssh_Port := cli_port a\<rparr>\<rparr>) cfg else cfg) in
     bindR (failIf (cli_user a \<noteq> [] \<and> rem_Type (Remote cfg) \<noteq> TypeSSH) (CliUser (rem_Type (Remote cfg)))) (\<lambda>_.
     let cfg = (if cli_user a \<noteq> [] then updRemote (\<lambda>r. r\<lparr>rem_SSH := (rem_SSH r)\<lparr>ssh_User := cli_user a\<rparr>\<rparr>) cfg else cfg);
         cfg = (if cli_os a \<noteq> [] then updRemote (\<lambda>r. r\<lparr>rem_OS := cli_os a\<rparr>) cfg else cfg);
         cfg = (if cli_arch a \<noteq> [] then updRemote (\<lambda>r. r\<lparr>rem_Arch := cli_arch a\<rparr>) cfg else cfg);
         cfg = (if cli_mounts a \<noteq> [] then updContainer (\<lambda>c. c\<lparr>Mounts := cli_mounts a @ Mounts c\<rparr>) cfg else cfg);
         cfg = (if cli_workdir a \<noteq> [] then updContainer (\<lambda>c. c\<lparr>WorkingDir := cli_workdir a\<rparr>) cfg else cfg)
     in if Mounts (Container cfg) \<noteq> [] then Inr cfg
        else case cwd of None \<Rightarrow> Inl CliGetwd | Some d \<Rightarrow> Inr (updContainer (\<lambda>c. c\<lparr>Mounts := [d]\<rparr>) cfg))))"

text \<open>
  The first program of \<open>run\<close>: it is resolved outside the stub directory, and unless the
  configuration says otherwise it and its interpreters become local commands. The contents of a
  file is \<^const>\<open>None\<close> when it cannot be read.
\<close>

definition initialCommand ::
  "(string \<Rightarrow> string + (bool \<times> bool)) \<Rightarrow> string option \<Rightarrow> string \<Rightarrow> (string \<Rightarrow> bytes option) \<Rightarrow> Config \<Rightarrow> string list \<Rightarrow>
     (look_error option, Config \<times> string list) result" where
  "initialCommand stat cwd pathEnv contents cfg cmd =
     (if cmd = [] then Inl None
      else case LookPath stat cwd (hd cmd) pathEnv [PathStubDir (Container cfg)] of
        Inl e \<Rightarrow> Inl (Some e)
      | Inr resolved \<Rightarrow>
          Inr (if ForceResolve (Container cfg) = Some True
               then updContainer (\<lambda>c. c\<lparr>LocalCommands := LocalCommands c @ DeriveLocalCommands resolved (contents resolved)\<rparr>) cfg
               else cfg, resolved # tl cmd))"

section \<open>Lemmas\<close>

text \<open>Arguments that are left alone: parsing stops at the first one that is no flag.\<close>

lemma parseFlags_positional: "length s < 2 \<or> hd s \<noteq> CHR ''-'' \<Longrightarrow> parseFlags a (s # args) = Inr (a, s # args)"
  by simp

lemma parseFlags_mounts:
  "parseFlags a (concat (map (\<lambda>m. [''-v'', m]) ms) @ rest) = parseFlags (a\<lparr>cli_mounts := cli_mounts a @ ms\<rparr>) rest"
proof (induction ms arbitrary: a)
  case (Cons m ms)
  have "splitFlag ''v'' = (''v'', None)" by (simp add: splitFlag_def)
  then show ?case using Cons.IH by (simp add: lookupFlag_def)
qed simp

lemma parseCLIArgs_sep:
  "''--'' \<notin> set pre \<Longrightarrow> parseCLIArgs (pre @ ''--'' # cmd) =
     bindR (parseFlags defaultCLI pre) (\<lambda>(out, positional).
       bindR (failIf (length positional > 1) (ExtraArguments (tl positional))) (\<lambda>_.
       Inr (out\<lparr>cli_destination := (if length positional = 1 then hd positional else cli_destination out), cli_cmd := cmd\<rparr>)))"
proof -
  assume "''--'' \<notin> set pre"
  then have p: "\<And>s. s \<in> set pre \<Longrightarrow> s \<noteq> ''--''" by blast
  have "takeWhile (\<lambda>s. s \<noteq> ''--'') (pre @ ''--'' # cmd) = pre" "dropWhile (\<lambda>s. s \<noteq> ''--'') (pre @ ''--'' # cmd) = ''--'' # cmd"
    using p takeWhile_stop [of pre "\<lambda>s. s \<noteq> ''--''" "''--'' # cmd"] dropWhile_stop [of pre "\<lambda>s. s \<noteq> ''--''" "''--'' # cmd"]
    by auto
  then show ?thesis unfolding parseCLIArgs_def Let_def by (simp add: List.member_iff)
qed

lemma applyDestination_container: "applyDestination a cfg = Inr cfg' \<Longrightarrow> Container cfg' = Container cfg"
  by (auto simp: applyDestination_def Let_def split: if_splits sum.splits)

section \<open>Properties\<close>

text \<open>
  The command to run is taken verbatim: whatever follows the first separator, flags and further
  separators included, becomes the command and changes nothing else of what was parsed.
\<close>

theorem cli_command_verbatim:
  assumes "''--'' \<notin> set pre"
  shows "parseCLIArgs (pre @ ''--'' # cmd) =
    (case parseCLIArgs (pre @ [''--'']) of Inl e \<Rightarrow> Inl e | Inr a \<Rightarrow> Inr (a\<lparr>cli_cmd := cmd\<rparr>))"
  using assms by (simp add: parseCLIArgs_sep bindR_def failIf_def split: sum.split prod.split)

theorem cli_command_verbatim_witness:
  "case parseCLIArgs [''-w'', ''/d'', ''box'', ''--'', ''ls'', ''-v'', ''--'', ''/x''] of
     Inl e \<Rightarrow> False | Inr a \<Rightarrow> cli_workdir a = ''/d'' \<and> cli_destination a = ''box'' \<and> cli_cmd a = [''ls'', ''-v'', ''--'', ''/x'']"
proof -
  have "case parseCLIArgs [''-w'', ''/d'', ''box'', ''--''] of Inl e \<Rightarrow> False | Inr a \<Rightarrow> cli_workdir a = ''/d'' \<and> cli_destination a = ''box''"
    by code_simp
  then obtain a where "parseCLIArgs ([''-w'', ''/d'', ''box''] @ [''--'']) = Inr a" "cli_workdir a = ''/d''" "cli_destination a = ''box''"
    by (cases "parseCLIArgs [''-w'', ''/d'', ''box'', ''--'']") simp_all
  moreover have sep: "''--'' \<notin> set [''-w'', ''/d'', ''box'']" by simp
  ultimately have "parseCLIArgs ([''-w'', ''/d'', ''box''] @ ''--'' # [''ls'', ''-v'', ''--'', ''/x'']) =
      Inr (a\<lparr>cli_cmd := [''ls'', ''-v'', ''--'', ''/x'']\<rparr>) \<and> cli_workdir a = ''/d'' \<and> cli_destination a = ''box''"
    using cli_command_verbatim [OF sep, of "[''ls'', ''-v'', ''--'', ''/x'']"] by (simp only: sum.case simp_thms)
  then show ?thesis by simp
qed

text \<open>
  Mounts and destination reach the configuration: for every list of mount flags and every
  destination that is no flag, the mounts come first and in order, before those of the
  configuration file, the destination is the one given, and the command is the rest.
\<close>

theorem cli_mounts_first:
  assumes "dest \<noteq> []" "hd dest \<noteq> CHR ''-''" "''--'' \<notin> set ms"
  shows "\<exists>a. parseCLIArgs (concat (map (\<lambda>m. [''-v'', m]) ms) @ [dest, ''--''] @ cmd) = Inr a \<and>
    cli_mounts a = ms \<and> cli_destination a = dest \<and> cli_cmd a = cmd \<and>
    (\<forall>cwd cfg cfg'. applyCLI a cwd cfg = Inr cfg' \<and> ms \<noteq> [] \<longrightarrow>
       Mounts (Container cfg') = ms @ Mounts (Container cfg))"
proof -
  let ?a = "defaultCLI\<lparr>cli_mounts := ms, cli_destination := dest, cli_cmd := cmd\<rparr>"
  let ?pre = "concat (map (\<lambda>m. [''-v'', m]) ms) @ [dest]"
  have sep: "''--'' \<notin> set ?pre" using assms by auto
  have "parseFlags defaultCLI ?pre = Inr (defaultCLI\<lparr>cli_mounts := ms\<rparr>, [dest])"
    using assms(1,2) by (simp add: parseFlags_mounts defaultCLI_def)
  then have p: "parseCLIArgs (?pre @ ''--'' # cmd) = Inr ?a" unfolding parseCLIArgs_sep [OF sep] by simp
  have "Mounts (Container cfg') = ms @ Mounts (Container cfg)" if "applyCLI ?a cwd cfg = Inr cfg'" "ms \<noteq> []" for cwd cfg cfg'
    using that by (auto simp: applyCLI_def Let_def bindR_eq_Inr defaultCLI_def dest!: applyDestination_container)
  with p show ?thesis by (intro exI [of _ ?a]) (auto simp: defaultCLI_def)
qed

theorem cli_mounts_first_witness:
  "\<exists>a. parseCLIArgs [''-v'', ''/w:/srv'', ''box'', ''--'', ''ls''] = Inr a \<and> cli_mounts a = [''/w:/srv''] \<and> cli_cmd a = [''ls'']"
  using cli_mounts_first [of "''box''" "[''/w:/srv'']" "[''ls'']"] by auto

end
