(* ===== verification/Pipeline.thy ===== *)
theory Pipeline
  imports Shim Agent Runtime
begin

text \<open>
  The components together: from the intercepted exec through shim, broker, runner and agent to the
  command on the remote host, and from its streams and exit code back to the shim. The runner's
  configuration is the one that \<open>StartBroker\<close> gives it.
\<close>

section \<open>Definitions\<close>

text \<open>The agent configuration of the runner in \<open>StartBroker\<close>.\<close>

definition runnerConfig :: "Config \<Rightarrow> AgentConfigMsg" where
  "runnerConfig cfg = \<lparr>ac_EnvKeep = ag_EnvKeep (Agent cfg), ac_EnvRemove = ag_EnvRemove (Agent cfg)\<rparr>"

text \<open>What a path becomes on the way, and the variables that arrive.\<close>

definition mappedPath :: "Deps \<Rightarrow> string \<Rightarrow> string" where
  "mappedPath deps p = (case dp_PathMapper deps of None \<Rightarrow> p | Some m \<Rightarrow> m p)"

definition keptVariable :: "'re engine \<Rightarrow> Config \<Rightarrow> string \<Rightarrow> bool" where
  "keptVariable eng cfg e \<longleftrightarrow> envName e \<noteq> changedEnvsKey \<and> \<not> matchesPatterns eng (ag_EnvRemove (Agent cfg)) (envName e) \<and>
     matchesPatterns eng (ag_EnvKeep (Agent cfg)) (envName e)"

section \<open>Lemmas\<close>

lemma envName_path: "envName (pathPrefix @ v) = ''PATH''"
  using envName_eq [of "''PATH''" v] by simp

lemma strip_filter:
  "stripLoop dir (filter (\<lambda>e. P (envName e)) env) = filter (\<lambda>e. P (envName e)) (stripLoop dir env)"
proof (induction env)
  case (Cons e env)
  show ?case
  proof (cases "HasPrefix e pathPrefix")
    case True
    then obtain v where v: "e = pathPrefix @ v" by (auto simp: HasPrefix_iff)
    then show ?thesis using Cons.IH envName_path [of v] envName_path [of "Join (filter (\<lambda>s. s \<noteq> dir) (Split v CHR '':'')) '':''"]
      by (auto simp: Let_def)
  qed (use Cons.IH in auto)
qed simp

lemma StripPathSegment_filter:
  "StripPathSegment (filter (\<lambda>e. P (envName e)) env) dir = filter (\<lambda>e. P (envName e)) (StripPathSegment env dir)"
  by (simp add: StripPathSegment_def strip_filter)

lemma no_marker: "\<forall>e\<in>set env. envName e \<noteq> changedEnvsKey \<Longrightarrow> parseChangedEnvs env = []"
proof (induction env)
  case (Cons e env)
  have "\<not> HasPrefix e (changedEnvsKey @ ''='')"
  proof
    assume "HasPrefix e (changedEnvsKey @ ''='')"
    then obtain v where "e = changedEnvsKey @ ''='' @ v" by (auto simp: HasPrefix_iff)
    then have "envName e = changedEnvsKey" using envName_eq [of changedEnvsKey v] by (simp add: changedEnvsKey_def)
    then show False using Cons.prems by simp
  qed
  then show ?case using Cons by simp
qed simp

lemma StripPathSegment_other: "\<not> HasPrefix e pathPrefix \<Longrightarrow> e \<in> set env \<Longrightarrow> e \<in> set (StripPathSegment env dir)"
proof -
  assume "\<not> HasPrefix e pathPrefix" "e \<in> set env"
  then have "e \<in> set (stripLoop dir env)" by (induction env) (auto simp: Let_def)
  then show ?thesis using \<open>e \<in> set env\<close> by (simp add: StripPathSegment_def)
qed

text \<open>Filtering twice: the first filter takes the marker away, so the second knows of no changes.\<close>

lemma Filter_twice:
  "Filter eng (StripPathSegment (Filter eng env keep remove) dir) keep remove =
   StripPathSegment (filter (\<lambda>e. forwarded eng [] keep remove (envName e)) env) dir"
proof -
  let ?c = "parseChangedEnvs env"
  let ?once = "StripPathSegment (Filter eng env keep remove) dir"
  have once: "?once = filter (\<lambda>e. forwarded eng ?c keep remove (envName e)) (StripPathSegment env dir)"
    unfolding Filter_spec by (rule StripPathSegment_filter)
  then have "parseChangedEnvs ?once = []" by (intro no_marker) (auto simp: forwarded_def)
  then have "Filter eng ?once keep remove = filter (\<lambda>e. forwarded eng [] keep remove (envName e)) ?once"
    unfolding Filter_spec [of eng ?once] by simp
  also have "\<dots> = filter (\<lambda>e. forwarded eng [] keep remove (envName e)) (StripPathSegment env dir)"
    unfolding once by (rule filter_cong [OF refl, THEN trans]) (auto simp: forwarded_def intro: filter_cong)
  also have "\<dots> = StripPathSegment (filter (\<lambda>e. forwarded eng [] keep remove (envName e)) env) dir"
    by (rule StripPathSegment_filter [symmetric])
  finally show ?thesis .
qed

lemma prepared:
  fixes deps :: Deps
  shows "req_Path (prepareRequest deps req) = mappedPath deps (req_Path req)"
    "req_Cwd (prepareRequest deps req) = mappedPath deps (req_Cwd req)"
    "req_Argv (prepareRequest deps req) = req_Argv req" "req_ExtraFDs (prepareRequest deps req) = req_ExtraFDs req"
    "req_Env (prepareRequest deps req) = (case dp_EnvFilter deps of None \<Rightarrow> req_Env req | Some f \<Rightarrow> f (req_Env req))"
  by (simp_all add: prepareRequest_def mappedPath_def Let_def split: option.split)

lemma sent_frames:
  "openAgent ah = Inr () \<Longrightarrow> sendRequest ah sendExec (execFrame (execMsg req)) = (sent, None) \<Longrightarrow>
   fst (RunWithControl ah req ins) = sent"
  by (simp add: RunWithControl_def case_prod_beta Let_def)

lemma agent_runs:
  "agentDecide eng (Some (configFrame c)) (Some (execFrame x)) =
     RunExec (x\<lparr>em_Env := Filter eng (em_Env x) (ac_EnvKeep c) (ac_EnvRemove c)\<rparr>)"
  by (simp add: agentDecide_def configFrame_def execFrame_def emptyFrame_def FrameType_defs)

section \<open>Properties\<close>


text \<open>
  C10. A variable that the traced program has changed does not arrive unless a keep pattern matches
  it: the broker's filter forwards it because of the marker, and takes the marker away; the
  agent's filter, with the same patterns, then drops the variable. The documentation says that
  changed variables are always forwarded.
\<close>

theorem changed_variable_dropped:
  assumes "e \<in> set env" "envName e \<in> set (parseChangedEnvs env)" "envName e \<noteq> changedEnvsKey" "envName e \<noteq> ''PATH''"
    and "\<not> matchesPatterns eng (ag_EnvRemove (Agent cfg)) (envName e)"
    and "\<not> matchesPatterns eng (ag_EnvKeep (Agent cfg)) (envName e)"
    and "req_Env req = env" "deps = brokerDeps eng cfg mounts stubMap run"
    and "agentDecide eng (Some (configFrame (runnerConfig cfg))) (Some (execFrame (execMsg (prepareRequest deps req)))) = RunExec x"
  shows "e \<in> set (req_Env (prepareRequest deps req)) \<and> e \<notin> set (cmd_Env (newCmd (agentSpec x)))"
proof -
  let ?dir = "if Mapping.is_empty stubMap then [] else PathStubDir (Container cfg)"
  let ?keep = "ag_EnvKeep (Agent cfg)" and ?remove = "ag_EnvRemove (Agent cfg)"
  have env: "req_Env (prepareRequest deps req) = StripPathSegment (Filter eng env ?keep ?remove) ?dir"
    unfolding prepared by (simp add: assms(7,8) brokerDeps_def Let_def)
  have np: "\<not> HasPrefix e pathPrefix" using assms(4) envName_path by (auto simp: HasPrefix_iff)
  have "e \<in> set (Filter eng env ?keep ?remove)" using assms(1-3,5) by (simp add: Filter_spec forwarded_def)
  then have there: "e \<in> set (req_Env (prepareRequest deps req))"
    unfolding env by (rule StripPathSegment_other [OF np])
  have "x = (execMsg (prepareRequest deps req))\<lparr>em_Env := Filter eng (req_Env (prepareRequest deps req)) ?keep ?remove\<rparr>"
    using assms(9) by (simp add: agent_runs runnerConfig_def execMsg_def)
  then have "set (cmd_Env (newCmd (agentSpec x))) = set (Filter eng (req_Env (prepareRequest deps req)) ?keep ?remove)"
    by (simp add: newCmd_def agentSpec_def)
  moreover have "e \<notin> set (Filter eng (req_Env (prepareRequest deps req)) ?keep ?remove)"
    unfolding env Filter_twice StripPathSegment_filter using assms(6) by (simp add: forwarded_def)
  ultimately show ?thesis using there by simp
qed

text \<open>
  C4. What the caller sees: in every interleaving of the agent's goroutines and its log and of the
  broker's goroutines, when the agent has sent its exit frame and the broker its own, the shim has
  written to its standard output, its standard error and every inherited descriptor exactly the
  bytes that the agent read from those streams of the remote command, in order, and exits with the
  command's exit code, or with 127 when the command could not be built or started. The pipes
  between runner and broker deliver the bytes written to them.
\<close>

theorem caller_sees_remote_command:
  assumes agent: "agentExec p start x code s" "br_exited s" "em_ExtraFDs x = req_ExtraFDs req"
    and runner: "openAgent ah = Inr ()" "sendRequest ah sendExec (execFrame (execMsg (prepareRequest deps req))) = (sent, None)"
      "RunWithControl ah (prepareRequest deps req) (map Got (br_wire s)) = (sent, evs, result)"
    and broker: "dp_Control deps = Some run" "run (prepareRequest deps req) = result"
      "serveConn deps (Inr req) t" "br_exited t"
    and pipes: "br_read t StreamStdout = streamData 1 evs" "br_read t StreamStderr = streamData 2 evs"
      "\<forall>n\<in>set (req_ExtraFDs req). br_read t (fdStream n) = streamData n evs"
  shows "concat (map stdoutOf (fst (shimLoop h files (br_wire t)))) = br_read s 1 \<and>
    concat (map stderrOf (fst (shimLoop h files (br_wire t)))) = br_read s 2 \<and>
    (\<forall>n\<in>set (req_ExtraFDs req). sh_NewFile h n \<longrightarrow>
      concat (map (fdOf n) (fst (shimLoop h files (br_wire t)))) = br_read s n) \<and>
    snd (shimLoop h files (br_wire t)) = execCode p start x code"
proof -
  have fds: "req_ExtraFDs (prepareRequest deps req) = req_ExtraFDs req" by (rule prepared)
  have "em_ExtraFDs x = req_ExtraFDs (prepareRequest deps req)" using agent(3) fds by simp
  from runner_reports_command [OF agent(1,2) this runner(1,2)] runner(3) fds
  have data: "\<forall>i\<in>{1, 2} \<union> set (req_ExtraFDs req). streamData i evs = br_read s i"
    and result: "result = (execCode p start x code, None)" by auto
  have "fst (connResult deps req) = execCode p start x code"
    using broker(1,2) result by (simp add: connResult_def)
  then show ?thesis using shim_output [OF broker(3,4), of h files] pipes data broker(1) by simp
qed

section \<open>A complete run\<close>

text \<open>One stream yields some data, the other nothing, and the result follows.\<close>

definition exampleRun :: "('i, 'f) framing \<Rightarrow> 'i \<Rightarrow> 'i \<Rightarrow> bytes \<Rightarrow> int \<times> string \<Rightarrow> ('i, 'f) bridge" where
  "exampleRun F a b d r =
     (let s = pumpFinish F (pumpSend F (pumpRead bridgeInit a d True) a d True) a;
          s = pumpFinish F (pumpRead s b [] True) b
      in sendExit F (s\<lparr>br_result := Some r\<rparr>) r)"

lemma exampleRun_bridged:
  assumes "a \<noteq> b" "d \<noteq> []" "length d \<le> 32 * 1024"
  shows "bridged F {a, b} other r (exampleRun F a b d r)" "br_exited (exampleRun F a b d r)"
    "br_read (exampleRun F a b d r) a = d" "br_read (exampleRun F a b d r) b = []"
proof -
  note defs = pumpRead_def pumpSend_def pumpFinish_def sendExit_def bridgeInit_def
  let ?B = "bridged F {a, b} other r"
  let ?s0 = "pumpRead bridgeInit a d True"
  let ?s1 = "pumpFinish F (pumpSend F ?s0 a d True) a"
  let ?s2 = "pumpFinish F (pumpRead ?s1 b [] True) b"
  have "?B ?s0" by (rule bridged_step [OF bridged_init step_read]) (use assms in \<open>simp_all add: bridgeInit_def\<close>)
  then have "?B (pumpSend F ?s0 a d True)" by (rule bridged_step [OF _ step_send]) (use assms in \<open>simp_all add: pumpRead_def\<close>)
  then have "?B ?s1" by (rule bridged_step [OF _ step_finish]) (simp_all add: defs)
  then have "?B (pumpRead ?s1 b [] True)" by (rule bridged_step [OF _ step_read]) (use assms in \<open>simp_all add: defs\<close>)
  then have "?B ?s2" by (rule bridged_step [OF _ step_finish]) (simp_all add: defs)
  then have "?B (?s2\<lparr>br_result := Some r\<rparr>)" by (rule bridged_step [OF _ step_result]) (simp add: defs)
  then have "?B (sendExit F (?s2\<lparr>br_result := Some r\<rparr>) r)"
    by (rule bridged_step [OF _ step_exit]) (use assms in \<open>auto simp: defs\<close>)
  then show "?B (exampleRun F a b d r)" by (simp only: exampleRun_def Let_def)
  show "br_exited (exampleRun F a b d r)" "br_read (exampleRun F a b d r) a = d" "br_read (exampleRun F a b d r) b = []"
    using assms by (simp_all add: exampleRun_def Let_def defs)
qed

definition echoConfig :: Config where
  "echoConfig = exampleConfig\<lparr>Agent := \<lparr>ag_EnvKeep = [''HOME''], ag_EnvRemove = [''LD_*'']\<rparr>\<rparr>"

definition echoRunner :: runnerHost where
  "echoRunner = exampleRunner\<lparr>ah_Config := Some (runnerConfig echoConfig)\<rparr>"

definition echoShim :: shimHost where
  "echoShim = exampleShim\<lparr>sh_Environ := [''HOME=/h'', ''X=1'', ''MPROXY_CHANGED_ENVS=X'']\<rparr>"

definition echoDeps :: Deps where
  "echoDeps = brokerDeps litEngine echoConfig [] Mapping.empty (\<lambda>_. (3, None))"

definition echoRequest :: Request where
  "echoRequest = shimRequest echoShim [''/shim'', ''/bin/echo'', ''echo'', ''hi''] []"

definition echoExec :: ExecMsg where
  "echoExec = (execMsg (prepareRequest echoDeps echoRequest))\<lparr>em_Env := [''HOME=/h'']\<rparr>"

lemmas echo_defs = echoConfig_def echoRunner_def echoShim_def echoDeps_def echoRequest_def echoExec_def exampleRunner_def
  exampleShim_def exampleSession_def

lemma echo_opens: "openAgent echoRunner = Inr ()"
  "sendRequest echoRunner sendExec f = ([configFrame (runnerConfig echoConfig), f], None)"
  by (simp_all add: openAgent_def sendRequest_def echoRunner_def exampleRunner_def exampleSession_def)


theorem changed_variable_dropped_witness:
  "''X=1'' \<in> set (req_Env (prepareRequest echoDeps echoRequest)) \<and>
   (\<exists>x. agentDecide litEngine (Some (configFrame (runnerConfig echoConfig)))
      (Some (execFrame (execMsg (prepareRequest echoDeps echoRequest)))) = RunExec x \<and>
      ''X=1'' \<notin> set (cmd_Env (newCmd (agentSpec x))))"
proof -
  obtain x where x: "agentDecide litEngine (Some (configFrame (runnerConfig echoConfig)))
      (Some (execFrame (execMsg (prepareRequest echoDeps echoRequest)))) = RunExec x" by (simp add: agent_runs)
  have "envName ''X=1'' = ''X''" "parseChangedEnvs (sh_Environ echoShim) = [''X'']"
    "\<not> matchesPatterns litEngine (ag_EnvRemove (Agent echoConfig)) ''X''"
    "\<not> matchesPatterns litEngine (ag_EnvKeep (Agent echoConfig)) ''X''" by code_simp+
  then show ?thesis
    using changed_variable_dropped [OF _ _ _ _ _ _ _ echoDeps_def x, of "''X=1''" "sh_Environ echoShim"] x
    by (simp add: echoRequest_def shimRequest_def changedEnvsKey_def echoShim_def)
qed

theorem caller_sees_remote_command_witness:
  "concat (map stdoutOf (fst (shimLoop echoShim {} (br_wire (exampleRun brokerFraming StreamStdout StreamStderr ''hi'' (3, [])))))) = ''hi'' \<and>
   snd (shimLoop echoShim {} (br_wire (exampleRun brokerFraming StreamStdout StreamStderr ''hi'' (3, [])))) = 3"
proof -
  let ?start = "\<lambda>_. None"
  let ?s = "exampleRun agentFraming 1 2 ''hi'' (3, []) :: (uint32, Frame) bridge"
  let ?t = "exampleRun brokerFraming StreamStdout StreamStderr ''hi'' (3, [])"
  let ?r = "prepareRequest echoDeps echoRequest"
  have fds: "req_ExtraFDs echoRequest = []" "em_ExtraFDs echoExec = []"
    by (simp_all add: echoRequest_def shimRequest_def echoExec_def execMsg_def prepared)
  have S: "bridged agentFraming {1, 2} isLogFrame (3, []) ?s" "br_exited ?s" "br_read ?s 1 = ''hi''" "br_read ?s 2 = []"
    using exampleRun_bridged [of "1 :: uint32" 2 "''hi''"] by simp_all
  have T: "bridged brokerFraming {StreamStdout, StreamStderr} (\<lambda>_. False) (3, []) ?t" "br_exited ?t"
    "br_read ?t StreamStdout = ''hi''" "br_read ?t StreamStderr = []"
    using exampleRun_bridged [of StreamStdout StreamStderr "''hi''"] by simp_all
  have build: "\<exists>cmd. Build exampleProc (agentSpec echoExec) = Inr cmd"
    by (simp add: Build_def agentSpec_def exampleProc_def sudoCredential_def fds)
  then have A: "agentExec exampleProc ?start echoExec 3 ?s" "execCode exampleProc ?start echoExec 3 = 3"
    using S(1) by (auto simp: agentExec_def execCode_def agentStreams_def fds)
  have V: "serveConn echoDeps (Inr echoRequest) ?t"
    using T(1) by (simp add: serveConn_def connStreams_def connResult_def fds echoDeps_def brokerDeps_def Let_def)
  obtain evs where W: "RunWithControl echoRunner ?r (map Got (br_wire ?s)) =
      ([configFrame (runnerConfig echoConfig), execFrame (execMsg ?r)], evs, 3, None)"
    and d: "streamData 1 evs = br_read ?s 1" "streamData 2 evs = br_read ?s 2"
    using runner_reports_command [OF A(1) S(2) _ echo_opens, of ?r] A(2) fds by (auto simp: prepared)
  show ?thesis
    using caller_sees_remote_command [where h = echoShim and files = "{}", OF A(1) S(2) _ echo_opens W _ _ V T(2)] d S(3,4) T(3,4) A(2) fds
    by (simp add: echoDeps_def brokerDeps_def Let_def)
qed

end
