(* ===== verification/Platform.thy ===== *)
theory Platform
  imports Prelude
begin

text \<open>
  Detecting the remote platform: \<open>pkg/remote/docker/platform.go\<close>, from what the Docker daemon says
  of itself, and \<open>pkg/remote/ssh/platform.go\<close>, from the identification string of an SSH server.
\<close>

section \<open>Lower case\<close>

text \<open>
  \<open>strings.ToLower\<close> as far as ASCII text can tell: the ASCII letters, and the two other characters
  whose lower case is an ASCII letter (the Kelvin sign and the dotted capital I, in UTF-8). Other
  bytes outside ASCII are left alone; their lower case is not ASCII either.
\<close>

definition lowerASCII :: "char \<Rightarrow> char" where
  "lowerASCII c = (if 65 \<le> (of_char c :: nat) \<and> (of_char c :: nat) \<le> 90 then char_of ((of_char c :: nat) + 32) else c)"

fun lowerText :: "string \<Rightarrow> string" where
  "lowerText (a # b # c # s) =
     (if a = CHR 0xE2 \<and> b = CHR 0x84 \<and> c = CHR 0xAA then CHR ''k'' # lowerText s
      else if a = CHR 0xC4 \<and> b = CHR 0xB0 then CHR ''i'' # lowerText (c # s)
      else lowerASCII a # lowerText (b # c # s))"
| "lowerText [a, b] = (if a = CHR 0xC4 \<and> b = CHR 0xB0 then [CHR ''i''] else [lowerASCII a, lowerASCII b])"
| "lowerText [a] = [lowerASCII a]"
| "lowerText [] = []"

section \<open>Docker\<close>

definition normalizeOS :: "string \<Rightarrow> string" where
  "normalizeOS s =
     (let x = lowerText (TrimSpace s) in
      if x = ''linux'' then ''linux''
      else if x \<in> {''darwin'', ''macos'', ''osx''} then ''darwin''
      else if x = ''windows'' then ''windows''
      else if x = ''freebsd'' then ''freebsd''
      else if x = ''openbsd'' then ''openbsd''
      else if x = ''netbsd'' then ''netbsd''
      else if x = ''dragonfly'' then ''dragonfly''
      else if x \<in> {''solaris'', ''sunos'', ''illumos''} then ''solaris''
      else [])"

text \<open>The architecture and its variant; \<^const>\<open>None\<close> when it is not recognised.\<close>

definition normalizeArch :: "string \<Rightarrow> (string \<times> string) option" where
  "normalizeArch s =
     (let x = lowerText (TrimSpace s) in
      if x \<in> {''x86_64'', ''amd64''} then Some (''amd64'', [])
      else if x \<in> {''aarch64'', ''arm64''} then Some (''arm64'', [])
      else if x \<in> {''armv8l'', ''armv8''} then Some (''arm64'', ''v8'')
      else if x \<in> {''armv7l'', ''armv7'', ''armhf''} then Some (''arm'', ''v7'')
      else if x \<in> {''armv6l'', ''armv6''} then Some (''arm'', ''v6'')
      else if x \<in> {''armv5l'', ''armv5'', ''armel''} then Some (''arm'', ''v5'')
      else if x = ''arm'' then Some (''arm'', [])
      else if x \<in> {''i386'', ''i486'', ''i586'', ''i686'', ''x86''} then Some (''386'', [])
      else if x = ''ppc64'' then Some (''ppc64'', [])
      else if x = ''ppc64le'' then Some (''ppc64le'', [])
      else if x = ''s390x'' then Some (''s390x'', [])
      else if x = ''riscv64'' then Some (''riscv64'', [])
      else if x = ''mips'' then Some (''mips'', [])
      else if x \<in> {''mipsle'', ''mipsel''} then Some (''mipsle'', [])
      else if x = ''mips64'' then Some (''mips64'', [])
      else if x \<in> {''mips64le'', ''mips64el''} then Some (''mips64le'', [])
      else if x \<in> {''loongarch64'', ''loong64''} then Some (''loong64'', [])
      else None)"

record PlatformInfo =
  pf_OS :: string
  pf_Arch :: string
  pf_Variant :: string

definition platformFromInfo :: "string \<Rightarrow> string \<Rightarrow> PlatformInfo" where
  "platformFromInfo osType arch =
     (case normalizeArch arch of
        Some (a, v) \<Rightarrow> \<lparr>pf_OS = normalizeOS osType, pf_Arch = a, pf_Variant = v\<rparr>
      | None \<Rightarrow> \<lparr>pf_OS = normalizeOS osType, pf_Arch = [], pf_Variant = []\<rparr>)"

text \<open>\<open>Backend.DetectPlatform\<close> of the Docker backend, on what the daemon answers.\<close>

definition dockerDetect :: "string + string \<times> string \<Rightarrow> (string, PlatformInfo) result" where
  "dockerDetect info =
     (case info of
        Inl err \<Rightarrow> Inl (''docker info: '' @ err)
      | Inr (osType, arch) \<Rightarrow>
          (let out = platformFromInfo osType arch in
           if pf_OS out = [] \<and> pf_Arch out = [] then Inl ''docker info did not yield a usable platform'' else Inr out))"

section \<open>SSH\<close>

definition contains :: "string \<Rightarrow> string \<Rightarrow> bool" where
  "contains s sub \<longleftrightarrow> Index s sub \<noteq> None"

definition linuxTags :: "string list" where
  "linuxTags = [''ubuntu'', ''debian'', ''raspbian'', ''alpine'', ''arch'', ''fedora'', ''centos'', ''rhel'', ''redhat'',
     ''rocky'', ''alma'', ''opensuse'', ''suse'', ''gentoo'', ''nixos'', ''android'', ''linux'', ''dropbear'']"

definition bannerOS :: "string \<Rightarrow> string" where
  "bannerOS lc =
     (if contains lc ''for_windows'' \<or> contains lc ''for windows'' \<or> contains lc ''windows'' then ''windows''
      else if contains lc ''darwin'' \<or> contains lc ''macos'' then ''darwin''
      else if contains lc ''freebsd'' then ''freebsd''
      else if contains lc ''openbsd'' then ''openbsd''
      else if contains lc ''netbsd'' then ''netbsd''
      else if contains lc ''dragonfly'' then ''dragonfly''
      else if contains lc ''solaris'' \<or> contains lc ''sunos'' \<or> contains lc ''illumos'' then ''solaris''
      else if list_ex (contains lc) linuxTags then ''linux''
      else [])"

definition parseServerVersion :: "string \<Rightarrow> (string, PlatformInfo) result" where
  "parseServerVersion banner =
     (let banner = TrimSpace banner in
      if banner = [] then Inl ''ssh detect: empty server version''
      else let os = bannerOS (lowerText banner) in
        if os = [] then Inl (''ssh detect: no platform hint in server version '' @ banner)
        else Inr \<lparr>pf_OS = os, pf_Arch = [], pf_Variant = []\<rparr>)"

section \<open>Lemmas\<close>

definition goOS :: "string list" where
  "goOS = [''linux'', ''darwin'', ''windows'', ''freebsd'', ''openbsd'', ''netbsd'', ''dragonfly'', ''solaris'']"

definition goArch :: "string list" where
  "goArch = [''amd64'', ''arm64'', ''arm'', ''386'', ''ppc64'', ''ppc64le'', ''s390x'', ''riscv64'', ''mips'', ''mipsle'',
     ''mips64'', ''mips64le'', ''loong64'']"

text \<open>What is detected is a name that Go uses, and normalising a Go name gives it back.\<close>

lemma normalizeOS_go: "normalizeOS s = [] \<or> normalizeOS s \<in> set goOS"
  by (simp add: normalizeOS_def goOS_def Let_def)

lemma normalizeArch_go: "normalizeArch s = Some (a, v) \<Longrightarrow> a \<in> set goArch"
  by (auto simp: normalizeArch_def goArch_def Let_def split: if_splits)

lemma goOS_fixed: "list_all (\<lambda>s. normalizeOS s = s) goOS"
  by code_simp

lemma goArch_fixed: "list_all (\<lambda>a. a = ''386'' \<or> normalizeArch a = Some (a, [])) goArch"
  by code_simp

lemma bannerOS_go: "bannerOS lc = [] \<or> bannerOS lc \<in> set goOS"
  by (simp add: bannerOS_def goOS_def)

text \<open>An SSH server never tells the architecture, and what both backends detect has a Go name.\<close>

lemma detected_platform:
  assumes "dockerDetect info = Inr pf \<or> parseServerVersion banner = Inr pf"
  shows "(pf_OS pf = [] \<or> pf_OS pf \<in> set goOS) \<and> (pf_Arch pf = [] \<or> pf_Arch pf \<in> set goArch) \<and>
    (pf_OS pf \<noteq> [] \<or> pf_Arch pf \<noteq> [])"
proof (cases "parseServerVersion banner = Inr pf")
  case True
  then show ?thesis using bannerOS_go [of "lowerText (TrimSpace banner)"]
    by (auto simp: parseServerVersion_def Let_def split: if_splits)
next
  case False
  with assms have d: "dockerDetect info = Inr pf" by simp
  then obtain osType arch where pf: "pf = platformFromInfo osType arch" "pf_OS pf \<noteq> [] \<or> pf_Arch pf \<noteq> []"
    by (auto simp: dockerDetect_def Let_def split: sum.splits prod.splits if_splits)
  from pf(1) have "pf_OS pf = normalizeOS osType" "pf_Arch pf = [] \<or> pf_Arch pf \<in> set goArch"
    by (auto simp: platformFromInfo_def normalizeArch_go split: option.splits)
  then show ?thesis using pf(2) normalizeOS_go [of osType] by simp
qed

end
