(* ===== verification/DockerSession.thy ===== *)
theory DockerSession
  imports Steps
begin

text \<open>
  \<open>pkg/remote/docker/session.go\<close>: a command run with \<open>docker exec\<close>. The daemon's answers are the
  environment's choice. One goroutine copies the demultiplexed stream into the two output pipes and
  then polls the daemon for the exit code; an \<open>io.Pipe\<close> has no buffer, so a write ends only when the
  caller has read all of it or the pipe is closed. The standard input goroutine does not touch this
  state and is left out.
\<close>

section \<open>State\<close>

datatype outStream = OnStdout | OnStderr

text \<open>
  The goroutine of \<open>Start\<close>: not started, waiting for the stream, writing a chunk to a pipe, polling
  after the stream has ended (with the error of the copy and the last error of the inspection), or
  finished.
\<close>

datatype demuxPC =
    NoDemux | Waiting | Writing outStream bytes | Polling "string option" "string option" | Finished

datatype hijackConn = NoHijack | HijackOpen | HijackClosed

record dockerSession =
  ds_env :: "string list"
  ds_started :: bool
  ds_closed :: bool
  ds_execID :: "string option"
  ds_hijack :: hijackConn
  ds_cancelled :: bool
  ds_pipesClosed :: bool
  ds_demux :: demuxPC
  ds_done :: bool
  ds_waitErr :: "string option"
  ds_exitCode :: int
  ds_sent :: "outStream \<Rightarrow> bytes"
  ds_got :: "outStream \<Rightarrow> bytes"

text \<open>
  The last two fields are observations: what the daemon sent on each stream and what the caller has
  read from each pipe.
\<close>

definition newSession :: dockerSession where
  "newSession = \<lparr>ds_env = [], ds_started = False, ds_closed = False, ds_execID = None, ds_hijack = NoHijack,
     ds_cancelled = False, ds_pipesClosed = False, ds_demux = NoDemux, ds_done = False, ds_waitErr = None,
     ds_exitCode = 0, ds_sent = (\<lambda>_. []), ds_got = (\<lambda>_. [])\<rparr>"

section \<open>Operations\<close>

definition Setenv :: "dockerSession \<Rightarrow> string \<Rightarrow> string \<Rightarrow> dockerSession" where
  "Setenv s name value = s\<lparr>ds_env := ds_env s @ [name @ ''='' @ value]\<rparr>"

definition execCmd :: "string \<Rightarrow> string list" where
  "execCmd cmdline = [''sh'', ''-c'', cmdline]"

definition closePipes :: "dockerSession \<Rightarrow> dockerSession" where
  "closePipes s = s\<lparr>ds_pipesClosed := True\<rparr>"

text \<open>
  \<open>Start\<close>, with what \<open>ExecCreate\<close> (given the environment and the command) and \<open>ExecAttach\<close> return.
\<close>

definition sessionStart ::
  "dockerSession \<Rightarrow> (string list \<Rightarrow> string list \<Rightarrow> string + string) \<Rightarrow> (string \<Rightarrow> string option) \<Rightarrow> string \<Rightarrow>
     string option \<times> dockerSession" where
  "sessionStart s create attach cmdline =
     (if ds_started s then (Some ''docker session already started'', s)
      else let s = s\<lparr>ds_started := True\<rparr> in
        case create (ds_env s) (execCmd cmdline) of
          Inl err \<Rightarrow> (Some (''docker exec create: '' @ err), closePipes s)
        | Inr execID \<Rightarrow>
            (let s = s\<lparr>ds_execID := Some execID\<rparr> in
             case attach execID of
               Some err \<Rightarrow> (Some (''docker exec attach: '' @ err), closePipes s)
             | None \<Rightarrow> (None, s\<lparr>ds_hijack := HijackOpen, ds_demux := Waiting\<rparr>)))"

text \<open>The result of \<open>Wait\<close>; \<^const>\<open>None\<close> while it blocks.\<close>

datatype waitResult = WaitOk | WaitExit int | WaitError string

definition sessionWait :: "dockerSession \<Rightarrow> waitResult option" where
  "sessionWait s =
     (if \<not> ds_started s then Some (WaitError ''docker session: Wait before Start'')
      else if \<not> ds_done s then None
      else Some (case ds_waitErr s of
          Some err \<Rightarrow> WaitError err
        | None \<Rightarrow> if ds_exitCode s \<noteq> 0 then WaitExit (ds_exitCode s) else WaitOk))"

definition sessionClose :: "dockerSession \<Rightarrow> dockerSession" where
  "sessionClose s =
     (if ds_closed s then s
      else (closePipes s)\<lparr>ds_closed := True, ds_cancelled := True,
        ds_hijack := (if ds_hijack s = HijackOpen then HijackClosed else ds_hijack s)\<rparr>)"

section \<open>The output goroutine\<close>

text \<open>\<open>StdCopy\<close> reads a chunk, writes it, and ends with the stream or an error.\<close>

definition streamChunk :: "dockerSession \<Rightarrow> outStream \<Rightarrow> bytes \<Rightarrow> dockerSession" where
  "streamChunk s i d = s\<lparr>ds_demux := Writing i d, ds_sent := (ds_sent s)(i := ds_sent s i @ d)\<rparr>"

definition pipeRead :: "dockerSession \<Rightarrow> outStream \<Rightarrow> bytes \<Rightarrow> nat \<Rightarrow> dockerSession" where
  "pipeRead s i d n =
     s\<lparr>ds_got := (ds_got s)(i := ds_got s i @ take n d), ds_demux := (if n < length d then Writing i (drop n d) else Waiting)\<rparr>"

definition streamEnd :: "dockerSession \<Rightarrow> string option \<Rightarrow> dockerSession" where
  "streamEnd s copyErr = s\<lparr>ds_demux := Polling copyErr None\<rparr>"

text \<open>\<open>markDone\<close>: one round of the poll, or the deadline.\<close>

datatype inspectAnswer = InspectError string | InspectRunning | InspectExited int

definition inspectStep :: "dockerSession \<Rightarrow> string option \<Rightarrow> string option \<Rightarrow> inspectAnswer \<Rightarrow> dockerSession" where
  "inspectStep s copyErr inspectErr a =
     (case a of
        InspectError err \<Rightarrow> s\<lparr>ds_demux := Polling copyErr (Some err)\<rparr>
      | InspectRunning \<Rightarrow> s
      | InspectExited code \<Rightarrow> s\<lparr>ds_exitCode := code, ds_waitErr := None, ds_done := True, ds_demux := Finished\<rparr>)"

definition inspectDeadline :: "dockerSession \<Rightarrow> string option \<Rightarrow> string option \<Rightarrow> dockerSession" where
  "inspectDeadline s copyErr inspectErr =
     s\<lparr>ds_waitErr := Some (case inspectErr of
           Some err \<Rightarrow> ''docker exec inspect: '' @ err
         | None \<Rightarrow> (case copyErr of Some err \<Rightarrow> err | None \<Rightarrow> ''docker exec did not report completion in time'')),
       ds_exitCode := 127, ds_done := True, ds_demux := Finished\<rparr>"

text \<open>
  The events of a session. A caller that reads takes some bytes of the chunk that is being written.
  After \<open>Close\<close> the context is cancelled, so the daemon answers no inspection, and a write to a pipe
  or a read from the connection fails.
\<close>

datatype sessionEvent =
    EvChunk outStream bytes | EvRead nat | EvStreamEnd | EvBroken string | EvInspect inspectAnswer | EvDeadline | EvClose

inductive session_step :: "sessionEvent \<Rightarrow> dockerSession \<Rightarrow> dockerSession \<Rightarrow> bool" where
  s_chunk: "ds_demux s = Waiting \<Longrightarrow> ds_hijack s = HijackOpen \<Longrightarrow> d \<noteq> [] \<Longrightarrow> session_step (EvChunk i d) s (streamChunk s i d)"
| s_read: "ds_demux s = Writing i d \<Longrightarrow> \<not> ds_pipesClosed s \<Longrightarrow> 0 < n \<Longrightarrow> session_step (EvRead n) s (pipeRead s i d n)"
| s_end: "ds_demux s = Waiting \<Longrightarrow> session_step EvStreamEnd s (streamEnd s None)"
| s_broken_conn: "ds_demux s = Waiting \<Longrightarrow> session_step (EvBroken err) s (streamEnd s (Some err))"
| s_broken_pipe: "ds_demux s = Writing i d \<Longrightarrow> ds_pipesClosed s \<Longrightarrow> session_step (EvBroken err) s (streamEnd s (Some err))"
| s_inspect: "ds_demux s = Polling ce ie \<Longrightarrow> ds_cancelled s \<longrightarrow> (\<exists>err. a = InspectError err) \<Longrightarrow>
    session_step (EvInspect a) s (inspectStep s ce ie a)"
| s_deadline: "ds_demux s = Polling ce ie \<Longrightarrow> session_step EvDeadline s (inspectDeadline s ce ie)"
| s_close: "session_step EvClose s (sessionClose s)"

inductive_cases session_stepE: "session_step e s s'"

section \<open>Lemmas\<close>

fun inPipe :: "outStream \<Rightarrow> demuxPC \<Rightarrow> bytes" where
  "inPipe i (Writing j d) = (if i = j then d else [])"
| "inPipe i pc = []"

text \<open>
  What was sent has been read or is in the pipe, unless the session was closed; the result is there
  exactly when the goroutine has finished.
\<close>

definition sessionInv :: "dockerSession \<Rightarrow> bool" where
  "sessionInv s \<longleftrightarrow> (ds_done s \<longleftrightarrow> ds_demux s = Finished) \<and> (ds_pipesClosed s \<or> ds_cancelled s \<longrightarrow> ds_closed s) \<and>
     (ds_closed s \<or> (\<forall>i. ds_got s i @ inPipe i (ds_demux s) = ds_sent s i)) \<and>
     (\<forall>i d. ds_demux s = Writing i d \<longrightarrow> d \<noteq> []) \<and> (ds_demux s \<noteq> NoDemux \<longrightarrow> ds_started s)"

lemmas session_defs = streamChunk_def pipeRead_def streamEnd_def inspectStep_def inspectDeadline_def sessionClose_def closePipes_def

lemma sessionInv_step:
  assumes "session_step e s s'" "sessionInv s"
  shows "sessionInv s'"
  using assms
proof (induction rule: session_step.induct)
  case (s_chunk s d i)
  then show ?case by (auto simp: sessionInv_def streamChunk_def)
next
  case (s_read s i d n)
  then show ?case
    by (cases "n < length d") (auto simp: sessionInv_def pipeRead_def append_assoc [symmetric] split: if_splits)
next
  case (s_inspect s ce ie a)
  then show ?case by (auto simp: sessionInv_def inspectStep_def split: inspectAnswer.splits)
next
  case (s_broken_pipe s i d err)
  then show ?case by (auto simp: sessionInv_def streamEnd_def)
qed (auto simp: sessionInv_def session_defs)

interpretation session_inv: run_invariant session_step "\<lambda>_. True" sessionInv
  by unfold_locales (rule sessionInv_step)

lemma sessionStart_inv:
  assumes "sessionStart newSession create attach cmdline = (None, s)"
  shows "sessionInv s" "ds_demux s = Waiting" "ds_hijack s = HijackOpen" "ds_started s" "\<not> ds_closed s"
  using assms by (auto simp: sessionStart_def newSession_def closePipes_def sessionInv_def Let_def split: if_splits sum.splits option.splits)

interpretation session_result: run_invariant session_step "\<lambda>_. True"
  "\<lambda>s. ds_demux s = Finished \<and> ds_waitErr s = w \<and> ds_exitCode s = c" for w c
  by unfold_locales (auto simp: session_defs elim: session_stepE)

interpretation session_running: run_invariant session_step "\<lambda>_. True" "\<lambda>s. ds_started s \<and> ds_demux s \<noteq> NoDemux"
  by unfold_locales (auto simp: session_defs elim!: session_stepE split: inspectAnswer.splits if_splits)

text \<open>The statuses that the daemon reported in a run.\<close>

definition reportedExit :: "sessionEvent list \<Rightarrow> int \<Rightarrow> bool" where
  "reportedExit es code \<longleftrightarrow> EvInspect (InspectExited code) \<in> set es"

lemma step_done:
  "session_step e s s' \<Longrightarrow> sessionInv s \<Longrightarrow> \<not> ds_done s \<Longrightarrow> ds_done s' \<Longrightarrow> ds_waitErr s' = None \<Longrightarrow>
   e = EvInspect (InspectExited (ds_exitCode s'))"
  by (erule session_stepE) (auto simp: session_defs split: inspectAnswer.splits if_splits)

lemma session_exit_reported:
  "run session_step s es s' \<Longrightarrow> sessionInv s \<Longrightarrow> \<not> ds_done s \<Longrightarrow> ds_done s' \<Longrightarrow> ds_waitErr s' = None \<Longrightarrow>
   reportedExit es (ds_exitCode s')"
proof (induction rule: run.induct)
  case (run_cons e s s1 es s2)
  have i1: "sessionInv s1" using run_cons.hyps(1) run_cons.prems(1) sessionInv_step by blast
  show ?case
  proof (cases "ds_done s1")
    case True
    then have "ds_demux s2 = Finished \<and> ds_waitErr s2 = ds_waitErr s1 \<and> ds_exitCode s2 = ds_exitCode s1"
      using i1 session_result.kept_run [OF run_cons.hyps(2)] by (simp add: sessionInv_def list_all_iff)
    then show ?thesis using step_done [OF run_cons.hyps(1)] run_cons.prems True by (auto simp: reportedExit_def)
  qed (use run_cons i1 in \<open>auto simp: reportedExit_def\<close>)
qed simp

text \<open>Without a reader and without \<open>Close\<close>, a pending write stays.\<close>

interpretation session_stuck: run_invariant session_step "\<lambda>e. e \<noteq> EvClose \<and> (\<forall>n. e \<noteq> EvRead n)"
  "\<lambda>s. ds_demux s = Writing i d \<and> \<not> ds_pipesClosed s \<and> ds_started s \<and> \<not> ds_done s" for i d
  by unfold_locales (auto simp: session_defs elim!: session_stepE)

text \<open>The way to a result: read what is in the pipe, reach the end of the stream, ask for the status.\<close>

definition canFinish :: "int \<Rightarrow> dockerSession \<Rightarrow> bool" where
  "canFinish code s \<longleftrightarrow> (\<exists>es s'. run session_step s es s' \<and> EvClose \<notin> set es \<and>
     sessionWait s' = Some (if code \<noteq> 0 then WaitExit code else WaitOk))"

lemma canFinish_step: "session_step e s s' \<Longrightarrow> e \<noteq> EvClose \<Longrightarrow> canFinish code s' \<Longrightarrow> canFinish code s"
  unfolding canFinish_def by (metis run_cons set_ConsD)

lemma canFinish_polling:
  assumes "ds_demux s = Polling ce ie" "\<not> ds_cancelled s" "ds_started s"
  shows "canFinish code s"
proof -
  let ?s = "inspectStep s ce ie (InspectExited code)"
  have "session_step (EvInspect (InspectExited code)) s ?s" using assms by (intro s_inspect) simp_all
  moreover have "canFinish code ?s"
    unfolding canFinish_def using assms(3)
    by (intro exI [of _ "[]"] exI [of _ ?s]) (simp add: sessionWait_def inspectStep_def)
  ultimately show ?thesis using canFinish_step by blast
qed

lemma canFinish_waiting:
  assumes "ds_demux s = Waiting" "\<not> ds_cancelled s" "ds_started s"
  shows "canFinish code s"
proof (rule canFinish_step [OF s_end [OF assms(1)]])
  show "canFinish code (streamEnd s None)"
    using assms by (intro canFinish_polling [of _ None None]) (simp_all add: streamEnd_def)
qed simp

lemma canFinish_writing:
  assumes "ds_demux s = Writing i d" "d \<noteq> []" "\<not> ds_cancelled s" "\<not> ds_pipesClosed s" "ds_started s"
  shows "canFinish code s"
proof (rule canFinish_step [OF s_read [OF assms(1,4), of "length d"]])
  show "canFinish code (pipeRead s i d (length d))"
    using assms by (intro canFinish_waiting) (simp_all add: pipeRead_def)
qed (use assms(2) in simp_all)

lemma wait_possible:
  assumes "sessionInv s" "ds_started s \<and> ds_demux s \<noteq> NoDemux" "\<not> ds_closed s" "\<not> ds_done s"
  shows "canFinish code s"
proof (cases "ds_demux s")
  case (Writing i d)
  then show ?thesis using assms by (intro canFinish_writing [OF Writing]) (auto simp: sessionInv_def)
next
  case (Polling ce ie)
  then show ?thesis using assms by (intro canFinish_polling [OF Polling]) (auto simp: sessionInv_def)
qed (use assms in \<open>auto simp: sessionInv_def intro: canFinish_waiting\<close>)

section \<open>Properties\<close>


text \<open>
  \<open>Wait\<close> can always return while the output is read: from every state of a started session that
  is not closed, further steps of the daemon and of the reader lead to a state in which \<open>Wait\<close>
  returns the status that the daemon reports.
\<close>

theorem docker_wait_returns:
  assumes "sessionStart newSession create attach cmdline = (None, s)" "run session_step s es s'"
    and "\<not> ds_closed s'" "\<not> ds_done s'"
  shows "\<exists>es' s''. run session_step s' es' s'' \<and> EvClose \<notin> set es' \<and>
    sessionWait s'' = Some (if code \<noteq> 0 then WaitExit code else WaitOk)"
proof -
  note st = sessionStart_inv [OF assms(1)]
  have i: "sessionInv s'" using session_inv.kept_run [OF assms(2) _ st(1)] by (simp add: list_all_iff)
  have run: "ds_started s' \<and> ds_demux s' \<noteq> NoDemux" using session_running.kept_run [OF assms(2)] st(2,4) by (simp add: list_all_iff)
  then show ?thesis unfolding canFinish_def [symmetric] using wait_possible i assms(3,4) by blast
qed

text \<open>
  C24. It cannot return when the output is not read: once the daemon has sent a chunk that nobody
  reads any more, \<open>Wait\<close> blocks in every continuation in which the session is not closed. The agent
  runner stops reading at the exit frame and calls \<open>Wait\<close> before \<open>Close\<close>, so a frame that the agent
  sends after its exit frame (it logs every signal that arrives) keeps the command from ever
  finishing.
\<close>

theorem docker_wait_hangs:
  assumes "sessionStart newSession create attach cmdline = (None, s)" "run session_step s es s'"
    and "ds_demux s' = Writing i d" "\<not> ds_closed s'"
    and "run session_step s' es' s''" "list_all (\<lambda>e. e \<noteq> EvClose \<and> (\<forall>n. e \<noteq> EvRead n)) es'"
  shows "sessionWait s'' = None"
proof -
  note st = sessionStart_inv [OF assms(1)]
  have "sessionInv s'" using session_inv.kept_run [OF assms(2) _ st(1)] by (simp add: list_all_iff)
  moreover have "ds_started s'" using session_running.kept_run [OF assms(2)] st(2,4) by (simp add: list_all_iff)
  ultimately have "ds_started s'' \<and> \<not> ds_done s''"
    using session_stuck.kept_run [OF assms(5,6), of i d] assms(3,4) by (auto simp: sessionInv_def)
  then show ?thesis by (simp add: sessionWait_def)
qed

section \<open>An example run\<close>

definition exampleCreate :: "string list \<Rightarrow> string list \<Rightarrow> string + string" where
  "exampleCreate env cmd = Inr ''x''"

definition exampleSession0 :: dockerSession where
  "exampleSession0 = snd (sessionStart newSession exampleCreate (\<lambda>_. None) ''agent'')"

lemma exampleSession0_started: "sessionStart newSession exampleCreate (\<lambda>_. None) ''agent'' = (None, exampleSession0)"
  by (simp add: exampleSession0_def sessionStart_def exampleCreate_def newSession_def Let_def)

definition exampleSession1 :: dockerSession where
  "exampleSession1 = streamChunk exampleSession0 OnStdout ''log''"

lemma exampleSession1_run: "run session_step exampleSession0 [EvChunk OnStdout ''log''] exampleSession1"
  unfolding exampleSession1_def using sessionStart_inv [OF exampleSession0_started]
  by (auto simp: run_Cons intro: s_chunk)

lemma exampleSession1_state: "ds_demux exampleSession1 = Writing OnStdout ''log''" "\<not> ds_closed exampleSession1" "\<not> ds_done exampleSession1"
  using sessionStart_inv [OF exampleSession0_started] by (simp_all add: exampleSession1_def streamChunk_def sessionInv_def)

theorem docker_wait_hangs_witness: "sessionWait exampleSession1 = None"
  by (rule docker_wait_hangs [OF exampleSession0_started exampleSession1_run exampleSession1_state(1,2) run_nil]) simp

theorem docker_wait_returns_witness:
  "\<exists>es s. run session_step exampleSession1 es s \<and> sessionWait s = Some (WaitExit 3)"
  using docker_wait_returns [OF exampleSession0_started exampleSession1_run exampleSession1_state(2,3), of 3] by auto


end
