(* ===== verification/DockerBackend.thy ===== *)
theory DockerBackend
  imports DockerSession SshRunner GoPath
begin

text \<open>
  \<open>pkg/remote/docker/backend.go\<close>, \<open>pkg/remote/docker/upload.go\<close> and the construction of the file
  client in \<open>pkg/remote/docker/fileclient.go\<close>: the state of the Docker backend, the upload of the
  agent, and the long-lived file client that several goroutines may ask for while another closes the
  backend. What the daemon answers is an argument of the operations.
\<close>

section \<open>The backend\<close>

record dockerBackend =
  db_Container :: string
  db_containerID :: string
  db_connected :: bool
  db_lastErr :: "string option"
  db_fileClient :: "nat option"
  db_agentPath :: string

text \<open>\<open>New\<close>, with the outcome of resolving the options and of the client's constructor.\<close>

definition newDockerBackend :: "string \<Rightarrow> string option \<Rightarrow> string option \<Rightarrow> (string, dockerBackend) result" where
  "newDockerBackend container optsErr clientErr =
     bindR (failIf (container = []) ''docker backend: container is required'') (\<lambda>_.
     case optsErr of Some err \<Rightarrow> Inl (''docker context resolution: '' @ err) | None \<Rightarrow>
     case clientErr of Some err \<Rightarrow> Inl (''docker client: '' @ err) | None \<Rightarrow>
     Inr \<lparr>db_Container = container, db_containerID = [], db_connected = False, db_lastErr = None,
       db_fileClient = None, db_agentPath = []\<rparr>)"

text \<open>
  \<open>Start\<close>: the answers to the ping and to the inspection (the identifier, and whether the container
  runs, if there is a state). The debug message slices the identifier, which panics when it has
  fewer than twelve bytes: \<^const>\<open>None\<close>.
\<close>

datatype start_error = PingFailed string | InspectFailed string string | NotRunning string

definition startFail :: "dockerBackend \<Rightarrow> string \<Rightarrow> start_error \<Rightarrow> (start_error option \<times> dockerBackend) option" where
  "startFail b err e = Some (Some e, b\<lparr>db_lastErr := Some err\<rparr>)"

definition dockerStart ::
  "dockerBackend \<Rightarrow> string option \<Rightarrow> string + string \<times> bool option \<Rightarrow> (start_error option \<times> dockerBackend) option" where
  "dockerStart b ping inspect =
     (case ping of
        Some err \<Rightarrow> startFail b err (PingFailed err)
      | None \<Rightarrow> (case inspect of
          Inl err \<Rightarrow> startFail b err (InspectFailed (db_Container b) err)
        | Inr (ident, state) \<Rightarrow>
            if state = None \<or> state = Some False
            then startFail b (''container is not running'') (NotRunning (db_Container b))
            else if length ident < 12 then None
            else Some (None, b\<lparr>db_containerID := ident, db_connected := True, db_lastErr := None\<rparr>)))"

definition dockerNewSession :: "dockerBackend \<Rightarrow> (string, dockerSession) result" where
  "dockerNewSession b = (if db_containerID b = [] then Inl ''docker backend: not started'' else Inr newSession)"

section \<open>One-shot commands\<close>

text \<open>The words of \<open>cmd\<close> joined, or the script when they are \<open>sh -c script\<close>; the slice of a longer list has a third element.\<close>

definition captureCommand :: "string list \<Rightarrow> string option" where
  "captureCommand cmd =
     (case cmd of
        a # b # rest \<Rightarrow>
          if a = ''sh'' \<and> b = ''-c'' then (case rest of c # _ \<Rightarrow> Some c | [] \<Rightarrow> None) else Some (Join cmd '' '')
      | _ \<Rightarrow> Some (Join cmd '' ''))"

text \<open>
  \<open>execCapture\<close> after its session has come to \<open>s\<close>: nothing while \<open>Wait\<close> blocks, then what the
  reader goroutine has collected. The session is closed afterwards, which ends both readers.
\<close>

definition execCapture :: "dockerSession \<Rightarrow> (waitResult + bytes) option" where
  "execCapture s =
     (case sessionWait s of
        None \<Rightarrow> None
      | Some WaitOk \<Rightarrow> Some (Inr (ds_got s OnStdout))
      | Some e \<Rightarrow> Some (Inl e))"

definition homeScript :: string where
  "homeScript = ''printf %s '' @ [CHR 0x22] @ ''$HOME'' @ [CHR 0x22]"

datatype mkdir_error = MkCreate string | MkAttach string | MkInspect string | MkExit int bytes

datatype upload_error =
    UpNotStarted | UpEmptyPath | UpHome string | UpOpen string | UpStat string | UpMkdir string mkdir_error
  | UpTar string | UpCopy string

text \<open>\<open>home\<close> is the result of the capture.\<close>

definition resolveContainerPath :: "(string, bytes) result \<Rightarrow> string \<Rightarrow> (upload_error, string) result" where
  "resolveContainerPath home p =
     (if p = [] then Inl UpEmptyPath
      else if \<not> HasPrefix p ''~/'' \<and> p \<noteq> ''~'' then Inr p
      else case home of
        Inl err \<Rightarrow> Inl (UpHome err)
      | Inr out \<Rightarrow>
          (let h = TrimSpace out; h = (if h = [] then ''/root'' else h) in
           if p = ''~'' then Inr h else Inr (h @ drop 1 p)))"

section \<open>Uploading the agent\<close>

record tarHeader =
  th_Name :: string
  th_Mode :: int
  th_Size :: nat

text \<open>What is done in the container, in order.\<close>

datatype containerOp = ExecMkdir string | CopyTo string tarHeader bytes

text \<open>The daemon as far as an upload uses it, and the local file: its size when it was examined and what is read.\<close>

record dockerDaemon =
  dd_ExecCreate :: "string list \<Rightarrow> (string, string) result"
  dd_ExecAttach :: "string \<Rightarrow> (string, bytes) result"
  dd_ExecInspect :: "string \<Rightarrow> (string, int) result"
  dd_CopyTo :: "string \<Rightarrow> tarHeader \<Rightarrow> bytes \<Rightarrow> string option"

record localFile =
  lf_Stat :: "(string, nat) result"
  lf_Content :: "(string, bytes) result"

definition mkdirInContainer :: "dockerDaemon \<Rightarrow> string \<Rightarrow> mkdir_error option" where
  "mkdirInContainer D dir =
     (case dd_ExecCreate D [''mkdir'', ''-p'', dir] of Inl err \<Rightarrow> Some (MkCreate err) | Inr ident \<Rightarrow>
      case dd_ExecAttach D ident of Inl err \<Rightarrow> Some (MkAttach err) | Inr out \<Rightarrow>
      case dd_ExecInspect D ident of Inl err \<Rightarrow> Some (MkInspect err) | Inr code \<Rightarrow>
      if code \<noteq> 0 then Some (MkExit code out) else None)"

text \<open>
  The archive: the header promises a size, and the writer refuses a longer and, when it is closed, a
  shorter body.
\<close>

definition tarBody :: "tarHeader \<Rightarrow> (string, bytes) result \<Rightarrow> (upload_error, bytes) result" where
  "tarBody hdr content =
     (case content of
        Inl err \<Rightarrow> Inl (UpTar (''tar body: '' @ err))
      | Inr d \<Rightarrow>
          if length d > th_Size hdr then Inl (UpTar ''tar body: archive/tar: write too long'')
          else if length d < th_Size hdr then Inl (UpTar ''tar close: archive/tar: missed writing'')
          else Inr d)"

definition makeParent :: "dockerDaemon \<Rightarrow> string \<Rightarrow> upload_error option \<times> containerOp list" where
  "makeParent D parent =
     (if parent \<noteq> [] \<and> parent \<noteq> ''/'' \<and> parent \<noteq> ''.'' then
        (map_option (UpMkdir parent) (mkdirInContainer D parent), [ExecMkdir parent])
      else (None, []))"

definition copyFileToContainer ::
  "dockerDaemon \<Rightarrow> (string, localFile) result \<Rightarrow> string \<Rightarrow> int \<Rightarrow> upload_error option \<times> containerOp list" where
  "copyFileToContainer D src remotePath mode =
     (case src of Inl err \<Rightarrow> (Some (UpOpen err), []) | Inr f \<Rightarrow>
      case lf_Stat f of Inl err \<Rightarrow> (Some (UpStat err), []) | Inr n \<Rightarrow>
      let parent = Dir remotePath in
      case makeParent D parent of (Some e, ops) \<Rightarrow> (Some e, ops) | (None, ops) \<Rightarrow>
      let hdr = \<lparr>th_Name = Base remotePath, th_Mode = mode, th_Size = n\<rparr> in
      case tarBody hdr (lf_Content f) of Inl e \<Rightarrow> (Some e, ops) | Inr body \<Rightarrow>
      (map_option UpCopy (dd_CopyTo D parent hdr body), ops @ [CopyTo parent hdr body]))"

definition dockerUploadAgent ::
  "dockerBackend \<Rightarrow> dockerDaemon \<Rightarrow> (string, bytes) result \<Rightarrow> (string, localFile) result \<Rightarrow> string \<Rightarrow> int \<Rightarrow>
     (upload_error, string) result \<times> dockerBackend \<times> containerOp list" where
  "dockerUploadAgent b D home src remotePath mode =
     (if db_containerID b = [] then (Inl UpNotStarted, b, [])
      else case resolveContainerPath home remotePath of
        Inl e \<Rightarrow> (Inl e, b, [])
      | Inr resolved \<Rightarrow>
          (case copyFileToContainer D src resolved mode of
             (Some e, ops) \<Rightarrow> (Inl e, b, ops)
           | (None, ops) \<Rightarrow> (Inr resolved, b\<lparr>db_agentPath := resolved\<rparr>, ops)))"

section \<open>The file client\<close>

definition docker_shellQuote :: "string \<Rightarrow> string" where
  "docker_shellQuote s =
     (if s = [] then [quote, quote]
      else [quote] @ ReplaceAllByte s quote [quote, backslash, quote, quote] @ [quote])"

text \<open>
  \<open>newAgentFileClient\<close>: start the agent in a session, then probe it. The result is the session of the
  client or an error, and the session in either case.
\<close>

definition newAgentFileClient ::
  "(string list \<Rightarrow> string list \<Rightarrow> string + string) \<Rightarrow> (string \<Rightarrow> string option) \<Rightarrow> string option \<Rightarrow> string \<Rightarrow>
     string option \<times> dockerSession" where
  "newAgentFileClient create attach probe agentPath =
     (case sessionStart newSession create attach (docker_shellQuote agentPath) of
        (Some err, s) \<Rightarrow> (Some (''start file-op agent: '' @ err), s\<lparr>ds_cancelled := True\<rparr>)
      | (None, s) \<Rightarrow>
          (case probe of
             Some err \<Rightarrow> (Some (''probe file-op agent: '' @ err), sessionClose s)
           | None \<Rightarrow> (None, s)))"

text \<open>\<open>Files\<close> in three steps: read the state, create a client without the lock, publish it.\<close>

datatype filesBegin = FilesError string | FilesHave nat | FilesCreate string

definition dockerFilesBegin :: "dockerBackend \<Rightarrow> filesBegin" where
  "dockerFilesBegin b =
     (if db_containerID b = [] then FilesError ''docker backend: not started''
      else case db_fileClient b of
        Some c \<Rightarrow> FilesHave c
      | None \<Rightarrow> if db_agentPath b = [] then FilesError ''docker backend: agent not uploaded yet (call UploadAgent first)''
               else FilesCreate (db_agentPath b))"

text \<open>Publishing: the client to return, the one to close if the race was lost, and the backend.\<close>

definition dockerFilesPublish :: "dockerBackend \<Rightarrow> nat \<Rightarrow> nat \<times> nat set \<times> dockerBackend" where
  "dockerFilesPublish b c =
     (case db_fileClient b of
        None \<Rightarrow> (c, {}, b\<lparr>db_fileClient := Some c\<rparr>)
      | Some c' \<Rightarrow> (c', {c}, b))"

text \<open>\<open>Close\<close>: take the client under the lock, close it afterwards.\<close>

definition dockerCloseBegin :: "dockerBackend \<Rightarrow> nat set \<times> dockerBackend" where
  "dockerCloseBegin b = (set_option (db_fileClient b), b\<lparr>db_fileClient := None, db_connected := False\<rparr>)"

subsection \<open>Interleavings\<close>

text \<open>
  The goroutines that use the backend. Clients are numbered in the order in which they come up;
  \<open>bs_open\<close> are those whose session is open and \<open>bs_handed\<close> those that \<open>Files\<close> has returned.
\<close>

datatype backendPC = BIdle | BCreating string | BHolding nat | BClosing "nat set"

record backendSys =
  bs_backend :: dockerBackend
  bs_open :: "nat set"
  bs_next :: nat
  bs_handed :: "nat set"
  bs_pc :: "nat \<Rightarrow> backendPC"

datatype backendEvent =
    BvStart "string option" "string + string \<times> bool option" | BvUploaded string | BvFiles nat | BvFail nat | BvCreated nat | BvPublish nat
  | BvClose nat | BvClosed nat

inductive backend_step :: "backendEvent \<Rightarrow> backendSys \<Rightarrow> backendSys \<Rightarrow> bool" where
  b_start: "dockerStart (bs_backend s) ping insp = Some (e, b) \<Longrightarrow> backend_step (BvStart ping insp) s (s\<lparr>bs_backend := b\<rparr>)"
| b_uploaded: "db_containerID (bs_backend s) \<noteq> [] \<Longrightarrow>
    backend_step (BvUploaded p) s (s\<lparr>bs_backend := (bs_backend s)\<lparr>db_agentPath := p\<rparr>\<rparr>)"
| b_files_err: "bs_pc s t = BIdle \<Longrightarrow> dockerFilesBegin (bs_backend s) = FilesError err \<Longrightarrow> backend_step (BvFiles t) s s"
| b_files_have: "bs_pc s t = BIdle \<Longrightarrow> dockerFilesBegin (bs_backend s) = FilesHave c \<Longrightarrow>
    backend_step (BvFiles t) s (s\<lparr>bs_handed := insert c (bs_handed s)\<rparr>)"
| b_files_create: "bs_pc s t = BIdle \<Longrightarrow> dockerFilesBegin (bs_backend s) = FilesCreate p \<Longrightarrow>
    backend_step (BvFiles t) s (s\<lparr>bs_pc := (bs_pc s)(t := BCreating p)\<rparr>)"
| b_fail: "bs_pc s t = BCreating p \<Longrightarrow> backend_step (BvFail t) s (s\<lparr>bs_pc := (bs_pc s)(t := BIdle)\<rparr>)"
| b_created: "bs_pc s t = BCreating p \<Longrightarrow>
    backend_step (BvCreated t) s (s\<lparr>bs_pc := (bs_pc s)(t := BHolding (bs_next s)), bs_open := insert (bs_next s) (bs_open s),
      bs_next := bs_next s + 1\<rparr>)"
| b_publish: "bs_pc s t = BHolding c \<Longrightarrow> dockerFilesPublish (bs_backend s) c = (r, lost, b) \<Longrightarrow>
    backend_step (BvPublish t) s (s\<lparr>bs_backend := b, bs_open := bs_open s - lost, bs_handed := insert r (bs_handed s),
      bs_pc := (bs_pc s)(t := BIdle)\<rparr>)"
| b_close: "bs_pc s t = BIdle \<Longrightarrow> dockerCloseBegin (bs_backend s) = (cs, b) \<Longrightarrow>
    backend_step (BvClose t) s (s\<lparr>bs_backend := b, bs_pc := (bs_pc s)(t := BClosing cs)\<rparr>)"
| b_closed: "bs_pc s t = BClosing cs \<Longrightarrow>
    backend_step (BvClosed t) s (s\<lparr>bs_open := bs_open s - cs, bs_pc := (bs_pc s)(t := BIdle)\<rparr>)"

definition backendInit :: "dockerBackend \<Rightarrow> backendSys" where
  "backendInit b = \<lparr>bs_backend = b, bs_open = {}, bs_next = 0, bs_handed = {}, bs_pc = (\<lambda>_. BIdle)\<rparr>"

section \<open>Lemmas: clients\<close>

fun heldBy :: "backendPC \<Rightarrow> nat set" where
  "heldBy (BHolding c) = {c}"
| "heldBy (BClosing cs) = cs"
| "heldBy pc = {}"

definition backendInv :: "backendSys \<Rightarrow> bool" where
  "backendInv s \<longleftrightarrow> bs_open s = set_option (db_fileClient (bs_backend s)) \<union> (\<Union>t. heldBy (bs_pc s t)) \<and>
     (\<forall>t t'. t \<noteq> t' \<longrightarrow> heldBy (bs_pc s t) \<inter> heldBy (bs_pc s t') = {}) \<and>
     (\<forall>t. set_option (db_fileClient (bs_backend s)) \<inter> heldBy (bs_pc s t) = {}) \<and>
     (\<forall>c\<in>bs_open s. c < bs_next s)"

lemma backendInvI:
  assumes "bs_open s = set_option (db_fileClient (bs_backend s)) \<union> (\<Union>t. heldBy (bs_pc s t))"
    and "\<And>t t'. t \<noteq> t' \<Longrightarrow> heldBy (bs_pc s t) \<inter> heldBy (bs_pc s t') = {}"
    and "\<And>t. set_option (db_fileClient (bs_backend s)) \<inter> heldBy (bs_pc s t) = {}" and "\<And>c. c \<in> bs_open s \<Longrightarrow> c < bs_next s"
  shows "backendInv s"
  using assms by (auto simp: backendInv_def)

text \<open>Moving what goroutine \<open>t\<close> and the backend own, the owners of everything else being unchanged.\<close>

lemma heldBy_upd: "(\<Union>t'. heldBy ((pc(t := x)) t')) = heldBy x \<union> (\<Union>t'\<in>- {t}. heldBy (pc t'))"
  by (auto split: if_splits)

lemma heldBy_split: "(\<Union>t'. heldBy (pc t')) = heldBy (pc t) \<union> (\<Union>t'\<in>- {t}. heldBy (pc t'))"
  by auto

lemma backendInv_move:
  assumes inv: "backendInv s"
    and s': "bs_pc s' = (bs_pc s)(t := x)" "bs_open s' = set_option (db_fileClient (bs_backend s')) \<union> heldBy x \<union> (\<Union>t'\<in>- {t}. heldBy (bs_pc s t'))"
    and new: "set_option (db_fileClient (bs_backend s')) \<inter> heldBy x = {}" "bs_next s \<le> bs_next s'"
    and own: "set_option (db_fileClient (bs_backend s')) \<union> heldBy x
      \<subseteq> set_option (db_fileClient (bs_backend s)) \<union> heldBy (bs_pc s t) \<union> {bs_next s ..< bs_next s'}"
  shows "backendInv s'"
proof (rule backendInvI)
  let ?own = "set_option (db_fileClient (bs_backend s')) \<union> heldBy x"
  have below: "\<And>t' c. c \<in> heldBy (bs_pc s t') \<Longrightarrow> c < bs_next s" "\<And>c. c \<in> set_option (db_fileClient (bs_backend s)) \<Longrightarrow> c < bs_next s"
    using inv by (auto simp: backendInv_def)
  have others: "?own \<inter> heldBy (bs_pc s t') = {}" if "t' \<noteq> t" for t'
  proof -
    have "set_option (db_fileClient (bs_backend s)) \<inter> heldBy (bs_pc s t') = {}" "heldBy (bs_pc s t) \<inter> heldBy (bs_pc s t') = {}"
      using inv that by (auto simp: backendInv_def)
    moreover have "{bs_next s ..< bs_next s'} \<inter> heldBy (bs_pc s t') = {}" using below(1) [of _ t'] by fastforce
    ultimately show ?thesis using own by blast
  qed
  show "bs_open s' = set_option (db_fileClient (bs_backend s')) \<union> (\<Union>t. heldBy (bs_pc s' t))"
    unfolding s' heldBy_upd by (simp add: Un_assoc)
  show "heldBy (bs_pc s' t1) \<inter> heldBy (bs_pc s' t2) = {}" if "t1 \<noteq> t2" for t1 t2
    using that inv others [of t1] others [of t2] by (auto simp: s'(1) backendInv_def)
  show "set_option (db_fileClient (bs_backend s')) \<inter> heldBy (bs_pc s' t1) = {}" for t1
    using others [of t1] new(1) by (auto simp: s'(1))
  show "c < bs_next s'" if "c \<in> bs_open s'" for c
  proof -
    have "c \<in> ?own \<or> (\<exists>t'. c \<in> heldBy (bs_pc s t'))" using that unfolding s'(2) by blast
    then show ?thesis using own below new(2) by fastforce
  qed
qed

lemma backendInv_open: "backendInv s \<Longrightarrow>
  bs_open s = set_option (db_fileClient (bs_backend s)) \<union> heldBy (bs_pc s t) \<union> (\<Union>t'\<in>- {t}. heldBy (bs_pc s t'))"
  using heldBy_split [of "bs_pc s" t] by (auto simp: backendInv_def)

lemma backendInv_others: "backendInv s \<Longrightarrow> heldBy (bs_pc s t) \<inter> (\<Union>t'\<in>- {t}. heldBy (bs_pc s t')) = {}"
  "backendInv s \<Longrightarrow> set_option (db_fileClient (bs_backend s)) \<inter> (\<Union>t'\<in>- {t}. heldBy (bs_pc s t')) = {}"
  "backendInv s \<Longrightarrow> set_option (db_fileClient (bs_backend s)) \<inter> heldBy (bs_pc s t) = {}"
  by (auto simp: backendInv_def)

lemma dockerStart_client: "dockerStart b ping insp = Some (e, b') \<Longrightarrow> db_fileClient b' = db_fileClient b"
  by (auto simp: dockerStart_def startFail_def split: option.splits sum.splits if_splits)

text \<open>The new state of a step of goroutine \<open>t\<close>, its parts given as equations.\<close>

lemma backendInv_own:
  assumes "backendInv s" "bs_pc s' = (bs_pc s)(t := x)" "bs_next s \<le> bs_next s'"
    and "db_fileClient (bs_backend s') = fc" "set_option fc \<inter> heldBy x = {}"
    and "set_option fc \<union> heldBy x \<subseteq> set_option (db_fileClient (bs_backend s)) \<union> heldBy (bs_pc s t) \<union> {bs_next s ..< bs_next s'}"
    and "bs_open s' = (bs_open s \<union> {bs_next s ..< bs_next s'}) - gone"
    and "set_option (db_fileClient (bs_backend s)) \<union> heldBy (bs_pc s t) \<union> {bs_next s ..< bs_next s'} = set_option fc \<union> heldBy x \<union> gone"
    and "gone \<inter> (set_option fc \<union> heldBy x) = {}" "gone \<subseteq> heldBy (bs_pc s t)"
  shows "backendInv s'"
proof (rule backendInv_move [OF assms(1,2)])
  have o: "bs_open s = set_option (db_fileClient (bs_backend s)) \<union> heldBy (bs_pc s t) \<union> (\<Union>t'\<in>- {t}. heldBy (bs_pc s t'))"
    by (rule backendInv_open [OF assms(1)])
  have g: "gone \<inter> (\<Union>t'\<in>- {t}. heldBy (bs_pc s t')) = {}" using backendInv_others(1) [OF assms(1), of t] assms(10) by blast
  have "bs_open s' = (set_option fc \<union> heldBy x \<union> gone \<union> (\<Union>t'\<in>- {t}. heldBy (bs_pc s t'))) - gone"
    unfolding assms(7) o assms(8) [symmetric] by blast
  then show "bs_open s' = set_option (db_fileClient (bs_backend s')) \<union> heldBy x \<union> (\<Union>t'\<in>- {t}. heldBy (bs_pc s t'))"
    unfolding assms(4) using g assms(9) by blast
qed (use assms in simp_all)

lemma backendInv_step: "backend_step e s s' \<Longrightarrow> backendInv s \<Longrightarrow> backendInv s'"
proof (induction rule: backend_step.induct)
  case (b_start s ping insp e b)
  then show ?case using dockerStart_client [OF b_start(1)] by (simp add: backendInv_def)
next
  case (b_files_create s t p)
  then show ?case by (intro backendInv_own [OF b_files_create.prems, where t = t and x = "BCreating p" and gone = "{}"]) (auto intro: backendInv_others)
next
  case (b_fail s t p)
  then show ?case by (intro backendInv_own [OF b_fail.prems, where t = t and x = BIdle and gone = "{}"]) auto
next
  case (b_created s t p)
  have "bs_next s \<notin> set_option (db_fileClient (bs_backend s))" using b_created.prems by (auto simp: backendInv_def)
  then show ?case using b_created.hyps
    by (intro backendInv_own [OF b_created.prems, where t = t and x = "BHolding (bs_next s)" and gone = "{}"]) auto
next
  case (b_publish s t c r lost b)
  have "c \<notin> set_option (db_fileClient (bs_backend s))" using backendInv_others(3) [OF b_publish.prems, of t] b_publish.hyps by auto
  then show ?case using b_publish.hyps
    by (intro backendInv_own [OF b_publish.prems, where t = t and x = BIdle and gone = lost])
      (auto simp: dockerFilesPublish_def split: option.splits)
next
  case (b_close s t cs b)
  then show ?case
    by (intro backendInv_own [OF b_close.prems, where t = t and x = "BClosing cs" and gone = "{}"]) (auto simp: dockerCloseBegin_def)
next
  case (b_closed s t cs)
  have "cs \<inter> set_option (db_fileClient (bs_backend s)) = {}" using backendInv_others(3) [OF b_closed.prems, of t] b_closed.hyps by auto
  then show ?case using b_closed.hyps by (intro backendInv_own [OF b_closed.prems, where t = t and x = BIdle and gone = cs]) auto
qed (simp_all add: backendInv_def)

interpretation backend_inv: run_invariant backend_step "\<lambda>_. True" backendInv
  by unfold_locales (rule backendInv_step)

text \<open>As long as nobody closes the backend, everybody has the same client.\<close>

interpretation backend_shared: run_invariant backend_step "\<lambda>e. \<forall>t. e \<noteq> BvClose t"
  "\<lambda>s. bs_handed s \<subseteq> set_option (db_fileClient (bs_backend s))"
proof
  fix s e s'
  assume "bs_handed s \<subseteq> set_option (db_fileClient (bs_backend s))" "\<forall>t. e \<noteq> BvClose t" "backend_step e s s'"
  then show "bs_handed s' \<subseteq> set_option (db_fileClient (bs_backend s'))"
    by (elim backend_step.cases)
      (auto simp: dockerFilesBegin_def dockerFilesPublish_def dest!: dockerStart_client split: if_splits option.splits)
qed

section \<open>Lemmas: the upload\<close>

text \<open>The files that a sequence of operations leaves: an archive is unpacked below its directory.\<close>

fun containerFiles :: "containerOp list \<Rightarrow> (string \<rightharpoonup> int \<times> bytes)" where
  "containerFiles [] = Map.empty"
| "containerFiles (ExecMkdir d # ops) = containerFiles ops"
| "containerFiles (CopyTo d hdr body # ops) = [JoinPath [d, th_Name hdr] \<mapsto> (th_Mode hdr, body)] ++ containerFiles ops"

lemma copyFileToContainer_ok:
  assumes "copyFileToContainer D (Inr f) p mode = (None, ops)"
  shows "\<exists>body. lf_Content f = Inr body \<and>
    ops = (if Dir p \<noteq> [] \<and> Dir p \<noteq> ''/'' \<and> Dir p \<noteq> ''.'' then [ExecMkdir (Dir p)] else []) @
      [CopyTo (Dir p) \<lparr>th_Name = Base p, th_Mode = mode, th_Size = length body\<rparr> body]"
  using assms by (auto simp: copyFileToContainer_def makeParent_def tarBody_def Let_def
      split: sum.splits prod.splits option.splits if_splits)

lemma dockerUploadAgent_ok:
  assumes "dockerUploadAgent b D home src remotePath mode = (Inr p, b', ops)"
  shows "resolveContainerPath home remotePath = Inr p" "copyFileToContainer D src p mode = (None, ops)"
    "b' = b\<lparr>db_agentPath := p\<rparr>" "db_containerID b \<noteq> []"
  using assms by (auto simp: dockerUploadAgent_def split: if_splits sum.splits prod.splits option.splits)

lemma docker_shellQuote_word: "shWords (docker_shellQuote p) = Some [Word p]"
  using unquoted_shellQuote [of None p "[]"] by (simp add: shWords_def docker_shellQuote_def shellQuote_def soFar_def flush_def)

lemma newAgentFileClient_ok:
  assumes "fst (newAgentFileClient create attach probe p) = None"
  shows "\<exists>x. create [] [''sh'', ''-c'', docker_shellQuote p] = Inr x \<and> attach x = None \<and> probe = None"
  using assms by (auto simp: newAgentFileClient_def sessionStart_def newSession_def execCmd_def Let_def
      split: prod.splits option.splits if_splits sum.splits)

section \<open>Properties\<close>


definition exampleBackend :: dockerBackend where
  "exampleBackend = \<lparr>db_Container = ''web'', db_containerID = ''0123456789ab'', db_connected = True, db_lastErr = None,
     db_fileClient = None, db_agentPath = ''/opt/agent''\<rparr>"


text \<open>
  C22. The file service runs the uploaded binary: when an upload to a path of the container that names
  a file succeeds, the container has, at that path, a file with the requested mode and the bytes of
  the local file, below a directory that was created first; and from then on the backend's file
  client can come up only through an exec whose shell command is the one word that is that path,
  whatever characters it contains.
\<close>

theorem docker_agent_deployed:
  assumes "dockerUploadAgent b D home (Inr f) remotePath mode = (Inr p, b', ops)" "db_fileClient b = None"
    and "p = d @ ''/'' @ n" "d = [] \<or> IsAbs d" "n \<noteq> []" "CHR ''/'' \<notin> set n"
  shows "(\<exists>body. lf_Content f = Inr body \<and> containerFiles ops (Clean p) = Some (mode, body)) \<and>
    (Dir p = ''/'' \<or> hd ops = ExecMkdir (Dir p)) \<and> dockerFilesBegin b' = FilesCreate p \<and>
    (\<exists>cmd. shWords cmd = Some [Word p] \<and> (\<forall>create attach probe. fst (newAgentFileClient create attach probe p) = None \<longrightarrow>
       (\<exists>x. create [] [''sh'', ''-c'', cmd] = Inr x \<and> attach x = None \<and> probe = None)))"
proof -
  note up = dockerUploadAgent_ok [OF assms(1)]
  have dir: "Dir p = Clean (d @ ''/'')" and base: "Base p = n" using Dir_leaf [OF assms(6)] Base_leaf [OF assms(5,6)] assms(3) by simp_all
  have "IsAbs (d @ ''/'')" using assms(4) by (cases d) (auto simp: IsAbs_def)
  then have abs: "IsAbs (Dir p)" unfolding dir by simp
  obtain body where body: "lf_Content f = Inr body" "ops = (if Dir p \<noteq> [] \<and> Dir p \<noteq> ''/'' \<and> Dir p \<noteq> ''.'' then [ExecMkdir (Dir p)] else []) @
      [CopyTo (Dir p) \<lparr>th_Name = n, th_Mode = mode, th_Size = length body\<rparr> body]"
    using copyFileToContainer_ok [OF up(2)] base by auto
  have "JoinPath [Dir p, n] = Clean p" using Clean_child [OF assms(4-6)] dir assms(3) by simp
  then have "containerFiles ops (Clean p) = Some (mode, body)" using body(2) by simp
  moreover have "Dir p = ''/'' \<or> hd ops = ExecMkdir (Dir p)" using abs body(2) by (auto simp: IsAbs_def)
  moreover have "dockerFilesBegin b' = FilesCreate p" using up(3,4) assms(2,3) by (simp add: dockerFilesBegin_def)
  ultimately show ?thesis using body(1) docker_shellQuote_word [of p] newAgentFileClient_ok [of _ _ _ p] by blast
qed

definition exampleDaemon :: dockerDaemon where
  "exampleDaemon = \<lparr>dd_ExecCreate = (\<lambda>_. Inr ''x''), dd_ExecAttach = (\<lambda>_. Inr []), dd_ExecInspect = (\<lambda>_. Inr 0), dd_CopyTo = (\<lambda>_ _ _. None)\<rparr>"

definition exampleUpload :: "containerOp list" where
  "exampleUpload = [ExecMkdir ''/opt'', CopyTo ''/opt'' \<lparr>th_Name = ''it''@[quote]@''s'', th_Mode = 493, th_Size = 3\<rparr> ''elf'']"

theorem docker_agent_deployed_witness:
  "containerFiles exampleUpload (''/opt/it'' @ [quote] @ ''s'') = Some (493, ''elf'')"
proof -
  let ?p = "''/opt'' @ ''/'' @ (''it'' @ [quote] @ ''s'')"
  let ?f = "\<lparr>lf_Stat = Inr 3, lf_Content = Inr ''elf''\<rparr>"
  have 1: "Dir ?p = ''/opt''" "Base ?p = ''it'' @ [quote] @ ''s''" "Clean ?p = ?p" by code_simp+
  have u: "dockerUploadAgent exampleBackend exampleDaemon (Inr []) (Inr ?f) ?p 493
      = (Inr ?p, exampleBackend\<lparr>db_agentPath := ?p\<rparr>, exampleUpload)"
    using 1 by (simp add: dockerUploadAgent_def exampleBackend_def resolveContainerPath_def copyFileToContainer_def makeParent_def
        mkdirInContainer_def exampleDaemon_def tarBody_def exampleUpload_def Let_def)
  show ?thesis using docker_agent_deployed [OF u _ refl] 1 by (simp add: exampleBackend_def IsAbs_def)
qed

end
