(* ===== verification/NetDialer.thy ===== *)
theory NetDialer
  imports Prelude
begin

text \<open>
  \<open>pkg/dialer/dialer.go\<close> and its build variants: the \<open>net.Dialer\<close> with a local source address and an
  interface, which both backends use.
\<close>

section \<open>Local binding\<close>

text \<open>An address of an interface: not an IP network, or an IP with what \<open>IsGlobalUnicast\<close> and \<open>To4\<close> say of it.\<close>

record ifaceAddr =
  ia_IPNet :: bool
  ia_IP :: "string option"
  ia_GlobalUnicast :: bool
  ia_To4 :: "string option"

record netHost =
  nh_ParseIP :: "string \<Rightarrow> string option"
  nh_Interface :: "string \<Rightarrow> (string, (string, ifaceAddr list) result) result"
  nh_Linux :: bool

datatype bind_error = BindLookup string string | BindAddrs string string | BindNoAddr string | BindUnsupported string

fun bindLoop :: "string \<Rightarrow> string option \<Rightarrow> ifaceAddr list \<Rightarrow> (bind_error, string) result" where
  "bindLoop bind v6 [] = (case v6 of Some ip \<Rightarrow> Inr ip | None \<Rightarrow> Inl (BindNoAddr bind))"
| "bindLoop bind v6 (a # as) =
     (if \<not> ia_IPNet a \<or> ia_IP a = None \<or> \<not> ia_GlobalUnicast a then bindLoop bind v6 as
      else case ia_To4 a of
        Some ip4 \<Rightarrow> Inr ip4
      | None \<Rightarrow> bindLoop bind (if v6 = None then ia_IP a else v6) as)"

definition ResolveBindAddr :: "netHost \<Rightarrow> string \<Rightarrow> (bind_error, string) result" where
  "ResolveBindAddr N bind =
     (case nh_ParseIP N bind of
        Some ip \<Rightarrow> Inr ip
      | None \<Rightarrow> (case nh_Interface N bind of
          Inl err \<Rightarrow> Inl (BindLookup bind err)
        | Inr (Inl err) \<Rightarrow> Inl (BindAddrs bind err)
        | Inr (Inr addrs) \<Rightarrow> bindLoop bind None addrs))"

text \<open>The control hook: the interface of \<open>SO_BINDTODEVICE\<close>, if any; an error elsewhere than on Linux.\<close>

definition newBindControl :: "netHost \<Rightarrow> string \<Rightarrow> (bind_error, string option) result" where
  "newBindControl N iface =
     (if iface = [] then Inr None
      else if nh_Linux N then Inr (Some iface) else Inl (BindUnsupported iface))"

text \<open>A \<open>net.Dialer\<close>; times are in nanoseconds, and a zero timeout means none.\<close>

abbreviation second :: int where "second \<equiv> 1000000000"

record netDialer =
  nd_LocalAddr :: "string option"
  nd_Device :: "string option"
  nd_Timeout :: int

definition newDialer :: "netHost \<Rightarrow> string \<Rightarrow> string \<Rightarrow> (bind_error, netDialer) result" where
  "newDialer N bind iface =
     bindR (if bind = [] then Inr None else map_sum id Some (ResolveBindAddr N bind)) (\<lambda>localAddr.
     bindR (newBindControl N iface) (\<lambda>control.
     Inr \<lparr>nd_LocalAddr = localAddr, nd_Device = control, nd_Timeout = 0\<rparr>))"

section \<open>Lemmas\<close>

text \<open>The addresses of an interface that may be bound.\<close>

definition bindable :: "ifaceAddr \<Rightarrow> bool" where
  "bindable a \<longleftrightarrow> ia_IPNet a \<and> ia_IP a \<noteq> None \<and> ia_GlobalUnicast a"

text \<open>Their IPv4 addresses, and all their addresses; the first IPv4 address is chosen, or else the first one.\<close>

definition bindIP4 :: "ifaceAddr list \<Rightarrow> string list" where
  "bindIP4 = List.map_filter (\<lambda>a. if bindable a then ia_To4 a else None)"

definition bindIPs :: "ifaceAddr list \<Rightarrow> string list" where
  "bindIPs = List.map_filter (\<lambda>a. if bindable a then ia_IP a else None)"

lemma bindLoop_choice:
  "bindLoop bind v6 as =
     (case bindIP4 as @ (case v6 of Some ip \<Rightarrow> [ip] | None \<Rightarrow> bindIPs as) of ip # _ \<Rightarrow> Inr ip | [] \<Rightarrow> Inl (BindNoAddr bind))"
proof (induction as arbitrary: v6)
  case (Cons a as)
  show ?case
  proof (cases "bindable a")
    case True
    then show ?thesis using Cons
      by (cases "ia_To4 a"; cases v6) (auto simp: bindable_def bindIP4_def bindIPs_def List.map_filter_simps split: list.splits)
  next
    case False
    then have "bindLoop bind v6 (a # as) = bindLoop bind v6 as" by (auto simp: bindable_def)
    moreover have "bindIP4 (a # as) = bindIP4 as" "bindIPs (a # as) = bindIPs as"
      using False by (simp_all add: bindIP4_def bindIPs_def List.map_filter_simps)
    ultimately show ?thesis using Cons.IH [of v6] by (simp only:)
  qed
qed (simp add: bindIP4_def bindIPs_def List.map_filter_simps split: option.splits)

lemma ResolveBindAddr_interface:
  assumes "nh_ParseIP N bind = None" "nh_Interface N bind = Inr (Inr as)"
  shows "ResolveBindAddr N bind = (case bindIP4 as @ bindIPs as of ip # _ \<Rightarrow> Inr ip | [] \<Rightarrow> Inl (BindNoAddr bind))"
  using assms by (simp add: ResolveBindAddr_def bindLoop_choice)

end
