(* ===== verification/SshConn.thy ===== *)
theory SshConn
  imports ConnManager NetDialer Platform
begin

text \<open>
  \<open>pkg/sshconn/dialer.go\<close> and \<open>pkg/remote/ssh/backend.go\<close>: resolving the address of the SSH server, one
  connection with its cached SFTP client, and the backend on top of the connection manager.
\<close>

section \<open>The dialer\<close>

record DialConfig =
  dc_Host :: string
  dc_User :: string
  dc_Port :: int
  dc_Timeout :: int
  dc_Bind :: string
  dc_BindInterface :: string

text \<open>The options that \<open>ssh_config\<close> resolves to; \<^const>\<open>None\<close> is a nil pointer. The library is a parameter.\<close>

record sshOpts =
  so_User :: "string option"
  so_Hostname :: "string option"
  so_Port :: "int option"
  so_ConnectTimeout :: "int option"
  so_ServerAliveInterval :: "int option"

record sshLookup =
  sl_Resolve :: "string \<Rightarrow> string \<Rightarrow> int \<Rightarrow> (string, sshOpts) result"
  sl_ClientConfig :: "sshOpts \<Rightarrow> string option"

datatype dialer_error = NoSSHHost | ResolveError string | ClientConfigError string | BindingError bind_error

text \<open>
  The dialer: its address, the keepalive interval, the \<open>net.Dialer\<close> that opens the TCP connection, and
  the options from which the SSH client configuration was built.
\<close>

record sshDialer =
  sd_Addr :: string
  sd_KeepAlive :: int
  sd_Net :: netDialer
  sd_Opts :: sshOpts

definition showInt :: "int \<Rightarrow> string" where
  "showInt i = (if i < 0 then ''-'' @ showNat (nat (- i)) else showNat (nat i))"

text \<open>\<open>net.JoinHostPort\<close>\<close>

definition JoinHostPort :: "string \<Rightarrow> string \<Rightarrow> string" where
  "JoinHostPort host port =
     (if CHR '':'' \<in> set host then ''['' @ host @ '']:'' @ port else host @ '':'' @ port)"

definition withTimeout :: "int \<Rightarrow> sshOpts \<Rightarrow> sshOpts" where
  "withTimeout t opts =
     (if 0 < t \<and> (so_ConnectTimeout opts = None \<or> so_ConnectTimeout opts = Some 0)
      then let secs = t div second in opts\<lparr>so_ConnectTimeout := Some (if secs < 1 then 1 else secs)\<rparr>
      else opts)"

definition NewDialer :: "sshLookup \<Rightarrow> netHost \<Rightarrow> DialConfig \<Rightarrow> (dialer_error, sshDialer) result" where
  "NewDialer L N cfg =
     (if dc_Host cfg = [] then Inl NoSSHHost
      else case sl_Resolve L (dc_Host cfg) (dc_User cfg) (dc_Port cfg) of
        Inl err \<Rightarrow> Inl (ResolveError err)
      | Inr opts0 \<Rightarrow>
          (let opts = withTimeout (dc_Timeout cfg) opts0 in
           case sl_ClientConfig L opts of
             Some err \<Rightarrow> Inl (ClientConfigError err)
           | None \<Rightarrow>
               (let host = (case so_Hostname opts of None \<Rightarrow> [] | Some h \<Rightarrow> h);
                    port = (case so_Port opts of None \<Rightarrow> 22 | Some p \<Rightarrow> p);
                    keepalive = (case so_ServerAliveInterval opts of None \<Rightarrow> 0 | Some i \<Rightarrow> if 0 < i then i * second else 0)
                in case newDialer N (dc_Bind cfg) (dc_BindInterface cfg) of
                     Inl err \<Rightarrow> Inl (BindingError err)
                   | Inr d \<Rightarrow> Inr \<lparr>sd_Addr = JoinHostPort host (showInt port), sd_KeepAlive = keepalive, sd_Net = d, sd_Opts = opts\<rparr>)))"

section \<open>A connection\<close>

text \<open>
  \<open>sshConn\<close>: whether its client is there, and its SFTP client. A method that uses a nil client
  panics.
\<close>

record sshConn =
  sc_client :: bool
  sc_sftp :: bool

datatype 'a call_result = Panic | CallError string | CallOk 'a

text \<open>\<open>dialSSH\<close>: the outcome of the TCP connection and of the handshake; the last component says whether the TCP connection stays open.\<close>

definition dialSSH :: "string option \<Rightarrow> string option \<Rightarrow> (string, sshConn) result \<times> bool" where
  "dialSSH tcpErr handshakeErr =
     (case tcpErr of
        Some err \<Rightarrow> (Inl (''dial ssh: '' @ err), False)
      | None \<Rightarrow> (case handshakeErr of
          Some err \<Rightarrow> (Inl (''create ssh client conn: '' @ err), False)
        | None \<Rightarrow> (Inr \<lparr>sc_client = True, sc_sftp = False\<rparr>, True)))"

definition connNewSFTP :: "sshConn \<Rightarrow> string option \<Rightarrow> unit call_result \<times> sshConn" where
  "connNewSFTP c err =
     (if sc_sftp c then (CallOk (), c)
      else if \<not> sc_client c then (Panic, c)
      else case err of Some e \<Rightarrow> (CallError (''create sftp client: '' @ e), c) | None \<Rightarrow> (CallOk (), c\<lparr>sc_sftp := True\<rparr>))"

definition connNewSession :: "sshConn \<Rightarrow> string option \<Rightarrow> unit call_result" where
  "connNewSession c err =
     (if \<not> sc_client c then Panic
      else case err of Some e \<Rightarrow> CallError (''create ssh session: '' @ e) | None \<Rightarrow> CallOk ())"

definition connServerVersion :: "sshConn \<Rightarrow> string \<Rightarrow> string" where
  "connServerVersion c v = (if \<not> sc_client c then [] else v)"

definition connSendKeepAlive :: "sshConn \<Rightarrow> string option \<Rightarrow> unit call_result" where
  "connSendKeepAlive c err =
     (if \<not> sc_client c then Panic
      else case err of Some e \<Rightarrow> CallError (''ssh keepalive failed: '' @ e) | None \<Rightarrow> CallOk ())"

text \<open>\<open>Close\<close>: the errors of the two clients, the first of which is returned.\<close>

definition connClose :: "sshConn \<Rightarrow> string option \<Rightarrow> string option \<Rightarrow> string option \<times> sshConn" where
  "connClose c sftpErr clientErr =
     (let e1 = (if sc_sftp c then sftpErr else None);
          e2 = (if sc_client c then clientErr else None)
      in ((case e1 of Some e \<Rightarrow> Some e | None \<Rightarrow> e2), \<lparr>sc_client = False, sc_sftp = False\<rparr>))"

text \<open>The connection with number \<open>c\<close> of the manager: open with its SFTP client, or closed.\<close>

definition managedConn :: "manager \<Rightarrow> nat \<Rightarrow> sshConn" where
  "managedConn m c = \<lparr>sc_client = (c \<in> mg_open m), sc_sftp = (c \<in> mg_open m \<and> mg_sftp m = Some c)\<rparr>"

section \<open>The backend\<close>

record sshConfig =
  sf_Host :: string
  sf_User :: string
  sf_Port :: int
  sf_ConnectTimeout :: int
  sf_Bind :: string
  sf_BindInterface :: string

text \<open>\<open>New\<close>: the address and the keepalive interval of the dialer, and a manager that is not started.\<close>

record sshBackend =
  sb_cfg :: sshConfig
  sb_addr :: string
  sb_manager :: manager
  sb_dialer :: sshDialer

datatype ssh_new_error = SSHHostRequired | SSHDialer dialer_error

definition newSSHBackend :: "sshLookup \<Rightarrow> netHost \<Rightarrow> sshConfig \<Rightarrow> (ssh_new_error, sshBackend) result" where
  "newSSHBackend L N cfg =
     (if sf_Host cfg = [] then Inl SSHHostRequired
      else let timeout = (if sf_ConnectTimeout cfg = 0 then 10 * second else sf_ConnectTimeout cfg) in
        case NewDialer L N \<lparr>dc_Host = sf_Host cfg, dc_User = sf_User cfg, dc_Port = sf_Port cfg, dc_Timeout = timeout,
               dc_Bind = sf_Bind cfg, dc_BindInterface = sf_BindInterface cfg\<rparr> of
          Inl err \<Rightarrow> Inl (SSHDialer err)
        | Inr d \<Rightarrow> Inr \<lparr>sb_cfg = cfg, sb_addr = sd_Addr d, sb_manager = NewManager, sb_dialer = d\<rparr>)"

text \<open>
  The waiting loop of \<open>Start\<close>, over what it sees: the manager at each turn, and which channel was
  ready. \<^const>\<open>None\<close> while it still waits.
\<close>

datatype startWake = WakeTick | WakeTimer | WakeDone string

fun startWait :: "(manager \<times> startWake) list \<Rightarrow> string option option" where
  "startWait [] = None"
| "startWait ((m, w) # rest) =
     (if IsConnected m then Some None
      else case w of
        WakeDone err \<Rightarrow> Some (Some err)
      | WakeTimer \<Rightarrow> Some (Some (case mg_lastErr m of
            Some err \<Rightarrow> ''timed out waiting for ssh connection: '' @ err
          | None \<Rightarrow> ''timed out waiting for persistent ssh connection''))
      | WakeTick \<Rightarrow> startWait rest)"

definition sshDetectPlatform :: "manager \<Rightarrow> string \<Rightarrow> (string, PlatformInfo) result" where
  "sshDetectPlatform m version =
     (case mg_conn m of
        None \<Rightarrow> Inl ''ssh detect: connection not ready''
      | Some c \<Rightarrow> parseServerVersion (connServerVersion (managedConn m c) version))"

section \<open>Lemmas\<close>

lemma newDialer_ok: "newDialer N bind iface = Inr d \<Longrightarrow> nd_Timeout d = 0"
  by (auto simp: newDialer_def bindR_eq_Inr split: if_splits)

lemma NewDialer_ok:
  assumes "NewDialer L N cfg = Inr d"
  shows "\<exists>opts. sl_Resolve L (dc_Host cfg) (dc_User cfg) (dc_Port cfg) = Inr opts \<and> sd_Opts d = withTimeout (dc_Timeout cfg) opts \<and>
    newDialer N (dc_Bind cfg) (dc_BindInterface cfg) = Inr (sd_Net d) \<and> dc_Host cfg \<noteq> []"
  using assms by (auto simp: NewDialer_def Let_def split: if_splits sum.splits option.splits)

interpretation manager_gone: step_invariant manager_step "\<lambda>m. managerInv m \<and> c < mg_next m \<and> c \<notin> mg_open m" for c
proof
  fix m m'
  assume i: "managerInv m \<and> c < mg_next m \<and> c \<notin> mg_open m" and st: "manager_step m m'"
  have "c < mg_next m' \<and> c \<notin> mg_open m'" using st i
    by (cases rule: manager_step.cases) (auto simp: startManager_def dialFailed_def dialled_def sftpFailed_def connected_def
        closeLocked_def loopCheck_def reconnectTick_def keepAliveTick_def)
  then show "managerInv m' \<and> c < mg_next m' \<and> c \<notin> mg_open m'" using managerInv_step [OF st] i by blast
qed

section \<open>Properties\<close>

text \<open>
  C33. A session request that races with a disconnect panics: \<open>NewSession\<close> of the manager reads the
  current connection under the lock and uses it after releasing the lock, and a closed connection has
  no client. So when the connection is no longer open at the time it is used (a failed keepalive, a
  reconnect or a shutdown came in between), the call dereferences a nil pointer, whatever the
  manager's state is by then; the same request against the state it was issued in does not panic.
\<close>

theorem session_race_panics:
  assumes "manager_reach m" "NewSessionConn m = Inr c" "manager_step\<^sup>*\<^sup>* m m1" "c \<notin> mg_open m1" "manager_step\<^sup>*\<^sup>* m1 m2"
  shows "connNewSession (managedConn m2 c) err = Panic \<and> connNewSession (managedConn m c) err \<noteq> Panic"
proof -
  have i: "managerInv m" using managerInv_reach [OF assms(1)] .
  have c: "c \<in> mg_open m" "c < mg_next m"
    using i assms(2) by (auto simp: managerInv_def NewSessionConn_def split: option.splits)
  have mono: "manager_step m m' \<Longrightarrow> mg_next m \<le> mg_next m'" for m m'
    by (cases rule: manager_step.cases) (auto simp: startManager_def dialFailed_def dialled_def sftpFailed_def connected_def
        closeLocked_def loopCheck_def reconnectTick_def keepAliveTick_def)
  have "mg_next m \<le> mg_next m1" using assms(3) by (induction rule: rtranclp_induct) (auto dest: mono)
  then have "c \<notin> mg_open m2"
    using manager_gone.kept_steps [OF assms(5), of c] manager_inv.kept_steps [OF assms(3) i] assms(4) c(2) by auto
  then show ?thesis using c(1) by (simp add: connNewSession_def managedConn_def split: option.split)
qed

theorem session_race_panics_witness: "connNewSession (managedConn (closeLocked exampleManager) 0) None = Panic"
proof -
  have e: "NewSessionConn exampleManager = Inr 0" "0 \<notin> mg_open (closeLocked exampleManager)"
    by (simp_all add: NewSessionConn_def exampleManager_def connected_def closeLocked_def dialled_def startManager_def NewManager_def)
  show ?thesis using session_race_panics [OF exampleManager_reach e(1) _ e(2) rtranclp.rtrancl_refl] m_close [of exampleManager] by blast
qed

text \<open>
  The connect timeout is computed and not used: whatever timeout the caller asks for and whatever
  \<open>ssh_config\<close> sets, the dialer that opens the TCP connection has none; the timeout only ends up in
  the options of the SSH handshake, at least one second and with the configured value taking precedence.
\<close>

theorem ssh_timeout_ignored:
  assumes "NewDialer L N cfg = Inr d" "0 < dc_Timeout cfg"
  shows "nd_Timeout (sd_Net d) = 0 \<and> (\<exists>t. so_ConnectTimeout (sd_Opts d) = Some t \<and> t \<noteq> 0)"
proof -
  obtain opts where o: "sd_Opts d = withTimeout (dc_Timeout cfg) opts" "newDialer N (dc_Bind cfg) (dc_BindInterface cfg) = Inr (sd_Net d)"
    using NewDialer_ok [OF assms(1)] by blast
  show ?thesis using newDialer_ok [OF o(2)] assms(2)
    by (cases "so_ConnectTimeout opts") (auto simp: o(1) withTimeout_def Let_def)
qed

definition exampleLookup :: sshLookup where
  "exampleLookup = \<lparr>sl_Resolve = (\<lambda>h u p. Inr \<lparr>so_User = None, so_Hostname = Some h, so_Port = Some p, so_ConnectTimeout = None,
     so_ServerAliveInterval = Some 30\<rparr>), sl_ClientConfig = (\<lambda>_. None)\<rparr>"

definition exampleNet :: netHost where
  "exampleNet = \<lparr>nh_ParseIP = (\<lambda>s. None), nh_Interface = (\<lambda>_. Inl ''no such network interface''), nh_Linux = True\<rparr>"

definition exampleDialConfig :: DialConfig where
  "exampleDialConfig = \<lparr>dc_Host = ''fe80::1'', dc_User = [], dc_Port = 2222, dc_Timeout = 10 * second, dc_Bind = [], dc_BindInterface = ''vrf0''\<rparr>"

theorem ssh_timeout_ignored_witness:
  "\<exists>d. NewDialer exampleLookup exampleNet exampleDialConfig = Inr d \<and> sd_Addr d = ''[fe80::1]:2222'' \<and> nd_Timeout (sd_Net d) = 0"
proof -
  let ?d = "\<lparr>sd_Addr = ''[fe80::1]:2222'', sd_KeepAlive = 30 * second, sd_Net = \<lparr>nd_LocalAddr = None, nd_Device = Some ''vrf0'', nd_Timeout = 0\<rparr>,
    sd_Opts = \<lparr>so_User = None, so_Hostname = Some ''fe80::1'', so_Port = Some 2222, so_ConnectTimeout = Some 10, so_ServerAliveInterval = Some 30\<rparr>\<rparr>"
  have p: "showInt 2222 = ''2222''" by code_simp
  have "NewDialer exampleLookup exampleNet exampleDialConfig = Inr ?d"
    by (simp add: NewDialer_def exampleLookup_def exampleNet_def exampleDialConfig_def withTimeout_def newDialer_def newBindControl_def
        JoinHostPort_def p)
  then show ?thesis using ssh_timeout_ignored [of exampleLookup exampleNet exampleDialConfig ?d] by (simp add: exampleDialConfig_def)
qed

end
