(* ===== verification/DockerContext.thy ===== *)
theory DockerContext
  imports Platform DockerBackend SshConn
begin

text \<open>
  Which Docker daemon is used and how it is reached: \<open>pkg/remote/docker/contextresolver.go\<close>,
  \<open>pkg/remote/docker/sshdaemon.go\<close> with its two build variants, and the
  selection of a Compose container in \<open>pkg/remote/docker/compose.go\<close>. The options of the Docker client
  are data; the environment, the decoded files and the network interfaces are arguments.
\<close>

section \<open>Client options\<close>

datatype daemonDial = DialTCP netDialer | DialHelper string | DialBuiltinSSH sshDialer string

datatype clientOpt =
    FromEnv | WithHost string | WithTLSClientConfig string string string | WithInsecureHTTPClient | WithDialContext daemonDial

datatype context_error =
    CtxNotFound string | CtxRead string string | CtxParse string | CtxNoEndpoint string | CtxEndpoint string
  | CtxBinding bind_error | CtxHelper string string | CtxNoHelper string | CtxURL string | CtxPort string string | CtxDialer dialer_error | CtxNoSSH

text \<open>
  The host: environment variables (empty when unset), existing files, \<open>config.json\<close> decoded (\<^const>\<open>None\<close>
  when it cannot be read or parsed), the metadata of a context, SHA-256 as the lower-case hex of a name,
  and the connection helper of the Docker command line.
\<close>

datatype metaFile = MetaMissing | MetaError string | MetaBad | MetaNoDocker | MetaBadEndpoint | MetaDocker string bool

record ssh_url =
  su_User :: "string option"
  su_Host :: string
  su_Port :: string
  su_Path :: string

record dockerEnv =
  de_Getenv :: "string \<Rightarrow> string"
  de_Exists :: "string \<Rightarrow> bool"
  de_Config :: "string \<Rightarrow> string option"
  de_Meta :: "string \<Rightarrow> metaFile"
  de_Sha256 :: "string \<Rightarrow> string"
  de_Helper :: "string \<Rightarrow> (string, string option) result"
  de_ParseURL :: "string \<Rightarrow> ssh_url option"
  de_Net :: netHost
  de_SSH :: sshLookup
  de_SSHBuilt :: bool

definition dockerConfigDir :: "dockerEnv \<Rightarrow> string" where
  "dockerConfigDir E =
     (if de_Getenv E ''DOCKER_CONFIG'' \<noteq> [] then de_Getenv E ''DOCKER_CONFIG''
      else JoinPath [de_Getenv E ''HOME'', ''.docker''])"

definition currentContextFromConfig :: "dockerEnv \<Rightarrow> string" where
  "currentContextFromConfig E =
     (case de_Config E (JoinPath [dockerConfigDir E, ''config.json'']) of None \<Rightarrow> [] | Some c \<Rightarrow> c)"

record contextEndpoint =
  ep_host :: string
  ep_skipTLSVerify :: bool
  ep_tlsDir :: string

definition endpointFromContextStore :: "dockerEnv \<Rightarrow> string \<Rightarrow> (context_error, contextEndpoint) result" where
  "endpointFromContextStore E name =
     (let configDir = dockerConfigDir E; hash = de_Sha256 E name in
      case de_Meta E (JoinPath [configDir, ''contexts'', ''meta'', hash, ''meta.json'']) of
        MetaMissing \<Rightarrow> Inl (CtxNotFound name)
      | MetaError err \<Rightarrow> Inl (CtxRead name err)
      | MetaBad \<Rightarrow> Inl (CtxParse name)
      | MetaNoDocker \<Rightarrow> Inl (CtxNoEndpoint name)
      | MetaBadEndpoint \<Rightarrow> Inl (CtxEndpoint name)
      | MetaDocker host skip \<Rightarrow> Inr \<lparr>ep_host = host, ep_skipTLSVerify = skip,
          ep_tlsDir = JoinPath [configDir, ''contexts'', ''tls'', hash, ''docker'']\<rparr>)"

definition isLocalSocket :: "string \<Rightarrow> bool" where
  "isLocalSocket host \<longleftrightarrow> host = [] \<or> HasPrefix host ''unix://'' \<or> HasPrefix host ''npipe://'' \<or> HasPrefix host ''fd:''"

definition tlsClientOpt :: "dockerEnv \<Rightarrow> contextEndpoint \<Rightarrow> clientOpt option" where
  "tlsClientOpt E ep =
     (if isLocalSocket (ep_host ep) then None
      else let caPath = JoinPath [ep_tlsDir ep, ''ca.pem''];
               certPath = JoinPath [ep_tlsDir ep, ''cert.pem''];
               keyPath = JoinPath [ep_tlsDir ep, ''key.pem''];
               hasCerts = (de_Exists E certPath \<and> de_Exists E keyPath)
           in if \<not> ep_skipTLSVerify ep \<and> \<not> hasCerts \<and> \<not> de_Exists E caPath then None
              else if \<not> ep_skipTLSVerify ep
              then Some (WithTLSClientConfig (if de_Exists E caPath then caPath else [])
                (if hasCerts then certPath else []) (if hasCerts then keyPath else []))
              else Some WithInsecureHTTPClient)"

definition rootlessSocket :: "dockerEnv \<Rightarrow> string" where
  "rootlessSocket E =
     (let xdg = de_Getenv E ''XDG_RUNTIME_DIR'' in
      if xdg = [] then []
      else let sock = JoinPath [xdg, ''docker.sock''] in if de_Exists E sock then sock else [])"

text \<open>The name of the context, before the store is consulted.\<close>

definition contextName :: "dockerEnv \<Rightarrow> string" where
  "contextName E =
     (if de_Getenv E ''DOCKER_CONTEXT'' \<noteq> [] then de_Getenv E ''DOCKER_CONTEXT'' else currentContextFromConfig E)"

definition resolveBaseOpts :: "dockerEnv \<Rightarrow> string \<Rightarrow> (context_error, clientOpt list \<times> string) result" where
  "resolveBaseOpts E cfgHost =
     (if cfgHost \<noteq> [] then Inr ([FromEnv, WithHost cfgHost], cfgHost)
      else if de_Getenv E ''DOCKER_HOST'' \<noteq> [] then Inr ([FromEnv], de_Getenv E ''DOCKER_HOST'')
      else if contextName E = [] \<or> contextName E = ''default'' then
        (if rootlessSocket E \<noteq> [] then
           (let host = ''unix://'' @ rootlessSocket E in Inr ([FromEnv, WithHost host], host))
         else Inr ([FromEnv], []))
      else bindR (endpointFromContextStore E (contextName E)) (\<lambda>ep.
        let opts = [FromEnv] @ (if ep_host ep \<noteq> [] then [WithHost (ep_host ep)] else [])
        in Inr (opts @ (case tlsClientOpt E ep of None \<Rightarrow> [] | Some opt \<Rightarrow> [opt]), ep_host ep)))"

definition appendBindDial ::
  "dockerEnv \<Rightarrow> clientOpt list \<Rightarrow> string \<Rightarrow> string \<Rightarrow> string \<Rightarrow> (context_error, clientOpt list) result" where
  "appendBindDial E opts host bind iface =
     (if bind = [] \<and> iface = [] then Inr opts
      else if isLocalSocket host then Inr opts
      else case newDialer (de_Net E) bind iface of
        Inl err \<Rightarrow> Inl (CtxBinding err)
      | Inr d \<Rightarrow> Inr (opts @ [WithDialContext (DialTCP (d\<lparr>nd_Timeout := 10 * second\<rparr>))]))"

subsection \<open>Daemons behind SSH\<close>

definition dummySSHDaemonHost :: string where
  "dummySSHDaemonHost = ''http://docker.example.com''"

definition connhelperDial :: "dockerEnv \<Rightarrow> string \<Rightarrow> (context_error, daemonDial \<times> string) result" where
  "connhelperDial E host =
     (case de_Helper E host of
        Inl err \<Rightarrow> Inl (CtxHelper host err)
      | Inr None \<Rightarrow> Inl (CtxNoHelper host)
      | Inr (Some dummy) \<Rightarrow> Inr (DialHelper host, dummy))"

text \<open>\<open>strings.Trim(s, "/")\<close>\<close>

definition trimSlashes :: "string \<Rightarrow> string" where
  "trimSlashes s = rev (dropWhile (\<lambda>c. c = CHR ''/'') (rev (dropWhile (\<lambda>c. c = CHR ''/'') s)))"

definition dialStdioCommand :: "string \<Rightarrow> string" where
  "dialStdioCommand p =
     (if trimSlashes p \<noteq> [] then ''docker --host=unix://'' @ docker_shellQuote p @ '' system dial-stdio''
      else ''docker system dial-stdio'')"

definition builtinSSHDial :: "dockerEnv \<Rightarrow> string \<Rightarrow> string \<Rightarrow> string \<Rightarrow> (context_error, daemonDial \<times> string) result" where
  "builtinSSHDial E host bind iface =
     (if \<not> de_SSHBuilt E then Inl CtxNoSSH
      else case de_ParseURL E host of
        None \<Rightarrow> Inl (CtxURL host)
      | Some u \<Rightarrow>
          bindR (if su_Port u = [] then Inr 0
                 else case Atoi (su_Port u) of None \<Rightarrow> Inl (CtxPort host (su_Port u)) | Some p \<Rightarrow> Inr p) (\<lambda>port.
          case NewDialer (de_SSH E) (de_Net E) \<lparr>dc_Host = su_Host u, dc_User = (case su_User u of None \<Rightarrow> [] | Some n \<Rightarrow> n),
                 dc_Port = port, dc_Timeout = 10 * second, dc_Bind = bind, dc_BindInterface = iface\<rparr> of
            Inl err \<Rightarrow> Inl (CtxDialer err)
          | Inr d \<Rightarrow> Inr (DialBuiltinSSH d (dialStdioCommand (su_Path u)), dummySSHDaemonHost)))"

definition sshDaemonDialer :: "dockerEnv \<Rightarrow> string \<Rightarrow> string \<Rightarrow> string \<Rightarrow> (context_error, daemonDial \<times> string) result" where
  "sshDaemonDialer E host bind iface =
     (if bind \<noteq> [] \<or> iface \<noteq> [] then builtinSSHDial E host bind iface else connhelperDial E host)"

definition appendSSHDaemonDial ::
  "dockerEnv \<Rightarrow> clientOpt list \<Rightarrow> string \<Rightarrow> string \<Rightarrow> string \<Rightarrow> (context_error, clientOpt list) result" where
  "appendSSHDaemonDial E opts host bind iface =
     bindR (sshDaemonDialer E host bind iface) (\<lambda>(dialFn, dummyHost).
     Inr (opts @ [WithHost dummyHost, WithDialContext dialFn]))"

definition resolveClientOpts ::
  "dockerEnv \<Rightarrow> string \<Rightarrow> string \<Rightarrow> string \<Rightarrow> (context_error, clientOpt list) result" where
  "resolveClientOpts E cfgHost bind iface =
     bindR (resolveBaseOpts E cfgHost) (\<lambda>(opts, host).
     if HasPrefix host ''ssh://'' then appendSSHDaemonDial E opts host bind iface
     else appendBindDial E opts host bind iface)"

text \<open>
  One dial of the built-in transport, with the outcome of each call: the error, and what was done to
  the connection and the session.
\<close>

datatype stdioOp = DialConn | OpenSession | StartStdio string | CloseStdin | CloseSession | CloseConn

definition stdioDial ::
  "string option \<Rightarrow> string option \<Rightarrow> string option \<Rightarrow> string option \<Rightarrow> string option \<Rightarrow> string \<Rightarrow> string option \<times> stdioOp list" where
  "stdioDial dialE sessE inE outE startE cmd =
     (case dialE of Some err \<Rightarrow> (Some (''ssh docker dial: '' @ err), []) | None \<Rightarrow>
      case sessE of Some err \<Rightarrow> (Some (''ssh docker session: '' @ err), [DialConn, CloseConn]) | None \<Rightarrow>
      case inE of Some err \<Rightarrow> (Some (''ssh docker stdin: '' @ err), [DialConn, OpenSession, CloseSession, CloseConn]) | None \<Rightarrow>
      case outE of Some err \<Rightarrow> (Some (''ssh docker stdout: '' @ err), [DialConn, OpenSession, CloseSession, CloseConn]) | None \<Rightarrow>
      case startE of Some err \<Rightarrow> (Some (''ssh docker dial-stdio: '' @ err), [DialConn, OpenSession, CloseSession, CloseConn]) | None \<Rightarrow>
      (None, [DialConn, OpenSession, StartStdio cmd]))"

text \<open>\<open>Close\<close> of the connection that a dial returns; the error of the session comes first.\<close>

definition stdioClose :: "string option \<Rightarrow> string option \<Rightarrow> string option \<times> stdioOp list" where
  "stdioClose serr cerr = ((case serr of Some e \<Rightarrow> Some e | None \<Rightarrow> cerr), [CloseStdin, CloseSession, CloseConn])"

section \<open>Compose\<close>

definition composeFileNames :: "string list" where
  "composeFileNames = [''compose.yaml'', ''compose.yml'', ''docker-compose.yaml'', ''docker-compose.yml'']"

definition projectChar :: "char \<Rightarrow> bool" where
  "projectChar c \<longleftrightarrow> (let n = (of_char c :: nat) in (97 \<le> n \<and> n \<le> 122) \<or> (48 \<le> n \<and> n \<le> 57) \<or> c = CHR ''_'' \<or> c = CHR ''-'')"

definition normalizeProjectName :: "string \<Rightarrow> string" where
  "normalizeProjectName s = dropWhile (\<lambda>c. c = CHR ''_'' \<or> c = CHR ''-'') (filter projectChar (lowerText s))"

text \<open>\<open>yamlName\<close>: the name in the file at a path; \<^const>\<open>None\<close> when it cannot be read or parsed.\<close>

definition ResolveCurrentProject :: "(string \<Rightarrow> string) \<Rightarrow> (string \<Rightarrow> string option) \<Rightarrow> string \<Rightarrow> string" where
  "ResolveCurrentProject getenv yamlName dir =
     (if getenv ''COMPOSE_PROJECT_NAME'' \<noteq> [] then getenv ''COMPOSE_PROJECT_NAME''
      else case List.map_filter (\<lambda>fname. case yamlName (JoinPath [dir, fname]) of
                   Some name \<Rightarrow> if name \<noteq> [] then Some name else None | None \<Rightarrow> None) composeFileNames of
        name # _ \<Rightarrow> name
      | [] \<Rightarrow> normalizeProjectName (Base dir))"

datatype compose_error =
    ComposeList string | ComposeNone string string | ComposeMany nat string string | ComposeCwd string | ComposeProject
  | ComposeContext context_error | ComposeClient string

definition composeFilters :: "string \<Rightarrow> string \<Rightarrow> int \<Rightarrow> (string \<times> string) list" where
  "composeFilters project service sequence =
     [(''label'', ''com.docker.compose.project='' @ project), (''label'', ''com.docker.compose.service='' @ service),
      (''status'', ''running'')] @
     (if 0 < sequence then [(''label'', ''com.docker.compose.container-number='' @ showInt sequence)] else [])"

definition ResolveComposeService ::
  "((string \<times> string) list \<Rightarrow> (string, string list) result) \<Rightarrow> string \<Rightarrow> string \<Rightarrow> int \<Rightarrow> (compose_error, string) result" where
  "ResolveComposeService ps project service sequence =
     (case ps (composeFilters project service sequence) of
        Inl err \<Rightarrow> Inl (ComposeList err)
      | Inr [] \<Rightarrow> Inl (ComposeNone project service)
      | Inr [ident] \<Rightarrow> Inr ident
      | Inr idents \<Rightarrow> Inl (ComposeMany (length idents) project service))"

text \<open>
  \<open>NewFromCompose\<close>: the backend and whether the client was closed again; \<^const>\<open>None\<close> is the panic of the
  slice in the log message.
\<close>

definition NewFromCompose ::
  "dockerEnv \<Rightarrow> (string, string) result \<Rightarrow> (string \<Rightarrow> string option) \<Rightarrow> string option \<Rightarrow>
     ((string \<times> string) list \<Rightarrow> (string, string list) result) \<Rightarrow>
     string \<Rightarrow> string \<Rightarrow> string \<Rightarrow> string \<Rightarrow> string \<Rightarrow> int \<Rightarrow> ((compose_error, dockerBackend) result \<times> bool) option" where
  "NewFromCompose E cwd yamlName clientErr ps host bind iface project service sequence =
     (let resolved = (if project = ''.'' then
            (case cwd of Inl err \<Rightarrow> Inl (ComposeCwd err) | Inr dir \<Rightarrow> Inr (ResolveCurrentProject (de_Getenv E) yamlName dir))
          else Inr project)
      in case resolved of Inl e \<Rightarrow> Some (Inl e, False) | Inr project \<Rightarrow>
      if project = [] then Some (Inl ComposeProject, False)
      else case resolveClientOpts E host bind iface of Inl err \<Rightarrow> Some (Inl (ComposeContext err), False) | Inr opts \<Rightarrow>
      case clientErr of Some err \<Rightarrow> Some (Inl (ComposeClient err), False) | None \<Rightarrow>
      case ResolveComposeService ps project service sequence of Inl e \<Rightarrow> Some (Inl e, True) | Inr ident \<Rightarrow>
      if length ident < 12 then None
      else Some (Inr \<lparr>db_Container = ident, db_containerID = [], db_connected = False, db_lastErr = None, db_fileClient = None,
        db_agentPath = []\<rparr>, False))"

section \<open>Lemmas\<close>

text \<open>The endpoint that is used, in the order of precedence.\<close>

lemma resolveBaseOpts_host:
  assumes "resolveBaseOpts E cfgHost = Inr (opts, host)"
  shows "hd opts = FromEnv"
    and "cfgHost \<noteq> [] \<Longrightarrow> host = cfgHost"
    and "cfgHost = [] \<Longrightarrow> de_Getenv E ''DOCKER_HOST'' \<noteq> [] \<Longrightarrow> host = de_Getenv E ''DOCKER_HOST''"
    and "cfgHost = [] \<Longrightarrow> de_Getenv E ''DOCKER_HOST'' = [] \<Longrightarrow> contextName E \<notin> {[], ''default''} \<Longrightarrow>
      \<exists>ep. endpointFromContextStore E (contextName E) = Inr ep \<and> host = ep_host ep"
  using assms by (auto simp: resolveBaseOpts_def Let_def bindR_eq_Inr split: if_splits option.splits)

text \<open>Skipping the verification of the server drops the client certificate too.\<close>

lemma tls_skip_drops_certificate:
  "\<not> isLocalSocket (ep_host ep) \<Longrightarrow> ep_skipTLSVerify ep \<Longrightarrow> tlsClientOpt E ep = Some WithInsecureHTTPClient"
  by (simp add: tlsClientOpt_def Let_def)

lemma stdioDial_closes:
  "fst (stdioDial a b c d e cmd) \<noteq> None \<Longrightarrow>
     (DialConn \<in> set (snd (stdioDial a b c d e cmd)) \<longrightarrow> last (snd (stdioDial a b c d e cmd)) = CloseConn) \<and>
     (OpenSession \<in> set (snd (stdioDial a b c d e cmd)) \<longrightarrow> CloseSession \<in> set (snd (stdioDial a b c d e cmd)))"
  by (simp add: stdioDial_def split: option.splits)

lemma projectChar_lower: "projectChar c \<Longrightarrow> lowerASCII c = c"
  by (auto simp: projectChar_def lowerASCII_def Let_def)

lemma lowerText_project: "list_all projectChar s \<Longrightarrow> lowerText s = s"
  by (induction s rule: lowerText.induct) (auto simp: projectChar_lower, auto simp: projectChar_def)

lemma normalizeProjectName_chars: "list_all projectChar (normalizeProjectName s)"
  using set_dropWhileD by (fastforce simp: normalizeProjectName_def list_all_iff)

text \<open>A project name is in the alphabet of Compose, does not start with a separator, and is normal.\<close>

lemma normalizeProjectName_normal:
  "normalizeProjectName s \<noteq> [] \<Longrightarrow> hd (normalizeProjectName s) \<noteq> CHR ''_'' \<and> hd (normalizeProjectName s) \<noteq> CHR ''-''"
  "normalizeProjectName (normalizeProjectName s) = normalizeProjectName s"
proof -
  show h: "normalizeProjectName s \<noteq> [] \<Longrightarrow> hd (normalizeProjectName s) \<noteq> CHR ''_'' \<and> hd (normalizeProjectName s) \<noteq> CHR ''-''" for s
    using hd_dropWhile [of "\<lambda>c. c = CHR ''_'' \<or> c = CHR ''-''"] by (simp add: normalizeProjectName_def)
  let ?n = "normalizeProjectName s"
  have c: "list_all projectChar ?n" by (rule normalizeProjectName_chars)
  then have "filter projectChar (lowerText ?n) = ?n" by (simp add: lowerText_project list_all_iff filter_id_conv)
  then have "normalizeProjectName ?n = dropWhile (\<lambda>c. c = CHR ''_'' \<or> c = CHR ''-'') ?n"
    unfolding normalizeProjectName_def [of ?n] by (simp only:)
  then show "normalizeProjectName ?n = ?n" using h [of s] by (cases ?n) simp_all
qed

section \<open>Properties\<close>

definition boundDialer :: "netHost \<Rightarrow> string \<Rightarrow> string \<Rightarrow> netDialer \<Rightarrow> bool" where
  "boundDialer N bind iface d \<longleftrightarrow>
     (if bind = [] then nd_LocalAddr d = None else \<exists>ip. ResolveBindAddr N bind = Inr ip \<and> nd_LocalAddr d = Some ip) \<and>
     nd_Device d = (if iface = [] then None else Some iface)"

lemma newDialer_bound: "newDialer N bind iface = Inr d \<Longrightarrow> boundDialer N bind iface d"
  by (auto simp: newDialer_def newBindControl_def boundDialer_def bindR_eq_Inr split: if_splits)
    (auto simp: map_sum_def split: sum.splits)

text \<open>
  A requested local binding is never dropped on the way to a network daemon: when the options
  resolve, they extend those of the context by at most a host and a dialer. A daemon behind SSH is
  reached through the system's helper exactly when no binding is asked for, and otherwise through the
  built-in transport; a TCP daemon gets a dialer exactly when a binding is asked for; in both
  cases the dialer comes last, after every option that would replace it, and has the requested address
  and interface. Only a local socket ignores the binding.
\<close>

theorem docker_binding_honoured:
  assumes "resolveBaseOpts E cfgHost = Inr (opts, host)" "resolveClientOpts E cfgHost bind iface = Inr opts'"
  shows "if HasPrefix host ''ssh://'' then
      \<exists>dummy dial. opts' = opts @ [WithHost dummy, WithDialContext dial] \<and>
        (if bind = [] \<and> iface = [] then dial = DialHelper host
         else \<exists>d cmd. dial = DialBuiltinSSH d cmd \<and> boundDialer (de_Net E) bind iface (sd_Net d))
    else if (bind = [] \<and> iface = []) \<or> isLocalSocket host then opts' = opts
    else \<exists>d. opts' = opts @ [WithDialContext (DialTCP d)] \<and> boundDialer (de_Net E) bind iface d"
proof (cases "HasPrefix host ''ssh://''")
  case True
  then obtain dial dummy where d: "sshDaemonDialer E host bind iface = Inr (dial, dummy)" "opts' = opts @ [WithHost dummy, WithDialContext dial]"
    using assms by (auto simp: resolveClientOpts_def appendSSHDaemonDial_def bindR_eq_Inr)
  show ?thesis
  proof (cases "bind = [] \<and> iface = []")
    case none: True
    then show ?thesis using True d by (auto simp: sshDaemonDialer_def connhelperDial_def split: sum.splits option.splits)
  next
    case False
    then have "builtinSSHDial E host bind iface = Inr (dial, dummy)" using d(1) by (auto simp: sshDaemonDialer_def split: if_splits)
    then obtain sd cmd cfg where sd: "dial = DialBuiltinSSH sd cmd" "NewDialer (de_SSH E) (de_Net E) cfg = Inr sd"
        "dc_Bind cfg = bind" "dc_BindInterface cfg = iface"
      by (auto simp: builtinSSHDial_def bindR_eq_Inr split: if_splits option.splits sum.splits)
    then have "boundDialer (de_Net E) bind iface (sd_Net sd)" using NewDialer_ok [OF sd(2)] newDialer_bound by auto
    then show ?thesis using True False d(2) sd(1) by auto
  qed
next
  case False
  then have a: "appendBindDial E opts host bind iface = Inr opts'" using assms by (simp add: resolveClientOpts_def)
  have b: "boundDialer N bind iface (d\<lparr>nd_Timeout := t\<rparr>)" if "newDialer N bind iface = Inr d" for N d t
    using newDialer_bound [OF that] by (simp add: boundDialer_def)
  then show ?thesis using False a by (auto simp: appendBindDial_def split: if_splits sum.splits)
qed

definition exampleDockerEnv :: dockerEnv where
  "exampleDockerEnv = \<lparr>de_Getenv = (\<lambda>_. []), de_Exists = (\<lambda>_. False), de_Config = (\<lambda>_. None), de_Meta = (\<lambda>_. MetaMissing),
     de_Sha256 = id, de_Helper = (\<lambda>_. Inr None), de_ParseURL = (\<lambda>_. None), de_Net = exampleNet, de_SSH = exampleLookup, de_SSHBuilt = True\<rparr>"

theorem docker_binding_honoured_witness:
  "\<exists>d. resolveClientOpts exampleDockerEnv ''tcp://h:2376'' [] ''vrf0'' = Inr [FromEnv, WithHost ''tcp://h:2376'', WithDialContext (DialTCP d)] \<and>
     nd_Device d = Some ''vrf0''"
proof -
  let ?d = "\<lparr>nd_LocalAddr = None, nd_Device = Some ''vrf0'', nd_Timeout = 10 * second\<rparr>"
  have 1: "resolveBaseOpts exampleDockerEnv ''tcp://h:2376'' = Inr ([FromEnv, WithHost ''tcp://h:2376''], ''tcp://h:2376'')"
    by (simp add: resolveBaseOpts_def)
  have 2: "resolveClientOpts exampleDockerEnv ''tcp://h:2376'' [] ''vrf0'' = Inr [FromEnv, WithHost ''tcp://h:2376'', WithDialContext (DialTCP ?d)]"
    unfolding resolveClientOpts_def 1
    by (simp add: appendBindDial_def isLocalSocket_def newDialer_def newBindControl_def exampleDockerEnv_def exampleNet_def)
  show ?thesis using docker_binding_honoured [OF 1 2] 2 by (auto simp: isLocalSocket_def boundDialer_def)
qed

record composeContainer =
  cc_ID :: string
  cc_Labels :: "string list"
  cc_Running :: bool

definition matchesFilter :: "composeContainer \<Rightarrow> string \<times> string \<Rightarrow> bool" where
  "matchesFilter c kv =
     (if fst kv = ''label'' then List.member (cc_Labels c) (snd kv)
      else fst kv = ''status'' \<and> snd kv = ''running'' \<and> cc_Running c)"

definition composeMember :: "string \<Rightarrow> string \<Rightarrow> int \<Rightarrow> composeContainer \<Rightarrow> bool" where
  "composeMember project service sequence c \<longleftrightarrow> cc_Running c \<and> ''com.docker.compose.project='' @ project \<in> set (cc_Labels c) \<and>
     ''com.docker.compose.service='' @ service \<in> set (cc_Labels c) \<and>
     (0 < sequence \<longrightarrow> ''com.docker.compose.container-number='' @ showInt sequence \<in> set (cc_Labels c))"

lemma composeFilters_member:
  "list_all (matchesFilter c) (composeFilters project service sequence) \<longleftrightarrow> composeMember project service sequence c"
  by (auto simp: composeFilters_def matchesFilter_def composeMember_def List.member_iff)

text \<open>
  The Compose container is unambiguous: for a daemon that lists exactly the containers that
  match every filter, the backend is attached to a container only if it is the single running one of
  that project and service (and replica, when one is asked for); none or several are an error.
\<close>

theorem compose_selects_one:
  assumes "\<forall>kvs. ps kvs = Inr (map cc_ID (filter (\<lambda>c. list_all (matchesFilter c) kvs) cs))"
  shows "ResolveComposeService ps project service sequence = Inr ident \<longleftrightarrow>
    (\<exists>c. filter (composeMember project service sequence) cs = [c] \<and> ident = cc_ID c)"
  using assms by (auto simp: ResolveComposeService_def composeFilters_member split: list.splits)

end
