(* ===== verification/SftpClient.thy ===== *)
theory SftpClient
  imports WorkspaceFS
begin

text \<open>
  \<open>pkg/remote/ssh/fileclient.go\<close>: the file client over SFTP, and the upload of the agent with it from
  \<open>pkg/remote/ssh/backend.go\<close>. The SFTP library is the record \<open>sftpLib\<close>, one field per method that is
  called, over a state of the remote side.
\<close>

section \<open>The library\<close>

text \<open>An error of \<open>Sync\<close> with the code of an SFTP status, if it is one.\<close>

type_synonym statusErr = "uint32 option \<times> oserr"

record sftpVFS =
  vfs_Blocks :: uint64
  vfs_Bfree :: uint64
  vfs_Bavail :: uint64
  vfs_Files :: uint64
  vfs_Ffree :: uint64
  vfs_Bsize :: uint64
  vfs_Frsize :: uint64
  vfs_Namemax :: uint64

record ('s, 'f) sftpLib =
  sx_Open :: "'s \<Rightarrow> string \<Rightarrow> (oserr + 'f) \<times> 's"
  sx_Create :: "'s \<Rightarrow> string \<Rightarrow> (oserr + 'f) \<times> 's"
  sx_OpenFile :: "'s \<Rightarrow> string \<Rightarrow> int \<Rightarrow> (oserr + 'f) \<times> 's"
  sx_Stat :: "'s \<Rightarrow> string \<Rightarrow> (oserr + wsInfo) \<times> 's"
  sx_Lstat :: "'s \<Rightarrow> string \<Rightarrow> (oserr + wsInfo) \<times> 's"
  sx_ReadDir :: "'s \<Rightarrow> string \<Rightarrow> (oserr + wsInfo list) \<times> 's"
  sx_ReadLink :: "'s \<Rightarrow> string \<Rightarrow> (oserr + string) \<times> 's"
  sx_Mkdir :: "'s \<Rightarrow> string \<Rightarrow> oserr option \<times> 's"
  sx_MkdirAll :: "'s \<Rightarrow> string \<Rightarrow> oserr option \<times> 's"
  sx_Remove :: "'s \<Rightarrow> string \<Rightarrow> oserr option \<times> 's"
  sx_HasExtension :: "string \<Rightarrow> bool"
  sx_PosixRename :: "'s \<Rightarrow> string \<Rightarrow> string \<Rightarrow> oserr option \<times> 's"
  sx_Rename :: "'s \<Rightarrow> string \<Rightarrow> string \<Rightarrow> oserr option \<times> 's"
  sx_Symlink :: "'s \<Rightarrow> string \<Rightarrow> string \<Rightarrow> oserr option \<times> 's"
  sx_Link :: "'s \<Rightarrow> string \<Rightarrow> string \<Rightarrow> oserr option \<times> 's"
  sx_Chmod :: "'s \<Rightarrow> string \<Rightarrow> uint32 \<Rightarrow> oserr option \<times> 's"
  sx_Chown :: "'s \<Rightarrow> string \<Rightarrow> uint32 \<Rightarrow> uint32 \<Rightarrow> oserr option \<times> 's"
  sx_Chtimes :: "'s \<Rightarrow> string \<Rightarrow> int \<Rightarrow> int \<Rightarrow> oserr option \<times> 's"
  sx_Truncate :: "'s \<Rightarrow> string \<Rightarrow> int \<Rightarrow> oserr option \<times> 's"
  sx_StatVFS :: "'s \<Rightarrow> string \<Rightarrow> (oserr + sftpVFS) \<times> 's"
  sx_Getwd :: "'s \<Rightarrow> (oserr + string) \<times> 's"
  sxf_Read :: "'s \<Rightarrow> 'f \<Rightarrow> nat \<Rightarrow> (bytes \<times> oserr option) \<times> 'f \<times> 's"
  sxf_ReadAt :: "'s \<Rightarrow> 'f \<Rightarrow> nat \<Rightarrow> int \<Rightarrow> (bytes \<times> oserr option) \<times> 's"
  sxf_Write :: "'s \<Rightarrow> 'f \<Rightarrow> bytes \<Rightarrow> (int \<times> oserr option) \<times> 'f \<times> 's"
  sxf_WriteAt :: "'s \<Rightarrow> 'f \<Rightarrow> bytes \<Rightarrow> int \<Rightarrow> (int \<times> oserr option) \<times> 's"
  sxf_Stat :: "'s \<Rightarrow> 'f \<Rightarrow> (oserr + wsInfo) \<times> 's"
  sxf_Truncate :: "'s \<Rightarrow> 'f \<Rightarrow> int \<Rightarrow> oserr option \<times> 's"
  sxf_Chmod :: "'s \<Rightarrow> 'f \<Rightarrow> uint32 \<Rightarrow> oserr option \<times> 's"
  sxf_Sync :: "'s \<Rightarrow> 'f \<Rightarrow> statusErr option \<times> 's"
  sxf_Close :: "'s \<Rightarrow> 'f \<Rightarrow> oserr option \<times> 's"

section \<open>The client\<close>

abbreviation O_EXCL :: int where "O_EXCL \<equiv> 0x80"

definition sftp_OpenFile :: "('s, 'f) sftpLib \<Rightarrow> 's \<Rightarrow> string \<Rightarrow> int \<Rightarrow> uint32 \<Rightarrow> (oserr + 'f) \<times> 's" where
  "sftp_OpenFile L s p flags mode =
     (let (st, s) = sx_Lstat L s p in
      case sx_OpenFile L s p flags of
        (Inl err, s) \<Rightarrow> (Inl err, s)
      | (Inr f, s) \<Rightarrow>
          if flags AND O_CREATE \<noteq> 0 \<and> flags AND O_EXCL \<noteq> 0 \<and> (case st of Inl e \<Rightarrow> oe_NotExist e | Inr _ \<Rightarrow> False) then
            (case sxf_Chmod L s f mode of
               (Some err, s) \<Rightarrow> (let (_, s) = sxf_Close L s f in (Inl err, s))
             | (None, s) \<Rightarrow> (Inr f, s))
          else (Inr f, s))"

definition sftp_Mkdir :: "('s, 'f) sftpLib \<Rightarrow> 's \<Rightarrow> string \<Rightarrow> uint32 \<Rightarrow> oserr option \<times> 's" where
  "sftp_Mkdir L s p mode =
     (case sx_Mkdir L s p of (Some err, s) \<Rightarrow> (Some err, s) | (None, s) \<Rightarrow> sx_Chmod L s p mode)"

definition sftp_MkdirAll :: "('s, 'f) sftpLib \<Rightarrow> 's \<Rightarrow> string \<Rightarrow> uint32 \<Rightarrow> oserr option \<times> 's" where
  "sftp_MkdirAll L s p mode = sx_MkdirAll L s p"

definition posixRenameExt :: string where "posixRenameExt = ''posix-rename@openssh.com''"

definition sftp_Rename :: "('s, 'f) sftpLib \<Rightarrow> 's \<Rightarrow> string \<Rightarrow> string \<Rightarrow> oserr option \<times> 's" where
  "sftp_Rename L s old new =
     (if sx_HasExtension L posixRenameExt then sx_PosixRename L s old new else sx_Rename L s old new)"

definition sftp_Statfs :: "('s, 'f) sftpLib \<Rightarrow> 's \<Rightarrow> string \<Rightarrow> (oserr + FileStatfs) \<times> 's" where
  "sftp_Statfs L s p =
     (case sx_StatVFS L s p of
        (Inl err, s) \<Rightarrow> (Inl err, s)
      | (Inr st, s) \<Rightarrow> (Inr \<lparr>sf_Blocks = vfs_Blocks st, sf_Bfree = vfs_Bfree st, sf_Bavail = vfs_Bavail st,
          sf_Files = vfs_Files st, sf_Ffree = vfs_Ffree st, sf_Bsize = ucast (vfs_Bsize st), sf_Frsize = ucast (vfs_Frsize st),
          sf_NameLen = ucast (vfs_Namemax st)\<rparr>, s))"

text \<open>\<open>Sync\<close> treats a server without the extension as success; the errno values are those of Linux.\<close>

definition isUnsupported :: "statusErr \<Rightarrow> bool" where
  "isUnsupported e \<longleftrightarrow> fst e = Some 8 \<or> oe_errno (snd e) = Some 38 \<or> oe_errno (snd e) = Some 95"

definition sftp_Sync :: "('s, 'f) sftpLib \<Rightarrow> 's \<Rightarrow> 'f \<Rightarrow> oserr option \<times> 's" where
  "sftp_Sync L s f =
     (case sxf_Sync L s f of
        (None, s) \<Rightarrow> (None, s)
      | (Some e, s) \<Rightarrow> (if isUnsupported e then None else Some (snd e), s))"

text \<open>The remaining operations are those of the library.\<close>

definition sftpFileClient :: "('s, 'f) sftpLib \<Rightarrow> ('s, 'f, 'f) FileClient" where
  "sftpFileClient L = \<lparr>fc_Open = sx_Open L, fc_Create = sx_Create L, fc_OpenFile = sftp_OpenFile L,
     fc_Stat = sx_Stat L, fc_Lstat = sx_Lstat L, fc_ReadDir = sx_ReadDir L,
     fc_Readlink = sx_ReadLink L, fc_Mkdir = sftp_Mkdir L, fc_MkdirAll = sftp_MkdirAll L,
     fc_Remove = sx_Remove L, fc_Rename = sftp_Rename L, fc_Symlink = sx_Symlink L,
     fc_Link = sx_Link L, fc_Chmod = sx_Chmod L, fc_Chown = sx_Chown L,
     fc_Chtimes = sx_Chtimes L, fc_Truncate = sx_Truncate L, fc_Statfs = sftp_Statfs L,
     fc_Getwd = sx_Getwd L, rf_Read = sxf_Read L, rf_ReadAt = sxf_ReadAt L,
     rf_Sync = sftp_Sync L, rf_Close = sxf_Close L, wf_Write = sxf_Write L,
     wf_ReadAt = sxf_ReadAt L, wf_WriteAt = sxf_WriteAt L, wf_Stat = sxf_Stat L,
     wf_Truncate = sxf_Truncate L, wf_Sync = sftp_Sync L, wf_Close = sxf_Close L\<rparr>"

section \<open>The upload\<close>

definition expandRemoteHome :: "('s, 'r, 'w) FileClient \<Rightarrow> 's \<Rightarrow> string \<Rightarrow> (oserr + string) \<times> 's" where
  "expandRemoteHome C s p =
     (if p \<noteq> ''~'' \<and> \<not> HasPrefix p ''~/'' then (Inr p, s)
      else case fc_Getwd C s of
        (Inl err, s) \<Rightarrow> (Inl err, s)
      | (Inr home, s) \<Rightarrow>
          if home = [] then (Inl (plainErr ''remote home directory is empty''), s)
          else if p = ''~'' then (Inr home, s)
          else (Inr (JoinPath [home, drop 2 p]), s))"

abbreviation O_WRONLY :: int where "O_WRONLY \<equiv> 1"
abbreviation O_TRUNC :: int where "O_TRUNC \<equiv> 0x200"

text \<open>
  \<open>uploadViaFileClient\<close>: \<open>src\<close> is the local file when it is opened, and \<open>ioCopy\<close> the library's copy
  loop into the remote file.
\<close>

definition uploadViaFileClient ::
  "('s, 'r, 'w) FileClient \<Rightarrow> ('s \<Rightarrow> 'w \<Rightarrow> bytes \<Rightarrow> oserr option \<times> 's) \<Rightarrow> 's \<Rightarrow> oserr + bytes \<Rightarrow> string \<Rightarrow> uint32 \<Rightarrow>
     (oserr + string) \<times> 's" where
  "uploadViaFileClient C ioCopy s src remotePath mode =
     (case expandRemoteHome C s remotePath of (Inl err, s) \<Rightarrow> (Inl err, s) | (Inr resolved, s) \<Rightarrow>
      let parent = Dir resolved;
          (merr, s) = (if parent \<noteq> [] \<and> parent \<noteq> ''.'' \<and> parent \<noteq> ''/'' then fc_MkdirAll C s parent 493 else (None, s))
      in case merr of Some err \<Rightarrow> (Inl err, s) | None \<Rightarrow>
      case src of Inl err \<Rightarrow> (Inl err, s) | Inr d \<Rightarrow>
      case fc_OpenFile C s resolved (O_WRONLY OR O_CREATE OR O_TRUNC) mode of (Inl err, s) \<Rightarrow> (Inl err, s) | (Inr fh, s) \<Rightarrow>
      case ioCopy s fh d of (Some err, s) \<Rightarrow> (Inl err, snd (wf_Close C s fh)) | (None, s) \<Rightarrow>
      case wf_Close C s fh of (Some err, s) \<Rightarrow> (Inl err, s) | (None, s) \<Rightarrow>
      case fc_Chmod C s resolved mode of (Some err, s) \<Rightarrow> (Inl err, s) | (None, s) \<Rightarrow> (Inr resolved, s))"

definition sshUploadAgent ::
  "('s, 'f) sftpLib option \<Rightarrow> ('s \<Rightarrow> 'f \<Rightarrow> bytes \<Rightarrow> oserr option \<times> 's) \<Rightarrow> 's \<Rightarrow> oserr + bytes \<Rightarrow> string \<Rightarrow> uint32 \<Rightarrow>
     (oserr + string) \<times> 's" where
  "sshUploadAgent sftp ioCopy s src remotePath mode =
     (case sftp of
        None \<Rightarrow> (Inl (plainErr ''ssh backend: sftp client is not ready''), s)
      | Some L \<Rightarrow> uploadViaFileClient (sftpFileClient L) ioCopy s src remotePath mode)"

section \<open>Lemmas\<close>

lemma no_excl: "x AND O_EXCL = 0 \<Longrightarrow> (x OR O_CREATE) AND O_EXCL = 0"
  by (simp add: bit.conj_disj_distrib2)

text \<open>Without \<open>O_EXCL\<close> the mode is not even looked at.\<close>

lemma sftp_OpenFile_mode: "flags AND O_EXCL = 0 \<Longrightarrow> sftp_OpenFile L s p flags mode = sftp_OpenFile L s p flags mode'"
  by (auto simp: sftp_OpenFile_def split: prod.split sum.split)

lemma upload_ends_with_chmod:
  assumes "uploadViaFileClient C ioCopy s src remotePath mode = (Inr p, s')"
  shows "\<exists>s1. fc_Chmod C s1 p mode = (None, s')"
  using assms by (auto simp: uploadViaFileClient_def Let_def split: prod.splits sum.splits option.splits if_splits)

section \<open>Properties\<close>

text \<open>
  Over SFTP the requested permissions of a new file are lost: the client applies the mode only
  together with \<open>O_EXCL\<close>. Any other creation through the workspace, such as the usual
  \<open>open(path, O_CREAT | O_WRONLY, 0600)\<close>, behaves the same for every mode, in its result and in the
  remote state it leaves; the file gets whatever the server's default is.
\<close>

theorem sftp_create_mode_lost:
  assumes "uint flags AND O_EXCL = 0"
  shows "wdCreate (sftpFileClient L) f s relPath name flags mode = wdCreate (sftpFileClient L) f s relPath name flags mode'"
proof -
  have "fc_OpenFile (sftpFileClient L) s p (uint flags OR O_CREATE) m = fc_OpenFile (sftpFileClient L) s p (uint flags OR O_CREATE) m'" for p m m'
    unfolding sftpFileClient_def using sftp_OpenFile_mode [OF no_excl [OF assms]] by simp
  note eq = this [where m = "posixFileMode mode" and m' = "posixFileMode mode'"]
  show ?thesis unfolding wdCreate_def Let_def eq ..
qed

text \<open>A server with the modes of its files, which creates files readable by everybody.\<close>

definition refuse :: "'s \<Rightarrow> 'a \<Rightarrow> (oserr + 'b) \<times> 's" where
  "refuse s _ = (Inl (errnoErr 38), s)"

definition refuse1 :: "'s \<Rightarrow> 'a \<Rightarrow> oserr option \<times> 's" where
  "refuse1 s _ = (Some (errnoErr 38), s)"

definition refuse2 :: "'s \<Rightarrow> 'a \<Rightarrow> 'b \<Rightarrow> oserr option \<times> 's" where
  "refuse2 s _ _ = (Some (errnoErr 38), s)"

definition modeStat :: "(string \<rightharpoonup> uint32) \<Rightarrow> string \<Rightarrow> (oserr + wsInfo) \<times> (string \<rightharpoonup> uint32)" where
  "modeStat s p =
     (case s p of
        None \<Rightarrow> Inl (errnoErr ENOENT)
      | Some m \<Rightarrow> Inr \<lparr>wi_Name = p, wi_Size = 0, wi_Mode = m, wi_ModTime = 0, wi_IsDir = False, wi_Sys = SysNone\<rparr>, s)"

definition exampleSftp :: "(string \<rightharpoonup> uint32, string) sftpLib" where
  "exampleSftp = \<lparr>sx_Open = refuse, sx_Create = refuse,
     sx_OpenFile = (\<lambda>s p flags. (Inr p, if s p = None then s(p \<mapsto> 420) else s)), sx_Stat = modeStat, sx_Lstat = modeStat,
     sx_ReadDir = refuse, sx_ReadLink = refuse, sx_Mkdir = refuse1, sx_MkdirAll = refuse1, sx_Remove = refuse1,
     sx_HasExtension = (\<lambda>_. False), sx_PosixRename = refuse2, sx_Rename = refuse2, sx_Symlink = refuse2, sx_Link = refuse2,
     sx_Chmod = (\<lambda>s p m. (None, s(p \<mapsto> m))), sx_Chown = (\<lambda>s _ _ _. (None, s)), sx_Chtimes = (\<lambda>s _ _ _. (None, s)),
     sx_Truncate = refuse2, sx_StatVFS = refuse, sx_Getwd = (\<lambda>s. (Inr ''/'', s)), sxf_Read = (\<lambda>s f _. (([], None), f, s)),
     sxf_ReadAt = (\<lambda>s f _ _. (([], None), s)), sxf_Write = (\<lambda>s f _. ((0, None), f, s)), sxf_WriteAt = (\<lambda>s f _ _. ((0, None), s)),
     sxf_Stat = modeStat, sxf_Truncate = refuse2, sxf_Chmod = (\<lambda>s p m. (None, s(p \<mapsto> m))), sxf_Sync = (\<lambda>s _. (None, s)),
     sxf_Close = (\<lambda>s _. (None, s))\<rparr>"

definition exampleSftpFS :: wsFS where
  "exampleSftpFS = NewWorkspaceFS ''/w'' None"

theorem sftp_create_mode_lost_witness:
  "(snd (wdCreate (sftpFileClient exampleSftp) exampleSftpFS Map.empty [] ''key'' 0x41 384)) ''/w/key'' = Some 420"
proof -
  have p: "absPath exampleSftpFS ''key'' = ''/w/key''" "JoinPath [[], ''key''] = ''key''"
    by (code_simp, code_simp)
  have "wdCreate (sftpFileClient exampleSftp) exampleSftpFS Map.empty [] ''key'' 0x41 384 =
      wdCreate (sftpFileClient exampleSftp) exampleSftpFS Map.empty [] ''key'' 0x41 420"
    by (rule sftp_create_mode_lost) simp
  moreover have "(snd (wdCreate (sftpFileClient exampleSftp) exampleSftpFS Map.empty [] ''key'' 0x41 420)) ''/w/key'' = Some 420"
    by (simp add: wdCreate_def sftpFileClient_def sftp_OpenFile_def exampleSftp_def Let_def p wsStat_def wsValue_def modeStat_def)
  ultimately show ?thesis by simp
qed

end
