(* ===== verification/Recording.thy ===== *)
theory Recording
  imports Steps Frame
begin

text \<open>
  \<open>pkg/agentproto/recording.go\<close>: the session recording, and its use by the multiplexer
  (\<open>pkg/agentproto/mux.go\<close>) and the runner (\<open>pkg/remoteexec/agent_runner.go\<close>). Several commands run at
  the same time and share one recorder; allocating a sequence number and writing a record are
  separate atomic steps. The CBOR codec of the records is a parameter.
\<close>

section \<open>Records\<close>

definition RecordSessionHeader :: uint8 where "RecordSessionHeader = 1"
definition RecordCommandStart :: uint8 where "RecordCommandStart = 2"
definition RecordFrame :: uint8 where "RecordFrame = 3"
definition RecordCommandEnd :: uint8 where "RecordCommandEnd = 4"
definition RecordSessionFooter :: uint8 where "RecordSessionFooter = 5"

definition DirSend :: uint8 where "DirSend = 1"
definition DirRecv :: uint8 where "DirRecv = 2"

record SessionHeader =
  sh_Version :: string
  sh_StartTime :: int
  sh_LocalUser :: string
  sh_LocalPID :: int
  sh_BackendType :: string
  sh_BackendAddr :: string
  sh_AgentPath :: string

record CommandStart =
  cs_SeqNum :: uint32
  cs_StartTime :: int
  cs_Exec :: ExecMsg

record RecordedFrame =
  rf_SeqNum :: uint32
  rf_Timestamp :: int
  rf_Direction :: uint8
  rf_Frame :: Frame

record CommandEnd =
  ce_SeqNum :: uint32
  ce_EndTime :: int
  ce_ExitCode :: int

record SessionFooter =
  sft_EndTime :: int
  sft_CommandCount :: uint32

record Record =
  rec_Type :: uint8
  rec_Header :: "SessionHeader option"
  rec_CmdStart :: "CommandStart option"
  rec_Frame :: "RecordedFrame option"
  rec_CmdEnd :: "CommandEnd option"
  rec_Footer :: "SessionFooter option"

definition emptyRecord :: "uint8 \<Rightarrow> Record" where
  "emptyRecord t = \<lparr>rec_Type = t, rec_Header = None, rec_CmdStart = None, rec_Frame = None, rec_CmdEnd = None, rec_Footer = None\<rparr>"

section \<open>The recorder\<close>

text \<open>The counter, the records in the file, and whether the file is open.\<close>

record recorder =
  rc_seqNum :: uint32
  rc_file :: "Record list"
  rc_open :: bool

definition NewRecorder :: recorder where
  "NewRecorder = \<lparr>rc_seqNum = 0, rc_file = [], rc_open = True\<rparr>"

text \<open>\<open>write\<close>, with the outcome of the encoder; a closed file always fails.\<close>

definition recWrite :: "recorder \<Rightarrow> bool \<Rightarrow> Record \<Rightarrow> bool \<times> recorder" where
  "recWrite r ok x = (if ok \<and> rc_open r then (True, r\<lparr>rc_file := rc_file r @ [x]\<rparr>) else (False, r))"

definition headerRecord :: "SessionHeader \<Rightarrow> Record" where
  "headerRecord h = (emptyRecord RecordSessionHeader)\<lparr>rec_Header := Some h\<rparr>"

definition WriteSessionHeader :: "recorder \<Rightarrow> bool \<Rightarrow> SessionHeader \<Rightarrow> bool \<times> recorder" where
  "WriteSessionHeader r ok h = recWrite r ok (headerRecord h)"

text \<open>\<open>WriteCommandStart\<close> in its two atomic steps.\<close>

definition allocSeq :: "recorder \<Rightarrow> uint32 \<times> recorder" where
  "allocSeq r = (let n = rc_seqNum r + 1 in (n - 1, r\<lparr>rc_seqNum := n\<rparr>))"

definition startRecord :: "uint32 \<Rightarrow> int \<Rightarrow> ExecMsg \<Rightarrow> Record" where
  "startRecord seq now x =
     (emptyRecord RecordCommandStart)\<lparr>rec_CmdStart := Some \<lparr>cs_SeqNum = seq, cs_StartTime = now, cs_Exec = x\<rparr>\<rparr>"

definition frameRecord :: "uint32 \<Rightarrow> uint8 \<Rightarrow> int \<Rightarrow> Frame \<Rightarrow> Record" where
  "frameRecord seq dir now f =
     (emptyRecord RecordFrame)\<lparr>rec_Frame := Some \<lparr>rf_SeqNum = seq, rf_Timestamp = now, rf_Direction = dir, rf_Frame = f\<rparr>\<rparr>"

definition WriteFrame :: "recorder \<Rightarrow> bool \<Rightarrow> uint32 \<Rightarrow> uint8 \<Rightarrow> int \<Rightarrow> Frame \<Rightarrow> bool \<times> recorder" where
  "WriteFrame r ok seq dir now f = recWrite r ok (frameRecord seq dir now f)"

definition endRecord :: "uint32 \<Rightarrow> int \<Rightarrow> int \<Rightarrow> Record" where
  "endRecord seq now code =
     (emptyRecord RecordCommandEnd)\<lparr>rec_CmdEnd := Some \<lparr>ce_SeqNum = seq, ce_EndTime = now, ce_ExitCode = code\<rparr>\<rparr>"

definition WriteCommandEnd :: "recorder \<Rightarrow> bool \<Rightarrow> uint32 \<Rightarrow> int \<Rightarrow> int \<Rightarrow> bool \<times> recorder" where
  "WriteCommandEnd r ok seq now code = recWrite r ok (endRecord seq now code)"

text \<open>\<open>WriteSessionFooter\<close> reads the counter before it takes the lock, so it has two steps as well.\<close>

definition footerRecord :: "uint32 \<Rightarrow> int \<Rightarrow> Record" where
  "footerRecord n now =
     (emptyRecord RecordSessionFooter)\<lparr>rec_Footer := Some \<lparr>sft_EndTime = now, sft_CommandCount = n\<rparr>\<rparr>"

text \<open>The end of \<open>Close\<close>, after the footer.\<close>

definition closeFile :: "recorder \<Rightarrow> recorder" where
  "closeFile r = r\<lparr>rc_open := False\<rparr>"

text \<open>\<open>ReadRecording\<close> on what the decoder returns: all records before the end or an error.\<close>

datatype decoded = Decoded Record | DecEOF | DecError string

fun ReadRecording :: "decoded list \<Rightarrow> Record list \<times> string option" where
  "ReadRecording [] = ([], None)"
| "ReadRecording (Decoded x # ds) = (let (xs, err) = ReadRecording ds in (x # xs, err))"
| "ReadRecording (DecEOF # ds) = ([], None)"
| "ReadRecording (DecError err # ds) = ([], Some err)"

section \<open>Commands that are recorded\<close>

text \<open>
  Where a command is in \<open>RunWithControl\<close>: not begun, holding a number whose start is not written yet,
  or running, with the multiplexer recording (it does when the start was written) or not.
\<close>

datatype recPC = RIdle | RAlloc uint32 | RRun uint32 bool

record recSys =
  rs_rec :: recorder
  rs_count :: nat
  rs_pc :: "nat \<Rightarrow> recPC"
  rs_muxes :: "uint32 set"
  rs_footer :: "uint32 option"

text \<open>
  The events; the flag of a write is the outcome of the encoder. A command ends with its end record, or
  by an early return when a request could not be sent. The field
  \<open>rs_count\<close> counts the numbers handed out; \<open>rs_muxes\<close> are those of the multiplexers that record (the
  goroutine that forwards signals may use one even after the end of its command), and \<open>rs_footer\<close> is the counter that a footer has read.
\<close>

datatype recEvent =
    RvHeader bool SessionHeader | RvAlloc nat | RvStart nat bool int ExecMsg | RvFrame uint32 bool uint8 int Frame
  | RvEnd nat bool int int | RvGiveUp nat | RvFooterLoad | RvFooter bool int | RvCloseFile

inductive rec_step :: "recEvent \<Rightarrow> recSys \<Rightarrow> recSys \<Rightarrow> bool" where
  r_header: "rec_step (RvHeader ok h) s (s\<lparr>rs_rec := snd (WriteSessionHeader (rs_rec s) ok h)\<rparr>)"
| r_alloc: "rs_pc s t = RIdle \<Longrightarrow> allocSeq (rs_rec s) = (seq, r) \<Longrightarrow>
    rec_step (RvAlloc t) s (s\<lparr>rs_rec := r, rs_count := rs_count s + 1, rs_pc := (rs_pc s)(t := RAlloc seq)\<rparr>)"
| r_start: "rs_pc s t = RAlloc seq \<Longrightarrow> recWrite (rs_rec s) ok (startRecord seq now x) = (done, r) \<Longrightarrow>
    rec_step (RvStart t ok now x) s (s\<lparr>rs_rec := r, rs_pc := (rs_pc s)(t := RRun seq done),
      rs_muxes := rs_muxes s \<union> (if done then {seq} else {})\<rparr>)"
| r_frame: "seq \<in> rs_muxes s \<Longrightarrow> rec_step (RvFrame seq ok dir now f) s (s\<lparr>rs_rec := snd (WriteFrame (rs_rec s) ok seq dir now f)\<rparr>)"
| r_end: "rs_pc s t = RRun seq b \<Longrightarrow>
    rec_step (RvEnd t ok now code) s (s\<lparr>rs_rec := snd (WriteCommandEnd (rs_rec s) ok seq now code), rs_pc := (rs_pc s)(t := RIdle)\<rparr>)"
| r_give_up: "rs_pc s t = RRun seq b \<Longrightarrow> rec_step (RvGiveUp t) s (s\<lparr>rs_pc := (rs_pc s)(t := RIdle)\<rparr>)"
| r_footer_load: "rec_step RvFooterLoad s (s\<lparr>rs_footer := Some (rc_seqNum (rs_rec s))\<rparr>)"
| r_footer: "rs_footer s = Some n \<Longrightarrow>
    rec_step (RvFooter ok now) s (s\<lparr>rs_rec := snd (recWrite (rs_rec s) ok (footerRecord n now)), rs_footer := None\<rparr>)"
| r_close: "rec_step RvCloseFile s (s\<lparr>rs_rec := closeFile (rs_rec s)\<rparr>)"

definition recInit :: recSys where
  "recInit = \<lparr>rs_rec = NewRecorder, rs_count = 0, rs_pc = (\<lambda>_. RIdle), rs_muxes = {}, rs_footer = None\<rparr>"

section \<open>Lemmas\<close>

definition startSeqs :: "Record list \<Rightarrow> uint32 list" where
  "startSeqs xs = List.map_filter (\<lambda>x. map_option cs_SeqNum (rec_CmdStart x)) xs"

text \<open>The command that a frame or an end record belongs to.\<close>

definition ofCommand :: "Record \<Rightarrow> uint32 option" where
  "ofCommand x = (case rec_Frame x of Some f \<Rightarrow> Some (rf_SeqNum f) | None \<Rightarrow> map_option ce_SeqNum (rec_CmdEnd x))"

text \<open>A recording in which every frame and every end comes after the start of its command.\<close>

fun inOrder :: "uint32 list \<Rightarrow> Record list \<Rightarrow> bool" where
  "inOrder seen [] = True"
| "inOrder seen (x # xs) =
     ((case ofCommand x of None \<Rightarrow> True | Some seq \<Rightarrow> List.member seen seq) \<and> inOrder (seen @ startSeqs [x]) xs)"

lemma startSeqs_append [simp]: "startSeqs (xs @ ys) = startSeqs xs @ startSeqs ys"
  by (simp add: startSeqs_def List.map_filter_def)

lemma startSeqs_Nil [simp]: "startSeqs [] = []"
  by (simp add: startSeqs_def List.map_filter_def)

lemma startSeqs_Cons: "startSeqs (x # xs) = startSeqs [x] @ startSeqs xs"
  using startSeqs_append [of "[x]" xs] by simp

lemma inOrder_append: "inOrder seen (xs @ ys) \<longleftrightarrow> inOrder seen xs \<and> inOrder (seen @ startSeqs xs) ys"
proof (induction xs arbitrary: seen)
  case (Cons x xs)
  then show ?case using startSeqs_Cons [of x xs] by simp
qed simp

lemmas record_defs = emptyRecord_def headerRecord_def startRecord_def frameRecord_def endRecord_def footerRecord_def

lemma record_seqs [simp]:
  "startSeqs [headerRecord h] = []" "startSeqs [startRecord seq now x] = [seq]" "startSeqs [frameRecord seq dir now f] = []"
  "startSeqs [endRecord seq now code] = []" "startSeqs [footerRecord n now] = []"
  "ofCommand (headerRecord h) = None" "ofCommand (startRecord seq now x) = None" "ofCommand (frameRecord seq dir now f) = Some seq"
  "ofCommand (endRecord seq now code) = Some seq" "ofCommand (footerRecord n now) = None"
  by (simp_all add: startSeqs_def ofCommand_def record_defs List.map_filter_def)

definition allocated :: "nat \<Rightarrow> uint32 set" where
  "allocated n = of_nat ` {..<n}"

lemma allocated_fresh:
  assumes "n < 2 ^ 32"
  shows "(of_nat n :: uint32) \<notin> allocated n"
proof
  assume "(of_nat n :: uint32) \<in> allocated n"
  then obtain k where "k < n" "(of_nat n :: uint32) = of_nat k" by (auto simp: allocated_def)
  then have "unat (of_nat n :: uint32) = unat (of_nat k :: uint32)" by simp
  then show False using \<open>k < n\<close> assms by (simp add: unat_of_nat)
qed

lemma allocated_Suc: "allocated (Suc n) = insert (of_nat n) (allocated n)"
  by (simp add: allocated_def lessThan_Suc)

text \<open>As long as the counter has not wrapped: the numbers in the file and those held by commands are all different.\<close>

definition recInv :: "recSys \<Rightarrow> bool" where
  "recInv s \<longleftrightarrow> rc_seqNum (rs_rec s) = of_nat (rs_count s) \<and>
     (rs_count s \<le> 2 ^ 32 \<longrightarrow>
       distinct (startSeqs (rc_file (rs_rec s))) \<and> set (startSeqs (rc_file (rs_rec s))) \<subseteq> allocated (rs_count s) \<and>
       (\<forall>t seq. rs_pc s t = RAlloc seq \<longrightarrow> seq \<in> allocated (rs_count s) - set (startSeqs (rc_file (rs_rec s)))) \<and>
       (\<forall>t t' seq. rs_pc s t = RAlloc seq \<and> rs_pc s t' = RAlloc seq \<longrightarrow> t = t')) \<and>
     rs_muxes s \<subseteq> set (startSeqs (rc_file (rs_rec s))) \<and> (\<forall>t seq. rs_pc s t = RRun seq True \<longrightarrow> seq \<in> set (startSeqs (rc_file (rs_rec s)))) \<and>
     (\<forall>t seq. rs_pc s t = RRun seq False \<longrightarrow> \<not> rc_open (rs_rec s)) \<and>
     inOrder [] (rc_file (rs_rec s))"

text \<open>Writes to the open file that the encoder refuses.\<close>

definition encoderOk :: "recEvent \<Rightarrow> bool" where
  "encoderOk e = (case e of RvStart t ok now x \<Rightarrow> ok | _ \<Rightarrow> True)"

lemma recInv_write:
  assumes "recInv s" "startSeqs [x] = []" "\<And>seq. ofCommand x = Some seq \<Longrightarrow> rc_open (rs_rec s) \<Longrightarrow> seq \<in> set (startSeqs (rc_file (rs_rec s)))"
  shows "recInv (s\<lparr>rs_rec := snd (recWrite (rs_rec s) ok x)\<rparr>)"
  using assms by (auto simp: recInv_def recWrite_def inOrder_append List.member_iff split: option.splits)

lemma recInv_idle: "recInv s \<Longrightarrow> recInv (s\<lparr>rs_pc := (rs_pc s)(t := RIdle)\<rparr>)"
  by (auto simp: recInv_def split: if_splits)

lemma recInv_start:
  assumes "recInv s" "rs_pc s t = RAlloc seq" "recWrite (rs_rec s) True (startRecord seq now x) = (b, r)"
  shows "recInv (s\<lparr>rs_rec := r, rs_pc := (rs_pc s)(t := RRun seq b), rs_muxes := rs_muxes s \<union> (if b then {seq} else {})\<rparr>)"
proof (cases "rc_open (rs_rec s)")
  case True
  then have "b" "r = rs_rec s\<lparr>rc_file := rc_file (rs_rec s) @ [startRecord seq now x]\<rparr>" using assms(3) by (auto simp: recWrite_def)
  then show ?thesis using assms(1,2) by (auto simp: recInv_def inOrder_append split: if_splits)
next
  case False
  then have "\<not> b" "r = rs_rec s" using assms(3) by (auto simp: recWrite_def)
  then show ?thesis using assms(1,2) False by (auto simp: recInv_def split: if_splits)
qed

lemma recInv_alloc:
  assumes "recInv s" "allocSeq (rs_rec s) = (seq, r)"
  shows "recInv (s\<lparr>rs_rec := r, rs_count := rs_count s + 1, rs_pc := (rs_pc s)(t := RAlloc seq)\<rparr>)"
proof -
  have r: "r = (rs_rec s)\<lparr>rc_seqNum := of_nat (rs_count s) + 1\<rparr>" "seq = of_nat (rs_count s)"
    using assms by (auto simp: allocSeq_def recInv_def Let_def)
  have fresh: "rs_count s + 1 \<le> 2 ^ 32 \<Longrightarrow> seq \<notin> allocated (rs_count s)" using allocated_fresh r(2) by auto
  then show ?thesis using assms(1) r by (auto simp: recInv_def allocated_Suc split: if_splits)
qed

lemma recInv_step:
  assumes "rec_step e s s'" "encoderOk e" "recInv s"
  shows "recInv s'"
  using assms
proof (induction rule: rec_step.induct)
  case (r_start s t seq ok now x b r)
  then show ?case using recInv_start [of s t seq now x b r] by (simp add: encoderOk_def)
next
  case (r_end s t seq b ok now code)
  have "recInv (s\<lparr>rs_rec := snd (recWrite (rs_rec s) ok (endRecord seq now code))\<rparr>)"
    using r_end by (intro recInv_write) (cases b; auto simp: recInv_def)+
  then show ?case using recInv_idle [of "s\<lparr>rs_rec := snd (recWrite (rs_rec s) ok (endRecord seq now code))\<rparr>" t] by (simp add: WriteCommandEnd_def)
next
  case (r_frame seq s ok dir now f)
  then show ?case unfolding WriteFrame_def by (intro recInv_write) (auto simp: recInv_def)
next
  case (r_footer s n ok now)
  then have "recInv (s\<lparr>rs_rec := snd (recWrite (rs_rec s) ok (footerRecord n now))\<rparr>)" by (intro recInv_write) auto
  then show ?case by (simp add: recInv_def)
next
  case (r_alloc s t seq r)
  then show ?case using recInv_alloc [of s seq r t] by simp
next
  case (r_header s ok h)
  then show ?case unfolding WriteSessionHeader_def by (intro recInv_write) simp_all
next
  case (r_give_up s t seq b)
  then show ?case using recInv_idle by simp
qed (auto simp: recInv_def closeFile_def)

interpretation rec_inv: run_invariant rec_step encoderOk recInv
  by unfold_locales (rule recInv_step)

section \<open>Properties\<close>


definition exampleExecMsg :: ExecMsg where
  "exampleExecMsg = \<lparr>em_Path = ''/bin/ls'', em_Argv = [''ls''], em_Env = [], em_Cwd = [], em_ExtraFDs = []\<rparr>"


text \<open>A command that fails while its request is sent has a start and no end: the runner returns early.\<close>

lemma early_return_unfinished:
  "rs_pc s t = RRun seq b \<Longrightarrow> rec_step (RvGiveUp t) s s' \<Longrightarrow> rs_rec s' = rs_rec s \<and> rs_pc s' t = RIdle"
  by (erule rec_step.cases) auto

end
