(* ===== verification/Lifecycle.thy ===== *)
theory Lifecycle
  imports Runtime Recording DockerContext "HOL-Library.Char_ord" "HOL-Library.List_Lexorder"
begin

text \<open>
  From the configuration to the end of the process: the choice of the backend
  (\<open>cmd/machineproxy/backends.go\<close> and the registration files), the upload cache
  (\<open>pkg/agenttransfer/transfer.go\<close>), the start sequence with what each step acquires and its cleanup
  (\<open>cmd/machineproxy/runtime.go\<close>), and the exit status (\<open>cmd/machineproxy/main.go\<close>). The steps are the
  operations of the theories on mounts, stubs and the child; the order is that of the supervisor.
\<close>

section \<open>Backends\<close>

text \<open>The backends that are compiled in, and the configuration that the factory of each is given.\<close>

record buildTags =
  bt_ssh :: bool
  bt_docker :: bool

datatype backendSpec =
    SpecSSH sshConfig
  | SpecDocker string string string string
  | SpecCompose string string string string string int

definition sshFactory :: "Config \<Rightarrow> backendSpec" where
  "sshFactory cfg = SpecSSH \<lparr>sf_Host = ssh_Host (rem_SSH (Remote cfg)), sf_User = ssh_User (rem_SSH (Remote cfg)),
     sf_Port = ssh_Port (rem_SSH (Remote cfg)), sf_ConnectTimeout = 10 * second, sf_Bind = rem_Bind (Remote cfg),
     sf_BindInterface = rem_BindInterface (Remote cfg)\<rparr>"

definition dockerFactory :: "Config \<Rightarrow> backendSpec" where
  "dockerFactory cfg = SpecDocker (docker_Container (rem_Docker (Remote cfg))) (docker_Host (rem_Docker (Remote cfg)))
     (rem_Bind (Remote cfg)) (rem_BindInterface (Remote cfg))"

definition composeFactory :: "Config \<Rightarrow> backendSpec" where
  "composeFactory cfg = (let c = rem_Compose (Remote cfg) in
     SpecCompose (compose_Host c) (rem_Bind (Remote cfg)) (rem_BindInterface (Remote cfg))
       (compose_Project c) (compose_Service c) (compose_Sequence c))"

definition backendFactories :: "buildTags \<Rightarrow> (string \<times> (Config \<Rightarrow> backendSpec)) list" where
  "backendFactories t =
     (if bt_docker t then [(''docker'', dockerFactory), (''compose'', composeFactory)] else []) @
     (if bt_ssh t then [(''ssh'', sshFactory)] else [])"

definition availableBackends :: "buildTags \<Rightarrow> string list" where
  "availableBackends t = sort (map fst (backendFactories t))"

datatype backend_error = NoBackends string | NotCompiled string "string list"

definition buildBackend :: "buildTags \<Rightarrow> Config \<Rightarrow> (backend_error, backendSpec) result" where
  "buildBackend t cfg =
     (case map_of (backendFactories t) (rem_Type (Remote cfg)) of
        Some f \<Rightarrow> Inr (f cfg)
      | None \<Rightarrow> if backendFactories t = [] then Inl (NoBackends (rem_Type (Remote cfg)))
               else Inl (NotCompiled (rem_Type (Remote cfg)) (availableBackends t)))"

section \<open>The upload cache\<close>

text \<open>
  \<open>Transferer\<close>: the cached path (empty when nothing was uploaded) and the number of uploads so far.
  \<open>upload\<close> is the outcome of an upload if one is made; \<^const>\<open>None\<close> is a nil backend. The mutex makes a
  call atomic.
\<close>

record transferer =
  tr_resolved :: string
  tr_uploads :: nat

definition Ensure :: "(string, string) result option \<Rightarrow> transferer \<Rightarrow> (string, string) result \<times> transferer" where
  "Ensure upload t =
     (if tr_resolved t \<noteq> [] then (Inr (tr_resolved t), t)
      else case upload of
        None \<Rightarrow> (Inl ''agenttransfer: backend is nil'', t)
      | Some (Inl err) \<Rightarrow> (Inl err, t\<lparr>tr_uploads := tr_uploads t + 1\<rparr>)
      | Some (Inr r) \<Rightarrow> (Inr r, t\<lparr>tr_resolved := r, tr_uploads := tr_uploads t + 1\<rparr>))"

fun ensureAll :: "(string, string) result option list \<Rightarrow> transferer \<Rightarrow> (string, string) result list \<times> transferer" where
  "ensureAll [] t = ([], t)"
| "ensureAll (u # us) t = (let (r, t) = Ensure u t; (rs, t) = ensureAll us t in (r # rs, t))"

section \<open>The runtime\<close>

text \<open>
  The fields of \<open>runtimeDeps\<close> together with what exists on the host because of them: whether the
  recording file is open, whether the broker's context is alive, the temporary directories, and
  whether the FUSE server of the stubs is serving.
\<close>

record runtimeState =
  rt_cfg :: Config
  rt_backend :: bool
  rt_recorder :: "recorder option"
  rt_broker :: bool
  rt_sockDir :: "string option"
  rt_tempDirs :: "string list"
  rt_stub :: stubState
  rt_stubServing :: bool
  rt_mounts :: mountLoop

definition newRuntimeDeps :: "Config \<Rightarrow> runtimeState" where
  "newRuntimeDeps cfg = \<lparr>rt_cfg = cfg, rt_backend = True, rt_recorder = None, rt_broker = False, rt_sockDir = None, rt_tempDirs = [],
     rt_stub = \<lparr>ss_dir = [], ss_server = False, ss_entries = Mapping.empty\<rparr>, rt_stubServing = False, rt_mounts = mountInit\<rparr>"

text \<open>What happens around the process; the fields are the outcomes of the calls, in the order in which they are made.\<close>

datatype wake = WakeSocket | WakeTickB | WakeTimeout | WakeCancelled

datatype childResult = ChildOK | ChildExit int | ChildError string

record 're startEnv =
  se_engine :: "'re engine"
  se_host :: host
  se_mountHost :: mountHost
  se_uid :: int
  se_gid :: int
  se_local :: "string \<times> string"
  se_New :: "backendSpec \<Rightarrow> string option"
  se_BackendStart :: "string option"
  se_Detect :: "string \<times> string"
  se_IsDocker :: bool
  se_Upload :: "string option"
  se_LookBwrap :: "string option"
  se_Enumerate :: "string + PathInfoEntry list"
  se_StubTemp :: "string option"
  se_StubFiles :: "string option"
  se_StubMount :: "string option"
  se_StubUnmount :: bool
  se_SockTemp :: "string option"
  se_RecCreate :: "string option"
  se_Header :: SessionHeader
  se_HeaderOk :: bool
  se_BrokerWakes :: "wake list"
  se_Environ :: "string list"
  se_isDir :: "string \<Rightarrow> bool"
  se_Child :: "string list \<Rightarrow> string list \<Rightarrow> childResult"

definition StartBackend :: "'re startEnv \<Rightarrow> runtimeState \<Rightarrow> string option \<times> runtimeState" where
  "StartBackend E s =
     (case se_BackendStart E of
        Some err \<Rightarrow> (Some err, s)
      | None \<Rightarrow>
          (let cfg = resolveRemotePlatform (se_Detect E) (se_local E) (rt_cfg s); s = s\<lparr>rt_cfg := cfg\<rparr> in
           if \<not> se_IsDocker E then (None, s)
           else case ResolveAgentBinaryPath (se_host E) (AgentLocalPath (Components cfg)) (rem_OS (Remote cfg)) (rem_Arch (Remote cfg)) of
             Inl e \<Rightarrow> (Some ''resolve agent binary'', s)
           | Inr p \<Rightarrow> (map_option (\<lambda>err. ''upload agent to docker container: '' @ err) (se_Upload E), s)))"

definition EnterNamespace :: "'re startEnv \<Rightarrow> runtimeState \<Rightarrow> string option \<times> runtimeState" where
  "EnterNamespace E s = (se_LookBwrap E, s)"

definition mountStep :: "'re startEnv \<Rightarrow> runtimeState \<Rightarrow> string option \<times> runtimeState" where
  "mountStep E s =
     (let (e, m) = MountWorkspace (se_host E) (se_mountHost E) (se_uid E) (se_gid E) (rt_cfg s)
      in (map_option (\<lambda>_. ''mount workspace'') e, s\<lparr>rt_mounts := m\<rparr>))"

text \<open>The stub directory exists from its creation until a failure or \<open>Close\<close> removes it.\<close>

definition stubStep :: "'re startEnv \<Rightarrow> runtimeState \<Rightarrow> string option \<times> runtimeState" where
  "stubStep E s =
     (let (e, st) = BuildPathStubs (se_engine E) (se_host E) (rt_cfg s) (se_Enumerate E) (se_StubTemp E) (se_StubFiles E)
            (se_StubMount E) (rt_stub s)
      in (map_option (\<lambda>_. ''build path stubs'') e,
          s\<lparr>rt_stub := st, rt_stubServing := ss_server st,
            rt_tempDirs := (if ss_dir st \<noteq> [] \<and> ss_server st then [ss_dir st] else []) @ rt_tempDirs s\<rparr>))"

text \<open>The wait for the broker's socket: the socket appears, the timer fires, or the context ends.\<close>

fun brokerWait :: "wake list \<Rightarrow> string option" where
  "brokerWait [] = Some ''broker socket did not become ready''"
| "brokerWait (WakeSocket # ws) = None"
| "brokerWait (WakeCancelled # ws) = Some ''context canceled''"
| "brokerWait (WakeTimeout # ws) = Some ''broker socket did not become ready''"
| "brokerWait (WakeTickB # ws) = brokerWait ws"

definition openRecorder :: "'re startEnv \<Rightarrow> runtimeState \<Rightarrow> string option \<times> runtimeState" where
  "openRecorder E s =
     (if log_RecordingFile (Logging (rt_cfg s)) = [] \<or> rt_recorder s \<noteq> None then (None, s)
      else case se_RecCreate E of
        Some err \<Rightarrow> (Some (''create session recorder: '' @ err), s)
      | None \<Rightarrow> (None, s\<lparr>rt_recorder := Some (snd (WriteSessionHeader NewRecorder (se_HeaderOk E) (se_Header E)))\<rparr>))"

definition StartBroker :: "'re startEnv \<Rightarrow> runtimeState \<Rightarrow> string option \<times> runtimeState" where
  "StartBroker E s =
     (case se_SockTemp E of
        None \<Rightarrow> (Some ''create broker socket path'', s)
      | Some dir \<Rightarrow>
          (let s = s\<lparr>rt_sockDir := Some dir, rt_tempDirs := dir # rt_tempDirs s\<rparr>; cfg = rt_cfg s in
           case ResolveAgentBinaryPath (se_host E) (AgentLocalPath (Components cfg)) (rem_OS (Remote cfg)) (rem_Arch (Remote cfg)) of
             Inl e \<Rightarrow> (Some ''resolve agent binary'', s)
           | Inr p \<Rightarrow>
               (case openRecorder E s of
                  (Some err, s) \<Rightarrow> (Some err, s)
                | (None, s) \<Rightarrow> (brokerWait (se_BrokerWakes E), s\<lparr>rt_broker := True\<rparr>))))"

text \<open>The child's exit status is an error that carries it.\<close>

datatype runError = RunExitStatus int | RunMessage string

definition childStep :: "'re startEnv \<Rightarrow> string list \<Rightarrow> runtimeState \<Rightarrow> runError option" where
  "childStep E cmd s =
     (case RunChild (se_engine E) (se_host E) (se_isDir E) (se_Environ E) (rt_cfg s) (ml_mounts (rt_mounts s)) (ss_dir (rt_stub s))
            (case rt_sockDir s of None \<Rightarrow> [] | Some d \<Rightarrow> JoinPath [d, ''broker.sock'']) cmd of
        Inl e \<Rightarrow> Some (RunMessage ''run child'')
      | Inr (args, env) \<Rightarrow>
          (case se_Child E args env of
             ChildOK \<Rightarrow> None | ChildExit code \<Rightarrow> Some (RunExitStatus code) | ChildError err \<Rightarrow> Some (RunMessage err)))"

text \<open>The steps as the supervisor sees them, up to the child.\<close>

definition supervisorDeps :: "'re startEnv \<Rightarrow> runtimeState supDeps" where
  "supervisorDeps E = \<lparr>sd_Backend = StartBackend E, sd_NS = EnterNamespace E, sd_FS = mountStep E, sd_PathStubs = Some (stubStep E),
     sd_Broker = StartBroker E, sd_Launcher = (\<lambda>cmd s. (None, s))\<rparr>"

text \<open>\<open>Close\<close>, in the order of the code; the footer is written before the broker is cancelled.\<close>

definition closeRecorder :: "recorder \<Rightarrow> recorder" where
  "closeRecorder r = closeFile (snd (recWrite r True (footerRecord (rc_seqNum r) 0)))"

definition closeStub :: "bool \<Rightarrow> runtimeState \<Rightarrow> runtimeState" where
  "closeStub ok s =
     (let serving = (rt_stubServing s \<and> \<not> (ss_server (rt_stub s) \<and> ok)) in
      s\<lparr>rt_stubServing := serving,
        rt_tempDirs := (if ss_dir (rt_stub s) \<noteq> [] \<and> \<not> serving then filter (\<lambda>d. d \<noteq> ss_dir (rt_stub s)) (rt_tempDirs s) else rt_tempDirs s),
        rt_stub := (rt_stub s)\<lparr>ss_server := False, ss_dir := []\<rparr>\<rparr>)"

definition runtimeClose :: "'re startEnv \<Rightarrow> runtimeState \<Rightarrow> runtimeState" where
  "runtimeClose E s =
     (let s = s\<lparr>rt_recorder := map_option closeRecorder (rt_recorder s)\<rparr>;
          s = s\<lparr>rt_broker := False\<rparr>;
          s = s\<lparr>rt_tempDirs := (case rt_sockDir s of None \<Rightarrow> rt_tempDirs s | Some d \<Rightarrow> filter (\<lambda>x. x \<noteq> d) (rt_tempDirs s)), rt_sockDir := None\<rparr>;
          s = closeStub (se_StubUnmount E) s;
          s = s\<lparr>rt_mounts := closeMounts (se_mountHost E) (rt_mounts s)\<rparr>
      in s\<lparr>rt_backend := False\<rparr>)"

text \<open>
  \<open>run\<close> from the finished configuration on, and \<open>main\<close>: the steps, the deferred \<open>Close\<close>, and the exit
  status. A negative status of the child (it was killed by a signal) becomes its low eight bits.
\<close>

definition runMain :: "'re startEnv \<Rightarrow> buildTags \<Rightarrow> Config \<Rightarrow> string list \<Rightarrow> runError option \<times> runtimeState option" where
  "runMain E t cfg cmd =
     (case buildBackend t cfg of
        Inl e \<Rightarrow> (Some (RunMessage ''backend is not compiled into this binary''), None)
      | Inr spec \<Rightarrow>
          (case se_New E spec of
             Some err \<Rightarrow> (Some (RunMessage err), None)
           | None \<Rightarrow>
               (case SupervisorRun (supervisorDeps E) cmd (newRuntimeDeps cfg) of
                  (Some err, s) \<Rightarrow> (Some (RunMessage err), Some (runtimeClose E s))
                | (None, s) \<Rightarrow> (childStep E cmd s, Some (runtimeClose E s)))))"

definition mainStatus :: "runError option \<Rightarrow> int" where
  "mainStatus r = (case r of None \<Rightarrow> 0 | Some (RunExitStatus code) \<Rightarrow> code mod 256 | Some (RunMessage m) \<Rightarrow> 1)"

section \<open>Lemmas\<close>

text \<open>
  Predicates for the phases of the sequence: before the stubs, before the broker, and after it. A
  failure stops in the phase it happened in.
\<close>

lemma thenStep_phase: "P (snd r) \<Longrightarrow> (\<And>s. P s \<Longrightarrow> Q s) \<Longrightarrow> (\<And>s. P s \<Longrightarrow> Q (snd (k s))) \<Longrightarrow> Q (snd (thenStep r k))"
  by (simp add: thenStep_def split: option.split)

lemma SupervisorRun_phases:
  assumes "A s" "\<And>s. A s \<Longrightarrow> A (snd (sd_Backend d s))" "\<And>s. A s \<Longrightarrow> A (snd (sd_NS d s))" "\<And>s. A s \<Longrightarrow> A (snd (sd_FS d s))"
    and "sd_PathStubs d = Some stubs" "\<And>s. A s \<Longrightarrow> B (snd (stubs s))" "\<And>s. A s \<Longrightarrow> B s"
    and "\<And>s. B s \<Longrightarrow> C (snd (sd_Broker d s))" "\<And>s. B s \<Longrightarrow> C s" "\<And>s. C s \<Longrightarrow> C (snd (sd_Launcher d cmd s))"
  shows "C (snd (SupervisorRun d cmd s))"
proof -
  have "A (snd (thenStep (sd_Backend d s) (sd_NS d)))"
    by (rule thenStep_phase [where P = A and Q = A, OF assms(2) [OF assms(1)] _ assms(3)])
  then have a: "A (snd (thenStep (thenStep (sd_Backend d s) (sd_NS d)) (sd_FS d)))"
    by (rule thenStep_phase [where P = A and Q = A, OF _ _ assms(4)])
  have b: "B (snd (thenStep (thenStep (thenStep (sd_Backend d s) (sd_NS d)) (sd_FS d)) stubs))"
    by (rule thenStep_phase [where P = A and Q = B, OF a assms(7,6)])
  have c: "C (snd (thenStep (thenStep (thenStep (thenStep (sd_Backend d s) (sd_NS d)) (sd_FS d)) stubs) (sd_Broker d)))"
    by (rule thenStep_phase [where P = B and Q = C, OF b assms(9,8)])
  show ?thesis unfolding SupervisorRun_def Let_def assms(5) option.case
    by (rule thenStep_phase [where P = C and Q = C, OF c _ assms(10)])
qed

text \<open>What is owned: the mounts alone, then the stub directory too, then the socket directory too.\<close>

definition mountsClean :: "mountHost \<Rightarrow> mountLoop \<Rightarrow> bool" where
  "mountsClean H m \<longleftrightarrow> ml_servers (closeMounts H m) = [] \<and> ml_dirs (closeMounts H m) = [] \<and> ml_erased (closeMounts H m) = []"

definition stubDirs :: "stubState \<Rightarrow> string list" where
  "stubDirs st = (if ss_dir st \<noteq> [] \<and> ss_server st then [ss_dir st] else [])"

definition lifeMounts :: "'re startEnv \<Rightarrow> string list \<Rightarrow> runtimeState \<Rightarrow> bool" where
  "lifeMounts E raws s \<longleftrightarrow> Mounts (Container (rt_cfg s)) = raws \<and> mountsClean (se_mountHost E) (rt_mounts s) \<and>
     rt_tempDirs s = [] \<and> rt_sockDir s = None \<and> \<not> ss_server (rt_stub s) \<and> \<not> rt_stubServing s"

definition lifeStubs :: "'re startEnv \<Rightarrow> runtimeState \<Rightarrow> bool" where
  "lifeStubs E s \<longleftrightarrow> mountsClean (se_mountHost E) (rt_mounts s) \<and> rt_sockDir s = None \<and>
     rt_tempDirs s = stubDirs (rt_stub s) \<and> rt_stubServing s = ss_server (rt_stub s)"

definition lifeAll :: "'re startEnv \<Rightarrow> runtimeState \<Rightarrow> bool" where
  "lifeAll E s \<longleftrightarrow> mountsClean (se_mountHost E) (rt_mounts s) \<and> rt_stubServing s = ss_server (rt_stub s) \<and>
     set (rt_tempDirs s) \<subseteq> set_option (rt_sockDir s) \<union> set (stubDirs (rt_stub s))"

lemma resolveRemotePlatform_container [simp]: "Container (resolveRemotePlatform d l cfg) = Container cfg"
  by (simp add: resolveRemotePlatform_def Let_def)

lemma StartBackend_mounts: "lifeMounts E raws s \<Longrightarrow> lifeMounts E raws (snd (StartBackend E s))"
  by (auto simp: StartBackend_def lifeMounts_def Let_def split: option.split sum.split)

lemma mountStep_mounts:
  assumes "distinct (List.map_filter (containerOf (se_host E)) raws)"
    and "\<forall>d. mh_FuseMount (se_mountHost E) d \<and> mh_Unmount (se_mountHost E) d" "\<forall>n. mh_Temp (se_mountHost E) n \<noteq> Some []"
    and "lifeMounts E raws s"
  shows "lifeMounts E raws (snd (mountStep E s))"
proof -
  obtain e m where w: "MountWorkspace (se_host E) (se_mountHost E) (se_uid E) (se_gid E) (rt_cfg s) = (e, m)" by fastforce
  have "mountsClean (se_mountHost E) m" unfolding mountsClean_def
    using mounts_cleaned_up [OF w _ assms(2,3)] assms(1,4) by (simp add: lifeMounts_def)
  then show ?thesis using assms(4) by (simp add: mountStep_def w lifeMounts_def)
qed

lemma stubStep_stubs: "lifeMounts E raws s \<Longrightarrow> lifeStubs E (snd (stubStep E s))"
  by (auto simp: stubStep_def lifeMounts_def lifeStubs_def stubDirs_def split: prod.split)

lemma openRecorder_fields:
  "openRecorder E s = (e, s') \<Longrightarrow> rt_mounts s' = rt_mounts s \<and> rt_stub s' = rt_stub s \<and> rt_stubServing s' = rt_stubServing s \<and>
     rt_tempDirs s' = rt_tempDirs s \<and> rt_sockDir s' = rt_sockDir s"
  by (auto simp: openRecorder_def split: if_splits option.splits)

lemma StartBroker_all: "lifeStubs E s \<Longrightarrow> lifeAll E (snd (StartBroker E s))"
  by (auto simp: StartBroker_def lifeStubs_def lifeAll_def Let_def dest!: openRecorder_fields split: option.split sum.split prod.split)

lemma runtimeClose_released:
  assumes "lifeAll E s" "se_StubUnmount E"
  shows "rt_tempDirs (runtimeClose E s) = []" "\<not> rt_stubServing (runtimeClose E s)"
    "mountsClean (se_mountHost E) (rt_mounts s)" "rt_mounts (runtimeClose E s) = closeMounts (se_mountHost E) (rt_mounts s)"
    "rt_recorder (runtimeClose E s) = map_option closeRecorder (rt_recorder s)"
    "\<not> rt_broker (runtimeClose E s)" "rt_sockDir (runtimeClose E s) = None" "\<not> rt_backend (runtimeClose E s)"
proof -
  show "\<not> rt_stubServing (runtimeClose E s)" "mountsClean (se_mountHost E) (rt_mounts s)"
    "rt_mounts (runtimeClose E s) = closeMounts (se_mountHost E) (rt_mounts s)"
    "rt_recorder (runtimeClose E s) = map_option closeRecorder (rt_recorder s)"
    "\<not> rt_broker (runtimeClose E s)" "rt_sockDir (runtimeClose E s) = None" "\<not> rt_backend (runtimeClose E s)"
    using assms by (simp_all add: runtimeClose_def closeStub_def lifeAll_def Let_def)
  have "rt_tempDirs (runtimeClose E s) =
      (let ds = (case rt_sockDir s of None \<Rightarrow> rt_tempDirs s | Some d \<Rightarrow> filter (\<lambda>x. x \<noteq> d) (rt_tempDirs s))
       in if ss_dir (rt_stub s) \<noteq> [] then filter (\<lambda>d. d \<noteq> ss_dir (rt_stub s)) ds else ds)"
    using assms by (cases "rt_sockDir s") (simp_all add: runtimeClose_def closeStub_def lifeAll_def Let_def)
  then show "rt_tempDirs (runtimeClose E s) = []"
    using assms(1) by (auto simp: lifeAll_def stubDirs_def Let_def filter_empty_conv split: option.splits if_splits)
qed

section \<open>Properties\<close>

text \<open>
  Nothing is left behind: whatever step of the start sequence fails, and whatever the child does,
  when the container paths of the mounts are different and FUSE mounts and unmounts work, then at
  the end the broker is cancelled, the recording is closed, no FUSE server is serving, no temporary
  directory is left, nothing was removed through a live mount, and the backend is closed. (A signal
  that kills machineproxy itself is outside this statement: the program installs no handler.)
\<close>

lemma runMain_released:
  assumes "runMain E t cfg cmd = (r, Some s)"
    and "distinct (List.map_filter (containerOf (se_host E)) (Mounts (Container cfg)))"
    and "\<forall>d. mh_FuseMount (se_mountHost E) d \<and> mh_Unmount (se_mountHost E) d" "\<forall>n. mh_Temp (se_mountHost E) n \<noteq> Some []"
    and "se_StubUnmount E"
  shows "\<not> rt_broker s \<and> (\<forall>rec. rt_recorder s = Some rec \<longrightarrow> \<not> rc_open rec) \<and> \<not> rt_stubServing s \<and> rt_tempDirs s = [] \<and>
    ml_servers (rt_mounts s) = [] \<and> ml_dirs (rt_mounts s) = [] \<and> ml_erased (rt_mounts s) = [] \<and> \<not> rt_backend s"
proof -
  let ?s = "snd (SupervisorRun (supervisorDeps E) cmd (newRuntimeDeps cfg))"
  have init: "lifeMounts E (Mounts (Container cfg)) (newRuntimeDeps cfg)"
    by (simp add: lifeMounts_def newRuntimeDeps_def mountsClean_def closeMounts_idle mountInit_def)
  have "lifeAll E ?s"
    by (rule SupervisorRun_phases [where A = "lifeMounts E (Mounts (Container cfg))" and B = "lifeStubs E"])
      (use init assms(2-4) in \<open>auto simp: supervisorDeps_def EnterNamespace_def StartBackend_mounts mountStep_mounts stubStep_stubs StartBroker_all,
       auto simp: lifeMounts_def lifeStubs_def lifeAll_def stubDirs_def\<close>)
  note rel = runtimeClose_released [OF this assms(5)]
  have "s = runtimeClose E ?s" using assms(1) by (auto simp: runMain_def split: sum.splits prod.splits option.splits)
  then show ?thesis using rel by (auto simp: mountsClean_def closeRecorder_def closeFile_def)
qed

definition exampleStart :: "string startEnv" where
  "exampleStart = \<lparr>se_engine = litEngine, se_host = exampleHost, se_mountHost = exampleMountHost, se_uid = 1000, se_gid = 1000,
     se_local = (''linux'', ''amd64''), se_New = (\<lambda>_. None), se_BackendStart = None, se_Detect = ([], []), se_IsDocker = False, se_Upload = None,
     se_LookBwrap = None, se_Enumerate = Inr [], se_StubTemp = Some ''s'', se_StubFiles = None, se_StubMount = None, se_StubUnmount = True,
     se_SockTemp = Some ''b'', se_RecCreate = None, se_Header = \<lparr>sh_Version = [], sh_StartTime = 0, sh_LocalUser = [], sh_LocalPID = 0,
       sh_BackendType = [], sh_BackendAddr = [], sh_AgentPath = []\<rparr>, se_HeaderOk = True, se_BrokerWakes = [WakeTickB, WakeSocket],
     se_Environ = [], se_isDir = (\<lambda>_. True), se_Child = (\<lambda>_ _. ChildExit 3)\<rparr>"

definition exampleRunConfig :: Config where
  "exampleRunConfig = updRemote (\<lambda>r. r\<lparr>rem_Type := ''ssh''\<rparr>) (exampleMounts [''/w:/a'', ''/b:/b''])"

text \<open>Every caller gets the path of the one successful upload, and no upload is made after it.\<close>

lemma ensure_cached:
  assumes "tr_resolved t \<noteq> []"
  shows "ensureAll us t = (map (\<lambda>_. Inr (tr_resolved t)) us, t)"
  using assms by (induction us) (simp_all add: Ensure_def)

lemma ensure_uploads_once:
  assumes "Ensure u t = (Inr p, t')" "p \<noteq> []"
  shows "ensureAll us t' = (map (\<lambda>_. Inr p) us, t')"
proof -
  have "tr_resolved t' = p" using assms by (auto simp: Ensure_def split: if_splits option.splits sum.splits)
  then show ?thesis using ensure_cached [of t' us] assms(2) by simp
qed

text \<open>The exit status of machineproxy is that of the child, if it ran.\<close>

lemma main_status:
  assumes "SupervisorRun (supervisorDeps E) cmd (newRuntimeDeps cfg) = (None, s)" "buildBackend t cfg = Inr spec" "se_New E spec = None"
    and "RunChild (se_engine E) (se_host E) (se_isDir E) (se_Environ E) (rt_cfg s) (ml_mounts (rt_mounts s)) (ss_dir (rt_stub s))
      (case rt_sockDir s of None \<Rightarrow> [] | Some d \<Rightarrow> JoinPath [d, ''broker.sock'']) cmd = Inr (args, env)"
    and "se_Child E args env = ChildExit code" "0 \<le> code" "code < 256"
  shows "mainStatus (fst (runMain E t cfg cmd)) = code"
  using assms by (simp add: runMain_def childStep_def mainStatus_def)

end
