(* ===== verification/Program.thy ===== *)
theory Program
  imports Cli Lifecycle
begin

text \<open>
  The whole of \<open>cmd/machineproxy/main.go\<close>: \<open>run\<close> from the arguments to the supervisor, composed of the
  argument parser, the configuration, the resolution of the first program and the start sequence,
  and what the program as a whole promises.
\<close>

section \<open>Definitions\<close>

text \<open>The surroundings of \<open>run\<close> before the runtime exists; \<open>me_OpenLog\<close> is the error of the log file, if any.\<close>

record 're mainEnv =
  me_start :: "'re startEnv"
  me_ReadFile :: "string \<Rightarrow> bytes option"
  me_Toml :: "bytes \<Rightarrow> Config option"
  me_Yaml :: "bytes \<Rightarrow> Config option"
  me_Getwd :: "string option"
  me_OpenLog :: "string \<Rightarrow> string option"
  me_Stat :: "string \<Rightarrow> string + (bool \<times> bool)"
  me_PATH :: string
  me_Contents :: "string \<Rightarrow> bytes option"

text \<open>\<open>openLogWriter\<close>: an empty path is standard error.\<close>

definition openLogWriter :: "(string \<Rightarrow> string option) \<Rightarrow> string \<Rightarrow> string option" where
  "openLogWriter openFile path = (if path = [] then None else openFile path)"

text \<open>The result: the error, and the runtime after its \<open>Close\<close> if it was built.\<close>

definition mainFail :: "string \<Rightarrow> runError option \<times> runtimeState option" where
  "mainFail msg = (Some (RunMessage msg), None)"

definition machineproxyRun :: "'re mainEnv \<Rightarrow> buildTags \<Rightarrow> string list \<Rightarrow> runError option \<times> runtimeState option" where
  "machineproxyRun M t rawArgs =
     (case parseCLIArgs rawArgs of Inl e \<Rightarrow> mainFail ''flags'' | Inr a \<Rightarrow>
      if cli_showVersion a then (None, None)
      else case LoadFileRaw (me_ReadFile M) (me_Toml M) (me_Yaml M) (cli_cfgPath a) of
        Inl e \<Rightarrow> mainFail (''load config '' @ cli_cfgPath a) | Inr cfg \<Rightarrow>
      case applyCLI a (me_Getwd M) cfg of Inl e \<Rightarrow> mainFail ''overrides'' | Inr cfg \<Rightarrow>
      case Finalize (se_engine (me_start M)) (se_host (me_start M)) cfg of Inl e \<Rightarrow> mainFail ''finalize'' | Inr (cfg, ws) \<Rightarrow>
      case openLogWriter (me_OpenLog M) (log_File (Logging cfg)) of Some err \<Rightarrow> mainFail (''open logging.file: '' @ err) | None \<Rightarrow>
      case initialCommand (me_Stat M) (me_Getwd M) (me_PATH M) (me_Contents M) cfg (cli_cmd a) of
        Inl e \<Rightarrow> mainFail ''resolve initial command'' | Inr (cfg, cmd) \<Rightarrow>
      runMain (me_start M) t cfg cmd)"

section \<open>Lemmas\<close>

text \<open>What must have happened before anything is started.\<close>

lemma machineproxyRun_started:
  assumes "machineproxyRun M t args = (r, Some s)"
  obtains a cfg0 cfg1 cfg2 ws cfg3 cmd where "parseCLIArgs args = Inr a" "\<not> cli_showVersion a"
    "LoadFileRaw (me_ReadFile M) (me_Toml M) (me_Yaml M) (cli_cfgPath a) = Inr cfg0" "applyCLI a (me_Getwd M) cfg0 = Inr cfg1"
    "Finalize (se_engine (me_start M)) (se_host (me_start M)) cfg1 = Inr (cfg2, ws)"
    "initialCommand (me_Stat M) (me_Getwd M) (me_PATH M) (me_Contents M) cfg2 (cli_cmd a) = Inr (cfg3, cmd)"
    "runMain (me_start M) t cfg3 cmd = (r, Some s)"
  using assms unfolding machineproxyRun_def mainFail_def
  by (auto split: sum.splits if_splits prod.splits option.splits)

lemma initialCommand_mounts:
  assumes "initialCommand st cwd path cont cfg cmd = Inr (cfg', cmd')"
  shows "Mounts (Container cfg') = Mounts (Container cfg)" "cmd' \<noteq> []"
  using assms by (auto simp: initialCommand_def split: if_splits sum.splits)

lemma MatchLocalCommand_path:
  assumes "HasPrefix p ''/''" "\<not> HasSuffix p ''/''"
  shows "MatchLocalCommand eng p p"
proof -
  have "p \<noteq> []" "IsAbs p" using assms(1) by (cases p; auto simp: IsAbs_def)+
  then show ?thesis using assms by (simp add: MatchLocalCommand_def CompileLocalCommand_def ruleMatch_def Let_def)
qed

section \<open>Properties\<close>

text \<open>
  The first program runs on this machine: when it is resolved locally, as the configuration does by
  default, and no local command rule has a colon, then the tracer that machineproxy starts is given
  exactly the resolved command, and lets the exec of its program go ahead instead of sending it to the
  remote host.
\<close>

theorem first_program_local:
  assumes "initialCommand st wd path cont cfg cmd = Inr (cfg', cmd')" "ForceResolve (Container cfg) = Some True"
    and "buildChildInvocation h cfg' sock cwd shimBin cmd' = Inr argv"
    and "list_all (\<lambda>rule. CHR '':'' \<notin> set rule) (LocalCommands (Container cfg'))"
    and "HasPrefix (hd cmd') ''/''" "\<not> HasSuffix (hd cmd') ''/''"
  shows "\<exists>tc level. parseArgs emptyTracerConfig ''info'' (tl argv) = (Some (tc, cmd'), level) \<and> shouldAllow eng tc (hd cmd')"
proof -
  let ?lc = "LocalCommands (Container cfg')"
  have mem: "hd cmd' \<in> set ?lc"
    using assms(1,2) by (auto simp: initialCommand_def DeriveLocalCommands_def split: if_splits sum.splits option.splits)
  then have "Split (Join ?lc '':'') (CHR '':'') = ?lc" using assms(4) by (intro Split_Join) (auto simp: list_all_iff)
  then have "parseArgs emptyTracerConfig ''info'' (tl argv) =
      (Some (\<lparr>tc_ShimPath = shimBin, tc_Whitelist = ?lc, tc_BrokerSock = sock,
         tc_CwdFrom = (if snd cwd = [] then [] else fst cwd), tc_CwdTo = snd cwd\<rparr>, cmd'), log_Level (Logging cfg'))"
    unfolding child_args [OF assms(3)] using mem by auto
  moreover have "list_ex (\<lambda>entry. MatchLocalCommand eng entry (hd cmd')) ?lc"
    using mem MatchLocalCommand_path [OF assms(5,6)] by (auto simp: list_ex_iff)
  ultimately show ?thesis by (auto simp: shouldAllow_def)
qed


definition exampleMain :: "string mainEnv" where
  "exampleMain = \<lparr>me_start = exampleStart, me_ReadFile = (\<lambda>_. Some []), me_Toml = (\<lambda>_. Some exampleConfig), me_Yaml = (\<lambda>_. None),
     me_Getwd = Some ''/'', me_OpenLog = (\<lambda>_. None), me_Stat = (\<lambda>_. Inr (False, True)), me_PATH = ''/bin'', me_Contents = (\<lambda>_. None)\<rparr>"

abbreviation exampleArgs :: "string list" where "exampleArgs \<equiv> [''-config'', ''c.toml'', ''box'', ''/bin/ls'']"

definition exampleParsed :: cliArgs where
  "exampleParsed = defaultCLI\<lparr>cli_cfgPath := ''c.toml'', cli_destination := ''box'', cli_cmd := [''/bin/ls'']\<rparr>"

definition exampleStages :: bool where
  "exampleStages \<longleftrightarrow>
     (case applyCLI exampleParsed (Some ''/'') exampleConfig of Inl _ \<Rightarrow> False
      | Inr c1 \<Rightarrow> (case Finalize litEngine exampleHost c1 of Inl _ \<Rightarrow> False
          | Inr (c, ws) \<Rightarrow> distinct (List.map_filter (containerOf exampleHost) (Mounts (Container c))) \<and> log_File (Logging c) = [] \<and>
              (case initialCommand (\<lambda>_. Inr (False, True)) (Some ''/'') ''/bin'' (\<lambda>_. None) c [''/bin/ls''] of Inl _ \<Rightarrow> False
               | Inr (c', cmd) \<Rightarrow> rem_Type (Remote c') = ''ssh'')))"

lemma exampleStages_ok: "exampleStages"
  by code_simp

lemma exampleMain_stages: "parseCLIArgs exampleArgs = Inr exampleParsed"
    "LoadFileRaw (me_ReadFile exampleMain) (me_Toml exampleMain) (me_Yaml exampleMain) (cli_cfgPath exampleParsed) = Inr exampleConfig"
  by code_simp+


theorem first_program_local_witness:
  "\<exists>tc level. parseArgs emptyTracerConfig ''info'' [optShim, ''/shim'', optSock, ''/s'', optLevel, [], optWhitelist, ''ls:/bin/ls'', endOpts, ''/bin/ls''] =
     (Some (tc, [''/bin/ls'']), level) \<and> shouldAllow litEngine tc ''/bin/ls''"
proof -
  let ?c = "updContainer (\<lambda>c. c\<lparr>ForceResolve := Some True\<rparr>) exampleConfig"
  have i: "initialCommand (\<lambda>_. Inr (False, True)) None [] (\<lambda>_. None) ?c [''/bin/ls''] =
      Inr (updContainer (\<lambda>c. c\<lparr>LocalCommands := [''ls'', ''/bin/ls'']\<rparr>) ?c, [''/bin/ls''])" by code_simp
  have b: "buildChildInvocation exampleHost (updContainer (\<lambda>c. c\<lparr>LocalCommands := [''ls'', ''/bin/ls'']\<rparr>) ?c) ''/s'' ([], []) ''/shim'' [''/bin/ls''] =
      Inr [''/usr/lib/machineproxy/mproxy-tracer'', optShim, ''/shim'', optSock, ''/s'', optLevel, [], optWhitelist, ''ls:/bin/ls'', endOpts, ''/bin/ls'']"
    by code_simp
  have "\<not> HasSuffix ''/bin/ls'' ''/''" by code_simp
  then show ?thesis using first_program_local [OF i _ b, of litEngine] by (simp add: exampleConfig_def)
qed

end
