(* ===== verification/ShimInput.thy ===== *)
theory ShimInput
  imports Shim Steps
begin

text \<open>
  The input direction over time: the goroutines of the shim (\<open>cmd/mproxy-shim/main.go\<close>: \<open>streamStdin\<close>,
  the signal loop, \<open>streamFD\<close>) write to one socket, and \<open>readFrames\<close> of the broker
  (\<open>pkg/broker/server.go\<close>) reads from it. At the end of standard input the shim shuts down the write
  side of the socket, which all its goroutines share.
\<close>

section \<open>State and steps\<close>

text \<open>
  The frames that went into the socket, whether its write side is shut down, the goroutines that have
  ended, how many frames the broker has read, whether its reader has ended (it then closes the
  command's standard input and the signal channel), and the descriptors whose pipe to the command is
  still open for writing: \<open>serveConn\<close> closes them all when the command has ended, and nothing else
  does. \<open>in_sent\<close> and \<open>in_lost\<close> record what the goroutines sent and what the socket refused.
\<close>

record inputSys =
  in_wire :: "BrokerFrame list"
  in_closed :: bool
  in_stdinDone :: bool
  in_fdDone :: "uint32 set"
  in_read :: nat
  in_brokerDone :: bool
  in_pipes :: "uint32 set"
  in_sent :: "shimSend list"
  in_lost :: "shimSend list"

definition inputInit :: "uint32 set \<Rightarrow> inputSys" where
  "inputInit fds = \<lparr>in_wire = [], in_closed = False, in_stdinDone = False, in_fdDone = {}, in_read = 0, in_brokerDone = False,
     in_pipes = fds, in_sent = [], in_lost = []\<rparr>"

text \<open>\<open>safeSend\<close>: an error of the encoder is ignored.\<close>

definition safeSend :: "inputSys \<Rightarrow> shimSend \<Rightarrow> inputSys" where
  "safeSend s x =
     (if in_closed s then s\<lparr>in_sent := in_sent s @ [x], in_lost := in_lost s @ [x]\<rparr>
      else s\<lparr>in_sent := in_sent s @ [x], in_wire := in_wire s @ [sendFrame x]\<rparr>)"

datatype inputEvent =
    InStdin bytes | InStdinEOF | InSignal int | InFD uint32 bytes | InFDEOF uint32 | BrokerRead | BrokerEOF | CommandDone

inductive input_step :: "inputEvent \<Rightarrow> inputSys \<Rightarrow> inputSys \<Rightarrow> bool" where
  i_stdin: "\<not> in_stdinDone s \<Longrightarrow> d \<noteq> [] \<Longrightarrow> input_step (InStdin d) s (safeSend s (SendStdin d))"
| i_stdin_eof: "\<not> in_stdinDone s \<Longrightarrow> input_step InStdinEOF s (s\<lparr>in_stdinDone := True, in_closed := True\<rparr>)"
| i_signal: "input_step (InSignal sig) s (safeSend s (SendSignal sig))"
| i_fd: "fd \<notin> in_fdDone s \<Longrightarrow> d \<noteq> [] \<Longrightarrow> input_step (InFD fd d) s (safeSend s (SendFD fd d))"
| i_fd_eof: "fd \<notin> in_fdDone s \<Longrightarrow> input_step (InFDEOF fd) s (s\<lparr>in_fdDone := insert fd (in_fdDone s)\<rparr>)"
| i_read: "in_read s < length (in_wire s) \<Longrightarrow> \<not> in_brokerDone s \<Longrightarrow> input_step BrokerRead s (s\<lparr>in_read := in_read s + 1\<rparr>)"
| i_read_eof: "in_read s = length (in_wire s) \<Longrightarrow> in_closed s \<Longrightarrow> input_step BrokerEOF s (s\<lparr>in_brokerDone := True\<rparr>)"
| i_done: "input_step CommandDone s (s\<lparr>in_pipes := {}\<rparr>)"

inductive_cases input_stepE: "input_step e s s'"

text \<open>What the broker has done with the frames it read, and what a reader of a descriptor pipe finds at its end.\<close>

definition delivered :: "uint32 set \<Rightarrow> inputSys \<Rightarrow> brokerEffect list" where
  "delivered fds s = readFrames (\<lambda>_. True) fds 0 (take (in_read s) (in_wire s))"

definition fdAtEOF :: "inputSys \<Rightarrow> uint32 \<Rightarrow> bool" where
  "fdAtEOF s fd \<longleftrightarrow> fd \<notin> in_pipes s"

section \<open>Lemmas\<close>

definition inputInv :: "inputSys \<Rightarrow> bool" where
  "inputInv s \<longleftrightarrow> in_closed s = in_stdinDone s \<and> in_read s \<le> length (in_wire s) \<and>
     (\<exists>xs. in_wire s = map sendFrame xs \<and> in_sent s = xs @ in_lost s) \<and> (in_lost s \<noteq> [] \<longrightarrow> in_closed s)"

lemma inputInv_step: "input_step e s s' \<Longrightarrow> inputInv s \<Longrightarrow> inputInv s'"
proof (induction rule: input_step.induct)
  case (i_read s)
  then show ?case by (auto simp: inputInv_def)
qed (auto simp: inputInv_def safeSend_def)

interpretation input_inv: run_invariant input_step "\<lambda>_. True" inputInv
  by unfold_locales (rule inputInv_step)

lemma inputInv_init: "inputInv (inputInit fds)"
  by (simp add: inputInv_def inputInit_def)

text \<open>After the end of standard input the frames in the socket are final.\<close>

interpretation input_cut: run_invariant input_step "\<lambda>_. True" "\<lambda>s. in_closed s \<and> in_wire s = w" for w
  by unfold_locales (auto simp: safeSend_def elim!: input_stepE)

interpretation fd_open: run_invariant input_step "\<lambda>e. e \<noteq> CommandDone" "\<lambda>s. fd \<in> in_pipes s" for fd
  by unfold_locales (auto simp: safeSend_def elim!: input_stepE split: if_splits)

lemma concat_map_take: "\<exists>rest. concat (map f xs) = concat (map f (take n xs)) @ rest"
  by (metis append_take_drop_id concat_append map_append)

section \<open>Properties\<close>

text \<open>
  What the shim sends reaches the command: in every interleaving of the shim's goroutines with the
  broker, what the broker has handed on is an initial part of the standard input, signals and
  descriptor data in the order in which they were sent; once the broker has read all frames it is
  all of it, except for what was sent after the end of standard input; and before that, nothing is lost.
\<close>

theorem input_delivered:
  assumes "run input_step (inputInit fds) es s"
  shows "\<exists>xs. in_sent s = xs @ in_lost s \<and> (\<exists>rest. concat (map (brokerSees fds) xs) = delivered fds s @ rest) \<and>
    (in_read s = length (in_wire s) \<longrightarrow> delivered fds s = concat (map (brokerSees fds) xs)) \<and> (\<not> in_stdinDone s \<longrightarrow> in_lost s = [])"
proof -
  have i: "inputInv s" using input_inv.kept_run [OF assms _ inputInv_init] by (simp add: list_all_iff)
  then obtain xs where xs: "in_wire s = map sendFrame xs" "in_sent s = xs @ in_lost s" by (auto simp: inputInv_def)
  have d: "delivered fds s = concat (map (brokerSees fds) (take (in_read s) xs))"
    unfolding delivered_def xs(1) take_map by (rule readFrames_send)
  have "in_read s = length (in_wire s) \<longrightarrow> delivered fds s = concat (map (brokerSees fds) xs)" using d xs(1) by simp
  moreover have "\<exists>rest. concat (map (brokerSees fds) xs) = delivered fds s @ rest" unfolding d by (rule concat_map_take)
  ultimately show ?thesis using i xs(2) by (auto simp: inputInv_def)
qed

theorem input_delivered_witness: "delivered {} (safeSend (inputInit {}) (SendSignal 2)\<lparr>in_read := 1\<rparr>) = [ToSignals 2]"
proof -
  have "input_step (InSignal 2) (inputInit {}) (safeSend (inputInit {}) (SendSignal 2))" by (rule i_signal)
  moreover have "input_step BrokerRead (safeSend (inputInit {}) (SendSignal 2)) (safeSend (inputInit {}) (SendSignal 2)\<lparr>in_read := 1\<rparr>)"
    using i_read [of "safeSend (inputInit {}) (SendSignal 2)"] by (simp add: safeSend_def inputInit_def)
  ultimately have "run input_step (inputInit {}) [InSignal 2, BrokerRead] (safeSend (inputInit {}) (SendSignal 2)\<lparr>in_read := 1\<rparr>)"
    by (meson run.intros)
  from input_delivered [OF this] show ?thesis by (auto simp: safeSend_def inputInit_def)
qed

text \<open>
  C9. The end of standard input cuts off signals and descriptors: from then on, in every continuation,
  no signal and no descriptor data that the shim sends reaches the broker; it is dropped without an
  error. The shim keeps catching the signals, so a command started with its standard input at the
  end (from \<open>/dev/null\<close>, for instance) can no longer be interrupted or terminated through it.
\<close>

theorem stdin_eof_cuts_control:
  assumes "run input_step (inputInit fds) es s" "input_step InStdinEOF s s1" "run input_step s1 es' s2"
  shows "in_wire s2 = in_wire s \<and> (\<forall>sig s3. input_step (InSignal sig) s2 s3 \<longrightarrow> in_wire s3 = in_wire s \<and> last (in_lost s3) = SendSignal sig) \<and>
    (\<forall>fd d s3. input_step (InFD fd d) s2 s3 \<longrightarrow> in_wire s3 = in_wire s \<and> last (in_lost s3) = SendFD fd d)"
proof -
  have "in_closed s1 \<and> in_wire s1 = in_wire s" using assms(2) by (auto elim: input_stepE)
  then have c: "in_closed s2" "in_wire s2 = in_wire s" using input_cut.kept_run [OF assms(3), of "in_wire s"] by (simp_all add: list_all_iff)
  have "in_wire s3 = in_wire s \<and> last (in_lost s3) = SendSignal sig" if "input_step (InSignal sig) s2 s3" for sig s3
    using that c by (auto simp: safeSend_def elim: input_stepE)
  moreover have "in_wire s3 = in_wire s \<and> last (in_lost s3) = SendFD fd d" if "input_step (InFD fd d) s2 s3" for fd d s3
    using that c by (auto simp: safeSend_def elim: input_stepE)
  ultimately show ?thesis using c(2) by blast
qed

definition stdinEnded :: inputSys where
  "stdinEnded = inputInit {}\<lparr>in_stdinDone := True, in_closed := True\<rparr>"

theorem stdin_eof_cuts_control_witness:
  "in_wire (safeSend stdinEnded (SendSignal 15)) = [] \<and> in_lost (safeSend stdinEnded (SendSignal 15)) = [SendSignal 15]"
proof -
  have e: "input_step InStdinEOF (inputInit {}) stdinEnded"
    using i_stdin_eof [of "inputInit {}"] by (simp add: inputInit_def stdinEnded_def)
  have "input_step (InSignal 15) stdinEnded (safeSend stdinEnded (SendSignal 15))" by (rule i_signal)
  then show ?thesis using stdin_eof_cuts_control [OF run.run_nil e run.run_nil]
    by (auto simp: safeSend_def stdinEnded_def inputInit_def)
qed

text \<open>
  The end of an inherited descriptor is never told to the command: \<open>streamFD\<close> ends silently, so
  whatever happens, the pipe of the descriptor is not at its end before the command itself has ended.
  A remote command that reads such a descriptor to its end (\<open>cmd 3< file\<close>) waits for ever.
\<close>

theorem fd_eof_not_forwarded:
  assumes "run input_step (inputInit fds) es s" "fd \<in> fds" "InFDEOF fd \<in> set es" "CommandDone \<notin> set es"
  shows "\<not> fdAtEOF s fd"
  using fd_open.kept_run [OF assms(1), of fd] assms(2,4) by (auto simp: fdAtEOF_def list_all_iff inputInit_def)

theorem fd_eof_not_forwarded_witness: "\<not> fdAtEOF (inputInit {3}\<lparr>in_fdDone := {3}\<rparr>) 3"
proof -
  have "input_step (InFDEOF 3) (inputInit {3}) (inputInit {3}\<lparr>in_fdDone := {3}\<rparr>)"
    using i_fd_eof [of 3 "inputInit {3}"] by (simp add: inputInit_def)
  then have "run input_step (inputInit {3}) [InFDEOF 3] (inputInit {3}\<lparr>in_fdDone := {3}\<rparr>)" by (meson run.intros)
  from fd_eof_not_forwarded [OF this, of 3] show ?thesis by simp
qed

end
