(* ===== verification/InputPath.thy ===== *)
theory InputPath
  imports ShimInput Agent
begin

text \<open>
  The input of a command from end to end: the shim's goroutines and the broker's reader
  (\<open>ShimInput\<close>), the pipe between the broker and the runner, \<open>bridgeReaderToMux\<close> and the signal loop of
  \<open>pkg/remoteexec/agent_runner.go\<close>, and the read loop of the agent, which writes to the standard input and
  the descriptors of the command (\<open>cmd/mproxy-agent/main.go\<close>).
\<close>

section \<open>Definitions\<close>

text \<open>
  \<open>bridgeReaderToMux\<close>: what the reads return, with a flag for an error, and which sends succeed; the end of
  the list is a read that blocks.
\<close>

fun bridgeReaderToMux :: "(nat \<Rightarrow> bool) \<Rightarrow> nat \<Rightarrow> uint32 \<Rightarrow> (bytes \<times> bool) list \<Rightarrow> Frame list" where
  "bridgeReaderToMux ok n i [] = []"
| "bridgeReaderToMux ok n i ((d, err) # rs) =
     (if d \<noteq> [] then
        (if ok n then dataFrame i d # (if err then (if ok (n + 1) then [eofFrame i] else []) else bridgeReaderToMux ok (n + 1) i rs)
         else [])
      else if err then (if ok n then [eofFrame i] else [])
      else bridgeReaderToMux ok n i rs)"

text \<open>The frame that the runner sends for a signal, and the multiplexer of the agent.\<close>

definition agentSignalFrame :: "int \<Rightarrow> Frame" where
  "agentSignalFrame sig = emptyFrame\<lparr>fr_Type := FrameSignal, fr_Signal := sig\<rparr>"

definition agentMux :: "uint32 list \<Rightarrow> unit Mux" where
  "agentMux fds = OnSignal (foldl RegisterStream NewMux (0 # fds))"

text \<open>
  \<open>io.Pipe\<close> when everything that was written has been read: the chunks have the same bytes, and only the
  read after the end reports an error.
\<close>

definition pipeReads :: "bytes list \<Rightarrow> (bytes \<times> bool) list \<Rightarrow> bool" where
  "pipeReads writes reads \<longleftrightarrow>
     concat (map fst reads) = concat writes \<and> reads \<noteq> [] \<and> snd (last reads) \<and> (\<forall>r\<in>set (butlast reads). \<not> snd r)"

text \<open>
  The goroutines of the runner send their frames in any order; a stream is recognised by its frames.
\<close>

definition inputStream :: "Frame \<Rightarrow> uint32 option" where
  "inputStream f = (if fr_Type f = FrameData \<or> fr_Type f = FrameEOF then Some (fr_Stream f) else None)"

definition isInputFrame :: "Frame \<Rightarrow> bool" where
  "isInputFrame f \<longleftrightarrow> fr_Type f \<in> {FrameData, FrameEOF, FrameSignal}"

fun onStream :: "uint32 \<Rightarrow> muxEvent \<Rightarrow> bool" where
  "onStream i (StreamWrite j d) = (i = j)"
| "onStream i (StreamEOF j) = (i = j)"
| "onStream i e = False"

text \<open>What was read from the standard input of the shim, and what the broker wrote to the pipe.\<close>

fun stdinOf :: "inputEvent \<Rightarrow> bytes" where
  "stdinOf (InStdin d) = d"
| "stdinOf e = []"

fun toStdin :: "brokerEffect \<Rightarrow> bytes list" where
  "toStdin (ToStdin d) = [d]"
| "toStdin e = []"

section \<open>Lemmas: the runner\<close>

lemma bridge_data:
  assumes "pipeReads ws reads"
  shows "\<exists>chunks. bridgeReaderToMux (\<lambda>_. True) n i reads = map (dataFrame i) chunks @ [eofFrame i] \<and> concat chunks = concat ws \<and>
    (\<forall>d\<in>set chunks. d \<noteq> [])"
proof -
  have "reads \<noteq> [] \<Longrightarrow> snd (last reads) \<Longrightarrow> \<forall>r\<in>set (butlast reads). \<not> snd r \<Longrightarrow>
      bridgeReaderToMux (\<lambda>_. True) n i reads = map (dataFrame i) (filter (\<lambda>d. d \<noteq> []) (map fst reads)) @ [eofFrame i]" for n
  proof (induction reads arbitrary: n)
    case (Cons r rs)
    obtain d e where r: "r = (d, e)" by fastforce
    show ?case
    proof (cases "rs = []")
      case False
      then have "\<not> e" "\<forall>x\<in>set (butlast rs). \<not> snd x" "snd (last rs)" using Cons.prems r by auto
      then show ?thesis using Cons.IH [of "n + 1"] Cons.IH [of n] False r by simp
    qed (use Cons.prems r in simp)
  qed simp
  then have b: "bridgeReaderToMux (\<lambda>_. True) n i reads = map (dataFrame i) (filter (\<lambda>d. d \<noteq> []) (map fst reads)) @ [eofFrame i]"
    using assms by (simp add: pipeReads_def)
  have "concat (filter (\<lambda>d. d \<noteq> []) xs) = concat xs" for xs :: "bytes list" by (induction xs) auto
  then have "concat (filter (\<lambda>d. d \<noteq> []) (map fst reads)) = concat ws" using assms by (simp add: pipeReads_def)
  then show ?thesis using b by (intro exI [of _ "filter (\<lambda>d. d \<noteq> []) (map fst reads)"]) simp
qed

section \<open>Lemmas: the agent\<close>

lemma dispatch_input:
  assumes "isInputFrame f"
  shows "\<exists>evs. dispatch m h f = (evs, h, None)"
  using assms by (auto simp: isInputFrame_def dispatch_def FrameType_defs)

lemma ReadLoop_input:
  assumes "list_all isInputFrame wire"
  shows "fst (ReadLoop m h (map Got wire)) = concat (map (\<lambda>f. fst (dispatch m h f)) wire)"
  using assms
proof (induction wire)
  case (Cons f wire)
  then have "isInputFrame f" "list_all isInputFrame wire" by simp_all
  then obtain evs where d: "dispatch m h f = (evs, h, None)" using dispatch_input [of f m h] by blast
  obtain evs' h' c e where r: "ReadLoop m h (map Got wire) = (evs', h', c, e)" by (metis prod_cases4)
  have "fst (ReadLoop m h (map Got wire)) = concat (map (\<lambda>f. fst (dispatch m h f)) wire)"
    by (rule Cons.IH) fact
  then show ?case by (simp add: d r)
qed simp

lemma dispatch_onStream:
  assumes "isInputFrame f"
  shows "filter (onStream i) (fst (dispatch m h f)) = (if inputStream f = Some i then fst (dispatch m h f) else [])"
  using assms by (auto simp: isInputFrame_def inputStream_def dispatch_def FrameType_defs)

text \<open>Of any interleaving, what concerns one stream is what its own frames cause.\<close>

lemma ReadLoop_onStream:
  assumes "list_all isInputFrame wire"
  shows "filter (onStream i) (fst (ReadLoop m h (map Got wire))) =
    concat (map (\<lambda>f. fst (dispatch m h f)) (filter (\<lambda>f. inputStream f = Some i) wire))"
proof -
  have "filter (onStream i) (concat (map (\<lambda>f. fst (dispatch m h f)) wire)) =
      concat (map (\<lambda>f. fst (dispatch m h f)) (filter (\<lambda>f. inputStream f = Some i) wire))"
    using assms by (induction wire) (auto simp: dispatch_onStream)
  then show ?thesis by (simp add: ReadLoop_input [OF assms])
qed

lemma agentMux_streams: "mx_streams (agentMux fds) = insert 0 (set fds)"
  by (simp add: agentMux_def OnSignal_def streams_RegisterStream) (simp add: RegisterStream_def NewMux_def)

lemma dispatch_dataFrame: "i \<in> mx_streams m \<Longrightarrow> d \<noteq> [] \<Longrightarrow> fst (dispatch m h (dataFrame i d)) = [StreamWrite i d]"
  by (simp add: dispatch_def dataFrame_def FrameType_defs)

lemma dispatch_eofFrame: "i \<in> mx_streams m \<Longrightarrow> fst (dispatch m h (eofFrame i)) = [StreamEOF i]"
  by (simp add: dispatch_def eofFrame_def FrameType_defs)

lemma stream_events:
  assumes "\<forall>d\<in>set chunks. d \<noteq> []" "i \<in> mx_streams m"
  shows "concat (map (\<lambda>f. fst (dispatch m h f)) (map (dataFrame i) chunks @ [eofFrame i])) = map (StreamWrite i) chunks @ [StreamEOF i]"
  using assms by (induction chunks) (simp_all add: dispatch_dataFrame dispatch_eofFrame)

section \<open>Lemmas: the shim and the broker\<close>

text \<open>Standard input is never lost: it is all sent before the socket is closed.\<close>

fun sentStdin :: "shimSend \<Rightarrow> bytes" where
  "sentStdin (SendStdin d) = d"
| "sentStdin x = []"

definition stdinInv :: "inputSys \<Rightarrow> bool" where
  "stdinInv s \<longleftrightarrow> inputInv s \<and> concat (map sentStdin (in_lost s)) = [] \<and>
     (in_brokerDone s \<longrightarrow> in_closed s \<and> in_read s = length (in_wire s))"

lemma stdinInv_step: "input_step e s s' \<Longrightarrow> stdinInv s \<Longrightarrow> stdinInv s'"
proof -
  assume a: "input_step e s s'" "stdinInv s"
  then have "inputInv s'" using inputInv_step by (auto simp: stdinInv_def)
  with a show "stdinInv s'"
    by (cases rule: input_step.cases) (auto simp: stdinInv_def inputInv_def safeSend_def split: if_splits)
qed

interpretation stdin_inv: run_invariant input_step "\<lambda>_. True" stdinInv
  by unfold_locales (rule stdinInv_step)

lemma stdin_sent:
  "run input_step s es s' \<Longrightarrow> concat (map sentStdin (in_sent s')) = concat (map sentStdin (in_sent s)) @ concat (map stdinOf es)"
  by (induction rule: run.induct) (auto elim!: input_stepE simp: safeSend_def split: if_splits)

lemma brokerSees_stdin: "concat (map (\<lambda>e. concat (toStdin e)) (brokerSees fds x)) = sentStdin x"
  by (cases x) auto

lemma delivered_stdin:
  "concat (concat (map toStdin (concat (map (brokerSees fds) xs)))) = concat (map sentStdin xs)"
proof (induction xs)
  case (Cons x xs)
  have "concat (concat (map toStdin (brokerSees fds x))) = sentStdin x" by (cases x) auto
  then show ?case using Cons by simp
qed simp

section \<open>Properties\<close>

text \<open>
  C8. The command reads what the caller was given: when the shim has reached the end of its standard
  input and the broker the end of the connection, then in every interleaving of the shim's goroutines
  with the broker and of the runner's goroutines, the agent writes to the standard input of the command
  exactly the bytes that the shim read, in order, and closes it after them; no byte is lost, and
  none of another stream is mixed in. (The connection to the agent works and the command keeps its
  standard input open, so that no send and no write of the pipe fails.)
\<close>

theorem stdin_reaches_command:
  assumes "run input_step (inputInit fds) es s" "in_brokerDone s"
    and "pipeReads (concat (map toStdin (delivered fds s))) reads"
    and "filter (\<lambda>f. inputStream f = Some 0) wire = bridgeReaderToMux (\<lambda>_. True) 0 0 reads" "list_all isInputFrame wire"
  shows "\<exists>chunks. filter (onStream 0) (fst (ReadLoop (agentMux fdl) () (map Got wire))) = map (StreamWrite 0) chunks @ [StreamEOF 0] \<and>
    concat chunks = concat (map stdinOf es)"
proof -
  have inv: "stdinInv s"
    using stdin_inv.kept_run [OF assms(1)] inputInv_init [of fds] by (simp add: stdinInv_def list_all_iff inputInit_def)
  then obtain xs where xs: "in_wire s = map sendFrame xs" "in_sent s = xs @ in_lost s" by (auto simp: stdinInv_def inputInv_def)
  have "delivered fds s = concat (map (brokerSees fds) xs)"
    using inv assms(2) xs(1) by (simp add: stdinInv_def delivered_def readFrames_send)
  then have "concat (concat (map toStdin (delivered fds s))) = concat (map sentStdin xs)" by (simp only: delivered_stdin)
  also have "\<dots> = concat (map sentStdin (in_sent s))" using inv xs(2) by (simp add: stdinInv_def)
  also have "\<dots> = concat (map stdinOf es)" using stdin_sent [OF assms(1)] by (simp add: inputInit_def)
  finally have bytes: "concat (concat (map toStdin (delivered fds s))) = concat (map stdinOf es)" .
  obtain chunks where c: "bridgeReaderToMux (\<lambda>_. True) 0 0 reads = map (dataFrame 0) chunks @ [eofFrame 0]"
    "concat chunks = concat (map stdinOf es)" "\<forall>d\<in>set chunks. d \<noteq> []"
    using bridge_data [OF assms(3), of 0 0] bytes by auto
  have "filter (onStream 0) (fst (ReadLoop (agentMux fdl) () (map Got wire))) = map (StreamWrite 0) chunks @ [StreamEOF 0]"
    unfolding ReadLoop_onStream [OF assms(5)] assms(4) c(1) by (rule stream_events [OF c(3)]) (simp add: agentMux_streams)
  then show ?thesis using c(2) by blast
qed

definition stdinRead :: inputSys where
  "stdinRead = inputInit {}\<lparr>in_wire := [sendFrame (SendStdin ''a'')], in_read := 1, in_closed := True, in_stdinDone := True,
     in_brokerDone := True, in_sent := [SendStdin ''a'']\<rparr>"

lemma stdinRead_run: "run input_step (inputInit {}) [InStdin ''a'', BrokerRead, InStdinEOF, BrokerEOF] stdinRead"
proof -
  let ?a = "safeSend (inputInit {}) (SendStdin ''a'')"
  have "input_step (InStdin ''a'') (inputInit {}) ?a" by (rule i_stdin) (simp_all add: inputInit_def)
  moreover have "input_step BrokerRead ?a (?a\<lparr>in_read := 1\<rparr>)" using i_read [of ?a] by (simp add: safeSend_def inputInit_def)
  moreover have "input_step InStdinEOF (?a\<lparr>in_read := 1\<rparr>) (?a\<lparr>in_read := 1, in_stdinDone := True, in_closed := True\<rparr>)"
    using i_stdin_eof [of "?a\<lparr>in_read := 1\<rparr>"] by (simp add: safeSend_def inputInit_def)
  moreover have "input_step BrokerEOF (?a\<lparr>in_read := 1, in_stdinDone := True, in_closed := True\<rparr>) stdinRead"
    using i_read_eof [of "?a\<lparr>in_read := 1, in_stdinDone := True, in_closed := True\<rparr>"] by (simp add: safeSend_def inputInit_def stdinRead_def)
  ultimately show ?thesis by (meson run.intros)
qed

theorem stdin_reaches_command_witness:
  "\<exists>chunks. filter (onStream 0) (fst (ReadLoop (agentMux []) () (map Got [agentSignalFrame 2, dataFrame 0 ''a'', eofFrame 0]))) =
     map (StreamWrite 0) chunks @ [StreamEOF 0] \<and> concat chunks = ''a''"
proof -
  let ?wire = "[agentSignalFrame 2, dataFrame 0 ''a'', eofFrame 0]"
  have d: "delivered {} stdinRead = [ToStdin ''a'']"
    using readFrames_send [of "{}" 0 "[SendStdin ''a'']"] by (simp add: delivered_def stdinRead_def)
  have "filter (\<lambda>f. inputStream f = Some 0) ?wire = bridgeReaderToMux (\<lambda>_. True) 0 0 [(''a'', False), ([], True)]" "list_all isInputFrame ?wire"
    by (simp_all add: inputStream_def isInputFrame_def agentSignalFrame_def dataFrame_def eofFrame_def FrameType_defs)
  moreover have "pipeReads (concat (map toStdin (delivered {} stdinRead))) [(''a'', False), ([], True)]"
    unfolding d by (simp add: pipeReads_def)
  moreover have "in_brokerDone stdinRead" by (simp add: stdinRead_def)
  ultimately show ?thesis using stdin_reaches_command [OF stdinRead_run, of "[(''a'', False), ([], True)]" ?wire "[]"] by simp
qed

end
