(* ===== verification/ChildPipes.thy ===== *)
theory ChildPipes
  imports ChildProc
begin

text \<open>
  The descriptors that \<open>pkg/childproc\<close> opens for a command (\<open>childproc.go\<close>, \<open>build_unix.go\<close>): who holds
  which end, and what is still open after each way out of \<open>Build\<close>. The state is the set of open
  descriptors of the agent; whether a system call succeeds is a parameter.
\<close>

section \<open>Definitions\<close>

text \<open>The ends of the n-th pipe and of the n-th socket pair.\<close>

datatype fdEnd = PipeR nat | PipeW nat | SockParent nat | SockChild nat

record Pipes =
  pp_Stdin :: "fdEnd option"
  pp_Stdout :: "fdEnd option"
  pp_Stderr :: "fdEnd option"
  pp_Extra :: "uint32 \<rightharpoonup> fdEnd"

text \<open>The files of an \<open>exec.Cmd\<close>.\<close>

record childFiles =
  cf_Stdin :: "fdEnd option"
  cf_Stdout :: "fdEnd option"
  cf_Stderr :: "fdEnd option"
  cf_ExtraFiles :: "fdEnd option list"

definition pipesEnds :: "Pipes \<Rightarrow> fdEnd set" where
  "pipesEnds p = set_option (pp_Stdin p) \<union> set_option (pp_Stdout p) \<union> set_option (pp_Stderr p) \<union> ran (pp_Extra p)"

definition childEnds :: "childFiles \<Rightarrow> fdEnd set" where
  "childEnds c = set_option (cf_Stdin c) \<union> set_option (cf_Stdout c) \<union> set_option (cf_Stderr c) \<union> {e. Some e \<in> set (cf_ExtraFiles c)}"

definition PipesClose :: "Pipes \<Rightarrow> fdEnd set \<Rightarrow> Pipes \<times> fdEnd set" where
  "PipesClose p op = (\<lparr>pp_Stdin = None, pp_Stdout = None, pp_Stderr = None, pp_Extra = Map.empty\<rparr>, op - pipesEnds p)"

definition CloseChildSide :: "childFiles \<Rightarrow> fdEnd set \<Rightarrow> fdEnd set" where
  "CloseChildSide c op = op - childEnds c"

text \<open>\<open>ok n\<close> is whether the n-th call of \<open>os.Pipe\<close> succeeds.\<close>

definition setupStdPipes :: "(nat \<Rightarrow> bool) \<Rightarrow> fdEnd set \<Rightarrow> (Pipes \<times> childFiles) option \<times> fdEnd set" where
  "setupStdPipes ok op =
     (if \<not> ok 0 then (None, op)
      else let op = op \<union> {PipeR 0, PipeW 0} in
      if \<not> ok 1 then (None, op - {PipeR 0, PipeW 0})
      else let op = op \<union> {PipeR 1, PipeW 1} in
      if \<not> ok 2 then (None, op - {PipeR 0, PipeW 0, PipeR 1, PipeW 1})
      else (Some (\<lparr>pp_Stdin = Some (PipeW 0), pp_Stdout = Some (PipeR 1), pp_Stderr = Some (PipeR 2), pp_Extra = Map.empty\<rparr>,
                  \<lparr>cf_Stdin = Some (PipeR 0), cf_Stdout = Some (PipeW 1), cf_Stderr = Some (PipeW 2), cf_ExtraFiles = []\<rparr>),
            op \<union> {PipeR 2, PipeW 2}))"

datatype sockOutcome = SockCreated | SockRefused | CloexecRefused

definition socketpair :: "sockOutcome \<Rightarrow> nat \<Rightarrow> fdEnd set \<Rightarrow> (fdEnd \<times> fdEnd) option \<times> fdEnd set" where
  "socketpair r n op =
     (if r = SockRefused then (None, op)
      else let op = op \<union> {SockParent n, SockChild n} in
      if r = CloexecRefused then (None, op - {SockParent n} - {SockChild n})
      else (Some (SockParent n, SockChild n), op))"

text \<open>The loop of \<open>Build\<close> over the extra descriptors; \<open>n\<close> counts the socket pairs.\<close>

fun extraLoop ::
  "(nat \<Rightarrow> sockOutcome) \<Rightarrow> nat \<Rightarrow> uint32 list \<Rightarrow> Pipes \<Rightarrow> childFiles \<Rightarrow> fdEnd set \<Rightarrow> (build_error, Pipes \<times> childFiles) result \<times> fdEnd set"
where
  "extraLoop so n [] p c op = (Inr (p, c), op)"
| "extraLoop so n (fdNum # fds) p c op =
     (case socketpair (so n) n op of
        (None, op) \<Rightarrow> (Inl (SocketpairFailed fdNum), snd (PipesClose p op))
      | (Some (agentEnd, childEnd), op) \<Rightarrow>
          (let idx = int (unat fdNum) - 3;
               files = cf_ExtraFiles c @ replicate (nat (idx + 1 - int (length (cf_ExtraFiles c)))) None
           in if idx < 0 then (Inl (IndexPanic fdNum), op)
              else extraLoop so (n + 1) fds (p\<lparr>pp_Extra := (pp_Extra p)(fdNum \<mapsto> agentEnd)\<rparr>)
                     (c\<lparr>cf_ExtraFiles := files[nat idx := Some childEnd]\<rparr>) op))"

text \<open>The part of \<open>Build\<close> that opens descriptors.\<close>

definition buildFDs ::
  "(nat \<Rightarrow> bool) \<Rightarrow> (nat \<Rightarrow> sockOutcome) \<Rightarrow> uint32 list \<Rightarrow> (build_error, Pipes \<times> childFiles) result \<times> fdEnd set"
where
  "buildFDs ok so fds =
     (case setupStdPipes ok {} of
        (None, op) \<Rightarrow> (Inl StdPipesFailed, op)
      | (Some (p, c), op) \<Rightarrow> extraLoop so 0 fds p c op)"

text \<open>
  The agent around it: the descriptors it has open when it goes on to serve the command (\<^const>\<open>Inr\<close>), or
  when it gives up. \<open>started\<close> is whether \<open>cmd.Start\<close> succeeds.
\<close>

definition agentFDs ::
  "(nat \<Rightarrow> bool) \<Rightarrow> (nat \<Rightarrow> sockOutcome) \<Rightarrow> bool \<Rightarrow> uint32 list \<Rightarrow> (string, Pipes) result \<times> fdEnd set" where
  "agentFDs ok so started fds =
     (case buildFDs ok so fds of
        (Inl err, op) \<Rightarrow> (Inl ''build command failed'', op)
      | (Inr (p, c), op) \<Rightarrow>
          if started then (Inr p, CloseChildSide c op) else (Inl ''start command failed'', snd (PipesClose p op)))"

section \<open>Lemmas\<close>

text \<open>The ends that belong to the command.\<close>

fun childSide :: "fdEnd \<Rightarrow> bool" where
  "childSide (PipeR n) = (n = 0)"
| "childSide (PipeW n) = (n \<noteq> 0)"
| "childSide (SockParent n) = False"
| "childSide (SockChild n) = True"

lemma extraSlot:
  assumes "3 \<le> unat (m :: uint32)" and "files' = files @ replicate (nat (int (unat m) - 3 + 1 - int (length files))) None"
    and "unat m - 3 < length files \<longrightarrow> files ! (unat m - 3) = None"
  shows "{e. Some e \<in> set (files'[unat m - 3 := Some v])} = insert v {e. Some e \<in> set files}"
proof -
  have len: "length files' = max (length files) (unat m - 2)" using assms(1,2) by (simp del: of_nat_unat)
  then have i: "unat m - 3 < length files'" using assms(1) by simp
  have old: "files' ! (unat m - 3) = None" using i assms(2,3) by (auto simp: nth_append)
  have "{e. Some e \<in> set (files'[unat m - 3 := Some v])} = insert v {e. Some e \<in> set files'}"
    using i old by (auto simp: in_set_conv_nth nth_list_update) (metis option.distinct(1))
  then show ?thesis using assms(2) by auto
qed

text \<open>Slots of descriptors that were not handled yet are empty.\<close>

definition slotFree :: "fdEnd option list \<Rightarrow> uint32 \<Rightarrow> bool" where
  "slotFree files m \<longleftrightarrow> (unat m - 3 < length files \<longrightarrow> files ! (unat m - 3) = None)"

lemma slotFree_update:
  assumes "slotFree files k" "k \<noteq> m" "3 \<le> unat k" "3 \<le> unat m"
  shows "slotFree ((files @ replicate r None)[unat m - 3 := Some v]) k"
proof -
  have "unat k - 3 \<noteq> unat m - 3" using assms(2-4) by (metis le_add_diff_inverse2 word_unat_eq_iff)
  then show ?thesis using assms(1) by (auto simp: slotFree_def nth_append)
qed

lemma extraLoop_descriptors:
  assumes "distinct fds" "\<forall>m\<in>set fds. 3 \<le> unat m \<and> slotFree (cf_ExtraFiles c) m \<and> m \<notin> dom (pp_Extra p)"
    and "op = pipesEnds p \<union> childEnds c" "\<forall>e\<in>pipesEnds p. \<not> childSide e" "\<forall>e\<in>childEnds c. childSide e"
    and "extraLoop so n fds p c op = (r, op')"
  shows "case r of
      Inr (p', c') \<Rightarrow> op' = pipesEnds p' \<union> childEnds c' \<and> (\<forall>e\<in>pipesEnds p'. \<not> childSide e) \<and> (\<forall>e\<in>childEnds c'. childSide e) \<and>
        dom (pp_Extra p') = dom (pp_Extra p) \<union> set fds
    | Inl err \<Rightarrow> \<forall>e\<in>op'. childSide e"
  using assms
proof (induction so n fds p c op rule: extraLoop.induct)
  case (2 so n m fds p c op)
  show ?case
  proof (cases "so n = SockCreated")
    case False
    then have "op' \<subseteq> op - pipesEnds p" "\<exists>err. r = Inl err"
      using "2.prems"(6) by (cases "so n"; auto simp: socketpair_def PipesClose_def)+
    then show ?thesis using "2.prems"(3,5) by (auto split: sum.split)
  next
    case True
    let ?op = "op \<union> {SockParent n, SockChild n}" and ?idx = "int (unat m) - 3"
    let ?files = "(cf_ExtraFiles c @ replicate (nat (?idx + 1 - int (length (cf_ExtraFiles c)))) None)[nat ?idx := Some (SockChild n)]"
    let ?p = "p\<lparr>pp_Extra := (pp_Extra p)(m \<mapsto> SockParent n)\<rparr>" and ?c = "c\<lparr>cf_ExtraFiles := ?files\<rparr>"
    have sp: "socketpair (so n) n op = (Some (SockParent n, SockChild n), ?op)" using True by (simp add: socketpair_def)
    have m: "3 \<le> unat m" "slotFree (cf_ExtraFiles c) m" "m \<notin> dom (pp_Extra p)" using "2.prems"(2) by auto
    then have idx: "\<not> ?idx < 0" "nat ?idx = unat m - 3" by (simp_all del: of_nat_unat)
    have p: "pipesEnds ?p = insert (SockParent n) (pipesEnds p)" using m(3) by (simp add: pipesEnds_def ran_map_upd domIff)
    have "{e. Some e \<in> set ?files} = insert (SockChild n) {e. Some e \<in> set (cf_ExtraFiles c)}"
      unfolding idx(2) by (rule extraSlot [OF m(1) refl]) (use m(2) in \<open>simp add: slotFree_def\<close>)
    then have c: "childEnds ?c = insert (SockChild n) (childEnds c)" by (auto simp: childEnds_def)
    have run: "extraLoop so (n + 1) fds ?p ?c ?op = (r, op')" using "2.prems"(6) sp idx(1) by (simp add: Let_def del: of_nat_unat)
    have rest: "\<forall>k\<in>set fds. 3 \<le> unat k \<and> slotFree (cf_ExtraFiles ?c) k \<and> k \<notin> dom (pp_Extra ?p)"
      using "2.prems"(1,2) m idx(2) by (auto intro!: slotFree_update)
    have ok: "?op = pipesEnds ?p \<union> childEnds ?c" "\<forall>e\<in>pipesEnds ?p. \<not> childSide e" "\<forall>e\<in>childEnds ?c. childSide e"
      unfolding p c using "2.prems"(3-5) by auto
    have "distinct fds" using "2.prems"(1) by simp
    note ih = "2.IH" [OF sp [symmetric] refl refl refl refl idx(1) this rest ok run]
    have "dom (pp_Extra ?p) \<union> set fds = dom (pp_Extra p) \<union> set (m # fds)" by auto
    with ih show ?thesis by (cases r) (auto simp only: sum.case prod.case_eq_if)
  qed
qed (auto split: sum.split)

section \<open>Properties\<close>

text \<open>
  Every descriptor has one owner: when \<open>Build\<close> succeeds for different descriptor numbers from 3 on,
  the open descriptors are exactly the agent's ends in \<open>Pipes\<close> and the command's ends in the \<open>exec.Cmd\<close>,
  no end belongs to both, and every requested descriptor has a channel. Once the command has
  started, the agent holds its own ends only, so a stream ends when the command and its
  descendants close it, and closing \<open>Pipes\<close> leaves nothing open. When \<open>Build\<close> or \<open>Start\<close> fails, no end of
  the agent is left open.
\<close>

theorem child_descriptors:
  assumes "distinct fds" "\<forall>m\<in>set fds. 3 \<le> unat m" "agentFDs ok so started fds = (r, op)"
  shows "case r of
      Inr p \<Rightarrow> op = pipesEnds p \<and> (\<forall>e\<in>op. \<not> childSide e) \<and> dom (pp_Extra p) = set fds \<and> snd (PipesClose p op) = {}
    | Inl err \<Rightarrow> \<forall>e\<in>op. childSide e"
proof (cases "setupStdPipes ok {}")
  case (Pair a op0)
  show ?thesis
  proof (cases a)
    case None
    then have "op0 = {}" using Pair by (auto simp: setupStdPipes_def Let_def split: if_splits)
    then show ?thesis using assms(3) Pair None by (auto simp: agentFDs_def buildFDs_def)
  next
    case (Some pc)
    obtain p c where pc: "pc = (p, c)" by fastforce
    have init: "op0 = pipesEnds p \<union> childEnds c" "\<forall>e\<in>pipesEnds p. \<not> childSide e" "\<forall>e\<in>childEnds c. childSide e"
      "pp_Extra p = Map.empty" "cf_ExtraFiles c = []"
      using Pair Some pc by (auto simp: setupStdPipes_def Let_def pipesEnds_def childEnds_def split: if_splits)
    obtain r1 op1 where run: "extraLoop so 0 fds p c op0 = (r1, op1)" by fastforce
    have "\<forall>m\<in>set fds. 3 \<le> unat m \<and> slotFree (cf_ExtraFiles c) m \<and> m \<notin> dom (pp_Extra p)"
      using assms(2) init(4,5) by (simp add: slotFree_def)
    note d = extraLoop_descriptors [OF assms(1) this init(1-3) run]
    have b: "buildFDs ok so fds = (r1, op1)" using Pair Some pc run by (simp add: buildFDs_def)
    show ?thesis
    proof (cases r1)
      case (Inr q)
      then obtain p1 c1 where q: "r1 = Inr (p1, c1)" by (cases q) simp
      have "op1 - childEnds c1 = pipesEnds p1" "\<forall>e\<in>op1 - pipesEnds p1. childSide e" using d q by auto
      then show ?thesis using assms(3) b d q init(4)
        by (auto simp: agentFDs_def CloseChildSide_def PipesClose_def split: if_splits)
    qed (use assms(3) b d in \<open>auto simp: agentFDs_def\<close>)
  qed
qed

theorem child_descriptors_witness:
  "snd (agentFDs (\<lambda>_. True) (\<lambda>_. SockCreated) True [3, 5]) = {PipeW 0, PipeR 1, PipeR 2, SockParent 0, SockParent 1}"
proof -
  obtain r op where a: "agentFDs (\<lambda>_. True) (\<lambda>_. SockCreated) True [3, 5] = (r, op)" by fastforce
  let ?p = "\<lparr>pp_Stdin = Some (PipeW 0), pp_Stdout = Some (PipeR 1), pp_Stderr = Some (PipeR 2),
    pp_Extra = [3 :: uint32 \<mapsto> SockParent 0, 5 \<mapsto> SockParent 1]\<rparr>"
  have p: "r = Inr ?p" using a by (auto simp: agentFDs_def buildFDs_def setupStdPipes_def socketpair_def Let_def)
  have "ran [3 :: uint32 \<mapsto> SockParent 0, 5 \<mapsto> SockParent 1] = {SockParent 0, SockParent 1}"
    by (subst ran_map_upd) (auto simp: insert_commute)
  then show ?thesis using child_descriptors [OF _ _ a] a p by (auto simp: pipesEnds_def)
qed

text \<open>The command's end of every pipe stays open when a later socket pair cannot be created.\<close>

lemma child_ends_left_open:
  assumes "so 0 = SockRefused"
  shows "buildFDs (\<lambda>_. True) so (m # fds) = (Inl (SocketpairFailed m), {PipeR 0, PipeW 1, PipeW 2})"
  using assms by (auto simp: buildFDs_def setupStdPipes_def socketpair_def PipesClose_def pipesEnds_def)

end
