(* ===== verification/Statx.thy ===== *)
theory Statx
  imports WorkspaceFS PathStub
begin

text \<open>
  The remaining requests of the FUSE nodes on Linux: \<open>Statx\<close> of the workspace nodes
  (\<open>workspacefs/node_file_linux.go\<close>, \<open>node_dir_linux.go\<close>) and of the stub nodes
  (\<open>pathstub/node_linux.go\<close>), which repeat \<open>Getattr\<close> in another layout, and \<open>Statfs\<close>, \<open>Access\<close> and the
  unsupported requests of a workspace directory (\<open>node_dir.go\<close>).
\<close>

section \<open>Definitions\<close>

text \<open>The answer to a statx request; a time is its seconds and nanoseconds. Nothing sets the birth time.\<close>

record statxOut =
  sx_Mask :: uint32
  sx_Blksize :: uint32
  sx_Nlink :: uint32
  sx_Uid :: uint32
  sx_Gid :: uint32
  sx_Mode :: "16 word"
  sx_Ino :: uint64
  sx_Size :: uint64
  sx_Blocks :: uint64
  sx_Atime :: "uint64 \<times> uint32"
  sx_Mtime :: "uint64 \<times> uint32"
  sx_Ctime :: "uint64 \<times> uint32"
  sx_Btime :: "uint64 \<times> uint32"

definition fillStatx :: "statxOut \<Rightarrow> fuseAttr \<Rightarrow> uint32 \<Rightarrow> statxOut" where
  "fillStatx out attr msk =
     out\<lparr>sx_Mask := msk, sx_Blksize := fa_Blksize attr, sx_Nlink := fa_Nlink attr, sx_Uid := fa_Uid attr, sx_Gid := fa_Gid attr,
       sx_Mode := ucast (fa_Mode attr), sx_Ino := fa_Ino attr, sx_Size := fa_Size attr, sx_Blocks := fa_Blocks attr,
       sx_Atime := (fa_Atime attr, fa_Atimensec attr), sx_Mtime := (fa_Mtime attr, fa_Mtimensec attr),
       sx_Ctime := (fa_Ctime attr, fa_Ctimensec attr)\<rparr>"

definition wnStatx ::
  "('s, 'r, 'w) FileClient \<Rightarrow> wsFS \<Rightarrow> 's \<Rightarrow> string \<Rightarrow> ('r, 'w) fileHandle option \<Rightarrow> uint32 \<Rightarrow> statxOut \<Rightarrow> (uint32 + statxOut) \<times> 's" where
  "wnStatx C f s rel fh msk out =
     (case wnGetattr C f s rel fh of
        (Inl errno, s) \<Rightarrow> (Inl errno, s)
      | (Inr attr, s) \<Rightarrow> (Inr (fillStatx out attr msk), s))"

definition wdStatx ::
  "('s, 'r, 'w) FileClient \<Rightarrow> wsFS \<Rightarrow> 's \<Rightarrow> string \<Rightarrow> uint32 \<Rightarrow> statxOut \<Rightarrow> (uint32 + statxOut) \<times> 's" where
  "wdStatx C f s rel msk out =
     (case wdGetattr C f s rel of
        (Inl errno, s) \<Rightarrow> (Inl errno, s)
      | (Inr attr, s) \<Rightarrow> (Inr (fillStatx out attr msk), s))"

text \<open>The attributes of a stub in the record of the FUSE library: the fields that the code does not set are zero.\<close>

definition stubFuseAttr :: "stubAttr \<Rightarrow> fuseAttr" where
  "stubFuseAttr a = \<lparr>fa_Ino = 0, fa_Size = stubAttr.sa_Size a, fa_Blocks = 0, fa_Atime = stubAttr.sa_Atime a, fa_Mtime = stubAttr.sa_Mtime a,
     fa_Ctime = stubAttr.sa_Ctime a, fa_Atimensec = stubAttr.sa_Atimensec a, fa_Mtimensec = stubAttr.sa_Mtimensec a,
     fa_Ctimensec = stubAttr.sa_Ctimensec a, fa_Mode = stubAttr.sa_Mode a, fa_Nlink = stubAttr.sa_Nlink a,
     fa_Uid = 0, fa_Gid = 0, fa_Rdev = 0, fa_Blksize = 0\<rparr>"

definition stubDirStatx :: "int \<Rightarrow> uint32 \<Rightarrow> statxOut \<Rightarrow> statxOut" where
  "stubDirStatx now msk out = fillStatx out (stubFuseAttr (dirAttr now)) msk"

definition stubFileStatx :: "int \<Rightarrow> FileSystem \<Rightarrow> string \<Rightarrow> uint32 \<Rightarrow> statxOut \<Rightarrow> uint32 + statxOut" where
  "stubFileStatx now f name msk out =
     (case LookupEntry f name of
        None \<Rightarrow> Inl ENOENT
      | Some e \<Rightarrow> Inr (fillStatx out (stubFuseAttr (applyEntryAttr now e)) msk))"

text \<open>The other requests of a workspace directory.\<close>

definition wdStatfs :: "('s, 'r, 'w) FileClient \<Rightarrow> wsFS \<Rightarrow> 's \<Rightarrow> string \<Rightarrow> (uint32 + FileStatfs) \<times> 's" where
  "wdStatfs C f s rel = wsStatfs C f s rel"

definition wdAccess :: "('s, 'r, 'w) FileClient \<Rightarrow> wsFS \<Rightarrow> 's \<Rightarrow> string \<Rightarrow> (uint32 \<times> uint32) option \<Rightarrow> uint32 \<Rightarrow> uint32 \<times> 's" where
  "wdAccess C f s rel caller acc =
     (case wsStat C f s rel of (Inl errno, s) \<Rightarrow> (errno, s) | (Inr st, s) \<Rightarrow> (wsAccess f caller st acc, s))"

section \<open>Lemmas\<close>

text \<open>A mode with no bits above the file type survives the narrowing to 16 bits.\<close>

lemma fillStatx_mode:
  assumes "fa_Mode a < 0x10000"
  shows "ucast (sx_Mode (fillStatx out a msk)) = fa_Mode a"
proof -
  have "unat (fa_Mode a) < 2 ^ 16" using assms by (simp add: word_less_nat_alt)
  then show ?thesis by (simp add: fillStatx_def word_unat_eq_iff unsigned_ucast_eq unsigned_take_bit_eq take_bit_nat_eq_self)
qed

text \<open>
  \<open>Statx\<close> and \<open>Getattr\<close> agree: on the error, and otherwise on the size, the owner, the link count and
  the times, for both kinds of workspace nodes.
\<close>

definition sameAttr :: "statxOut \<Rightarrow> fuseAttr \<Rightarrow> bool" where
  "sameAttr x a \<longleftrightarrow> sx_Size x = fa_Size a \<and> sx_Uid x = fa_Uid a \<and> sx_Gid x = fa_Gid a \<and> sx_Nlink x = fa_Nlink a \<and>
     sx_Ino x = fa_Ino a \<and> sx_Mtime x = (fa_Mtime a, fa_Mtimensec a) \<and> sx_Atime x = (fa_Atime a, fa_Atimensec a) \<and>
     sx_Ctime x = (fa_Ctime a, fa_Ctimensec a) \<and> (fa_Mode a < 0x10000 \<longrightarrow> ucast (sx_Mode x) = fa_Mode a)"

lemma fillStatx_same: "sameAttr (fillStatx out a msk) a"
  using fillStatx_mode [of a out msk] by (simp add: sameAttr_def) (simp add: fillStatx_def)

lemma statx_agrees:
  assumes "wnGetattr C f s rel fh = (r, s1)" "wnStatx C f s rel fh msk out = (r', s2)"
  shows "s1 = s2 \<and> (case (r, r') of (Inl e, Inl e') \<Rightarrow> e = e' | (Inr a, Inr x) \<Rightarrow> sameAttr x a | _ \<Rightarrow> False)"
  using assms by (auto simp: wnStatx_def fillStatx_same split: sum.splits)

lemma statx_dir_agrees:
  assumes "wdGetattr C f s rel = (r, s1)" "wdStatx C f s rel msk out = (r', s2)"
  shows "s1 = s2 \<and> (case (r, r') of (Inl e, Inl e') \<Rightarrow> e = e' | (Inr a, Inr x) \<Rightarrow> sameAttr x a | _ \<Rightarrow> False)"
  using assms by (auto simp: wdStatx_def fillStatx_same split: sum.splits)

text \<open>A directory and a file answer \<open>Access\<close> in the same way.\<close>

lemma access_same: "wdAccess C f s rel caller acc = wsNodeAccess C f s rel caller acc"
  by (simp add: wdAccess_def wsNodeAccess_def)

text \<open>
  The answer claims every field that was asked for, the birth time too, which is never filled in: for
  a request of the birth time (bit 11 of the mask) the caller takes the zero of the answer for it.
\<close>

lemma statx_claims_birth_time:
  assumes "bit msk 11" "wnStatx C f s rel fh msk out = (Inr x, s')"
  shows "bit (sx_Mask x) 11 \<and> sx_Btime x = sx_Btime out"
  using assms by (auto simp: wnStatx_def fillStatx_def split: sum.splits prod.splits)

lemma statx_claims_birth_time_stub:
  assumes "bit msk 11" "stubFileStatx now f name msk out = Inr x"
  shows "bit (sx_Mask x) 11 \<and> sx_Btime x = sx_Btime out"
  using assms by (auto simp: stubFileStatx_def fillStatx_def split: option.splits)

end
