(* ===== verification/AgentLog.thy ===== *)
theory AgentLog
  imports Agent Platform
begin

text \<open>
  Log records from the agent to the local log: \<open>pkg/agentproto/loghandler.go\<close> flattens a record into a
  log frame, the multiplexer of the runner hands it to the callback of \<open>RunWithControl\<close>
  (\<open>pkg/remoteexec/agent_runner.go\<close>), which splits the attributes again and logs them; the levels are
  those of \<open>pkg/logging/logging.go\<close>. The string of an attribute value is that of the \<open>slog\<close> package.
\<close>

section \<open>Definitions\<close>

type_synonym attr = "string \<times> string"

abbreviation LevelTrace :: int where "LevelTrace \<equiv> -8"
abbreviation LevelDebug :: int where "LevelDebug \<equiv> -4"
abbreviation LevelInfo :: int where "LevelInfo \<equiv> 0"
abbreviation LevelWarn :: int where "LevelWarn \<equiv> 4"
abbreviation LevelError :: int where "LevelError \<equiv> 8"

definition ParseLevel :: "string \<Rightarrow> int" where
  "ParseLevel s =
     (let l = lowerText s in
      if l = ''trace'' then LevelTrace else if l = ''debug'' then LevelDebug else if l = ''warn'' then LevelWarn
      else if l = ''error'' then LevelError else LevelInfo)"

record MuxLogHandler =
  lh_level :: int
  lh_attrs :: "string list"
  lh_group :: string

definition NewMuxLogHandler :: "int \<Rightarrow> MuxLogHandler" where
  "NewMuxLogHandler level = \<lparr>lh_level = level, lh_attrs = [], lh_group = []\<rparr>"

definition logEnabled :: "MuxLogHandler \<Rightarrow> int \<Rightarrow> bool" where
  "logEnabled h level \<longleftrightarrow> lh_level h \<le> level"

definition showAttr :: "MuxLogHandler \<Rightarrow> attr \<Rightarrow> string" where
  "showAttr h a = (if lh_group h \<noteq> [] then lh_group h @ ''.'' @ fst a else fst a) @ ''='' @ snd a"

definition handleLog :: "MuxLogHandler \<Rightarrow> int \<Rightarrow> string \<Rightarrow> attr list \<Rightarrow> Frame" where
  "handleLog h level msg as =
     emptyFrame\<lparr>fr_Type := FrameLog, fr_Log := Some \<lparr>le_Level = level, le_Msg = msg, le_Attrs = lh_attrs h @ map (showAttr h) as\<rparr>\<rparr>"

definition WithAttrs :: "MuxLogHandler \<Rightarrow> attr list \<Rightarrow> MuxLogHandler" where
  "WithAttrs h as = h\<lparr>lh_attrs := lh_attrs h @ map (showAttr h) as\<rparr>"

definition WithGroup :: "MuxLogHandler \<Rightarrow> string \<Rightarrow> MuxLogHandler" where
  "WithGroup h name = h\<lparr>lh_group := (if lh_group h \<noteq> [] then lh_group h @ ''.'' @ name else name)\<rparr>"

text \<open>The callback of the runner: level, message and attributes of the record that it logs.\<close>

definition forwardLog :: "LogEntry \<Rightarrow> int \<times> string \<times> attr list" where
  "forwardLog entry =
     (le_Level entry, le_Msg entry,
      (''source'', ''agent'') # map (\<lambda>kv. case Cut kv (CHR ''='') of Some (k, v) \<Rightarrow> (k, v) | None \<Rightarrow> (kv, [])) (le_Attrs entry))"

section \<open>Derived loggers\<close>

text \<open>
  How the handler of a logger was derived, and the reference: an attribute has the names of the groups
  that were open when it was added in front of its key, separated by dots.
\<close>

datatype handlerOp = OpAttrs "attr list" | OpGroup string

fun derive :: "MuxLogHandler \<Rightarrow> handlerOp list \<Rightarrow> MuxLogHandler" where
  "derive h [] = h"
| "derive h (OpAttrs as # ops) = derive (WithAttrs h as) ops"
| "derive h (OpGroup g # ops) = derive (WithGroup h g) ops"

definition groupAttr :: "string list \<Rightarrow> attr \<Rightarrow> attr" where
  "groupAttr gs a = (Join (gs @ [fst a]) ''.'', snd a)"

fun logged :: "string list \<Rightarrow> handlerOp list \<Rightarrow> attr list \<Rightarrow> attr list" where
  "logged gs [] as = map (groupAttr gs) as"
| "logged gs (OpAttrs bs # ops) as = map (groupAttr gs) bs @ logged gs ops as"
| "logged gs (OpGroup g # ops) as = logged (gs @ [g]) ops as"

fun opNames :: "handlerOp \<Rightarrow> string list" where
  "opNames (OpAttrs as) = map fst as"
| "opNames (OpGroup g) = [g]"

section \<open>Lemmas\<close>

definition cutAttr :: "string \<Rightarrow> attr" where
  "cutAttr kv = (case Cut kv (CHR ''='') of Some (k, v) \<Rightarrow> (k, v) | None \<Rightarrow> (kv, []))"

lemma Join_snoc: "gs \<noteq> [] \<Longrightarrow> Join (gs @ [x]) sep = Join gs sep @ sep @ x"
  by (induction gs rule: induct_list012) auto

lemma Join_eq_Nil: "list_all (\<lambda>g. g \<noteq> []) gs \<Longrightarrow> Join gs sep = [] \<longleftrightarrow> gs = []"
  by (cases gs rule: list.exhaust; cases "tl gs") auto

lemma Join_chars: "c \<notin> set sep \<Longrightarrow> list_all (\<lambda>g. c \<notin> set g) gs \<Longrightarrow> c \<notin> set (Join gs sep)"
  by (induction gs rule: induct_list012) auto

lemma cutAttr_show: "CHR ''='' \<notin> set k \<Longrightarrow> cutAttr (k @ ''='' @ v) = (k, v)"
proof -
  assume "CHR ''='' \<notin> set k"
  then have "Cut (k @ ''='' @ v) (CHR ''='') = Some (k, v)" by (simp add: Cut_Some)
  then show ?thesis by (simp add: cutAttr_def)
qed

text \<open>The handler after the groups \<open>gs\<close>.\<close>

definition inGroups :: "string list \<Rightarrow> MuxLogHandler \<Rightarrow> bool" where
  "inGroups gs h \<longleftrightarrow> lh_group h = Join gs ''.'' \<and> list_all (\<lambda>g. g \<noteq> [] \<and> CHR ''='' \<notin> set g) gs"

lemma inGroups_group: "inGroups gs h \<Longrightarrow> lh_group h \<noteq> [] \<longleftrightarrow> gs \<noteq> []"
  using Join_eq_Nil [of gs "''.''"] by (auto simp: inGroups_def list_all_iff)

lemma cut_showAttr:
  assumes "inGroups gs h" "CHR ''='' \<notin> set (fst a)"
  shows "cutAttr (showAttr h a) = groupAttr gs a"
proof -
  have k: "(if lh_group h \<noteq> [] then lh_group h @ ''.'' @ fst a else fst a) = Join (gs @ [fst a]) ''.''"
    using assms(1) inGroups_group [OF assms(1)] Join_snoc [of gs "fst a" "''.''"] by (cases "gs = []") (auto simp: inGroups_def)
  have "CHR ''='' \<notin> set (Join (gs @ [fst a]) ''.'')"
    by (rule Join_chars) (use assms in \<open>auto simp: inGroups_def list_all_iff\<close>)
  then show ?thesis unfolding showAttr_def k groupAttr_def by (rule cutAttr_show)
qed

lemma WithGroup_groups:
  assumes "inGroups gs h" "g \<noteq> []" "CHR ''='' \<notin> set g"
  shows "inGroups (gs @ [g]) (WithGroup h g)"
  using assms inGroups_group [OF assms(1)] Join_snoc [of gs g "''.''"] by (cases "gs = []") (auto simp: inGroups_def WithGroup_def)

lemma derive_logged:
  assumes "inGroups gs h" "\<forall>op\<in>set ops. \<forall>n\<in>set (opNames op). n \<noteq> [] \<and> CHR ''='' \<notin> set n"
    and "\<forall>a\<in>set as. CHR ''='' \<notin> set (fst a)"
  shows "map cutAttr (lh_attrs (derive h ops) @ map (showAttr (derive h ops)) as) = map cutAttr (lh_attrs h) @ logged gs ops as"
  using assms
proof (induction h ops arbitrary: gs rule: derive.induct)
  case (1 h)
  then show ?case using cut_showAttr by (auto simp: comp_def)
next
  case (2 h bs ops)
  have "inGroups gs (WithAttrs h bs)" using "2.prems"(1) by (simp add: inGroups_def WithAttrs_def)
  moreover have "map (cutAttr \<circ> showAttr h) bs = map (groupAttr gs) bs" using "2.prems"(1,2) cut_showAttr by auto
  ultimately show ?case using 2 by (simp add: WithAttrs_def)
next
  case (3 h g ops)
  then have "inGroups (gs @ [g]) (WithGroup h g)" by (intro WithGroup_groups) auto
  then show ?case using 3 by (simp add: WithGroup_def)
qed

section \<open>Properties\<close>

text \<open>
  A record of the agent arrives as it was logged: for a logger derived by any sequence of attributes
  and groups, the read loop of the runner hands the record to the callback, which logs it with the same
  level and message and with exactly the attributes of the record, each under its key with the names
  of its groups in front, after the mark that it comes from the agent. Keys and group names must not
  contain an equals sign; values may contain anything.
\<close>

theorem agent_log_roundtrip:
  assumes "\<forall>op\<in>set ops. \<forall>n\<in>set (opNames op). n \<noteq> [] \<and> CHR ''='' \<notin> set n" "\<forall>a\<in>set as. CHR ''='' \<notin> set (fst a)"
  shows "\<exists>l. dispatch (runnerMux fds) () (handleLog (derive (NewMuxLogHandler LevelTrace) ops) level msg as) = ([CallLog l], (), None) \<and>
    forwardLog l = (level, msg, (''source'', ''agent'') # logged [] ops as)"
proof -
  let ?h = "derive (NewMuxLogHandler LevelTrace) ops"
  let ?l = "\<lparr>le_Level = level, le_Msg = msg, le_Attrs = lh_attrs ?h @ map (showAttr ?h) as\<rparr>"
  have "inGroups [] (NewMuxLogHandler LevelTrace)" by (simp add: inGroups_def NewMuxLogHandler_def)
  from derive_logged [OF this assms] have "map cutAttr (le_Attrs ?l) = logged [] ops as" by (simp add: NewMuxLogHandler_def)
  then have "forwardLog ?l = (level, msg, (''source'', ''agent'') # logged [] ops as)"
    by (simp only: forwardLog_def cutAttr_def [abs_def, symmetric] LogEntry.select_convs)
  moreover have "mx_onLog (runnerMux fds)"
  proof -
    have "mx_onLog (foldl RegisterStream m is) = mx_onLog m" for m :: "unit Mux" and "is"
      by (induction "is" arbitrary: m) (simp_all add: RegisterStream_def)
    then show ?thesis by (simp add: runnerMux_def OnLog_def RegisterStream_def)
  qed
  then have "dispatch (runnerMux fds) () (handleLog ?h level msg as) = ([CallLog ?l], (), None)"
    by (simp add: dispatch_def handleLog_def FrameType_defs)
  ultimately show ?thesis by blast
qed

theorem agent_log_roundtrip_witness:
  "\<exists>l. dispatch (runnerMux []) () (handleLog (derive (NewMuxLogHandler LevelTrace) [OpAttrs [(''pid'', ''7'')], OpGroup ''g'']) 0 ''m'' [(''k'', ''a=b'')]) =
     ([CallLog l], (), None) \<and> forwardLog l = (0, ''m'', [(''source'', ''agent''), (''pid'', ''7''), (''g.k'', ''a=b'')])"
  using agent_log_roundtrip [of "[OpAttrs [(''pid'', ''7'')], OpGroup ''g'']" "[(''k'', ''a=b'')]" "[]" 0 "''m''"]
  by (simp add: groupAttr_def)

text \<open>The frame of a log record is one of the frames that may come between the output frames, and it is not an exit frame.\<close>

lemma log_frame_harmless: "isLogFrame (handleLog h level msg as) \<and> \<not> agentExit (handleLog h level msg as)"
  by (simp add: isLogFrame_def agentExit_def handleLog_def FrameType_defs)

text \<open>A key with an equals sign is split at the wrong place.\<close>

lemma log_key_equals: "forwardLog \<lparr>le_Level = 0, le_Msg = [], le_Attrs = [showAttr (NewMuxLogHandler 0) (''a=b'', ''c'')]\<rparr> =
    (0, [], [(''source'', ''agent''), (''a'', ''b=c'')])"
  by (simp add: forwardLog_def showAttr_def NewMuxLogHandler_def)

end
