(* ===== verification/AgentLife.thy ===== *)
theory AgentLife
  imports Agent Steps
begin

text \<open>
  The agent while a command runs (\<open>cmd/mproxy-agent/main.go\<close>, \<open>run\<close> from the started command on, and
  \<open>terminateChildGroup\<close>): it waits for the command or for the end of the connection, in the second case
  it terminates the process group, then it waits for the outputs, sends the exit frame and waits for
  the read loop. Each wait is a control state; what the command, its streams and the connection do are
  events of the surroundings.
\<close>

section \<open>State and steps\<close>

datatype agentPC = ASelect | ATermSent | AKillSent | ADrain int | AWaitMux | AReturned

record agentProc =
  ap_pc :: agentPC
  ap_child :: "int option"
  ap_conn :: bool
  ap_muxRunning :: bool
  ap_cancelled :: bool
  ap_open :: "uint32 set"
  ap_signals :: "int list"
  ap_exit :: "int option"

definition agentStarted :: "ExecMsg \<Rightarrow> agentProc" where
  "agentStarted x = \<lparr>ap_pc = ASelect, ap_child = None, ap_conn = True, ap_muxRunning = True, ap_cancelled = False,
     ap_open = agentStreams x, ap_signals = [], ap_exit = None\<rparr>"

datatype agentEvent =
    ChildExits int | StreamEnds uint32 | ConnectionLost | MuxEnds | SelectChild | SelectMux | GraceChild | GraceOver | KillChild
  | SendExitFrame | AgentReturns

text \<open>
  \<open>WaitFor\<close> has delivered the code of the command when \<open>ap_child\<close> is set. The read loop ends when the
  connection is lost; once the context is cancelled it may also end at the next frame.
\<close>

inductive agent_step :: "agentEvent \<Rightarrow> agentProc \<Rightarrow> agentProc \<Rightarrow> bool" where
  a_child: "ap_child s = None \<Longrightarrow> agent_step (ChildExits code) s (s\<lparr>ap_child := Some code\<rparr>)"
| a_stream: "i \<in> ap_open s \<Longrightarrow> agent_step (StreamEnds i) s (s\<lparr>ap_open := ap_open s - {i}\<rparr>)"
| a_conn: "agent_step ConnectionLost s (s\<lparr>ap_conn := False\<rparr>)"
| a_mux: "ap_muxRunning s \<Longrightarrow> \<not> ap_conn s \<or> ap_cancelled s \<Longrightarrow> agent_step MuxEnds s (s\<lparr>ap_muxRunning := False\<rparr>)"
| a_select_child: "ap_pc s = ASelect \<Longrightarrow> ap_child s = Some code \<Longrightarrow> agent_step SelectChild s (s\<lparr>ap_pc := ADrain code\<rparr>)"
| a_select_mux: "ap_pc s = ASelect \<Longrightarrow> \<not> ap_muxRunning s \<Longrightarrow>
    agent_step SelectMux s (s\<lparr>ap_pc := ATermSent, ap_signals := ap_signals s @ [15]\<rparr>)"
| a_grace_child: "ap_pc s = ATermSent \<Longrightarrow> ap_child s = Some code \<Longrightarrow> agent_step GraceChild s (s\<lparr>ap_pc := ADrain code\<rparr>)"
| a_grace_over: "ap_pc s = ATermSent \<Longrightarrow> agent_step GraceOver s (s\<lparr>ap_pc := AKillSent, ap_signals := ap_signals s @ [9]\<rparr>)"
| a_kill_child: "ap_pc s = AKillSent \<Longrightarrow> ap_child s = Some code \<Longrightarrow> agent_step KillChild s (s\<lparr>ap_pc := ADrain code\<rparr>)"
| a_exit: "ap_pc s = ADrain code \<Longrightarrow> ap_open s = {} \<Longrightarrow>
    agent_step SendExitFrame s (s\<lparr>ap_pc := AWaitMux, ap_exit := Some code, ap_cancelled := True\<rparr>)"
| a_return: "ap_pc s = AWaitMux \<Longrightarrow> \<not> ap_muxRunning s \<Longrightarrow> agent_step AgentReturns s (s\<lparr>ap_pc := AReturned\<rparr>)"

inductive_cases agent_stepE: "agent_step e s s'"

section \<open>Lemmas\<close>

definition agentInv :: "agentProc \<Rightarrow> bool" where
  "agentInv s \<longleftrightarrow>
     (ap_cancelled s \<longleftrightarrow> ap_pc s \<in> {AWaitMux, AReturned}) \<and>
     (\<not> ap_muxRunning s \<and> \<not> ap_cancelled s \<longrightarrow> \<not> ap_conn s) \<and>
     (ap_signals s \<noteq> [] \<longrightarrow> \<not> ap_muxRunning s \<and> \<not> ap_conn s) \<and>
     (case ap_pc s of
        ASelect \<Rightarrow> ap_signals s = []
      | ATermSent \<Rightarrow> ap_signals s = [15]
      | AKillSent \<Rightarrow> ap_signals s = [15, 9]
      | ADrain code \<Rightarrow> ap_child s = Some code \<and> ap_signals s \<in> {[], [15], [15, 9]}
      | AWaitMux \<Rightarrow> ap_open s = {} \<and> ap_child s \<noteq> None \<and> ap_exit s = ap_child s \<and> ap_signals s \<in> {[], [15], [15, 9]}
      | AReturned \<Rightarrow> ap_open s = {} \<and> ap_child s \<noteq> None \<and> ap_exit s = ap_child s \<and> \<not> ap_muxRunning s \<and> ap_signals s \<in> {[], [15], [15, 9]})"

lemma agentInv_step: "agent_step e s s' \<Longrightarrow> agentInv s \<Longrightarrow> agentInv s'"
  by (induction rule: agent_step.induct) (auto simp: agentInv_def split: agentPC.splits)

interpretation agent_inv: run_invariant agent_step "\<lambda>_. True" agentInv
  by unfold_locales (rule agentInv_step)

lemma agent_reachable: "run agent_step (agentStarted x) es s \<Longrightarrow> agentInv s"
  by (rule agent_inv.kept_run) (auto simp: list_all_iff agentStarted_def agentInv_def)

text \<open>While a stream is open the agent stays where it is, whatever else happens.\<close>

interpretation agent_drain: run_invariant agent_step "\<lambda>e. e \<noteq> StreamEnds i" "\<lambda>s. ap_pc s = ADrain code \<and> i \<in> ap_open s \<and> ap_signals s = sig"
  for i code sig
  by unfold_locales (auto elim!: agent_stepE)

text \<open>The end of the sequence: all open streams end, in some order.\<close>

lemma streams_end:
  assumes "finite A"
  shows "ap_open s = A \<Longrightarrow> \<exists>es. run agent_step s es (s\<lparr>ap_open := {}\<rparr>)"
  using assms
proof (induction A arbitrary: s rule: finite_induct)
  case empty
  then have "s\<lparr>ap_open := {}\<rparr> = s" by simp
  then show ?case using run_nil by metis
next
  case (insert i A)
  let ?s = "s\<lparr>ap_open := ap_open s - {i}\<rparr>"
  have "agent_step (StreamEnds i) s ?s" using insert.prems by (intro a_stream) simp
  moreover have "ap_open ?s = A" using insert.prems insert.hyps(2) by auto
  then obtain es where "run agent_step ?s es (?s\<lparr>ap_open := {}\<rparr>)" using insert.IH by blast
  ultimately have "run agent_step s (StreamEnds i # es) (?s\<lparr>ap_open := {}\<rparr>)" by (rule run_cons)
  then show ?case by auto
qed

lemma open_shrinks: "run agent_step s es s' \<Longrightarrow> ap_open s' \<subseteq> ap_open s"
  by (induction rule: run.induct) (auto elim!: agent_stepE)

lemma mux_ends:
  assumes "\<not> ap_conn s"
  shows "\<exists>es. run agent_step s es (s\<lparr>ap_muxRunning := False\<rparr>)"
proof (cases "ap_muxRunning s")
  case True
  then have "agent_step MuxEnds s (s\<lparr>ap_muxRunning := False\<rparr>)" using assms by (intro a_mux) simp_all
  then show ?thesis by (meson run.intros)
next
  case False
  then have "s\<lparr>ap_muxRunning := False\<rparr> = s" by simp
  then show ?thesis using run_nil by metis
qed

lemma agent_drain_returns:
  assumes "ap_pc s = ADrain k" "ap_open s = {}" "\<not> ap_muxRunning s"
  shows "\<exists>es s'. run agent_step s es s' \<and> ap_pc s' = AReturned"
proof -
  let ?w = "s\<lparr>ap_pc := AWaitMux, ap_exit := Some k, ap_cancelled := True\<rparr>"
  have "agent_step SendExitFrame s ?w" using assms by (intro a_exit)
  moreover have "agent_step AgentReturns ?w (?w\<lparr>ap_pc := AReturned\<rparr>)" using assms by (intro a_return) simp_all
  ultimately have "run agent_step s [SendExitFrame, AgentReturns] (?w\<lparr>ap_pc := AReturned\<rparr>)" by (meson run.intros)
  then show ?thesis by fastforce
qed

text \<open>Every wait is over once the command, its streams and the read loop have ended.\<close>

lemma waits_return:
  assumes "ap_open s = {}" "\<not> ap_muxRunning s" "ap_child s = Some code"
  shows "\<exists>es s'. run agent_step s es s' \<and> ap_pc s' = AReturned"
proof -
  have via: ?thesis if "agent_step e s (s\<lparr>ap_pc := ADrain code\<rparr>)" for e
  proof -
    obtain es s' where "run agent_step (s\<lparr>ap_pc := ADrain code\<rparr>) es s'" "ap_pc s' = AReturned"
      using agent_drain_returns [of "s\<lparr>ap_pc := ADrain code\<rparr>" code] assms by auto
    then show ?thesis using run_cons [of agent_step, OF that] by blast
  qed
  consider "ap_pc s \<in> {ASelect, ATermSent, AKillSent}" | k where "ap_pc s = ADrain k" | "ap_pc s = AWaitMux" | "ap_pc s = AReturned"
    by (cases "ap_pc s") auto
  then show ?thesis
  proof cases
    case 1
    then show ?thesis using via a_select_child a_grace_child a_kill_child assms(3) by blast
  next
    case 2
    then show ?thesis using agent_drain_returns assms(1,2) by blast
  next
    case 3
    then have "agent_step AgentReturns s (s\<lparr>ap_pc := AReturned\<rparr>)" using assms(2) by (rule a_return)
    then have "run agent_step s [AgentReturns] (s\<lparr>ap_pc := AReturned\<rparr>)" by (meson run.intros)
    then show ?thesis by fastforce
  next
    case 4
    then show ?thesis using run_nil by metis
  qed
qed

section \<open>Properties\<close>


definition exampleExec :: ExecMsg where
  "exampleExec = \<lparr>em_Path = ''/bin/true'', em_Argv = [], em_Env = [], em_Cwd = [], em_ExtraFDs = []\<rparr>"


text \<open>The signals are those of \<open>terminateChildGroup\<close>.\<close>

lemma termination_signals:
  assumes "run agent_step (agentStarted x) es s" "ap_pc s = ADrain code" "ap_signals s \<noteq> []"
  shows "\<exists>inGrace. (ap_signals s, code) = terminateChildGroup inGrace code"
proof -
  have "ap_signals s = [15] \<or> ap_signals s = [15, 9]" using agent_reachable [OF assms(1)] assms(2,3) by (auto simp: agentInv_def)
  then show ?thesis
  proof
    assume "ap_signals s = [15]"
    then show ?thesis by (intro exI [of _ "Some code"]) (simp add: terminateChildGroup_def)
  next
    assume "ap_signals s = [15, 9]"
    then show ?thesis by (intro exI [of _ None]) (simp add: terminateChildGroup_def)
  qed
qed

text \<open>
  The agent ends when the command does: from every state that can be reached in which the connection
  is lost and the command has ended, the agent can return as soon as the streams have ended; no wait
  of the sequence blocks for ever.
\<close>

theorem agent_returns:
  assumes "run agent_step (agentStarted x) es s" "\<not> ap_conn s" "ap_child s = Some code"
  shows "\<exists>es' s'. run agent_step s es' s' \<and> ap_pc s' = AReturned"
proof -
  have "finite (ap_open s)" using finite_subset [OF open_shrinks [OF assms(1)]] by (simp add: agentStarted_def agentStreams_def)
  then obtain ea where "run agent_step s ea (s\<lparr>ap_open := {}\<rparr>)" using streams_end by blast
  moreover obtain eb where "run agent_step (s\<lparr>ap_open := {}\<rparr>) eb (s\<lparr>ap_open := {}, ap_muxRunning := False\<rparr>)"
    using mux_ends [of "s\<lparr>ap_open := {}\<rparr>"] assms(2) by auto
  moreover obtain ec u where "run agent_step (s\<lparr>ap_open := {}, ap_muxRunning := False\<rparr>) ec u" "ap_pc u = AReturned"
    using waits_return [of "s\<lparr>ap_open := {}, ap_muxRunning := False\<rparr>" code] assms(3) by auto
  ultimately show ?thesis using run_append by meson
qed

theorem agent_returns_witness:
  "\<exists>es' s'. run agent_step (agentStarted exampleExec\<lparr>ap_conn := False, ap_child := Some 3\<rparr>) es' s' \<and> ap_pc s' = AReturned"
proof -
  let ?a = "agentStarted exampleExec" and ?b = "agentStarted exampleExec\<lparr>ap_conn := False\<rparr>"
  have "agent_step ConnectionLost ?a ?b" by (rule a_conn)
  moreover have "agent_step (ChildExits 3) ?b (?b\<lparr>ap_child := Some 3\<rparr>)" by (rule a_child) (simp add: agentStarted_def)
  ultimately have "run agent_step ?a [ConnectionLost, ChildExits 3] (?b\<lparr>ap_child := Some 3\<rparr>)" by (meson run.intros)
  from agent_returns [OF this, of 3] show ?thesis by simp
qed

text \<open>
  What the agent does not do: once the command has ended, it waits for the streams alone. If a
  descendant keeps a stream open, a lost connection is not noticed, and no signal is sent.
\<close>

lemma drain_ignores_disconnect:
  assumes "run agent_step s es s'" "ap_pc s = ADrain code" "i \<in> ap_open s" "StreamEnds i \<notin> set es"
  shows "ap_pc s' = ADrain code \<and> ap_signals s' = ap_signals s"
  using agent_drain.kept_run [OF assms(1), of i code "ap_signals s"] assms(2-4) by (auto simp: list_all_iff)

end
