(* ===== verification/BrokerServer.thy ===== *)
theory BrokerServer
  imports Steps
begin

text \<open>
  The server of \<open>pkg/broker/server.go\<close> around its connections: \<open>listenUnixPrivate\<close>, which creates the
  socket under a private umask of the whole process, and \<open>Start\<close>, which accepts connections until its
  context is cancelled and then waits for the handlers. Both are step relations over what other
  goroutines do.
\<close>

unbundle bit_operations_syntax

section \<open>The private socket\<close>

text \<open>
  A goroutine in \<open>listenUnixPrivate\<close> has taken the lock, then has set the umask and remembers the
  old one, then has created the socket. A new socket has all permission bits that the umask leaves.
\<close>

datatype listenPC = LIdle | LLocked | LMasked uint32 | LBound uint32

record umaskSys =
  um_umask :: uint32
  um_pc :: "nat \<Rightarrow> listenPC"
  um_sockets :: "uint32 list"

abbreviation privateMask :: uint32 where "privateMask \<equiv> 0x3F"
abbreviation allPerms :: uint32 where "allPerms \<equiv> 0x1FF"

definition socketMode :: "uint32 \<Rightarrow> uint32" where
  "socketMode um = allPerms AND NOT um"

definition umaskInit :: "uint32 \<Rightarrow> umaskSys" where
  "umaskInit u = \<lparr>um_umask = u, um_pc = (\<lambda>_. LIdle), um_sockets = []\<rparr>"

datatype listenEvent = LvLock nat | LvMask nat | LvListen nat | LvListenFails nat | LvRestore nat

inductive listen_step :: "listenEvent \<Rightarrow> umaskSys \<Rightarrow> umaskSys \<Rightarrow> bool" where
  l_lock: "\<forall>t. um_pc s t = LIdle \<Longrightarrow> listen_step (LvLock t) s (s\<lparr>um_pc := (um_pc s)(t := LLocked)\<rparr>)"
| l_mask: "um_pc s t = LLocked \<Longrightarrow>
    listen_step (LvMask t) s (s\<lparr>um_pc := (um_pc s)(t := LMasked (um_umask s)), um_umask := privateMask\<rparr>)"
| l_listen: "um_pc s t = LMasked old \<Longrightarrow>
    listen_step (LvListen t) s (s\<lparr>um_pc := (um_pc s)(t := LBound old), um_sockets := um_sockets s @ [socketMode (um_umask s)]\<rparr>)"
| l_listen_fails: "um_pc s t = LMasked old \<Longrightarrow> listen_step (LvListenFails t) s (s\<lparr>um_pc := (um_pc s)(t := LBound old)\<rparr>)"
| l_restore: "um_pc s t = LBound old \<Longrightarrow>
    listen_step (LvRestore t) s (s\<lparr>um_umask := old, um_pc := (um_pc s)(t := LIdle)\<rparr>)"

section \<open>Accepting connections\<close>

datatype acceptPC = Accepting | WaitingConns | ServerReturned bool

text \<open>\<open>sv_running\<close> are the handlers that the wait group counts, \<open>sv_done\<close> those that have ended.\<close>

record serverSys =
  sv_pc :: acceptPC
  sv_cancelled :: bool
  sv_listening :: bool
  sv_running :: "nat set"
  sv_done :: "nat set"

definition serverInit :: serverSys where
  "serverInit = \<lparr>sv_pc = Accepting, sv_cancelled = False, sv_listening = True, sv_running = {}, sv_done = {}\<rparr>"

datatype serverEvent = SvAccept nat | SvAcceptError | SvConnDone nat | SvCancel | SvCloseListener | SvReturn

inductive server_step :: "serverEvent \<Rightarrow> serverSys \<Rightarrow> serverSys \<Rightarrow> bool" where
  sv_accept: "sv_pc s = Accepting \<Longrightarrow> sv_listening s \<Longrightarrow> c \<notin> sv_running s \<union> sv_done s \<Longrightarrow>
    server_step (SvAccept c) s (s\<lparr>sv_running := insert c (sv_running s)\<rparr>)"
| sv_error: "sv_pc s = Accepting \<Longrightarrow> server_step SvAcceptError s (s\<lparr>sv_pc := WaitingConns\<rparr>)"
| sv_conn: "c \<in> sv_running s \<Longrightarrow>
    server_step (SvConnDone c) s (s\<lparr>sv_running := sv_running s - {c}, sv_done := insert c (sv_done s)\<rparr>)"
| sv_cancel: "server_step SvCancel s (s\<lparr>sv_cancelled := True\<rparr>)"
| sv_close: "sv_cancelled s \<Longrightarrow> server_step SvCloseListener s (s\<lparr>sv_listening := False\<rparr>)"
| sv_return: "sv_pc s = WaitingConns \<Longrightarrow> sv_running s = {} \<Longrightarrow>
    server_step SvReturn s (s\<lparr>sv_pc := ServerReturned (sv_cancelled s)\<rparr>)"

inductive_cases listen_stepE: "listen_step e s s'"
inductive_cases server_stepE: "server_step e s s'"

section \<open>Lemmas\<close>

text \<open>At most one goroutine is inside, and it remembers the umask of the process.\<close>

definition umaskInv :: "uint32 \<Rightarrow> umaskSys \<Rightarrow> bool" where
  "umaskInv u s \<longleftrightarrow> list_all (\<lambda>m. m AND privateMask = 0) (um_sockets s) \<and>
     ((\<forall>t. um_pc s t = LIdle) \<and> um_umask s = u \<or>
      (\<exists>t. (\<forall>t'. t' \<noteq> t \<longrightarrow> um_pc s t' = LIdle) \<and>
         (um_pc s t = LLocked \<and> um_umask s = u \<or> (um_pc s t = LMasked u \<or> um_pc s t = LBound u) \<and> um_umask s = privateMask)))"

lemma umaskInv_holder:
  assumes "umaskInv u s" "um_pc s t \<noteq> LIdle"
  shows "\<forall>t'. t' \<noteq> t \<longrightarrow> um_pc s t' = LIdle"
    and "um_pc s t = LLocked \<and> um_umask s = u \<or> (um_pc s t = LMasked u \<or> um_pc s t = LBound u) \<and> um_umask s = privateMask"
proof -
  obtain h where h: "\<forall>t'. t' \<noteq> h \<longrightarrow> um_pc s t' = LIdle"
    "um_pc s h = LLocked \<and> um_umask s = u \<or> (um_pc s h = LMasked u \<or> um_pc s h = LBound u) \<and> um_umask s = privateMask"
    using assms by (auto simp: umaskInv_def)
  have "h = t" using h(1) assms(2) by metis
  then show "\<forall>t'. t' \<noteq> t \<longrightarrow> um_pc s t' = LIdle"
    and "um_pc s t = LLocked \<and> um_umask s = u \<or> (um_pc s t = LMasked u \<or> um_pc s t = LBound u) \<and> um_umask s = privateMask"
    using h by auto
qed

lemma umaskInv_step:
  assumes "listen_step e s s'" "umaskInv u s"
  shows "umaskInv u s'"
  using assms(1)
proof cases
  case (l_lock t)
  then show ?thesis using assms(2) by (auto simp: umaskInv_def)
next
  case (l_mask t)
  then show ?thesis using assms(2) umaskInv_holder [OF assms(2), of t] by (auto simp: umaskInv_def)
next
  case (l_listen t old)
  then show ?thesis using assms(2) umaskInv_holder [OF assms(2), of t] by (auto simp: umaskInv_def socketMode_def)
next
  case (l_listen_fails t old)
  then show ?thesis using assms(2) umaskInv_holder [OF assms(2), of t] by (auto simp: umaskInv_def)
next
  case (l_restore t old)
  then show ?thesis using assms(2) umaskInv_holder [OF assms(2), of t] by (auto simp: umaskInv_def)
qed

interpretation umask_inv: run_invariant listen_step "\<lambda>_. True" "umaskInv u" for u
  by unfold_locales (rule umaskInv_step)

interpretation server_inv: run_invariant server_step "\<lambda>_. True"
  "\<lambda>s. sv_running s \<inter> sv_done s = {} \<and> (\<not> sv_listening s \<longrightarrow> sv_cancelled s) \<and>
     (\<forall>ok. sv_pc s = ServerReturned ok \<longrightarrow> sv_running s = {} \<and> (ok \<longrightarrow> sv_cancelled s))"
  by unfold_locales (auto elim!: server_stepE)

section \<open>Properties\<close>

text \<open>
  The broker's socket is private: whatever umask the process has and however many servers are
  started at the same time, every socket is created without permissions for group and others, and
  whenever no goroutine is inside the section, the umask of the process is the original one.
\<close>

theorem socket_private:
  assumes "run listen_step (umaskInit u) es s"
  shows "(\<forall>m\<in>set (um_sockets s). m AND privateMask = 0) \<and> ((\<forall>t. um_pc s t = LIdle) \<longrightarrow> um_umask s = u)"
proof -
  have "umaskInv u s" using umask_inv.kept_run [OF assms, of u] by (simp add: list_all_iff umaskInv_def umaskInit_def)
  then show ?thesis by (auto simp: umaskInv_def list_all_iff)
qed

text \<open>
  \<open>Start\<close> returns only when every connection it accepted has been served to its end, and without an
  error only after its context was cancelled.
\<close>

theorem server_drains:
  assumes "run server_step serverInit es s" "sv_pc s = ServerReturned ok"
  shows "sv_running s = {} \<and> (ok \<longrightarrow> sv_cancelled s) \<and> (\<forall>c. SvAccept c \<in> set es \<longrightarrow> c \<in> sv_done s)"
proof -
  have acc: "run server_step a es b \<Longrightarrow> sv_running a \<union> sv_done a \<subseteq> sv_running b \<union> sv_done b \<and> (\<forall>c. SvAccept c \<in> set es \<longrightarrow> c \<in> sv_running b \<union> sv_done b)"
    for a b
    by (induction rule: run.induct) (auto elim!: server_stepE)
  have "sv_running s = {} \<and> (ok \<longrightarrow> sv_cancelled s)"
    using server_inv.kept_run [OF assms(1)] assms(2) by (simp add: list_all_iff serverInit_def)
  then show ?thesis using acc [OF assms(1)] by auto
qed

end
