(* ===== verification/Variants.thy ===== *)
theory Variants
  imports Runtime Shim WaitStatus ChildProc
begin

text \<open>
  What differs between platforms: the namespace runner (\<open>pkg/ns/runner_linux.go\<close>, \<open>runner_darwin.go\<close>), the
  invocation of the child and the descriptor scan on macOS (\<open>runchild_darwin.go\<close>, \<open>fd_darwin.go\<close>,
  \<open>fuse_check_darwin.go\<close>), and starting, signalling and waiting for a command on Windows
  (\<open>pkg/childproc/build_windows.go\<close>, \<open>signal_windows.go\<close>, \<open>pkg/subreaper/setup_windows.go\<close>, \<open>reap_windows.go\<close>).
  The lemmas relate each variant to the Linux one.
\<close>

section \<open>The namespace runner\<close>

text \<open>What is executed: the program, its arguments, its directory (empty: inherited) and its environment.\<close>

record invocation =
  iv_Prog :: string
  iv_Args :: "string list"
  iv_Dir :: string
  iv_Env :: "string list"

definition nsPrepare :: "(string \<Rightarrow> (string, string) result) \<Rightarrow> (string, string) result" where
  "nsPrepare lookPath = lookPath ''bwrap''"

definition nsRun :: "string \<Rightarrow> string \<Rightarrow> string list \<Rightarrow> string list \<Rightarrow> Bind list \<Rightarrow> invocation" where
  "nsRun bwrapBin workingDir cmdline env binds =
     \<lparr>iv_Prog = bwrapBin, iv_Args = buildBwrapArgs workingDir cmdline binds, iv_Dir = [], iv_Env = env\<rparr>"

definition nsCommand :: "string \<Rightarrow> string \<Rightarrow> string list \<Rightarrow> Bind list \<Rightarrow> string \<times> string list" where
  "nsCommand bwrapBin workingDir cmdline binds = (bwrapBin, buildBwrapArgs workingDir cmdline binds)"

definition darwinRun :: "string \<Rightarrow> string list \<Rightarrow> string list \<Rightarrow> Bind list \<Rightarrow> (string, invocation) result" where
  "darwinRun workingDir cmdline env binds =
     (case cmdline of
        [] \<Rightarrow> Inl ''ns: empty cmdline''
      | prog # args \<Rightarrow> Inr \<lparr>iv_Prog = prog, iv_Args = args, iv_Dir = workingDir, iv_Env = env\<rparr>)"

definition darwinCommand :: "string list \<Rightarrow> string \<times> string list" where
  "darwinCommand cmdline = (case cmdline of [] \<Rightarrow> ([], []) | prog # args \<Rightarrow> (prog, args))"

section \<open>macOS\<close>

fun darwinRemapPWD :: "string list \<Rightarrow> string \<Rightarrow> string \<Rightarrow> string list" where
  "darwinRemapPWD [] frm to = []"
| "darwinRemapPWD (e # env) frm to =
     (if \<not> HasPrefix e ''PWD='' then e # darwinRemapPWD env frm to
      else let v = drop 4 e; (mapped, matched) = RewritePathPrefix v frm to in
        if \<not> matched \<or> mapped = v then e # env else (''PWD='' @ mapped) # env)"

text \<open>\<open>interposer\<close> is the result of \<open>ResolveInterposerPath\<close>, \<open>cwd\<close> the working directory rewrite.\<close>

definition darwinInvocation ::
  "Config \<Rightarrow> (path_error, string) result \<Rightarrow> string \<times> string \<Rightarrow> string list \<Rightarrow> string list \<Rightarrow> string list \<times> string list" where
  "darwinInvocation cfg interposer cwd cmdline env =
     (let out = env;
          out = (case interposer of Inr dylib \<Rightarrow> out @ [''DYLD_INSERT_LIBRARIES='' @ dylib] | Inl err \<Rightarrow> out);
          out = (if LocalCommands (Container cfg) \<noteq> []
                 then out @ [''MPROXY_WHITELIST='' @ Join (LocalCommands (Container cfg)) '':''] else out);
          out = (if snd cwd \<noteq> []
                 then darwinRemapPWD (out @ [''MPROXY_CWD_FROM='' @ fst cwd, ''MPROXY_CWD_TO='' @ snd cwd]) (fst cwd) (snd cwd) else out)
      in (cmdline, out))"

fun detectFDsDarwin :: "uint32 \<Rightarrow> uint32 \<Rightarrow> (uint32 \<Rightarrow> bool option) \<Rightarrow> string list \<Rightarrow> uint32 list" where
  "detectFDsDarwin dirFD brokerFD cloexec [] = []"
| "detectFDsDarwin dirFD brokerFD cloexec (name # names) =
     (let rest = detectFDsDarwin dirFD brokerFD cloexec names in
      case ParseUint32 name of
        None \<Rightarrow> rest
      | Some fd \<Rightarrow>
          if fd < 3 \<or> fd = dirFD \<or> fd = brokerFD then rest
          else if cloexec fd = None \<or> cloexec fd = Some True then rest
          else fd # rest)"

definition preflightFUSE :: "bool \<Rightarrow> (string \<Rightarrow> bool) \<Rightarrow> bool" where
  "preflightFUSE darwin exists \<longleftrightarrow>
     (if darwin then list_ex exists [''/Library/Filesystems/macfuse.fs/Contents/Resources/mount_macfuse'',
        ''/Library/Filesystems/osxfuse.fs/Contents/Resources/mount_osxfuse''] else True)"

section \<open>Windows\<close>

text \<open>
  The tokens of the process: the outcome of each system call is a parameter; a token is its number and 0
  is no token. \<open>tk_Elevated\<close> is the answer for the current token.
\<close>

record tokenHost =
  tk_Open :: bool
  tk_Elevated :: bool
  tk_Linked :: "nat option"
  tk_Duplicate :: "nat \<Rightarrow> nat option"

datatype token_error = OpenTokenFailed | LinkedTokenFailed | DuplicateFailed

definition unprivilegedPrimaryToken :: "tokenHost \<Rightarrow> (token_error, nat) result" where
  "unprivilegedPrimaryToken H =
     (if \<not> tk_Open H then Inl OpenTokenFailed
      else if \<not> tk_Elevated H then Inr 0
      else case tk_Linked H of None \<Rightarrow> Inl LinkedTokenFailed
        | Some l \<Rightarrow> (case tk_Duplicate H l of None \<Rightarrow> Inl DuplicateFailed | Some p \<Rightarrow> Inr p))"

datatype win_error = WinExtraFDs | WinToken token_error | WinPipes

text \<open>The command of Windows: the fields that both systems have, and the token (0: inherited).\<close>

definition buildWindows :: "tokenHost \<Rightarrow> bool \<Rightarrow> Spec \<Rightarrow> (win_error, Cmd \<times> nat) result" where
  "buildWindows H pipesOk spec =
     (if sp_ExtraFDs spec \<noteq> [] then Inl WinExtraFDs
      else bindR (if sp_DropSudo spec then mapErr WinToken (unprivilegedPrimaryToken H) else Inr 0) (\<lambda>token.
           bindR (failIf (\<not> pipesOk) WinPipes) (\<lambda>_. Inr (newCmd spec, token))))"

datatype signalAct = SigNothing | SigProcess int | SigGroup int int | CtrlBreak nat | Terminate uint32

text \<open>\<open>SignalGroup\<close> on Unix (\<open>pgid\<close> is the answer of \<open>getpgid\<close>) and on Windows; \<^const>\<open>None\<close> is a command without a process.\<close>

definition SignalGroup :: "int option \<Rightarrow> (int \<Rightarrow> int option) \<Rightarrow> int \<Rightarrow> signalAct" where
  "SignalGroup process pgid sig =
     (case process of None \<Rightarrow> SigNothing
      | Some pid \<Rightarrow> (case pgid pid of None \<Rightarrow> SigProcess sig | Some g \<Rightarrow> SigGroup (- g) sig))"

definition signalGroupWindows :: "nat option \<Rightarrow> bool \<Rightarrow> int \<Rightarrow> (string, signalAct) result" where
  "signalGroupWindows process openOk sig =
     (case process of None \<Rightarrow> Inr SigNothing
      | Some pid \<Rightarrow>
          if sig \<in> {2, 3, 1} then Inr (CtrlBreak pid)
          else if \<not> openOk then Inl ''OpenProcess'' else Inr (Terminate (word_of_int (128 + sig))))"

text \<open>\<open>Setup\<close>: the job object; the handles that are open afterwards, and whether the process is in the job.\<close>

definition setupJob :: "bool \<Rightarrow> bool \<Rightarrow> bool \<Rightarrow> string option \<times> nat \<times> bool" where
  "setupJob create setInfo assign =
     (if \<not> create then (Some ''CreateJobObject'', 0, False)
      else if \<not> setInfo then (Some ''SetInformationJobObject'', 0, False)
      else if \<not> assign then (Some ''AssignProcessToJobObject'', 0, False)
      else (None, 1, True))"

text \<open>\<open>WaitFor\<close> on Windows: \<^const>\<open>None\<close> is a command without a process, the second argument the state after the wait.\<close>

definition waitForWindows :: "bool \<Rightarrow> int option \<Rightarrow> int" where
  "waitForWindows started state = (if \<not> started then 127 else case state of None \<Rightarrow> 127 | Some code \<Rightarrow> code)"

section \<open>Lemmas\<close>

text \<open>The runner executes what \<open>Command\<close> shows.\<close>

lemma nsRun_command: "(iv_Prog (nsRun b w cmd env binds), iv_Args (nsRun b w cmd env binds)) = nsCommand b w cmd binds"
  by (simp add: nsRun_def nsCommand_def)

lemma darwinRun_command: "darwinRun w cmd env binds = Inr v \<Longrightarrow> (iv_Prog v, iv_Args v) = darwinCommand cmd"
  by (auto simp: darwinRun_def darwinCommand_def split: list.splits)

text \<open>
  Only the first \<open>PWD\<close> entry changes, and to the rewritten path; every other variable keeps its
  place and its value.
\<close>

lemma darwinRemapPWD_first:
  assumes "\<forall>e\<in>set pre. \<not> HasPrefix e ''PWD=''"
  shows "darwinRemapPWD (pre @ (''PWD='' @ v) # post) frm to = pre @ (''PWD='' @ fst (RewritePathPrefix v frm to)) # post"
  using assms by (induction pre) (auto simp: RewritePathPrefix_def)

lemma darwinRemapPWD_none: "\<forall>e\<in>set env. \<not> HasPrefix e ''PWD='' \<Longrightarrow> darwinRemapPWD env frm to = env"
  by (induction env) auto

text \<open>It is the rewrite that the tracer of Linux applies to the environment of an exec.\<close>

lemma darwinRemapPWD_tracer: "darwinRemapPWD env frm to = fst (remapPWDEnv env frm to)"
  by (induction env) (auto simp: Let_def case_prod_beta)

text \<open>macOS forwards every descriptor that Linux forwards: the scan has all of its filters but the last.\<close>

lemma detectFDs_darwin: "set (detectFDs d b cl rl names) \<subseteq> set (detectFDsDarwin d b cl names)"
  by (induction names) (auto simp: Let_def split: option.splits)

lemma detectFDsDarwin_inherited: "fd \<in> set (detectFDsDarwin d b cl names) \<Longrightarrow> 3 \<le> fd \<and> fd \<noteq> d \<and> fd \<noteq> b \<and> cl fd = Some False"
  by (induction names) (auto simp: Let_def not_less split: option.splits if_splits)

text \<open>An elevated agent never starts a command with its own token when it is asked to drop privileges.\<close>

lemma windows_never_elevated:
  assumes "buildWindows H ok spec = Inr (cmd, token)" "sp_DropSudo spec" "tk_Elevated H"
  shows "\<exists>l. tk_Linked H = Some l \<and> tk_Duplicate H l = Some token"
  using assms by (auto simp: buildWindows_def unprivilegedPrimaryToken_def bindR_eq_Inr mapErr_def failIf_def split: if_splits option.splits sum.splits)

text \<open>A terminated command reports the code that a command killed by the same signal reports on Unix.\<close>

lemma terminate_code:
  assumes "signalGroupWindows (Some pid) True sig = Inr (Terminate c)" "wsSignaled ws" "wsSignal ws = sig"
  shows "uint c = ExitCodeFromWaitStatus ws"
proof -
  have "c = word_of_int (128 + sig)" using assms(1) by (simp add: signalGroupWindows_def split: if_splits)
  then have "uint c = (128 + sig) mod 2 ^ 32" by (simp only: uint_word_of_int) simp
  then show ?thesis using assms(2,3) wsSignal_bounds [OF assms(2)] by (simp add: ExitCodeFromWaitStatus_def)
qed

text \<open>A failed setup leaves no handle; a successful one keeps exactly the job.\<close>

lemma setupJob_handles: "setupJob a b c = (e, n, joined) \<Longrightarrow> (e = None \<longleftrightarrow> joined) \<and> n = (if joined then 1 else 0)"
  by (auto simp: setupJob_def split: if_splits)

end
