(* ===== verification/ClientClose.thy ===== *)
theory ClientClose
  imports DockerBackend
begin

text \<open>
  \<open>pkg/remote/docker/fileclient.go\<close>: the life of a file client once its agent has been started. One
  goroutine reads frames until the loop ends and then closes the session; \<open>Close\<close> cancels the
  context, closes the session and waits for that goroutine, and so does \<open>newAgentFileClient\<close> when
  its probe fails. \<open>Close\<close> may be called by several goroutines.
\<close>

section \<open>State\<close>

text \<open>
  The reading goroutine: at the top of \<open>ReadLoop\<close>, where the context is checked, in \<open>Decode\<close>, after
  the loop, and after \<open>doneCh\<close> has been closed. A call of \<open>Close\<close>: not made, after \<open>cancel\<close>, waiting
  for \<open>doneCh\<close>, returned.
\<close>

datatype readerPC = AtTop | Decoding | LoopOver | ReaderDone

datatype closerPC = NotClosing | ContextCancelled | AwaitReader | CloseReturned

text \<open>\<open>fc_used\<close> counts the bytes of standard output that the decoded frames took.\<close>

record fileClient =
  fc_sess :: dockerSession
  fc_ctxDone :: bool
  fc_reader :: readerPC
  fc_used :: nat
  fc_closer :: "nat \<Rightarrow> closerPC"

definition newFileClient :: "dockerSession \<Rightarrow> fileClient" where
  "newFileClient s = \<lparr>fc_sess = s, fc_ctxDone = False, fc_reader = AtTop, fc_used = 0, fc_closer = (\<lambda>_. NotClosing)\<rparr>"

section \<open>Operations\<close>

definition loopTop :: "fileClient \<Rightarrow> fileClient" where
  "loopTop c = c\<lparr>fc_reader := (if fc_ctxDone c then LoopOver else Decoding)\<rparr>"

text \<open>A frame of \<open>n\<close> bytes; the loop ends with an exit frame. No stream of this multiplexer has a handler, so no dispatch blocks.\<close>

definition frameRead :: "fileClient \<Rightarrow> nat \<Rightarrow> bool \<Rightarrow> fileClient" where
  "frameRead c n isExit = c\<lparr>fc_used := fc_used c + n, fc_reader := (if isExit then LoopOver else AtTop)\<rparr>"

definition readerFinish :: "fileClient \<Rightarrow> fileClient" where
  "readerFinish c = c\<lparr>fc_sess := sessionClose (fc_sess c), fc_reader := ReaderDone\<rparr>"

text \<open>The three steps of \<open>Close\<close>. The context of the session is a child of the client's.\<close>

definition closeCancel :: "fileClient \<Rightarrow> nat \<Rightarrow> fileClient" where
  "closeCancel c t = c\<lparr>fc_ctxDone := True, fc_sess := (fc_sess c)\<lparr>ds_cancelled := True\<rparr>,
     fc_closer := (fc_closer c)(t := ContextCancelled)\<rparr>"

definition closeSession :: "fileClient \<Rightarrow> nat \<Rightarrow> fileClient" where
  "closeSession c t = c\<lparr>fc_sess := sessionClose (fc_sess c), fc_closer := (fc_closer c)(t := AwaitReader)\<rparr>"

definition closeReturn :: "fileClient \<Rightarrow> nat \<Rightarrow> fileClient" where
  "closeReturn c t = c\<lparr>fc_closer := (fc_closer c)(t := CloseReturned)\<rparr>"

section \<open>Steps\<close>

text \<open>Standard output yields nothing more: the pipe is closed or the output goroutine is past the stream.\<close>

definition outEnded :: "dockerSession \<Rightarrow> bool" where
  "outEnded s \<longleftrightarrow> ds_pipesClosed s \<or> (case ds_demux s of Polling _ _ \<Rightarrow> True | Finished \<Rightarrow> True | _ \<Rightarrow> False)"

text \<open>
  The steps of the session that are not \<open>Close\<close>. Standard output is read only by \<open>Decode\<close>; standard
  error is drained by a goroutine of its own.
\<close>

definition sessionMoves :: "fileClient \<Rightarrow> sessionEvent \<Rightarrow> bool" where
  "sessionMoves c e \<longleftrightarrow> (case e of
     EvClose \<Rightarrow> False
   | EvRead _ \<Rightarrow> (case ds_demux (fc_sess c) of Writing OnStdout _ \<Rightarrow> fc_reader c = Decoding | _ \<Rightarrow> True)
   | _ \<Rightarrow> True)"

datatype readerEvent = ReCheck | ReFrame nat bool | ReFail | ReClose

datatype clientEvent = CvSession sessionEvent | CvReader readerEvent | CvCancel nat | CvSessClose nat | CvReturn nat

inductive client_step :: "clientEvent \<Rightarrow> fileClient \<Rightarrow> fileClient \<Rightarrow> bool" where
  c_session: "session_step e (fc_sess c) s \<Longrightarrow> sessionMoves c e \<Longrightarrow> client_step (CvSession e) c (c\<lparr>fc_sess := s\<rparr>)"
| c_check: "fc_reader c = AtTop \<Longrightarrow> client_step (CvReader ReCheck) c (loopTop c)"
| c_frame: "fc_reader c = Decoding \<Longrightarrow> 0 < n \<Longrightarrow> fc_used c + n \<le> length (ds_got (fc_sess c) OnStdout) \<Longrightarrow>
    client_step (CvReader (ReFrame n isExit)) c (frameRead c n isExit)"
| c_decode_fail: "fc_reader c = Decoding \<Longrightarrow> fc_used c < length (ds_got (fc_sess c) OnStdout) \<or> outEnded (fc_sess c) \<Longrightarrow>
    client_step (CvReader ReFail) c (c\<lparr>fc_reader := LoopOver\<rparr>)"
| c_finish: "fc_reader c = LoopOver \<Longrightarrow> client_step (CvReader ReClose) c (readerFinish c)"
| c_cancel: "fc_closer c t = NotClosing \<Longrightarrow> client_step (CvCancel t) c (closeCancel c t)"
| c_sess_close: "fc_closer c t = ContextCancelled \<Longrightarrow> client_step (CvSessClose t) c (closeSession c t)"
| c_return: "fc_closer c t = AwaitReader \<Longrightarrow> fc_reader c = ReaderDone \<Longrightarrow> client_step (CvReturn t) c (closeReturn c t)"

inductive_cases client_stepE: "client_step e c c'"
inductive_cases reader_stepE: "client_step (CvReader r) c c'"

lemmas client_defs = loopTop_def frameRead_def readerFinish_def closeCancel_def closeSession_def closeReturn_def

section \<open>Lemmas\<close>

text \<open>A closed session has closed its pipes and its connection, whatever happens afterwards.\<close>

definition shut :: "dockerSession \<Rightarrow> bool" where
  "shut s \<longleftrightarrow> ds_pipesClosed s \<and> ds_hijack s \<noteq> HijackOpen"

definition closedInv :: "dockerSession \<Rightarrow> bool" where
  "closedInv s \<longleftrightarrow> (ds_closed s \<longrightarrow> shut s)"

lemma closedInv_close: "closedInv s \<Longrightarrow> closedInv (sessionClose s) \<and> shut (sessionClose s) \<and> ds_closed (sessionClose s)"
  by (auto simp: closedInv_def shut_def sessionClose_def closePipes_def)

lemma session_move:
  "session_step e s s' \<Longrightarrow> e \<noteq> EvClose \<Longrightarrow>
   ds_closed s' = ds_closed s \<and> ds_pipesClosed s' = ds_pipesClosed s \<and> ds_hijack s' = ds_hijack s"
  by (erule session_stepE) (auto simp: session_defs split: inspectAnswer.split)

lemma closedInv_move: "session_step e s s' \<Longrightarrow> e \<noteq> EvClose \<Longrightarrow> closedInv s' = closedInv s"
  using session_move by (auto simp: closedInv_def shut_def)

text \<open>What a call of \<open>Close\<close> has achieved at each of its stages.\<close>

primrec closerDone :: "closerPC \<Rightarrow> fileClient \<Rightarrow> bool" where
  "closerDone NotClosing c \<longleftrightarrow> True"
| "closerDone ContextCancelled c \<longleftrightarrow> fc_ctxDone c"
| "closerDone AwaitReader c \<longleftrightarrow> fc_ctxDone c \<and> ds_closed (fc_sess c)"
| "closerDone CloseReturned c \<longleftrightarrow> fc_ctxDone c \<and> ds_closed (fc_sess c) \<and> fc_reader c = ReaderDone"

definition clientInv :: "fileClient \<Rightarrow> bool" where
  "clientInv c \<longleftrightarrow> closedInv (fc_sess c) \<and> (fc_reader c = ReaderDone \<longrightarrow> ds_closed (fc_sess c)) \<and>
     (\<forall>t. closerDone (fc_closer c t) c)"

text \<open>The achievements are kept by a step that loses none of the facts they are about.\<close>

lemma closerDone_mono:
  assumes "closerDone pc c" "fc_ctxDone c \<longrightarrow> fc_ctxDone c'" "ds_closed (fc_sess c) \<longrightarrow> ds_closed (fc_sess c')"
    and "fc_reader c = ReaderDone \<longrightarrow> fc_reader c' = ReaderDone"
  shows "closerDone pc c'"
  using assms by (cases pc) auto

lemma clientInv_keep:
  assumes "clientInv c" "closedInv (fc_sess c')" "fc_reader c' = ReaderDone \<longrightarrow> ds_closed (fc_sess c')"
    and "fc_ctxDone c \<longrightarrow> fc_ctxDone c'" "ds_closed (fc_sess c) \<longrightarrow> ds_closed (fc_sess c')"
    and "fc_reader c = ReaderDone \<longrightarrow> fc_reader c' = ReaderDone"
    and "\<And>t. fc_closer c' t = fc_closer c t \<or> closerDone (fc_closer c' t) c'"
  shows "clientInv c'"
  unfolding clientInv_def using assms closerDone_mono [OF _ assms(4-6)] by (metis clientInv_def)

lemma clientInv_step: "client_step e c c' \<Longrightarrow> clientInv c \<Longrightarrow> clientInv c'"
proof (induction rule: client_step.induct)
  case (c_session e c s)
  have e: "e \<noteq> EvClose" using c_session.hyps(2) by (auto simp: sessionMoves_def)
  show ?case
    using c_session.prems closedInv_move [OF c_session.hyps(1) e] session_move [OF c_session.hyps(1) e]
    by (intro clientInv_keep [OF c_session.prems]) (auto simp: clientInv_def)
next
  case (c_cancel c t)
  then show ?case
    by (intro clientInv_keep [OF c_cancel.prems]) (auto simp: clientInv_def closeCancel_def closedInv_def shut_def)
next
  case (c_sess_close c t)
  have "fc_ctxDone c" using c_sess_close by (metis clientInv_def closerDone.simps(2))
  then show ?case
    using c_sess_close.prems closedInv_close
    by (intro clientInv_keep [OF c_sess_close.prems]) (auto simp: clientInv_def closeSession_def)
next
  case (c_return c t)
  have "fc_ctxDone c \<and> ds_closed (fc_sess c)" using c_return by (metis clientInv_def closerDone.simps(3))
  then show ?case
    using c_return by (intro clientInv_keep [OF c_return.prems]) (auto simp: clientInv_def closeReturn_def)
next
  case (c_finish c)
  then show ?case
    using closedInv_close by (intro clientInv_keep [OF c_finish.prems]) (auto simp: clientInv_def readerFinish_def)
next
  case (c_frame c n isExit)
  then show ?case by (intro clientInv_keep [OF c_frame.prems]) (auto simp: clientInv_def frameRead_def)
next
  case (c_decode_fail c)
  then show ?case by (intro clientInv_keep [OF c_decode_fail.prems]) (auto simp: clientInv_def)
next
  case (c_check c)
  then show ?case by (intro clientInv_keep [OF c_check.prems]) (auto simp: clientInv_def loopTop_def)
qed

interpretation client_inv: run_invariant client_step "\<lambda>_. True" clientInv
  by unfold_locales (rule clientInv_step)

lemma newFileClient_inv:
  "sessionStart newSession create attach cmdline = (None, s) \<Longrightarrow> clientInv (newFileClient s)"
  using sessionStart_inv by (fastforce simp: clientInv_def newFileClient_def closedInv_def)

text \<open>
  After the context is cancelled the reading goroutine has at most three steps left: it may finish
  the frame it is decoding, and then finds the context cancelled.
\<close>

primrec readerRank :: "readerPC \<Rightarrow> nat" where
  "readerRank Decoding = 3"
| "readerRank AtTop = 2"
| "readerRank LoopOver = 1"
| "readerRank ReaderDone = 0"

fun isReaderEvent :: "clientEvent \<Rightarrow> bool" where
  "isReaderEvent (CvReader _) = True"
| "isReaderEvent _ = False"

lemma reader_rank_step:
  "client_step e c c' \<Longrightarrow> fc_ctxDone c \<Longrightarrow>
   fc_ctxDone c' \<and> readerRank (fc_reader c') + (if isReaderEvent e then 1 else 0) \<le> readerRank (fc_reader c)"
  by (erule client_stepE) (auto simp: client_defs)

lemma reader_rank_run:
  "run client_step c es c' \<Longrightarrow> fc_ctxDone c \<Longrightarrow>
   readerRank (fc_reader c') + length (filter isReaderEvent es) \<le> readerRank (fc_reader c)"
proof (induction rule: run.induct)
  case (run_cons e c c1 es c2)
  then show ?case using reader_rank_step [OF run_cons.hyps(1)] by (auto split: if_splits)
qed simp

lemma readerRank_le: "readerRank pc \<le> 3"
  by (cases pc) simp_all

text \<open>With the session closed, the goroutine is never blocked.\<close>

lemma reader_enabled:
  assumes "shut (fc_sess c)" "fc_reader c \<noteq> ReaderDone"
  shows "\<exists>r c'. client_step (CvReader r) c c'"
proof (cases "fc_reader c")
  case Decoding
  then show ?thesis using assms(1) c_decode_fail by (auto simp: shut_def outEnded_def)
qed (use assms c_check c_finish in blast)+

interpretation client_waiting: run_invariant client_step "\<lambda>_. True"
  "\<lambda>c. fc_closer c t = AwaitReader \<or> fc_closer c t = CloseReturned" for t
  by unfold_locales (auto simp: client_defs elim!: client_stepE split: if_splits)

section \<open>Properties\<close>

text \<open>
  C37. Closing a file client returns: once a call of \<open>Close\<close> has cancelled the context and closed the
  session, then in every continuation, with any steps of the daemon, of the goroutine that reads and
  of other calls of \<open>Close\<close>, the reading goroutine makes at most three more steps and is never
  blocked before it has ended; when it has ended, the call can return; and when the call has
  returned, the goroutine is gone and the session's pipes and connection are closed.
\<close>

theorem client_close_returns:
  assumes "sessionStart newSession create attach cmdline = (None, s)" "run client_step (newFileClient s) es c"
    and "fc_closer c t = AwaitReader" "run client_step c es' c'"
  shows "length (filter isReaderEvent es') \<le> 3 \<and>
    (fc_reader c' \<noteq> ReaderDone \<longrightarrow> (\<exists>r c''. client_step (CvReader r) c' c'')) \<and>
    (fc_reader c' = ReaderDone \<and> fc_closer c' t \<noteq> CloseReturned \<longrightarrow>
      client_step (CvReturn t) c' (closeReturn c' t) \<and> fc_closer (closeReturn c' t) t = CloseReturned) \<and>
    (fc_closer c' t = CloseReturned \<longrightarrow> fc_reader c' = ReaderDone \<and> ds_closed (fc_sess c') \<and> shut (fc_sess c'))"
proof -
  have i: "clientInv c" using client_inv.kept_run [OF assms(2) _ newFileClient_inv [OF assms(1)]] by (simp add: list_all_iff)
  have i': "clientInv c'" using client_inv.kept_run [OF assms(4) _ i] by (simp add: list_all_iff)
  have w: "fc_closer c' t = AwaitReader \<or> fc_closer c' t = CloseReturned"
    using client_waiting.kept_run [OF assms(4)] assms(3) by (simp add: list_all_iff)
  have "closerDone (fc_closer c t) c" "closerDone (fc_closer c' t) c'" using i i' by (simp_all add: clientInv_def)
  then have d: "fc_ctxDone c" "ds_closed (fc_sess c')" "fc_closer c' t = CloseReturned \<longrightarrow> fc_reader c' = ReaderDone"
    using assms(3) w by auto
  moreover have sh: "shut (fc_sess c')" using i' d(2) by (simp add: clientInv_def closedInv_def)
  moreover have "length (filter isReaderEvent es') \<le> 3"
    using reader_rank_run [OF assms(4) d(1)] readerRank_le [of "fc_reader c"] by linarith
  moreover have "client_step (CvReturn t) c' (closeReturn c' t)" if "fc_reader c' = ReaderDone" "fc_closer c' t \<noteq> CloseReturned"
    using w that by (auto intro: c_return)
  ultimately show ?thesis using reader_enabled [OF sh] by (auto simp: closeReturn_def)
qed

definition exampleClient :: fileClient where
  "exampleClient = closeSession (closeCancel (loopTop (newFileClient exampleSession0)) 0) 0"

lemma exampleClient_run:
  "run client_step (newFileClient exampleSession0) [CvReader ReCheck, CvCancel 0, CvSessClose 0] exampleClient"
proof -
  let ?c = "loopTop (newFileClient exampleSession0)"
  have "client_step (CvReader ReCheck) (newFileClient exampleSession0) ?c" by (rule c_check) (simp add: newFileClient_def)
  moreover have "client_step (CvCancel 0) ?c (closeCancel ?c 0)" by (rule c_cancel) (simp add: newFileClient_def loopTop_def)
  moreover have "client_step (CvSessClose 0) (closeCancel ?c 0) exampleClient"
    unfolding exampleClient_def by (rule c_sess_close) (simp add: closeCancel_def)
  ultimately show ?thesis by (meson run.intros)
qed

lemma exampleClient_state: "fc_closer exampleClient 0 = AwaitReader" "fc_reader exampleClient = Decoding"
  by (simp_all add: exampleClient_def client_defs newFileClient_def)

theorem client_close_returns_witness: "\<exists>r c. client_step (CvReader r) exampleClient c"
  using client_close_returns [OF exampleSession0_started exampleClient_run exampleClient_state(1) run_nil]
  by (simp add: exampleClient_state)

text \<open>
  Cancelling the context alone would not do, as the comment in \<open>Close\<close> says: a client that decodes
  while the agent is silent has no further step of the reading goroutine.
\<close>

lemma cancel_leaves_reader_blocked:
  "\<not> client_step (CvReader r) (closeCancel (loopTop (newFileClient exampleSession0)) 0) c"
  by (auto simp: client_defs newFileClient_def outEnded_def exampleSession0_def sessionStart_def exampleCreate_def newSession_def
      Let_def elim!: reader_stepE)

end
