(* ===== verification/Backends.thy ===== *)
theory Backends
  imports SshConn DockerBackend Destination
begin

text \<open>
  \<open>pkg/remote/backend.go\<close>: the interface of a remote, and that both backends provide it. The laws are
  what starting the runtime relies on, in its order: \<open>Start\<close>, \<open>UploadAgent\<close>, then sessions and \<open>Files\<close>.
\<close>

section \<open>The interface\<close>

text \<open>
  \<open>starts b b'\<close> says that \<open>Start\<close> may return without an error and leave \<open>b'\<close>; \<open>uploaded\<close> is the effect
  of an \<open>UploadAgent\<close> that succeeded, with the path it resolved. An error of \<open>newSess\<close> and \<open>files\<close> is
  one that the backend itself gives, before the remote is asked.
\<close>

locale remote_backend =
  fixes inv :: "'b \<Rightarrow> bool" and starts :: "'b \<Rightarrow> 'b \<Rightarrow> bool" and isConnected :: "'b \<Rightarrow> bool"
    and lastErr :: "'b \<Rightarrow> string option" and newSess :: "'b \<Rightarrow> string option" and uploaded :: "'b \<Rightarrow> string \<Rightarrow> 'b"
    and files :: "'b \<Rightarrow> string option" and closed :: "'b \<Rightarrow> 'b"
  assumes start_inv: "inv b \<Longrightarrow> starts b b' \<Longrightarrow> inv b'"
    and start_connected: "inv b \<Longrightarrow> starts b b' \<Longrightarrow> isConnected b' \<and> lastErr b' = None"
    and upload_inv: "inv b \<Longrightarrow> p \<noteq> [] \<Longrightarrow> inv (uploaded b p)"
    and upload_connected: "isConnected (uploaded b p) = isConnected b"
    and upload_files: "inv b \<Longrightarrow> isConnected b \<Longrightarrow> p \<noteq> [] \<Longrightarrow> files (uploaded b p) = None"
    and connected_session: "inv b \<Longrightarrow> isConnected b \<Longrightarrow> newSess b = None"
    and close_inv: "inv b \<Longrightarrow> inv (closed b)"
    and close_disconnects: "\<not> isConnected (closed b)"
begin

text \<open>After a start and an upload, sessions and files are there; and a closed backend can be started again.\<close>

lemma ready:
  assumes "inv b" "starts b b'" "p \<noteq> []"
  shows "newSess (uploaded b' p) = None" "files (uploaded b' p) = None" "isConnected (uploaded b' p)"
  using assms start_inv start_connected upload_inv upload_connected upload_files connected_session by metis+

lemma restart:
  assumes "inv b" "starts (closed b) b'" "p \<noteq> []"
  shows "\<not> isConnected (closed b)" "newSess (uploaded b' p) = None" "files (uploaded b' p) = None"
  using close_disconnects ready [OF close_inv [OF assms(1)] assms(2,3)] by auto

end

section \<open>The Docker backend\<close>

definition dockerType :: string where "dockerType = TypeDocker"

definition dockerAddr :: "dockerBackend \<Rightarrow> string" where "dockerAddr b = db_Container b"

definition dockerIsConnected :: "dockerBackend \<Rightarrow> bool" where "dockerIsConnected b = db_connected b"

definition dockerLastErr :: "dockerBackend \<Rightarrow> string option" where "dockerLastErr b = db_lastErr b"

text \<open>\<open>Close\<close>: the file client to close first, then the result of closing the docker client.\<close>

definition dockerClose :: "dockerBackend \<Rightarrow> string option \<Rightarrow> string option \<times> nat set \<times> dockerBackend" where
  "dockerClose b cliErr = (case dockerCloseBegin b of (cs, b) \<Rightarrow> (cliErr, cs, b))"

section \<open>The SSH backend\<close>

definition sshType :: string where "sshType = TypeSSH"

definition sshAddr :: "sshBackend \<Rightarrow> string" where "sshAddr b = sb_addr b"

definition sshUser :: "sshBackend \<Rightarrow> string" where "sshUser b = sf_User (sb_cfg b)"

text \<open>
  \<open>Start\<close>: start the manager, then wait. The list is what the loop sees, as for the waiting loop; the
  result has the manager at the moment of the return.
\<close>

fun managerAtReturn :: "(manager \<times> startWake) list \<Rightarrow> manager option" where
  "managerAtReturn [] = None"
| "managerAtReturn ((m, w) # rest) = (if IsConnected m \<or> w \<noteq> WakeTick then Some m else managerAtReturn rest)"

definition sshStart :: "sshBackend \<Rightarrow> (manager \<times> startWake) list \<Rightarrow> (string option \<times> sshBackend) option" where
  "sshStart b seen =
     (case (startWait seen, managerAtReturn seen) of
        (Some r, Some m) \<Rightarrow> Some (r, b\<lparr>sb_manager := m\<rparr>)
      | _ \<Rightarrow> None)"

text \<open>What the loop can see: managers that the manager's goroutine and other callers lead to.\<close>

definition managersSeen :: "sshBackend \<Rightarrow> (manager \<times> startWake) list \<Rightarrow> bool" where
  "managersSeen b seen \<longleftrightarrow> (\<forall>(m, w)\<in>set seen. manager_step\<^sup>*\<^sup>* (startManager (sb_manager b)) m)"

definition sshIsConnected :: "sshBackend \<Rightarrow> bool" where "sshIsConnected b = IsConnected (sb_manager b)"

definition sshLastErr :: "sshBackend \<Rightarrow> string option" where "sshLastErr b = mg_lastErr (sb_manager b)"

definition sshNewSession :: "sshBackend \<Rightarrow> string + nat" where "sshNewSession b = NewSessionConn (sb_manager b)"

definition sshClose :: "sshBackend \<Rightarrow> sshBackend" where "sshClose b = b\<lparr>sb_manager := closeLocked (sb_manager b)\<rparr>"

section \<open>Lemmas\<close>

definition errorOf :: "string + 'a \<Rightarrow> string option" where
  "errorOf r = (case r of Inl err \<Rightarrow> Some err | Inr _ \<Rightarrow> None)"

definition filesError :: "filesBegin \<Rightarrow> string option" where
  "filesError r = (case r of FilesError err \<Rightarrow> Some err | _ \<Rightarrow> None)"

definition dockerInv :: "dockerBackend \<Rightarrow> bool" where
  "dockerInv b \<longleftrightarrow> (db_connected b \<longrightarrow> db_containerID b \<noteq> [])"

definition dockerStarts :: "dockerBackend \<Rightarrow> dockerBackend \<Rightarrow> bool" where
  "dockerStarts b b' \<longleftrightarrow> (\<exists>ping insp. dockerStart b ping insp = Some (None, b'))"

definition dockerUploaded :: "dockerBackend \<Rightarrow> string \<Rightarrow> dockerBackend" where
  "dockerUploaded b p = b\<lparr>db_agentPath := p\<rparr>"

lemma dockerStarts_state:
  "dockerStarts b b' \<Longrightarrow> db_connected b' \<and> db_containerID b' \<noteq> [] \<and> db_lastErr b' = None"
  by (auto simp: dockerStarts_def dockerStart_def startFail_def split: option.splits sum.splits if_splits)

interpretation docker_remote: remote_backend dockerInv dockerStarts dockerIsConnected dockerLastErr
  "errorOf \<circ> dockerNewSession" dockerUploaded "filesError \<circ> dockerFilesBegin" "\<lambda>b. snd (snd (dockerClose b None))"
  by unfold_locales
    (auto dest!: dockerStarts_state simp: dockerInv_def dockerIsConnected_def dockerLastErr_def dockerUploaded_def errorOf_def
      filesError_def dockerNewSession_def dockerFilesBegin_def dockerClose_def dockerCloseBegin_def split: option.splits)

definition sshStarts :: "sshBackend \<Rightarrow> sshBackend \<Rightarrow> bool" where
  "sshStarts b b' \<longleftrightarrow> (\<exists>seen. managersSeen b seen \<and> sshStart b seen = Some (None, b'))"

text \<open>\<open>Start\<close> returns without an error only with a connection.\<close>

lemma startWait_connected:
  "startWait seen = Some None \<Longrightarrow> \<exists>m w. managerAtReturn seen = Some m \<and> (m, w) \<in> set seen \<and> IsConnected m"
  by (induction seen rule: startWait.induct) (auto split: if_splits startWake.splits)

lemma sshStarts_state:
  assumes "sshStarts b b'" "managerInv (sb_manager b)"
  shows "managerInv (sb_manager b') \<and> IsConnected (sb_manager b')"
proof -
  obtain seen where s: "managersSeen b seen" "sshStart b seen = Some (None, b')" using assms(1) by (auto simp: sshStarts_def)
  then obtain m where m: "managerAtReturn seen = Some m" "startWait seen = Some None" "b' = b\<lparr>sb_manager := m\<rparr>"
    by (auto simp: sshStart_def split: option.splits)
  then obtain w where w: "(m, w) \<in> set seen" "IsConnected m" using startWait_connected by fastforce
  then have "manager_step\<^sup>*\<^sup>* (startManager (sb_manager b)) m" using s(1) by (auto simp: managersSeen_def)
  then have "managerInv m" using manager_inv.kept_steps managerInv_step [OF m_start assms(2)] by blast
  then show ?thesis using m(3) w(2) by simp
qed

interpretation ssh_remote: remote_backend "managerInv \<circ> sb_manager" sshStarts sshIsConnected sshLastErr
  "errorOf \<circ> sshNewSession" "\<lambda>b p. b" "errorOf \<circ> FilesConn \<circ> sb_manager" sshClose
proof unfold_locales
  fix b b' assume "(managerInv \<circ> sb_manager) b" "sshStarts b b'"
  then have "managerInv (sb_manager b') \<and> IsConnected (sb_manager b')" using sshStarts_state by simp
  then show "(managerInv \<circ> sb_manager) b'" "sshIsConnected b' \<and> sshLastErr b' = None"
    by (auto simp: sshIsConnected_def sshLastErr_def managerInv_def IsConnected_def)
qed (auto simp: sshIsConnected_def IsConnected_def errorOf_def FilesConn_def sshNewSession_def NewSessionConn_def sshClose_def
    managerInv_def closeLocked_def dest: inHand_unconnected)

section \<open>Properties\<close>

text \<open>
  Either backend is ready for the runtime after \<open>Start\<close> and \<open>UploadAgent\<close>: it gives sessions and files,
  from every state the SSH connection manager reaches and for every answer of the Docker daemon.
\<close>

theorem backends_ready:
  "manager_reach (sb_manager b) \<and> sshStarts b b' \<longrightarrow> errorOf (sshNewSession b') = None \<and> errorOf (FilesConn (sb_manager b')) = None"
  "dockerInv d \<and> dockerStarts d d' \<and> p \<noteq> [] \<longrightarrow> errorOf (dockerNewSession (dockerUploaded d' p)) = None \<and>
     filesError (dockerFilesBegin (dockerUploaded d' p)) = None"
  using ssh_remote.ready(1,2) [of b b' "''x''"] managerInv_reach docker_remote.ready(1,2) [of d d' p] by auto

text \<open>
  The contract has no law for sessions of a closed backend, because they differ: the SSH backend
  refuses one, while the Docker backend keeps the container's identifier and gives one.
\<close>

lemma session_after_close:
  "errorOf (sshNewSession (sshClose b)) = Some ''ssh connection is not ready''"
  "db_containerID d \<noteq> [] \<Longrightarrow> errorOf (dockerNewSession (snd (snd (dockerClose d e)))) = None"
  by (simp_all add: errorOf_def sshNewSession_def NewSessionConn_def sshClose_def closeLocked_def dockerNewSession_def
      dockerClose_def dockerCloseBegin_def)

end
