(* ===== verification/TracerMain.thy ===== *)
theory TracerMain
  imports Runtime Steps "HOL-Library.Sublist"
begin

text \<open>
  \<open>cmd/mproxy-tracer/main_linux.go\<close>: the program that machineproxy starts around the first command.
  It parses its arguments, starts the tracer and exits with the code of the traced command, while a
  goroutine passes termination signals on to the child.
\<close>

section \<open>The program\<close>

definition usageExit :: int where "usageExit = 2"

definition tracerMain ::
  "('k, 'r, 'w::len word, 're) machine \<Rightarrow> 'k startCalls \<Rightarrow> 'k \<Rightarrow> string list \<Rightarrow> string list \<Rightarrow>
     (nat + int \<times> uint32) list \<Rightarrow> ('w word Tracer \<times> 'k) outcome" where
  "tracerMain M S k args env evs =
     (case fst (parseArgs emptyTracerConfig ''info'' args) of
        None \<Rightarrow> ExitCode usageExit (NewTracer emptyTracerConfig, k)
      | Some (cfg, childArgs) \<Rightarrow>
          if childArgs = [] then ExitCode usageExit (NewTracer cfg, k)
          else Start M S (NewTracer cfg) k childArgs env evs)"

section \<open>Signals\<close>

text \<open>
  \<open>signal.Notify\<close> with a channel of eight slots: a signal that finds them full is dropped. The
  goroutine that empties the channel exists once the child has been started, and sends each signal to
  the child. \<open>sg_received\<close> and \<open>sg_killed\<close> are observations.
\<close>

definition sigChCap :: nat where "sigChCap = 8"

record signalSys =
  sg_queue :: "nat list"
  sg_child :: "int option"
  sg_received :: "nat list"
  sg_killed :: "(int \<times> nat) list"

definition signalInit :: signalSys where
  "signalInit = \<lparr>sg_queue = [], sg_child = None, sg_received = [], sg_killed = []\<rparr>"

definition notifyTracer :: "signalSys \<Rightarrow> nat \<Rightarrow> signalSys" where
  "notifyTracer s n = s\<lparr>sg_received := sg_received s @ [n],
     sg_queue := (if length (sg_queue s) < sigChCap then sg_queue s @ [n] else sg_queue s)\<rparr>"

definition onStart :: "signalSys \<Rightarrow> int \<Rightarrow> signalSys" where
  "onStart s pid = s\<lparr>sg_child := Some pid\<rparr>"

definition forwardSignal :: "signalSys \<Rightarrow> int \<Rightarrow> nat \<Rightarrow> nat list \<Rightarrow> signalSys" where
  "forwardSignal s pid n rest = s\<lparr>sg_queue := rest, sg_killed := sg_killed s @ [(pid, n)]\<rparr>"

datatype signalEvent = SvNotify nat | SvStart int | SvForward

inductive signal_step :: "signalEvent \<Rightarrow> signalSys \<Rightarrow> signalSys \<Rightarrow> bool" where
  sg_notify: "signal_step (SvNotify n) s (notifyTracer s n)"
| sg_start: "sg_child s = None \<Longrightarrow> signal_step (SvStart pid) s (onStart s pid)"
| sg_forward: "sg_child s = Some pid \<Longrightarrow> sg_queue s = n # rest \<Longrightarrow> signal_step SvForward s (forwardSignal s pid n rest)"

inductive_cases signal_stepE: "signal_step e s s'"

section \<open>Lemmas\<close>

text \<open>
  What has been passed on and what is queued is, in order, part of what arrived; all of it goes to
  one child; and the queue stays within the channel.
\<close>

definition signalInv :: "signalSys \<Rightarrow> bool" where
  "signalInv s \<longleftrightarrow> subseq (map snd (sg_killed s) @ sg_queue s) (sg_received s) \<and> length (sg_queue s) \<le> sigChCap \<and>
     list_all (\<lambda>(pid, n). sg_child s = Some pid) (sg_killed s)"

lemma signalInv_step: "signal_step e s s' \<Longrightarrow> signalInv s \<Longrightarrow> signalInv s'"
proof (induction rule: signal_step.induct)
  case (sg_notify n s)
  have "subseq (map snd (sg_killed s) @ sg_queue s @ [n]) (sg_received s @ [n])"
    using sg_notify list_emb_append_mono [of "(=)" _ _ "[n]" "[n]"] by (fastforce simp: signalInv_def)
  then show ?case using sg_notify by (auto simp del: subseq_append intro: subseq_rev_drop_many simp: signalInv_def notifyTracer_def)
next
  case (sg_start s pid)
  then have "sg_killed s = []" by (cases "sg_killed s") (auto simp: signalInv_def)
  then show ?case using sg_start by (simp add: signalInv_def onStart_def)
qed (auto simp: signalInv_def forwardSignal_def)

interpretation signal_inv: run_invariant signal_step "\<lambda>_. True" signalInv
  by unfold_locales (rule signalInv_step)

text \<open>While no more signals have arrived than the channel holds, nothing is lost.\<close>

lemma few_signals_step:
  assumes "signal_step e s s'" "length (sg_received s) \<le> sigChCap \<longrightarrow> map snd (sg_killed s) @ sg_queue s = sg_received s"
  shows "length (sg_received s') \<le> sigChCap \<longrightarrow> map snd (sg_killed s') @ sg_queue s' = sg_received s'"
  using assms
proof (induction rule: signal_step.induct)
  case (sg_notify n s)
  have "length (sg_queue s) < sigChCap" if "length (sg_received s) < sigChCap"
  proof -
    have "length (sg_killed s) + length (sg_queue s) = length (sg_received s)"
      using sg_notify that by (metis length_append length_map less_imp_le)
    then show ?thesis using that by linarith
  qed
  then show ?case using sg_notify by (auto simp: notifyTracer_def)
qed (auto simp: onStart_def forwardSignal_def)

interpretation signal_kept: run_invariant signal_step "\<lambda>_. True"
  "\<lambda>s. length (sg_received s) \<le> sigChCap \<longrightarrow> map snd (sg_killed s) @ sg_queue s = sg_received s"
  by unfold_locales (rule few_signals_step)

section \<open>Properties\<close>

text \<open>
  The command line that machineproxy builds reaches the tracer: it starts the configured command,
  with the shim, the socket, the rules and the directory mapping it was given, and the exit code
  of the program is the one that the tracer returns.
\<close>

theorem tracer_main_starts:
  assumes "buildChildInvocation h cfg sock cwd shimBin cmdline = Inr argv" "cmdline \<noteq> []"
  shows "\<exists>tc. tracerMain M S k (tl argv) env evs = Start M S (NewTracer tc) k cmdline env evs \<and>
    tc_ShimPath tc = shimBin \<and> tc_BrokerSock tc = sock \<and> tc_CwdTo tc = snd cwd"
  using assms(2) unfolding tracerMain_def child_args [OF assms(1)] by fastforce

text \<open>
  Signals are passed on in order: in every interleaving, those that the child has received are, in
  the order of their arrival, signals that arrived, and at most eight wait; and of the first eight
  none is lost, whether they arrive before or after the child is started.
\<close>

theorem signals_forwarded:
  assumes "run signal_step signalInit es s"
  shows "subseq (map snd (sg_killed s)) (sg_received s) \<and> length (sg_queue s) \<le> sigChCap \<and>
    (length (sg_received s) \<le> sigChCap \<longrightarrow> map snd (sg_killed s) @ sg_queue s = sg_received s)"
proof -
  have "signalInv s" using signal_inv.kept_run [OF assms] by (simp add: list_all_iff signalInv_def signalInit_def)
  moreover have "length (sg_received s) \<le> sigChCap \<longrightarrow> map snd (sg_killed s) @ sg_queue s = sg_received s"
    using signal_kept.kept_run [OF assms] by (simp add: list_all_iff signalInit_def)
  ultimately show ?thesis by (auto simp: signalInv_def intro: subseq_order.trans [OF subseq_rev_drop_many])
qed

end
