(* ===== verification/Spec2Isabelle.thy ===== *)
theory Spec2Isabelle
  imports EnvFilter CommandRule Destination Config TracerProps RegsArm RegsRisc RegsMips Mux MuxRpc PathStub Shim Agent Reaper WorkspaceRefine
    ConnManager Runtime Cli Pipeline DockerContext SftpClient Recording Program InputPath
    ChildPipes Statx AgentLog AgentLife BrokerServer Variants ClientClose Backends TracerMain
begin

text \<open>
  A verification library for MachineProxy (\<open>src/\<close>), a Go program that runs a command on this machine and
  sends the programs which that command executes to a remote machine.

  \<^bold>\<open>The program.\<close> \<open>machineproxy\<close> (\<open>cmd/machineproxy\<close>) reads its arguments and its configuration, connects to a
  backend (SSH, a Docker container or a Compose service), mounts remote directories with FUSE
  (\<open>pkg/workspacefs\<close>), mounts a directory of stubs for the remote programs (\<open>pkg/pathstub\<close>), starts a broker on
  a Unix socket (\<open>pkg/broker\<close>), and starts the command in a namespace under the tracer
  (\<open>cmd/mproxy-tracer\<close>, \<open>pkg/tracer\<close>). The tracer stops every exec. An exec that the local command rules do
  not keep on this machine is rewritten to the shim (\<open>cmd/mproxy-shim\<close>), which sends the request with its
  input, signals and descriptors to the broker. The broker maps the paths, filters the environment and hands
  the request to the runner (\<open>pkg/remoteexec\<close>), which starts the agent (\<open>cmd/mproxy-agent\<close>) on the remote
  machine and speaks the frame protocol of \<open>pkg/agentproto\<close> with it. The agent starts the program
  (\<open>pkg/childproc\<close>), bridges its streams, reaps it (\<open>pkg/subreaper\<close>) and sends its exit code; over Docker it
  also serves the file operations of the mounts.

  \<^bold>\<open>Conventions.\<close> A Go string or byte slice is a \<^typ>\<open>string\<close>; fixed-width integers are words, \<open>int\<close> is
  \<^typ>\<open>int\<close>; errors are values of a sum or option type, one constructor or text per return of the source; a
  run-time panic is an error of its own. Pure functions and handlers are HOL functions with explicit state.
  Where goroutines run concurrently, every lock region, channel operation and system call is one step of an
  inductive relation, and the properties hold for all interleavings (\<open>Steps\<close>: the locales \<open>step_invariant\<close> and
  \<open>run_invariant\<close>, interpreted for each relation and invariant). What the operating system, the daemon, a
  library or the network answers is an argument: a record of functions, or an event of the relation. Logging is
  left out.

  \<^bold>\<open>Foundations.\<close> \<open>Prelude\<close> (types, results, \<open>strings\<close>, \<open>strconv\<close>; the collections \<open>go_simps\<close> and
  \<open>go_splits\<close>), \<open>GoPath\<close> (\<open>path\<close>, \<open>path/filepath\<close>), \<open>Steps\<close> (runs and invariants), \<open>Alloc\<close> (identifiers from a
  wrapping counter), \<open>WaitStatus\<close> (wait statuses and exit codes).

  \<^bold>\<open>Configuration and command line.\<close> \<open>EnvFilter\<close> (\<open>pkg/envfilter\<close>), \<open>CommandRule\<close> (\<open>config/command_rule.go\<close>,
  \<open>pkg/execpolicy\<close>), \<open>Destination\<close> (\<open>remote/destination.go\<close>), \<open>Paths\<close> and \<open>Config\<close> (\<open>pkg/config\<close>), \<open>Launch\<close>
  (\<open>pkg/ns\<close>, \<open>pkg/supervisor\<close>, \<open>pkg/initcmd\<close>), \<open>Cli\<close> (argument parsing and overrides of \<open>main.go\<close>). Shown: which
  variables pass, what each rule form matches, that parsing gives well-formed destinations and round trips, that
  a finalised configuration is complete and consistent, how the first program is resolved.

  \<^bold>\<open>Interception.\<close> \<open>Regs\<close> with \<open>RegsX86\<close>, \<open>RegsArm\<close>, \<open>RegsRisc\<close>, \<open>RegsMips\<close> (the register files of all ten
  architectures, as interpretations of the locale \<open>syscall_regs\<close>), \<open>TraceeMemory\<close> and \<open>Layout\<close> (memory of a stopped
  process under the locale \<open>tracee_memory\<close>), \<open>TracerEnv\<close>, \<open>Tracer\<close> (the event loop), \<open>TracerProps\<close>, and
  \<open>FlatKernel\<close>, a concrete system that satisfies the laws. Shown: an exec that is not allowed either becomes an
  exec of the shim with the documented arguments, or fails, or the process is killed; a rewritten working
  directory fits the caller's buffer; what is written is what the kernel reads.

  \<^bold>\<open>The request path.\<close> \<open>Pump\<close> (output goroutines; the locale \<open>bridge_frames\<close>, interpreted for broker and agent),
  \<open>Broker\<close>, \<open>BrokerServer\<close> (\<open>broker/server.go\<close>), \<open>Shim\<close>, \<open>ShimInput\<close> (\<open>cmd/mproxy-shim\<close>), \<open>SshRunner\<close>, \<open>Agent\<close>
  (\<open>remoteexec\<close>, \<open>cmd/mproxy-agent\<close>), \<open>ChildProc\<close>, \<open>ChildPipes\<close> (\<open>pkg/childproc\<close>), \<open>AgentLife\<close> (waiting and
  termination in the agent), \<open>Reaper\<close> (\<open>pkg/subreaper\<close>), \<open>AgentLog\<close> (log forwarding), \<open>Recording\<close>
  (\<open>agentproto/recording.go\<close>). \<open>Pipeline\<close> composes the request and the output from shim to command and back,
  \<open>InputPath\<close> the input. Shown: the remote command is the intercepted one with mapped paths and the kept
  variables; the caller reads exactly its output and exit code, and it reads exactly the caller's input; descriptors
  have one owner; statuses go to the right waiter and every waiter gets one; recordings are well formed.

  \<^bold>\<open>Files.\<close> \<open>Frame\<close> and \<open>Mux\<close> (messages, frame modes, the read loop), \<open>MuxRpc\<close> (concurrent calls), \<open>FileOpServer\<close> (the
  locale \<open>handle_table\<close>), \<open>FileClient\<close> (the client over Docker), \<open>SftpClient\<close> (over SSH), \<open>WsView\<close>, \<open>WorkspaceFS\<close>,
  \<open>Statx\<close> (\<open>pkg/workspacefs\<close>), \<open>PathStub\<close> (\<open>pkg/pathstub\<close> and the path mapper). \<open>WorkspaceRefine\<close> proves that the
  mount refines the remote file system, for every client that meets the locale \<open>file_backend\<close>, and that the
  Docker client over the agent meets it.

  \<^bold>\<open>Backends.\<close> \<open>NetDialer\<close> (\<open>pkg/dialer\<close>), \<open>Platform\<close>, \<open>ConnManager\<close> and \<open>SshConn\<close> (\<open>pkg/sshconn\<close>,
  \<open>pkg/remote/ssh\<close>), \<open>DockerSession\<close>, \<open>DockerBackend\<close>, \<open>ClientClose\<close>, \<open>DockerContext\<close> (\<open>pkg/remote/docker\<close>), \<open>Backends\<close>
  (\<open>remote/backend.go\<close>: the locale \<open>remote_backend\<close>, interpreted for SSH and for Docker). Shown: no connection and no
  file client leaks, a status is reported only after the output was read, closing a file client returns, a
  requested local address is used, and either backend is ready after a start and an upload.

  \<^bold>\<open>The whole program.\<close> \<open>Runtime\<close> and \<open>Lifecycle\<close> (\<open>runtime.go\<close>, \<open>backends.go\<close>, \<open>pkg/agenttransfer\<close>), \<open>Program\<close> (\<open>run\<close>
  of \<open>main.go\<close>), \<open>TracerMain\<close> (\<open>cmd/mproxy-tracer\<close>), \<open>Variants\<close> (macOS and Windows against Linux). Shown: whatever fails,
  everything that was acquired is released, and the tracer starts the command it was given.

  \<^bold>\<open>Properties.\<close> The claims C1 to C40 stand in the theory of their component, each after a text that states it;
  those with hypotheses have a witness that applies them to a concrete input. Several are about behaviour that is
  not what the code means to do (a second exec after an exec that is missed, a repeated mount that erases remote
  files, signals that are cut off at the end of the input, and others); they state what does happen.

  \<^bold>\<open>Loops and bounds.\<close> Every recursion terminates, by structure or by a measure. The only loop of the source
  that may run for ever on its own is the reading of a string array (\<open>ReadStringArray\<close>), a
  \<^theory_text>\<open>partial_function\<close> whose value is \<^const>\<open>None\<close> exactly when it does not return. Read loops and polls
  take the sequence of what they receive as a list; its end means that the loop is still waiting, or, where the
  definition says so, a failed read. Identifiers wrap at 32 bits, and statements about them say within
  how many allocations they hold.

  \<^bold>\<open>Not modelled.\<close> The CBOR codecs (\<open>agentproto/codec.go\<close>, the encoder of \<open>broker/protocol.go\<close>), which only call a
  library: a frame that was sent is the frame that is received. The FUSE library below the node methods (mounting and
  the kernel's caching), the Docker, SSH, SFTP, YAML and TOML libraries: parameters. \<open>darwin/interposer\<close>, which is
  C code. The system calls of \<open>subreaper/setup_*.go\<close> that only change a process attribute. The file attributes of
  FreeBSD and macOS (\<open>fileop_stat_*\<close>, \<open>stat_*\<close>), which copy fields as the Linux files do. Log output and the version
  text.
\<close>


end
